(* ===== verification/Prelude.thy ===== *)
theory Prelude
  imports Main "HOL-Library.Char_ord" "HOL-Library.List_Lexorder" "HOL-Library.Word"
begin

text \<open>
  Shared vocabulary of the development: the exception classes of
  src/src/lets/errors.py as values, the result type of fallible code, and the
  row-table operations (SELECT, INSERT, UPDATE, DELETE) that the warden's
  SQLite store is modelled with.

  A Python function that may raise is a HOL function into
  \<open>lets_error + 'a\<close>.  Sequencing is \<open>rbind\<close>; a guard
  \<open>if c: raise E\<close> is \<open>if c then Inl E else ...\<close>.  The collection
  \<open>res_simps\<close> turns "this code returned y" into the conjunction of the
  negated guards and the intermediate results, so that the component proofs
  never split a program into its branches by hand.
\<close>

section \<open>Exceptions as values\<close>

text \<open>
  One constructor per exception class the modelled code raises.  The message
  text is dropped; which class is raised is kept.  \<open>IntegrityError\<close> is
  sqlite3's class for a violated UNIQUE, NOT NULL or CHECK constraint or a
  RAISE(ABORT) of a trigger; \<open>KeyErr\<close>, \<open>TypeErr\<close> and
  \<open>ValueErr\<close> are the Python built-ins.
\<close>

datatype lets_error =
    ValidationError
  | NotFoundError
  | ConflictError
  | PolicyError
  | ExpiredError
  | ReplayError
  | SignatureError
  | ClockUncertainError
  | InvariantError
  | StorageError
  | DrainingError
  | CapacityError
  | IntegrityError
  | KeyErr
  | TypeErr
  | ValueErr
  | RuntimeErr

type_synonym 'a res = "lets_error + 'a"

definition is_subclass :: "lets_error \<Rightarrow> lets_error \<Rightarrow> bool" where
  "is_subclass e c = (e = c \<or> List.member
     [(ExpiredError, PolicyError), (ReplayError, PolicyError), (SignatureError, PolicyError),
      (ClockUncertainError, PolicyError), (DrainingError, StorageError),
      (CapacityError, StorageError), (ValidationError, ValueErr)] (e, c))"

section \<open>Sequencing of fallible code\<close>

named_theorems res_simps "a program returned a value: its guards and intermediate results"

fun rbind :: "'e + 'a \<Rightarrow> ('a \<Rightarrow> 'e + 'b) \<Rightarrow> 'e + 'b" where
  "rbind (Inl e) f = Inl e"
| "rbind (Inr x) f = f x"

fun ok :: "'e + 'a \<Rightarrow> bool" where
  "ok (Inl e) = False"
| "ok (Inr x) = True"

fun of_option :: "'e \<Rightarrow> 'a option \<Rightarrow> 'e + 'a" where
  "of_option e None = Inl e"
| "of_option e (Some x) = Inr x"

fun map_err :: "('e \<Rightarrow> 'f) \<Rightarrow> 'e + 'a \<Rightarrow> 'f + 'a" where
  "map_err f (Inl e) = Inl (f e)"
| "map_err f (Inr x) = Inr x"

fun mapM :: "('a \<Rightarrow> 'e + 'b) \<Rightarrow> 'a list \<Rightarrow> 'e + 'b list" where
  "mapM f [] = Inr []"
| "mapM f (x # xs) = rbind (f x) (\<lambda>y. rbind (mapM f xs) (\<lambda>ys. Inr (y # ys)))"

fun forM :: "'a list \<Rightarrow> ('a \<Rightarrow> 'e + unit) \<Rightarrow> 'e + unit" where
  "forM [] f = Inr ()"
| "forM (x # xs) f = rbind (f x) (\<lambda>_. forM xs f)"

fun foldM :: "('s \<Rightarrow> 'a \<Rightarrow> 'e + 's) \<Rightarrow> 's \<Rightarrow> 'a list \<Rightarrow> 'e + 's" where
  "foldM f s [] = Inr s"
| "foldM f s (x # xs) = rbind (f s x) (\<lambda>s'. foldM f s' xs)"

lemma rbind_Inr_iff [res_simps]:
  "rbind m f = Inr y \<longleftrightarrow> (\<exists>x. m = Inr x \<and> f x = Inr y)"
  by (cases m) auto

lemma rbind_Inl_iff: "rbind m f = Inl e \<longleftrightarrow> m = Inl e \<or> (\<exists>x. m = Inr x \<and> f x = Inl e)"
  by (cases m) auto

lemma guard_Inr_iff [res_simps]: "(if c then Inl e else m) = Inr y \<longleftrightarrow> \<not> c \<and> m = Inr y"
  by simp

lemma guard'_Inr_iff [res_simps]: "(if c then m else Inl e) = Inr y \<longleftrightarrow> c \<and> m = Inr y"
  by simp

lemma of_option_Inr_iff [res_simps]: "of_option e m = Inr y \<longleftrightarrow> m = Some y"
  by (cases m) auto

lemma map_err_Inr_iff [res_simps]: "map_err f m = Inr y \<longleftrightarrow> m = Inr y"
  by (cases m) auto

lemma option_case_Inr_iff [res_simps]:
  "(case m of None \<Rightarrow> Inl e | Some x \<Rightarrow> f x) = Inr y \<longleftrightarrow> (\<exists>x. m = Some x \<and> f x = Inr y)"
  by (cases m) auto

lemma ok_iff: "ok m \<longleftrightarrow> (\<exists>x. m = Inr x)"
  by (cases m) auto

lemma not_ok_iff: "\<not> ok m \<longleftrightarrow> (\<exists>e. m = Inl e)"
  by (cases m) auto

lemma rbind_assoc: "rbind (rbind m f) g = rbind m (\<lambda>x. rbind (f x) g)"
  by (cases m) auto

lemma rbind_cong [fundef_cong]:
  "m = m' \<Longrightarrow> (\<And>x. m' = Inr x \<Longrightarrow> f x = f' x) \<Longrightarrow> rbind m f = rbind m' f'"
  by (cases m') auto

lemma mapM_Inr_iff: "mapM f xs = Inr ys \<longleftrightarrow> list_all2 (\<lambda>x y. f x = Inr y) xs ys"
  by (induction xs arbitrary: ys) (auto simp: res_simps list_all2_Cons1)

lemma mapM_cong [fundef_cong]:
  "xs = ys \<Longrightarrow> (\<And>x. x \<in> set ys \<Longrightarrow> f x = g x) \<Longrightarrow> mapM f xs = mapM g ys"
  by (induction ys arbitrary: xs) auto

lemma mapM_map_Inr: "(\<And>x. x \<in> set xs \<Longrightarrow> f (g x) = Inr x) \<Longrightarrow> mapM f (map g xs) = Inr xs"
  by (induction xs) auto

lemma forM_Inr_iff [res_simps]: "forM xs f = Inr u \<longleftrightarrow> (\<forall>x\<in>set xs. f x = Inr ())"
  by (induction xs) (auto simp: res_simps)

lemma foldM_append: "foldM f s (xs @ ys) = rbind (foldM f s xs) (\<lambda>s'. foldM f s' ys)"
  by (induction xs arbitrary: s) (auto simp: rbind_assoc)

lemma foldM_invariant:
  "foldM f s xs = Inr s' \<Longrightarrow> P s \<Longrightarrow> (\<And>s x t. x \<in> set xs \<Longrightarrow> P s \<Longrightarrow> f s x = Inr t \<Longrightarrow> P t) \<Longrightarrow> P s'"
proof (induction xs arbitrary: s)
  case Nil
  then show ?case by simp
next
  case (Cons x xs)
  then obtain t where "f s x = Inr t" "foldM f t xs = Inr s'"
    by (auto simp: res_simps)
  with Cons show ?case by (metis list.set_intros(1,2))
qed

section \<open>Tables of rows\<close>

text \<open>
  A SQLite table is the list of its rows in insertion order.  \<open>key\<close> reads
  a row's primary key; an INSERT of a key that is present is sqlite3's
  IntegrityError; an UPDATE or DELETE with a key that is absent changes
  nothing.  The contract of these operations is the locale
  \<open>keyed_store\<close>, so that the components' proofs rest on its laws and not
  on the representation.
\<close>

definition tfind :: "('r \<Rightarrow> 'k) \<Rightarrow> 'k \<Rightarrow> 'r list \<Rightarrow> 'r option" where
  "tfind key k t = find (\<lambda>r. key r = k) t"

definition tinsert :: "('r \<Rightarrow> 'k) \<Rightarrow> 'r \<Rightarrow> 'r list \<Rightarrow> 'r list res" where
  "tinsert key r t = (if tfind key (key r) t \<noteq> None then Inl IntegrityError else Inr (t @ [r]))"

definition tupdate :: "('r \<Rightarrow> 'k) \<Rightarrow> 'k \<Rightarrow> ('r \<Rightarrow> 'r) \<Rightarrow> 'r list \<Rightarrow> 'r list" where
  "tupdate key k f t = map (\<lambda>r. if key r = k then f r else r) t"

definition tdelete :: "('r \<Rightarrow> 'k) \<Rightarrow> 'k \<Rightarrow> 'r list \<Rightarrow> 'r list" where
  "tdelete key k t = filter (\<lambda>r. key r \<noteq> k) t"

definition tkeys :: "('r \<Rightarrow> 'k) \<Rightarrow> 'r list \<Rightarrow> bool" where
  "tkeys key t = distinct (map key t)"

locale keyed_store =
  fixes key :: "'r \<Rightarrow> 'k"
    and find_row :: "'k \<Rightarrow> 't \<Rightarrow> 'r option"
    and insert_row :: "'r \<Rightarrow> 't \<Rightarrow> 't res"
    and update_row :: "'k \<Rightarrow> ('r \<Rightarrow> 'r) \<Rightarrow> 't \<Rightarrow> 't"
    and delete_row :: "'k \<Rightarrow> 't \<Rightarrow> 't"
    and keys_ok :: "'t \<Rightarrow> bool"
  assumes find_key: "find_row k t = Some r \<Longrightarrow> key r = k"
    and insert_fresh: "find_row (key r) t = None \<Longrightarrow> \<exists>t'. insert_row r t = Inr t'"
    and insert_taken: "find_row (key r) t = Some r' \<Longrightarrow> insert_row r t = Inl IntegrityError"
    and find_insert: "insert_row r t = Inr t' \<Longrightarrow> find_row k t' = (if k = key r then Some r else find_row k t)"
    and find_update: "(\<And>x. key (f x) = key x) \<Longrightarrow>
      find_row k (update_row k' f t) = (if k = k' then map_option f (find_row k t) else find_row k t)"
    and find_delete: "find_row k (delete_row k' t) = (if k = k' then None else find_row k t)"
    and keys_insert: "keys_ok t \<Longrightarrow> insert_row r t = Inr t' \<Longrightarrow> keys_ok t'"
    and keys_update: "keys_ok t \<Longrightarrow> (\<And>x. key (f x) = key x) \<Longrightarrow> keys_ok (update_row k f t)"
    and keys_delete: "keys_ok t \<Longrightarrow> keys_ok (delete_row k t)"
begin

lemma insert_ok_iff: "(\<exists>t'. insert_row r t = Inr t') \<longleftrightarrow> find_row (key r) t = None"
  using insert_fresh insert_taken by (metis option.exhaust sum.distinct(1))

lemma insert_keeps: "insert_row r t = Inr t' \<Longrightarrow> find_row k t = Some x \<Longrightarrow> find_row k t' = Some x"
  by (metis find_insert insert_taken not_None_eq option.inject sum.distinct(1) find_key)

lemma insert_twice: "insert_row r t = Inr t' \<Longrightarrow> key r' = key r \<Longrightarrow> insert_row r' t' = Inl IntegrityError"
  by (simp add: find_insert insert_taken)

lemma update_absent: "(\<And>x. key (f x) = key x) \<Longrightarrow> find_row k t = None \<Longrightarrow>
    find_row j (update_row k f t) = find_row j t"
  by (simp add: find_update)

lemma delete_insert: "insert_row r t = Inr t' \<Longrightarrow> find_row k (delete_row (key r) t') = find_row k t"
  by (metis find_delete find_insert insert_taken not_None_eq sum.distinct(1))

end

lemma tfind_Some_iff: "tfind key k t = Some r \<Longrightarrow> r \<in> set t \<and> key r = k"
  by (auto simp: tfind_def find_Some_iff)

lemma tfind_None_iff: "tfind key k t = None \<longleftrightarrow> k \<notin> key ` set t"
  by (auto simp: tfind_def find_None_iff)

lemma tfind_append: "tfind key k (t @ u) = (case tfind key k t of None \<Rightarrow> tfind key k u | Some r \<Rightarrow> Some r)"
  by (induction t) (auto simp: tfind_def)

lemma tfind_singleton: "tfind key k [r] = (if k = key r then Some r else None)"
  by (simp add: tfind_def)

lemma tfind_unique: "tkeys key t \<Longrightarrow> r \<in> set t \<Longrightarrow> tfind key (key r) t = Some r"
  by (induction t) (auto simp: tfind_def tkeys_def)

lemma tinsert_Inr_iff [res_simps]:
  "tinsert key r t = Inr t' \<longleftrightarrow> tfind key (key r) t = None \<and> t' = t @ [r]"
  by (auto simp: tinsert_def)

lemma set_tupdate: "x \<in> set (tupdate key k f t) \<longleftrightarrow>
    (\<exists>r\<in>set t. x = (if key r = k then f r else r))"
  unfolding tupdate_def set_map image_iff ..

lemma set_tdelete [simp]: "set (tdelete key k t) = {r \<in> set t. key r \<noteq> k}"
  by (auto simp: tdelete_def)

lemma tfind_tupdate:
  "(\<And>x. key (f x) = key x) \<Longrightarrow>
    tfind key k (tupdate key k' f t) = (if k = k' then map_option f (tfind key k t) else tfind key k t)"
  by (induction t) (auto simp: tfind_def tupdate_def)

lemma map_key_tupdate: "(\<And>x. key (f x) = key x) \<Longrightarrow> map key (tupdate key k f t) = map key t"
  by (induction t) (auto simp: tupdate_def)

lemma tfind_tdelete: "tfind key k (tdelete key k' t) = (if k = k' then None else tfind key k t)"
  by (induction t) (auto simp: tfind_def tdelete_def)

interpretation table: keyed_store key "tfind key" "tinsert key" "tupdate key" "tdelete key" "tkeys key"
  for key :: "'r \<Rightarrow> 'k"
proof (unfold_locales, goal_cases)
  case (4 r t t' k)
  then show ?case by (auto simp: res_simps tfind_append tfind_singleton split: option.splits)
next
  case (7 t r t')
  then show ?case by (auto simp: res_simps tkeys_def tfind_None_iff)
next
  case (9 t k)
  then show ?case by (auto simp: tkeys_def tdelete_def distinct_map_filter)
qed (auto dest: tfind_Some_iff simp: tinsert_def tfind_tupdate tfind_tdelete tkeys_def map_key_tupdate)

lemma tupdate_absent: "tfind key k t = None \<Longrightarrow> tupdate key k f t = t"
  unfolding tfind_None_iff tupdate_def by (intro map_idI) auto

text \<open>A quantity summed over the rows of a table, under the three row operations.\<close>

lemma sum_list_tupdate:
  fixes g :: "'r \<Rightarrow> int"
  assumes "tkeys key t" "tfind key k t = Some r"
  shows "sum_list (map g (tupdate key k f t)) = sum_list (map g t) - g r + g (f r)"
  using assms
proof (induction t)
  case (Cons x xs)
  show ?case
  proof (cases "key x = k")
    case True
    then have "tupdate key k f xs = xs"
      using Cons.prems(1) by (intro tupdate_absent) (auto simp: tfind_None_iff tkeys_def)
    then show ?thesis using Cons.prems True by (auto simp: tfind_def tupdate_def)
  next
    case False
    then show ?thesis using Cons by (auto simp: tfind_def tupdate_def tkeys_def)
  qed
qed (simp add: tfind_def)

lemma tdelete_absent: "tfind key k t = None \<Longrightarrow> tdelete key k t = t"
  by (auto simp: tfind_None_iff tdelete_def image_iff filter_id_conv)

end
