(* ===== verification/Resource_Vector.thy ===== *)
theory Resource_Vector
  imports Prelude
begin

text \<open>
  src/src/lets/vector.py, invariants.py and the manual clock of clock.py: checked
  fixed-dimension resource vectors, their SQLite BLOB encoding, and the local
  conservation equation.

  A vector is a list of Python integers (the tuple of the source).  Its
  per-dimension reading \<open>amount v i\<close> is 0 outside the vector, which makes
  every statement about sums of vectors a linear equation over \<open>int\<close> with no
  side condition on lengths.  The collection \<open>amount_simps\<close> carries
  those readings.
\<close>

named_theorems amount_simps "per-dimension reading of the vector operations"

type_synonym vec = "int list"
type_synonym byte = "8 word"

section \<open>The vector operations\<close>

definition MAX_RESOURCE :: int where
  "MAX_RESOURCE = 2 ^ 63 - 1"

definition vector :: "vec \<Rightarrow> nat option \<Rightarrow> vec res" where
  "vector value dimensions =
    (if (case dimensions of None \<Rightarrow> False | Some d \<Rightarrow> length value \<noteq> d) then Inl ValidationError
     else if value = [] then Inl ValidationError
     else if list_ex (\<lambda>item. item < 0 \<or> MAX_RESOURCE < item) value then Inl ValidationError
     else Inr value)"

definition same_dimensions :: "vec \<Rightarrow> vec \<Rightarrow> unit res" where
  "same_dimensions left right =
    (if length left \<noteq> length right then Inl ValidationError else Inr ())"

definition add :: "vec \<Rightarrow> vec \<Rightarrow> vec res" where
  "add left right =
    rbind (same_dimensions left right) (\<lambda>_.
    let output = map2 (\<lambda>a b. a + b) left right in
    if list_ex (\<lambda>item. item > MAX_RESOURCE) output then Inl ValidationError
    else Inr output)"

definition subtract :: "vec \<Rightarrow> vec \<Rightarrow> vec res" where
  "subtract left right =
    rbind (same_dimensions left right) (\<lambda>_.
    if list_ex (\<lambda>(a, b). b > a) (zip left right) then Inl ValidationError
    else Inr (map2 (\<lambda>a b. a - b) left right))"

definition less_than_or_equal :: "vec \<Rightarrow> vec \<Rightarrow> bool res" where
  "less_than_or_equal left right =
    rbind (same_dimensions left right) (\<lambda>_.
    Inr (list_all (\<lambda>(a, b). a \<le> b) (zip left right)))"

definition zero :: "int \<Rightarrow> vec res" where
  "zero dimensions =
    (if dimensions \<le> 0 then Inl ValidationError else Inr (replicate (nat dimensions) 0))"

definition total :: "vec list \<Rightarrow> int \<Rightarrow> vec res" where
  "total vectors dimensions =
    rbind (zero dimensions) (\<lambda>result. foldM add result vectors)"

section \<open>The BLOB encoding\<close>

text \<open>
  struct.pack's big-endian fields: \<open>be_encode n x\<close> is the n-byte field of
  x, most significant byte first; \<open>be_decode\<close> reads one back.
\<close>

fun be_encode :: "nat \<Rightarrow> int \<Rightarrow> byte list" where
  "be_encode 0 x = []"
| "be_encode (Suc n) x = be_encode n (x div 256) @ [word_of_int x]"

definition be_decode :: "byte list \<Rightarrow> int" where
  "be_decode bs = foldl (\<lambda>acc b. acc * 256 + uint b) 0 bs"

fun chunks8 :: "nat \<Rightarrow> byte list \<Rightarrow> byte list list" where
  "chunks8 0 bs = []"
| "chunks8 (Suc n) bs = take 8 bs # chunks8 n (drop 8 bs)"

definition pack :: "vec \<Rightarrow> byte list res" where
  "pack value =
    rbind (vector value None) (\<lambda>checked.
    if length checked > 65535 then Inl ValidationError
    else Inr (be_encode 2 (int (length checked)) @ concat (map (be_encode 8) checked)))"

definition unpack :: "byte list \<Rightarrow> nat option \<Rightarrow> vec res" where
  "unpack value dimensions =
    (if length value < 2 then Inl ValidationError
     else let count = nat (be_decode (take 2 value)); expected = 2 + 8 * count in
       if length value \<noteq> expected then Inl ValidationError
       else vector (map be_decode (chunks8 count (drop 2 value))) dimensions)"

section \<open>Conservation snapshots, nested expiry, the manual clock\<close>

record ConservationSnapshot =
  cs_initial_share :: vec
  cs_transferred_in :: vec
  cs_transferred_out :: vec
  cs_free_pool :: vec
  cs_residual :: vec
  cs_consumed :: vec

definition cs_post_init :: "ConservationSnapshot \<Rightarrow> ConservationSnapshot res" where
  "cs_post_init s =
    (let dimensions = length (cs_initial_share s) in
     if dimensions = 0 then Inl ValidationError
     else if list_ex (\<lambda>v. length v \<noteq> dimensions)
       [cs_transferred_in s, cs_transferred_out s, cs_free_pool s, cs_residual s, cs_consumed s]
     then Inl ValidationError
     else Inr s)"

definition available_total :: "ConservationSnapshot \<Rightarrow> vec res" where
  "available_total s = add (cs_initial_share s) (cs_transferred_in s)"

definition accounted_total :: "ConservationSnapshot \<Rightarrow> vec res" where
  "accounted_total s =
    rbind (add (cs_free_pool s) (cs_residual s)) (\<lambda>l.
    rbind (add (cs_consumed s) (cs_transferred_out s)) (\<lambda>r. add l r))"

definition healthy :: "ConservationSnapshot \<Rightarrow> bool res" where
  "healthy s =
    rbind (available_total s) (\<lambda>a. rbind (accounted_total s) (\<lambda>b. Inr (a = b)))"

definition assert_healthy :: "ConservationSnapshot \<Rightarrow> unit res" where
  "assert_healthy s = rbind (healthy s) (\<lambda>h. if \<not> h then Inl InvariantError else Inr ())"

definition assert_nested_expiry :: "int \<Rightarrow> int \<Rightarrow> unit res" where
  "assert_nested_expiry child_expires_at_ns parent_expires_at_ns =
    (if child_expires_at_ns > parent_expires_at_ns then Inl InvariantError else Inr ())"

record ManualClock =
  current_ns :: int
  declared_uncertainty_ns :: int

definition clock_post_init :: "ManualClock \<Rightarrow> ManualClock res" where
  "clock_post_init c =
    (if list_ex (\<lambda>value. value < 0 \<or> value > MAX_RESOURCE) [current_ns c, declared_uncertainty_ns c]
     then Inl ValidationError else Inr c)"

definition advance :: "int \<Rightarrow> ManualClock \<Rightarrow> (ManualClock \<times> int) res" where
  "advance nanoseconds c =
    (if nanoseconds < 0 then Inl ValidationError
     else if current_ns c > MAX_RESOURCE - nanoseconds then Inl ValidationError
     else let c' = c\<lparr>current_ns := current_ns c + nanoseconds\<rparr> in Inr (c', current_ns c'))"

section \<open>Well-formed vectors and per-dimension amounts\<close>

definition wf_vec :: "nat \<Rightarrow> vec \<Rightarrow> bool" where
  "wf_vec d v = (0 < d \<and> length v = d \<and> list_all (\<lambda>x. 0 \<le> x \<and> x \<le> MAX_RESOURCE) v)"

definition amount :: "vec \<Rightarrow> nat \<Rightarrow> int" where
  "amount v i = (if i < length v then v ! i else 0)"

lemma MAX_RESOURCE_nonneg [simp]: "0 \<le> MAX_RESOURCE" "0 < MAX_RESOURCE"
  by (simp_all add: MAX_RESOURCE_def)

lemma vector_Inr_iff: "vector v d = Inr w \<longleftrightarrow>
    w = v \<and> wf_vec (length v) v \<and> (\<forall>n. d = Some n \<longrightarrow> length v = n)"
  by (auto simp: vector_def wf_vec_def res_simps list_ex_iff list_all_iff not_le not_less split: option.splits)

lemma vector_Some_Inr_iff [res_simps]: "vector v (Some d) = Inr w \<longleftrightarrow> w = v \<and> wf_vec d v"
  by (auto simp: vector_Inr_iff wf_vec_def)

lemma vector_None_Inr_iff [res_simps]: "vector v None = Inr w \<longleftrightarrow> w = v \<and> wf_vec (length v) v"
  by (auto simp: vector_Inr_iff)

lemma add_Inr_iff: "add u v = Inr w \<longleftrightarrow>
    length u = length v \<and> w = map2 (+) u v \<and> (\<forall>x\<in>set w. x \<le> MAX_RESOURCE)"
  by (auto simp: add_def same_dimensions_def res_simps Let_def list_ex_iff not_less)

lemma subtract_Inr_iff: "subtract u v = Inr w \<longleftrightarrow>
    length u = length v \<and> w = map2 (-) u v \<and> (\<forall>(a, b)\<in>set (zip u v). b \<le> a)"
  by (auto simp: subtract_def same_dimensions_def res_simps list_ex_iff not_less)

lemma less_than_or_equal_Inr_iff: "less_than_or_equal u v = Inr b \<longleftrightarrow>
    length u = length v \<and> b = list_all2 (\<le>) u v"
  by (auto simp: less_than_or_equal_def same_dimensions_def res_simps list_all2_iff list_all_iff)

lemma vec_eqI: "length u = length v \<Longrightarrow> (\<And>i. amount u i = amount v i) \<Longrightarrow> u = v"
  by (metis amount_def nth_equalityI)

lemma wf_vec_length: "wf_vec d v \<Longrightarrow> length v = d"
  by (simp add: wf_vec_def)

lemma wf_vec_iff: "wf_vec d v \<longleftrightarrow>
    0 < d \<and> length v = d \<and> (\<forall>i. 0 \<le> amount v i \<and> amount v i \<le> MAX_RESOURCE)"
  by (auto simp: wf_vec_def amount_def list_all_length)

lemma amount_bounds: "wf_vec d v \<Longrightarrow> 0 \<le> amount v i" "wf_vec d v \<Longrightarrow> amount v i \<le> MAX_RESOURCE"
  by (auto simp: wf_vec_iff)

lemma amount_add [amount_simps]: "add u v = Inr w \<Longrightarrow> amount w i = amount u i + amount v i"
  by (auto simp: add_Inr_iff amount_def)

lemma amount_subtract [amount_simps]: "subtract u v = Inr w \<Longrightarrow> amount w i = amount u i - amount v i"
  by (auto simp: subtract_Inr_iff amount_def)

lemma amount_zero: "zero d = Inr w \<Longrightarrow> amount w i = 0"
  by (auto simp: zero_def amount_def split: if_splits)

lemma add_length: "add u v = Inr w \<Longrightarrow> length w = length u \<and> length v = length u"
  by (auto simp: add_Inr_iff)

lemma subtract_length: "subtract u v = Inr w \<Longrightarrow> length w = length u \<and> length v = length u"
  by (auto simp: subtract_Inr_iff)

lemma add_ok_iff: "(\<exists>w. add u v = Inr w) \<longleftrightarrow>
    length u = length v \<and> (\<forall>i. amount u i + amount v i \<le> MAX_RESOURCE)"
  by (force simp: add_Inr_iff amount_def set_zip in_set_conv_nth)

lemma subtract_ok_iff: "(\<exists>w. subtract u v = Inr w) \<longleftrightarrow>
    length u = length v \<and> (\<forall>i. amount v i \<le> amount u i)"
  by (force simp: subtract_Inr_iff amount_def set_zip)

lemma wf_vec_add: "add u v = Inr w \<Longrightarrow> wf_vec d u \<Longrightarrow> wf_vec d v \<Longrightarrow> wf_vec d w"
  by (auto simp: wf_vec_iff amount_add add_length) (metis add_Inr_iff add_ok_iff amount_add)

lemma wf_vec_subtract:
  assumes "subtract u v = Inr w" "wf_vec d u" "wf_vec d v"
  shows "wf_vec d w"
proof -
  have "amount v i \<le> amount u i" for i
    using assms(1) subtract_ok_iff by blast
  moreover have "0 \<le> amount v i" "amount u i \<le> MAX_RESOURCE" for i
    using assms by (auto simp: wf_vec_iff)
  ultimately show ?thesis
    using assms by (auto simp: wf_vec_iff amount_subtract subtract_length) (smt (verit))
qed


section \<open>Escrow accounts\<close>

text \<open>
  What the ledger relies on of the vector operations: a successful addition or
  subtraction moves exactly the stated amount in every dimension.  The lemmas
  are the two ways rights move between accounts (a transfer from one account to
  another and a return), proved once.
\<close>

locale escrow_arith =
  fixes val :: "'v \<Rightarrow> nat \<Rightarrow> int"
    and plus_v :: "'v \<Rightarrow> 'v \<Rightarrow> 'v res"
    and minus_v :: "'v \<Rightarrow> 'v \<Rightarrow> 'v res"
  assumes plus_val: "plus_v u v = Inr w \<Longrightarrow> val w i = val u i + val v i"
    and minus_val: "minus_v u v = Inr w \<Longrightarrow> val w i = val u i - val v i"
    and minus_ok: "minus_v u v = Inr w \<Longrightarrow> val v i \<le> val u i"
begin

lemma move_conserves:
  "minus_v src x = Inr src' \<Longrightarrow> plus_v dst x = Inr dst' \<Longrightarrow>
    val src' i + val dst' i = val src i + val dst i"
  by (simp add: plus_val minus_val)

lemma split_conserves: "minus_v src x = Inr src' \<Longrightarrow> val src' i + val x i = val src i"
  by (simp add: minus_val)

lemma minus_nonneg: "minus_v u v = Inr w \<Longrightarrow> 0 \<le> val w i"
  using minus_val minus_ok by fastforce

lemma plus_minus_val: "plus_v u v = Inr w \<Longrightarrow> minus_v w v = Inr x \<Longrightarrow> val x i = val u i"
  by (simp add: plus_val minus_val)

end

interpretation vec: escrow_arith amount add subtract
proof (unfold_locales, goal_cases)
  case (1 u v w i)
  then show ?case by (rule amount_add)
next
  case (2 u v w i)
  then show ?case by (rule amount_subtract)
next
  case (3 u v w i)
  then show ?case using subtract_ok_iff by blast
qed

lemma subtract_add:
  assumes a: "add u v = Inr w" and n: "\<And>i. 0 \<le> amount u i"
  shows "subtract w v = Inr u"
proof -
  have w: "amount w i = amount u i + amount v i" for i
    using a by (rule amount_add)
  obtain x where x: "subtract w v = Inr x"
    using subtract_ok_iff [of w v] n add_length [OF a] by (auto simp: w)
  have "x = u"
    using vec.plus_minus_val [OF a x] add_length [OF a] subtract_length [OF x] by (intro vec_eqI) auto
  with x show ?thesis by simp
qed

lemma add_subtract:
  assumes s: "subtract u v = Inr w" and m: "\<And>i. amount u i \<le> MAX_RESOURCE"
  shows "add w v = Inr u"
proof -
  have w: "amount w i = amount u i - amount v i" for i
    using s by (rule amount_subtract)
  obtain x where x: "add w v = Inr x"
    using add_ok_iff [of w v] m subtract_length [OF s] by (auto simp: w)
  have "x = u"
    using add_length [OF x] subtract_length [OF s]
    by (intro vec_eqI) (auto simp: amount_add [OF x] w)
  with x show ?thesis by simp
qed

lemma less_than_or_equal_iff_subtract:
  "less_than_or_equal v u = Inr True \<longleftrightarrow> (\<exists>w. subtract u v = Inr w)"
  by (auto simp: less_than_or_equal_Inr_iff subtract_Inr_iff list_all2_iff set_zip)

section \<open>Totals\<close>

lemma foldM_add_amount:
  "foldM add acc vs = Inr w \<Longrightarrow> amount w i = amount acc i + sum_list (map (\<lambda>v. amount v i) vs)"
  by (induction vs arbitrary: acc) (auto simp: res_simps amount_add)

lemma foldM_add_length: "foldM add acc vs = Inr w \<Longrightarrow> length w = length acc \<and> (\<forall>v\<in>set vs. length v = length acc)"
  by (induction vs arbitrary: acc) (auto simp: res_simps dest: add_length)

lemma foldM_add_ok:
  assumes "\<forall>v\<in>set vs. length v = length acc \<and> (\<forall>i. 0 \<le> amount v i)"
    and "\<And>i. amount acc i + sum_list (map (\<lambda>v. amount v i) vs) \<le> MAX_RESOURCE"
  shows "\<exists>w. foldM add acc vs = Inr w"
  using assms
proof (induction vs arbitrary: acc)
  case (Cons v vs)
  have nn: "0 \<le> sum_list (map (\<lambda>v. amount v i) vs)" for i
    using Cons.prems(1) by (intro sum_list_nonneg) auto
  have "amount acc i + amount v i \<le> MAX_RESOURCE" for i
    using Cons.prems(2) [of i] nn [of i] by simp
  then obtain a where a: "add acc v = Inr a"
    using add_ok_iff Cons.prems(1) by (metis list.set_intros(1))
  have "\<exists>w. foldM add a vs = Inr w"
  proof (rule Cons.IH)
    show "\<forall>v\<in>set vs. length v = length a \<and> (\<forall>i. 0 \<le> amount v i)"
      using Cons.prems(1) add_length [OF a] by auto
    show "amount a i + sum_list (map (\<lambda>v. amount v i) vs) \<le> MAX_RESOURCE" for i
      using Cons.prems(2) [of i] by (simp add: amount_add [OF a])
  qed
  then show ?case by (simp add: a)
qed simp

lemma total_amount: "total vs d = Inr w \<Longrightarrow> amount w i = sum_list (map (\<lambda>v. amount v i) vs)"
  by (auto simp: total_def res_simps foldM_add_amount [where i = i] amount_zero [where i = i])

lemma zero_Inr_iff [res_simps]: "zero d = Inr w \<longleftrightarrow> 0 < d \<and> w = replicate (nat d) 0"
  by (auto simp: zero_def)

lemma wf_vec_zero: "0 < d \<Longrightarrow> wf_vec d (replicate d 0)"
  by (auto simp: wf_vec_def list_all_iff)

lemma total_ok_iff:
  assumes "\<forall>v\<in>set vs. wf_vec d v" "0 < d"
  shows "(\<exists>w. total vs (int d) = Inr w) \<longleftrightarrow>
    (\<forall>i. sum_list (map (\<lambda>v. amount v i) vs) \<le> MAX_RESOURCE)" (is "?L = ?R")
proof
  have z: "amount (replicate d 0) i = 0" for i by (simp add: amount_def)
  assume ?L
  then obtain w where w: "foldM add (replicate d 0) vs = Inr w"
    by (auto simp: total_def res_simps)
  have "wf_vec d w"
    using w by (rule foldM_invariant) (use assms wf_vec_zero wf_vec_add in auto)
  then show ?R
    using foldM_add_amount [OF w] z by (metis add_0 amount_bounds(2))
next
  have z: "amount (replicate d 0) i = 0" for i by (simp add: amount_def)
  assume ?R
  then have "\<exists>w. foldM add (replicate d 0) vs = Inr w"
    using assms by (intro foldM_add_ok) (auto simp: z wf_vec_iff)
  then show ?L using assms(2) by (auto simp: total_def res_simps)
qed

section \<open>The BLOB round trip\<close>

lemma be_encode_length [simp]: "length (be_encode n x) = n"
  by (induction n arbitrary: x) auto

lemma be_decode_snoc: "be_decode (bs @ [b]) = be_decode bs * 256 + uint b"
  by (simp add: be_decode_def)

lemma be_decode_encode: "be_decode (be_encode n x) = x mod 256 ^ n"
proof (induction n arbitrary: x)
  case 0
  then show ?case by (simp add: be_decode_def)
next
  case (Suc n)
  have "be_decode (be_encode (Suc n) x) = (x div 256) mod 256 ^ n * 256 + x mod 256"
    by (simp add: be_decode_snoc Suc uint_word_of_int)
  also have "\<dots> = x mod (256 * 256 ^ n)"
    by (simp add: zmod_zmult2_eq)
  finally show ?case by simp
qed

lemma byte_256: "(256 :: byte) = 0"
  by (simp add: word_uint_eq_iff)

lemma be_encode_decode: "be_encode (length bs) (be_decode bs) = bs"
proof (induction bs rule: rev_induct)
  case (snoc b bs)
  have "(be_decode bs * 256 + uint b) div 256 = be_decode bs"
    using uint_lt2p [of b] by (simp add: div_add1_eq)
  moreover have "word_of_int (be_decode bs * 256 + uint b) = b"
    by (simp add: byte_256)
  ultimately show ?case by (simp add: be_decode_snoc snoc)
qed simp

lemma be_decode_bounds: "0 \<le> be_decode bs" "be_decode bs < 256 ^ length bs"
proof -
  have "be_decode bs = be_decode bs mod 256 ^ length bs"
    using be_decode_encode [of "length bs" "be_decode bs"] be_encode_decode [of bs] by simp
  then show "0 \<le> be_decode bs" "be_decode bs < 256 ^ length bs"
    by (metis pos_mod_sign pos_mod_bound zero_less_numeral zero_less_power)+
qed

lemma chunks8_concat: "\<forall>x\<in>set xs. length x = 8 \<Longrightarrow> chunks8 (length xs) (concat xs) = xs"
  by (induction xs) auto

lemma concat_chunks8: "length bs = 8 * n \<Longrightarrow> concat (chunks8 n bs) = bs"
  by (induction n arbitrary: bs) auto

lemma chunks8_length: "length (chunks8 n bs) = n"
  by (induction n arbitrary: bs) auto

lemma chunks8_size: "length bs = 8 * n \<Longrightarrow> x \<in> set (chunks8 n bs) \<Longrightarrow> length x = 8"
proof (induction n arbitrary: bs)
  case (Suc n)
  from Suc.prems(2) consider "x = take 8 bs" | "x \<in> set (chunks8 n (drop 8 bs))" by auto
  then show ?case using Suc.prems(1) Suc.IH [of "drop 8 bs"] by cases simp_all
qed simp

lemma be_encode_byte_inverse: "0 \<le> x \<Longrightarrow> x \<le> MAX_RESOURCE \<Longrightarrow> be_decode (be_encode 8 x) = x"
  unfolding be_decode_encode MAX_RESOURCE_def by (rule mod_pos_pos_trivial) simp_all

lemma unpack_pack:
  assumes "pack v = Inr bs"
  shows "unpack bs None = Inr v"
proof -
  from assms have wf: "wf_vec (length v) v" and len: "length v \<le> 65535"
    and bs: "bs = be_encode 2 (int (length v)) @ concat (map (be_encode 8) v)"
    by (auto simp: pack_def res_simps)
  have count: "be_decode (be_encode 2 (int (length v))) = int (length v)"
    using len by (simp add: be_decode_encode)
  have body: "length (concat (map (be_encode 8) v)) = 8 * length v"
    by (simp add: length_concat comp_def sum_list_triv)
  have "chunks8 (length v) (concat (map (be_encode 8) v)) = map (be_encode 8) v"
    using chunks8_concat [of "map (be_encode 8) v"] by auto
  moreover have "map be_decode (map (be_encode 8) v) = v"
    using wf unfolding map_map by (intro map_idI) (auto simp: wf_vec_def list_all_iff be_encode_byte_inverse)
  ultimately show ?thesis
    using wf count body by (simp add: unpack_def bs Let_def res_simps)
qed

lemma pack_unpack:
  assumes "unpack bs None = Inr v"
  shows "pack v = Inr bs"
proof -
  define n where n: "n = nat (be_decode (take 2 bs))"
  from assms have v: "vector (map be_decode (chunks8 n (drop 2 bs))) None = Inr v"
    and len: "length bs = 2 + 8 * n"
    by (simp_all add: unpack_def Let_def guard_Inr_iff flip: n)
  then have v: "v = map be_decode (chunks8 n (drop 2 bs))" and wf: "wf_vec (length v) v"
    by (simp_all only: vector_None_Inr_iff)
  have c: "length (drop 2 bs) = 8 * n" using len by simp
  have two: "length (take 2 bs) = 2" using len by simp
  have "be_encode 2 (int n) = take 2 bs"
    using be_encode_decode [of "take 2 bs"] be_decode_bounds(1) [of "take 2 bs"]
    unfolding two n by simp
  moreover have "n \<le> 65535"
    using be_decode_bounds(2) [of "take 2 bs"] unfolding two n by simp
  moreover have "map (be_encode 8) v = chunks8 n (drop 2 bs)"
    unfolding v map_map using chunks8_size [OF c] be_encode_decode by (intro map_idI) (metis comp_def)
  ultimately show ?thesis
    using wf chunks8_length concat_chunks8 [OF c] by (simp add: pack_def res_simps v)
qed

end
