(* ===== verification/Canonical.thy ===== *)
theory Canonical
  imports Resource_Vector
begin

text \<open>
  src/src/lets/canonical.py and ids.py: JSON values, the canonical encoding
  LETS-CJ/1 that every digest and signature is computed over, unpadded
  base64url, and the validation of identifiers.

  A Python \<open>str\<close> is a HOL \<open>string\<close>, that is, a sequence of code points
  below 256; a \<open>dict\<close> is the list of its items in insertion order.  Values
  outside JSON (datetime, bytes, enum members, floats) do not occur in the
  payloads of the modelled code and have no constructor.
\<close>

section \<open>JSON values\<close>

datatype json =
    JNull
  | JBool bool
  | JInt int
  | JStr string
  | JArr "json list"
  | JObj "(string \<times> json) list"

type_synonym wire_dict = "(string \<times> json) list"

definition jlookup :: "string \<Rightarrow> wire_dict \<Rightarrow> json option" where
  "jlookup k d = map_of d k"

definition jget :: "string \<Rightarrow> wire_dict \<Rightarrow> json res" where
  "jget k d = of_option KeyErr (jlookup k d)"

text \<open>\<open>data.get(k)\<close> with Python's default None.\<close>

definition jget_null :: "string \<Rightarrow> wire_dict \<Rightarrow> json" where
  "jget_null k d = (case jlookup k d of None \<Rightarrow> JNull | Some v \<Rightarrow> v)"

definition jopt :: "string option \<Rightarrow> json" where
  "jopt s = (case s of None \<Rightarrow> JNull | Some x \<Rightarrow> JStr x)"

definition jopt_int :: "int option \<Rightarrow> json" where
  "jopt_int n = (case n of None \<Rightarrow> JNull | Some x \<Rightarrow> JInt x)"

definition jvec :: "vec \<Rightarrow> json" where
  "jvec v = JArr (map JInt v)"

definition jstrs :: "string list \<Rightarrow> json" where
  "jstrs xs = JArr (map JStr xs)"

text \<open>A Python \<open>frozenset[str]\<close> as the sorted list of its elements.\<close>

definition frozenset :: "string list \<Rightarrow> string list" where
  "frozenset xs = sort (remdups xs)"

section \<open>LETS-CJ/1\<close>

fun normalize :: "json \<Rightarrow> json res" where
  "normalize JNull = Inr JNull"
| "normalize (JBool b) = Inr (JBool b)"
| "normalize (JStr s) = Inr (JStr s)"
| "normalize (JInt n) = (if \<not> (- (2 ^ 63) \<le> n \<and> n \<le> 2 ^ 63 - 1) then Inl ValueErr else Inr (JInt n))"
| "normalize (JArr xs) = rbind (mapM normalize xs) (\<lambda>ys. Inr (JArr ys))"
| "normalize (JObj kvs) =
    rbind (mapM (\<lambda>(k, v). rbind (normalize v) (\<lambda>w. Inr (k, w))) kvs) (\<lambda>ys. Inr (JObj ys))"

definition hex_digit :: "nat \<Rightarrow> char" where
  "hex_digit n = (if n < 10 then char_of (n + 48) else char_of (n + 87))"

text \<open>json.dumps's escapes with ensure_ascii=False.\<close>

definition escape_char :: "char \<Rightarrow> string" where
  "escape_char c =
    (let n = of_char c :: nat in
     if n = 34 then [CHR 0x5C, CHR 0x22]
     else if n = 92 then [CHR 0x5C, CHR 0x5C]
     else if n = 10 then [CHR 0x5C, CHR ''n'']
     else if n = 13 then [CHR 0x5C, CHR ''r'']
     else if n = 9 then [CHR 0x5C, CHR ''t'']
     else if n = 12 then [CHR 0x5C, CHR ''f'']
     else if n = 8 then [CHR 0x5C, CHR ''b'']
     else if n < 32 then [CHR 0x5C, CHR ''u'', CHR ''0'', CHR ''0'', hex_digit (n div 16), hex_digit (n mod 16)]
     else [c])"

definition quote_str :: "string \<Rightarrow> string" where
  "quote_str s = [CHR 0x22] @ concat (map escape_char s) @ [CHR 0x22]"

fun show_nat :: "nat \<Rightarrow> string" where
  "show_nat n = (if n < 10 then [hex_digit n] else show_nat (n div 10) @ [hex_digit (n mod 10)])"

declare show_nat.simps [simp del]

definition show_int :: "int \<Rightarrow> string" where
  "show_int n = (if n < 0 then ''-'' @ show_nat (nat (- n)) else show_nat (nat n))"

fun intercalate :: "string \<Rightarrow> string list \<Rightarrow> string" where
  "intercalate sep [] = []"
| "intercalate sep [x] = x"
| "intercalate sep (x # y # zs) = x @ sep @ intercalate sep (y # zs)"

text \<open>json.dumps with sort_keys and the separators "," and ":".\<close>

fun dumps :: "json \<Rightarrow> string" where
  "dumps JNull = ''null''"
| "dumps (JBool b) = (if b then ''true'' else ''false'')"
| "dumps (JInt n) = show_int n"
| "dumps (JStr s) = quote_str s"
| "dumps (JArr xs) = ''['' @ intercalate '','' (map dumps xs) @ '']''"
| "dumps (JObj kvs) = ''{'' @ intercalate '',''
     (map snd (sort_key fst (map (\<lambda>(k, v). (k, quote_str k @ '':'' @ dumps v)) kvs))) @ ''}''"

definition utf8_char :: "char \<Rightarrow> byte list" where
  "utf8_char c =
    (let n = of_char c :: nat in
     if n < 128 then [of_nat n] else [of_nat (192 + n div 64), of_nat (128 + n mod 64)])"

definition utf8 :: "string \<Rightarrow> byte list" where
  "utf8 s = concat (map utf8_char s)"

definition canonical_json :: "json \<Rightarrow> byte list res" where
  "canonical_json v = rbind (normalize v) (\<lambda>w. Inr (utf8 (dumps w)))"

definition hexdigest :: "byte list \<Rightarrow> string" where
  "hexdigest bs = concat (map (\<lambda>b. [hex_digit (unat b div 16), hex_digit (unat b mod 16)]) bs)"

text \<open>hashlib's sha256 is the parameter \<open>sha256\<close>.\<close>

definition canonical_digest :: "(byte list \<Rightarrow> byte list) \<Rightarrow> json \<Rightarrow> string res" where
  "canonical_digest sha256 v =
    rbind (canonical_json v) (\<lambda>bs. Inr (''sha256:'' @ hexdigest (sha256 bs)))"

section \<open>Unpadded base64url\<close>

definition b64_char :: "nat \<Rightarrow> char" where
  "b64_char n =
    (if n < 26 then char_of (n + 65) else if n < 52 then char_of (n + 71)
     else if n < 62 then char_of (n - 4) else if n = 62 then CHR ''-'' else CHR ''_'')"

definition b64_val :: "char \<Rightarrow> nat option" where
  "b64_val c =
    (let n = of_char c :: nat in
     if 65 \<le> n \<and> n \<le> 90 then Some (n - 65) else if 97 \<le> n \<and> n \<le> 122 then Some (n - 71)
     else if 48 \<le> n \<and> n \<le> 57 then Some (n + 4) else if n = 45 then Some 62
     else if n = 95 then Some 63 else None)"

text \<open>
  base64.urlsafe_b64encode followed by rstrip: three bytes become four
  characters, a final group of one or two bytes two or three.
\<close>

fun b64_groups :: "nat list \<Rightarrow> nat list" where
  "b64_groups (a # b # c # bs) =
    (a div 4) # (a mod 4 * 16 + b div 16) # (b mod 16 * 4 + c div 64) # (c mod 64) # b64_groups bs"
| "b64_groups [a, b] = [a div 4, a mod 4 * 16 + b div 16, b mod 16 * 4]"
| "b64_groups [a] = [a div 4, a mod 4 * 16]"
| "b64_groups [] = []"

definition b64url_encode :: "byte list \<Rightarrow> string" where
  "b64url_encode bs = map b64_char (b64_groups (map unat bs))"

text \<open>
  base64.b64decode(validate=True) on the padded text: the sextets of each
  group; a group of one sextet is binascii.Error.
\<close>

fun b64_ungroup :: "nat list \<Rightarrow> nat list option" where
  "b64_ungroup (p # q # r # s # ss) =
    map_option (\<lambda>bs. (p * 4 + q div 16) # (q mod 16 * 16 + r div 4) # (r mod 4 * 64 + s) # bs) (b64_ungroup ss)"
| "b64_ungroup [p, q, r] = Some [p * 4 + q div 16, q mod 16 * 16 + r div 4]"
| "b64_ungroup [p, q] = Some [p * 4 + q div 16]"
| "b64_ungroup [p] = None"
| "b64_ungroup [] = Some []"

definition b64url_decode :: "string \<Rightarrow> byte list res" where
  "b64url_decode value =
    (if CHR ''='' \<in> set value then Inl ValueErr
     else case those (map b64_val value) of None \<Rightarrow> Inl ValueErr
     | Some vs \<Rightarrow> (case b64_ungroup vs of None \<Rightarrow> Inl ValueErr
       | Some ns \<Rightarrow> let decoded = map of_nat ns in
           if b64url_encode decoded \<noteq> value then Inl ValueErr else Inr decoded))"

section \<open>Identifiers\<close>

definition is_space :: "char \<Rightarrow> bool" where
  "is_space c = (let n = of_char c :: nat in
     (9 \<le> n \<and> n \<le> 13) \<or> (28 \<le> n \<and> n \<le> 32) \<or> n = 133 \<or> n = 160)"

definition py_strip :: "string \<Rightarrow> string" where
  "py_strip s = rev (dropWhile is_space (rev (dropWhile is_space s)))"

definition require_identifier_max :: "nat \<Rightarrow> string \<Rightarrow> string res" where
  "require_identifier_max maximum value =
    (if value = [] then Inl ValidationError
     else if length value > maximum then Inl ValidationError
     else if value \<noteq> py_strip value then Inl ValidationError
     else if list_ex (\<lambda>c. (of_char c :: nat) < 32 \<or> (of_char c :: nat) = 127) value then Inl ValidationError
     else Inr value)"

definition require_identifier :: "string \<Rightarrow> string res" where
  "require_identifier value = require_identifier_max 512 value"

definition new_id :: "string \<Rightarrow> string \<Rightarrow> string res" where
  "new_id uuid_hex kind =
    rbind (require_identifier_max 32 kind) (\<lambda>_. Inr (kind @ ''_'' @ uuid_hex))"

definition is_lower_hex :: "char \<Rightarrow> bool" where
  "is_lower_hex c = (let n = of_char c :: nat in (48 \<le> n \<and> n \<le> 57) \<or> (97 \<le> n \<and> n \<le> 102))"

definition is_alnum :: "char \<Rightarrow> bool" where
  "is_alnum c = (let n = of_char c :: nat in
     (48 \<le> n \<and> n \<le> 57) \<or> (65 \<le> n \<and> n \<le> 90) \<or> (97 \<le> n \<and> n \<le> 122))"

definition require_digest :: "string \<Rightarrow> string res" where
  "require_digest value =
    (if take 7 value = ''sha256:'' \<and> length (drop 7 value) = 64 \<and> list_all is_lower_hex (drop 7 value)
     then Inr value else Inl ValidationError)"

definition require_warden_id :: "string \<Rightarrow> string res" where
  "require_warden_id value =
    (if value \<noteq> [] \<and> is_alnum (hd value) \<and> length value \<le> 128
        \<and> list_all (\<lambda>c. is_alnum c \<or> List.member ''._~-'' c) (tl value)
     then Inr value else Inl ValidationError)"

definition require_key_id :: "string \<Rightarrow> string res" where
  "require_key_id value =
    (if value \<noteq> [] \<and> is_alnum (hd value) \<and> length value \<le> 512
        \<and> list_all (\<lambda>c. is_alnum c \<or> List.member ''._~:/+-'' c) (tl value)
     then Inr value else Inl ValidationError)"

section \<open>The base64url round trip\<close>

lemma b64_val_char: "n < 64 \<Longrightarrow> b64_val (b64_char n) = Some n"
  by (auto simp: b64_val_def b64_char_def Let_def)

lemma b64_char_not_pad: "n < 64 \<Longrightarrow> b64_char n \<noteq> CHR ''=''"
proof
  assume "n < 64" "b64_char n = CHR ''=''"
  then have "b64_val (CHR ''='') = Some n" using b64_val_char by metis
  then show False by (simp add: b64_val_def)
qed

lemma b64_groups_bound: "list_all (\<lambda>n. n < 256) ns \<Longrightarrow> list_all (\<lambda>n. n < 64) (b64_groups ns)"
  by (induction ns rule: b64_groups.induct) auto

lemma unat_byte: "unat (b :: byte) < 256"
  using unsigned_less [of b, where ?'a = nat] by simp

lemma b64_ungroup_groups: "list_all (\<lambda>n. n < 256) ns \<Longrightarrow> b64_ungroup (b64_groups ns) = Some ns"
proof (induction ns rule: b64_groups.induct)
  case (1 a b c bs)
  then have "b div 16 < 16" "c div 64 < 4" by auto
  moreover have "(a mod 4 * 16 + b div 16) mod 16 * 16 + (b mod 16 * 4 + c div 64) div 4 = b"
    using \<open>b div 16 < 16\<close> \<open>c div 64 < 4\<close> by simp
  moreover have "(b mod 16 * 4 + c div 64) mod 4 * 64 + c mod 64 = c"
    using \<open>c div 64 < 4\<close> by simp
  ultimately show ?case using 1 by simp
next
  case (2 a b)
  then have "b div 16 < 16" by auto
  then show ?case by simp
qed auto

lemma those_map_Some: "(\<And>x. x \<in> set xs \<Longrightarrow> f (g x) = Some x) \<Longrightarrow> those (map f (map g xs)) = Some xs"
  by (induction xs) auto

lemma b64url_decode_encode: "b64url_decode (b64url_encode bs) = Inr bs"
proof -
  let ?ns = "map unat bs"
  have b: "list_all (\<lambda>n. n < 256) ?ns"
    by (auto simp: list_all_iff unat_byte)
  have "those (map b64_val (b64url_encode bs)) = Some (b64_groups ?ns)"
    unfolding b64url_encode_def
    by (rule those_map_Some) (use b64_groups_bound [OF b] in \<open>auto simp: list_all_iff b64_val_char\<close>)
  moreover have "CHR ''='' \<notin> set (b64url_encode bs)"
    using b64_groups_bound [OF b] by (auto simp: b64url_encode_def list_all_iff b64_char_not_pad [symmetric])
  moreover have "map of_nat ?ns = bs"
    by (simp add: comp_def)
  ultimately show ?thesis
    by (simp add: b64url_decode_def b64_ungroup_groups [OF b])
qed

lemma b64url_encode_decode: "b64url_decode s = Inr bs \<Longrightarrow> b64url_encode bs = s"
  by (auto simp: b64url_decode_def Let_def res_simps split: option.splits)

section \<open>Identifier facts\<close>

lemma require_identifier_Inr [res_simps]: "require_identifier v = Inr w \<longleftrightarrow> w = v \<and> ok (require_identifier v)"
  by (auto simp: require_identifier_def require_identifier_max_def)

lemma require_digest_Inr [res_simps]: "require_digest v = Inr w \<longleftrightarrow> w = v \<and> ok (require_digest v)"
  by (auto simp: require_digest_def)

lemma require_warden_id_Inr [res_simps]: "require_warden_id v = Inr w \<longleftrightarrow> w = v \<and> ok (require_warden_id v)"
  by (auto simp: require_warden_id_def)

lemma require_key_id_Inr [res_simps]: "require_key_id v = Inr w \<longleftrightarrow> w = v \<and> ok (require_key_id v)"
  by (auto simp: require_key_id_def)

lemma hex_digit_lower: "n < 16 \<Longrightarrow> is_lower_hex (hex_digit n)"
  by (auto simp: is_lower_hex_def hex_digit_def Let_def)

lemma canonical_digest_is_digest:
  assumes "\<And>x. length (sha256 x) = 32" "canonical_digest sha256 v = Inr d"
  shows "ok (require_digest d)"
proof -
  from assms(2) obtain bs where d: "d = ''sha256:'' @ hexdigest (sha256 bs)"
    by (auto simp: canonical_digest_def res_simps)
  have "length (hexdigest bs) = 2 * length bs" for bs
    by (induction bs) (auto simp: hexdigest_def)
  moreover have "unat b div 16 < 16" for b :: byte
    using unat_byte [of b] by simp
  then have "list_all is_lower_hex (hexdigest bs)" for bs
    by (auto simp: hexdigest_def list_all_iff hex_digit_lower)
  ultimately show ?thesis using assms(1) by (simp add: d require_digest_def)
qed

lemma frozenset_idem: "sorted xs \<Longrightarrow> distinct xs \<Longrightarrow> frozenset xs = xs"
  by (simp add: frozenset_def distinct_remdups_id sort_key_id_if_sorted)

lemma frozenset_props [simp]: "set (frozenset xs) = set xs" "sorted (frozenset xs)" "distinct (frozenset xs)"
  by (simp_all add: frozenset_def)

end
