(* ===== verification/Models.thy ===== *)
theory Models
  imports Canonical
begin

text \<open>
  src/src/lets/models.py: the domain and wire records.  Each dataclass is a
  record, its \<open>__post_init__\<close> is the function \<open>..._post_init\<close> that returns
  the record or the exception it raises, and \<open>unsigned_payload\<close>,
  \<open>to_dict\<close> and \<open>from_dict\<close> are translated field by field.  The type tests of
  \<open>__post_init__\<close> on a constructor argument are the typed readings
  \<open>as_str\<close> and \<open>as_int\<close> of \<open>from_dict\<close>.

  A signature is not validated by any \<open>__post_init__\<close>, so it is any JSON value.
\<close>

section \<open>Field validation\<close>

definition MAX_LINEAGE_DEPTH :: nat where
  "MAX_LINEAGE_DEPTH = 64"

definition positive :: "bool \<Rightarrow> int \<Rightarrow> int res" where
  "positive allow_zero value =
    (if value < 0 \<or> (\<not> allow_zero \<and> value = 0) then Inl ValidationError
     else if value > MAX_RESOURCE then Inl ValidationError
     else Inr value)"

fun as_str :: "json \<Rightarrow> string res" where
  "as_str (JStr s) = Inr s"
| "as_str _ = Inl ValidationError"

fun as_int :: "json \<Rightarrow> int res" where
  "as_int (JInt n) = Inr n"
| "as_int _ = Inl ValidationError"

fun as_opt_str :: "json \<Rightarrow> string option res" where
  "as_opt_str JNull = Inr None"
| "as_opt_str (JStr s) = Inr (Some s)"
| "as_opt_str _ = Inl ValidationError"

text \<open>Python's iteration over a JSON value: a dict yields its keys, a str its characters.\<close>

fun py_iter :: "json \<Rightarrow> json list res" where
  "py_iter (JArr xs) = Inr xs"
| "py_iter (JObj kvs) = Inr (map (\<lambda>kv. JStr (fst kv)) kvs)"
| "py_iter (JStr s) = Inr (map (\<lambda>c. JStr [c]) s)"
| "py_iter _ = Inl TypeErr"

definition vector_of_json :: "json \<Rightarrow> vec res" where
  "vector_of_json v =
    rbind (py_iter v) (\<lambda>items. rbind (mapM as_int items) (\<lambda>value. vector value None))"

definition strings :: "json \<Rightarrow> string list res" where
  "strings values =
    (case values of JStr _ \<Rightarrow> Inl ValidationError
     | _ \<Rightarrow> rbind (map_err (\<lambda>_. ValidationError) (py_iter values)) (\<lambda>items.
         rbind (mapM as_str items) (\<lambda>result.
         if list_ex (\<lambda>item. item = []) result then Inl ValidationError else Inr result)))"

definition strict_fields :: "wire_dict \<Rightarrow> string list \<Rightarrow> string list \<Rightarrow> unit res" where
  "strict_fields data allowed required =
    (if list_ex (\<lambda>k. \<not> List.member allowed k) (map fst data) then Inl ValidationError
     else if list_ex (\<lambda>k. \<not> List.member (map fst data) k) required then Inl ValidationError
     else Inr ())"

definition req_ids :: "string list \<Rightarrow> unit res" where
  "req_ids xs = forM xs (\<lambda>x. rbind (require_identifier x) (\<lambda>_. Inr ()))"

section \<open>Enumerations\<close>

datatype LeaseStatus = PROVISIONED | ACTIVE | QUIESCENT | REVOKED | EXPIRED | CLOSED

fun status_value :: "LeaseStatus \<Rightarrow> string" where
  "status_value PROVISIONED = ''PROVISIONED''"
| "status_value ACTIVE = ''ACTIVE''"
| "status_value QUIESCENT = ''QUIESCENT''"
| "status_value REVOKED = ''REVOKED''"
| "status_value EXPIRED = ''EXPIRED''"
| "status_value CLOSED = ''CLOSED''"

definition status_of :: "string \<Rightarrow> LeaseStatus option" where
  "status_of s = find (\<lambda>st. status_value st = s) [PROVISIONED, ACTIVE, QUIESCENT, REVOKED, EXPIRED, CLOSED]"

datatype RuntimeMode = RM_ACTIVE | RM_DRAINING

fun mode_value :: "RuntimeMode \<Rightarrow> string" where
  "mode_value RM_ACTIVE = ''ACTIVE''"
| "mode_value RM_DRAINING = ''DRAINING''"

section \<open>Identity\<close>

record IdentityContext =
  id_subject :: string
  id_tenant :: string
  id_scopes :: "string list"
  id_method :: string

definition IdentityContext_post_init :: "IdentityContext \<Rightarrow> IdentityContext res" where
  "IdentityContext_post_init i =
    rbind (req_ids [id_subject i, id_tenant i, id_method i]) (\<lambda>_.
    rbind (req_ids (id_scopes i)) (\<lambda>_. Inr i))"

section \<open>Lease grants\<close>

record LeaseGrant =
  g_tenant_id :: string
  g_envelope_id :: string
  g_config_epoch :: int
  g_lease_id :: string
  g_lineage_id :: string
  g_parent_id :: "string option"
  g_subject_id :: string
  g_warden_id :: string
  g_allocation :: vec
  g_capabilities :: "string list"
  g_policy_id :: string
  g_policy_version :: string
  g_policy_digest :: string
  g_machine_digest :: string
  g_ancestor_path :: "string list"
  g_branch_epoch :: int
  g_issued_at_ns :: int
  g_expires_at_ns :: int
  g_key_id :: string
  g_signature :: json

definition LeaseGrant_post_init :: "LeaseGrant \<Rightarrow> LeaseGrant res" where
  "LeaseGrant_post_init g =
    rbind (req_ids [g_tenant_id g, g_envelope_id g, g_lease_id g, g_lineage_id g, g_subject_id g,
      g_policy_id g, g_policy_version g]) (\<lambda>_.
    rbind (require_warden_id (g_warden_id g)) (\<lambda>_.
    rbind (require_key_id (g_key_id g)) (\<lambda>_.
    rbind (case g_parent_id g of None \<Rightarrow> Inr () | Some p \<Rightarrow> req_ids [p]) (\<lambda>_.
    rbind (require_digest (g_policy_digest g)) (\<lambda>_.
    rbind (require_digest (g_machine_digest g)) (\<lambda>_.
    rbind (positive False (g_config_epoch g)) (\<lambda>_.
    rbind (positive True (g_branch_epoch g)) (\<lambda>_.
    rbind (positive True (g_issued_at_ns g)) (\<lambda>_.
    rbind (positive False (g_expires_at_ns g)) (\<lambda>_.
    if g_expires_at_ns g \<le> g_issued_at_ns g then Inl ValidationError
    else rbind (vector (g_allocation g) None) (\<lambda>allocation.
    if \<not> list_ex (\<lambda>x. x \<noteq> 0) allocation then Inl ValidationError
    else rbind (req_ids (g_capabilities g)) (\<lambda>_.
    rbind (req_ids (g_ancestor_path g)) (\<lambda>_.
    if length (g_ancestor_path g) > MAX_LINEAGE_DEPTH then Inl ValidationError
    else if \<not> distinct (g_ancestor_path g) then Inl ValidationError
    else if List.member (g_ancestor_path g) (g_lease_id g) then Inl ValidationError
    else if g_parent_id g = None \<and> g_ancestor_path g \<noteq> [] then Inl ValidationError
    else if (case g_parent_id g of None \<Rightarrow> False
       | Some p \<Rightarrow> g_ancestor_path g = [] \<or> last (g_ancestor_path g) \<noteq> p) then Inl ValidationError
    else Inr (g\<lparr>g_allocation := allocation\<rparr>))))))))))))))"

definition LeaseGrant_unsigned_payload :: "LeaseGrant \<Rightarrow> wire_dict" where
  "LeaseGrant_unsigned_payload g =
   [(''type'', JStr ''lets.lease-grant/v1''),
    (''tenant_id'', JStr (g_tenant_id g)),
    (''envelope_id'', JStr (g_envelope_id g)),
    (''config_epoch'', JInt (g_config_epoch g)),
    (''lease_id'', JStr (g_lease_id g)),
    (''lineage_id'', JStr (g_lineage_id g)),
    (''parent_id'', jopt (g_parent_id g)),
    (''subject_id'', JStr (g_subject_id g)),
    (''warden_id'', JStr (g_warden_id g)),
    (''allocation'', jvec (g_allocation g)),
    (''capabilities'', jstrs (sort (g_capabilities g))),
    (''policy_id'', JStr (g_policy_id g)),
    (''policy_version'', JStr (g_policy_version g)),
    (''policy_digest'', JStr (g_policy_digest g)),
    (''machine_digest'', JStr (g_machine_digest g)),
    (''ancestor_path'', jstrs (g_ancestor_path g)),
    (''branch_epoch'', JInt (g_branch_epoch g)),
    (''issued_at_ns'', JInt (g_issued_at_ns g)),
    (''expires_at_ns'', JInt (g_expires_at_ns g)),
    (''key_id'', JStr (g_key_id g))]"

definition LeaseGrant_to_dict :: "LeaseGrant \<Rightarrow> wire_dict" where
  "LeaseGrant_to_dict g = LeaseGrant_unsigned_payload g @ [(''signature'', g_signature g)]"

definition LeaseGrant_fields :: "string list" where
  "LeaseGrant_fields =
   [''tenant_id'', ''envelope_id'', ''config_epoch'', ''lease_id'', ''lineage_id'', ''parent_id'',
    ''subject_id'', ''warden_id'', ''allocation'', ''capabilities'', ''policy_id'', ''policy_version'',
    ''policy_digest'', ''machine_digest'', ''ancestor_path'', ''branch_epoch'', ''issued_at_ns'',
    ''expires_at_ns'', ''key_id'', ''signature'', ''type'']"

definition str_field :: "wire_dict \<Rightarrow> string \<Rightarrow> string res" where
  "str_field data k = rbind (jget k data) as_str"

definition int_field :: "wire_dict \<Rightarrow> string \<Rightarrow> int res" where
  "int_field data k = rbind (jget k data) as_int"

definition LeaseGrant_from_dict :: "wire_dict \<Rightarrow> LeaseGrant res" where
  "LeaseGrant_from_dict data =
    rbind (strict_fields data LeaseGrant_fields (filter (\<lambda>k. k \<noteq> ''parent_id'') LeaseGrant_fields)) (\<lambda>_.
    if jget_null ''type'' data \<noteq> JStr ''lets.lease-grant/v1'' then Inl ValidationError
    else rbind (rbind (jget ''allocation'' data) vector_of_json) (\<lambda>allocation.
    rbind (rbind (jget ''capabilities'' data) strings) (\<lambda>capabilities.
    rbind (rbind (jget ''ancestor_path'' data) strings) (\<lambda>ancestor_path.
    rbind (str_field data ''tenant_id'') (\<lambda>tenant_id.
    rbind (str_field data ''envelope_id'') (\<lambda>envelope_id.
    rbind (int_field data ''config_epoch'') (\<lambda>config_epoch.
    rbind (str_field data ''lease_id'') (\<lambda>lease_id.
    rbind (str_field data ''lineage_id'') (\<lambda>lineage_id.
    rbind (as_opt_str (jget_null ''parent_id'' data)) (\<lambda>parent_id.
    rbind (str_field data ''subject_id'') (\<lambda>subject_id.
    rbind (str_field data ''warden_id'') (\<lambda>warden_id.
    rbind (str_field data ''policy_id'') (\<lambda>policy_id.
    rbind (str_field data ''policy_version'') (\<lambda>policy_version.
    rbind (str_field data ''policy_digest'') (\<lambda>policy_digest.
    rbind (str_field data ''machine_digest'') (\<lambda>machine_digest.
    rbind (int_field data ''branch_epoch'') (\<lambda>branch_epoch.
    rbind (int_field data ''issued_at_ns'') (\<lambda>issued_at_ns.
    rbind (int_field data ''expires_at_ns'') (\<lambda>expires_at_ns.
    rbind (str_field data ''key_id'') (\<lambda>key_id.
    rbind (jget ''signature'' data) (\<lambda>signature.
    LeaseGrant_post_init
      \<lparr>g_tenant_id = tenant_id, g_envelope_id = envelope_id, g_config_epoch = config_epoch,
       g_lease_id = lease_id, g_lineage_id = lineage_id, g_parent_id = parent_id,
       g_subject_id = subject_id, g_warden_id = warden_id, g_allocation = allocation,
       g_capabilities = frozenset capabilities, g_policy_id = policy_id,
       g_policy_version = policy_version, g_policy_digest = policy_digest,
       g_machine_digest = machine_digest, g_ancestor_path = ancestor_path,
       g_branch_epoch = branch_epoch, g_issued_at_ns = issued_at_ns,
       g_expires_at_ns = expires_at_ns, g_key_id = key_id, g_signature = signature\<rparr>)))))))))))))))))))))"

section \<open>Lease snapshots\<close>

record LeaseSnapshot =
  s_grant :: LeaseGrant
  s_residual :: vec
  s_current_state :: string
  s_status :: LeaseStatus
  s_sequence :: int
  s_updated_at_ns :: int

definition LeaseSnapshot_post_init :: "LeaseSnapshot \<Rightarrow> LeaseSnapshot res" where
  "LeaseSnapshot_post_init s =
    rbind (vector (s_residual s) (Some (length (g_allocation (s_grant s))))) (\<lambda>residual.
    rbind (req_ids [s_current_state s]) (\<lambda>_.
    rbind (positive True (s_sequence s)) (\<lambda>_.
    rbind (positive True (s_updated_at_ns s)) (\<lambda>_.
    if list_ex (\<lambda>(left, right). left > right) (zip residual (g_allocation (s_grant s)))
    then Inl ValidationError
    else Inr (s\<lparr>s_residual := residual\<rparr>)))))"

definition LeaseSnapshot_to_dict :: "LeaseSnapshot \<Rightarrow> wire_dict" where
  "LeaseSnapshot_to_dict s =
   [(''type'', JStr ''lets.lease-snapshot/v1''),
    (''grant'', JObj (LeaseGrant_to_dict (s_grant s))),
    (''residual'', jvec (s_residual s)),
    (''current_state'', JStr (s_current_state s)),
    (''status'', JStr (status_value (s_status s))),
    (''sequence'', JInt (s_sequence s)),
    (''updated_at_ns'', JInt (s_updated_at_ns s))]"

fun as_obj :: "json \<Rightarrow> wire_dict res" where
  "as_obj (JObj d) = Inr d"
| "as_obj _ = Inl TypeErr"

fun as_status :: "json \<Rightarrow> LeaseStatus res" where
  "as_status (JStr s) = of_option ValidationError (status_of s)"
| "as_status _ = Inl ValidationError"

definition LeaseSnapshot_from_dict :: "wire_dict \<Rightarrow> LeaseSnapshot res" where
  "LeaseSnapshot_from_dict data =
   (let allowed = [''type'', ''grant'', ''residual'', ''current_state'', ''status'', ''sequence'', ''updated_at_ns''] in
    rbind (strict_fields data allowed allowed) (\<lambda>_.
    if jget_null ''type'' data \<noteq> JStr ''lets.lease-snapshot/v1'' then Inl ValidationError
    else rbind (rbind (jget ''status'' data) as_status) (\<lambda>status.
    rbind (rbind (jget ''grant'' data) as_obj) (\<lambda>grant_data.
    rbind (LeaseGrant_from_dict grant_data) (\<lambda>grant.
    rbind (rbind (jget ''residual'' data) vector_of_json) (\<lambda>residual.
    rbind (str_field data ''current_state'') (\<lambda>current_state.
    rbind (int_field data ''sequence'') (\<lambda>sequence.
    rbind (int_field data ''updated_at_ns'') (\<lambda>updated_at_ns.
    LeaseSnapshot_post_init
      \<lparr>s_grant = grant, s_residual = residual, s_current_state = current_state, s_status = status,
       s_sequence = sequence, s_updated_at_ns = updated_at_ns\<rparr>)))))))))"

section \<open>Receipts\<close>

record Receipt =
  r_tenant_id :: string
  r_envelope_id :: string
  r_config_epoch :: int
  r_receipt_id :: string
  r_request_id :: string
  r_warden_id :: string
  r_key_id :: string
  r_policy_id :: string
  r_policy_version :: string
  r_policy_digest :: string
  r_machine_digest :: string
  r_lease_id :: string
  r_lineage_id :: string
  r_subject_id :: string
  r_executor_audience :: string
  r_transition :: string
  r_source_state :: string
  r_target_state :: string
  r_cost :: vec
  r_resulting_sequence :: int
  r_evidence_digest :: "string option"
  r_nonce :: string
  r_issued_at_ns :: int
  r_expires_at_ns :: int
  r_signature :: json

definition Receipt_post_init :: "Receipt \<Rightarrow> Receipt res" where
  "Receipt_post_init r =
    rbind (req_ids [r_tenant_id r, r_envelope_id r, r_receipt_id r, r_request_id r, r_policy_id r,
      r_policy_version r, r_lease_id r, r_lineage_id r, r_subject_id r, r_executor_audience r,
      r_transition r, r_source_state r, r_target_state r, r_nonce r]) (\<lambda>_.
    rbind (require_warden_id (r_warden_id r)) (\<lambda>_.
    rbind (require_key_id (r_key_id r)) (\<lambda>_.
    rbind (require_digest (r_policy_digest r)) (\<lambda>_.
    rbind (require_digest (r_machine_digest r)) (\<lambda>_.
    rbind (case r_evidence_digest r of None \<Rightarrow> Inr [] | Some d \<Rightarrow> require_digest d) (\<lambda>_.
    rbind (positive False (r_config_epoch r)) (\<lambda>_.
    rbind (positive False (r_resulting_sequence r)) (\<lambda>_.
    rbind (positive True (r_issued_at_ns r)) (\<lambda>_.
    rbind (positive False (r_expires_at_ns r)) (\<lambda>_.
    if r_expires_at_ns r \<le> r_issued_at_ns r then Inl ValidationError
    else rbind (vector (r_cost r) None) (\<lambda>cost. Inr (r\<lparr>r_cost := cost\<rparr>))))))))))))"

definition Receipt_unsigned_payload :: "Receipt \<Rightarrow> wire_dict" where
  "Receipt_unsigned_payload r =
   [(''type'', JStr ''lets.receipt/v1''),
    (''tenant_id'', JStr (r_tenant_id r)),
    (''envelope_id'', JStr (r_envelope_id r)),
    (''config_epoch'', JInt (r_config_epoch r)),
    (''receipt_id'', JStr (r_receipt_id r)),
    (''request_id'', JStr (r_request_id r)),
    (''warden_id'', JStr (r_warden_id r)),
    (''key_id'', JStr (r_key_id r)),
    (''policy_id'', JStr (r_policy_id r)),
    (''policy_version'', JStr (r_policy_version r)),
    (''policy_digest'', JStr (r_policy_digest r)),
    (''machine_digest'', JStr (r_machine_digest r)),
    (''lease_id'', JStr (r_lease_id r)),
    (''lineage_id'', JStr (r_lineage_id r)),
    (''subject_id'', JStr (r_subject_id r)),
    (''executor_audience'', JStr (r_executor_audience r)),
    (''transition'', JStr (r_transition r)),
    (''source_state'', JStr (r_source_state r)),
    (''target_state'', JStr (r_target_state r)),
    (''cost'', jvec (r_cost r)),
    (''resulting_sequence'', JInt (r_resulting_sequence r)),
    (''evidence_digest'', jopt (r_evidence_digest r)),
    (''nonce'', JStr (r_nonce r)),
    (''issued_at_ns'', JInt (r_issued_at_ns r)),
    (''expires_at_ns'', JInt (r_expires_at_ns r))]"

definition Receipt_to_dict :: "Receipt \<Rightarrow> wire_dict" where
  "Receipt_to_dict r = Receipt_unsigned_payload r @ [(''signature'', r_signature r)]"

definition Receipt_fields :: "string list" where
  "Receipt_fields =
   [''tenant_id'', ''envelope_id'', ''config_epoch'', ''receipt_id'', ''request_id'', ''warden_id'',
    ''key_id'', ''policy_id'', ''policy_version'', ''policy_digest'', ''machine_digest'', ''lease_id'',
    ''lineage_id'', ''subject_id'', ''executor_audience'', ''transition'', ''source_state'',
    ''target_state'', ''cost'', ''resulting_sequence'', ''evidence_digest'', ''nonce'',
    ''issued_at_ns'', ''expires_at_ns'', ''signature'', ''type'']"

definition Receipt_from_dict :: "wire_dict \<Rightarrow> Receipt res" where
  "Receipt_from_dict data =
    rbind (strict_fields data Receipt_fields Receipt_fields) (\<lambda>_.
    if jget_null ''type'' data \<noteq> JStr ''lets.receipt/v1'' then Inl ValidationError
    else rbind (rbind (jget ''cost'' data) vector_of_json) (\<lambda>cost.
    rbind (str_field data ''tenant_id'') (\<lambda>tenant_id.
    rbind (str_field data ''envelope_id'') (\<lambda>envelope_id.
    rbind (int_field data ''config_epoch'') (\<lambda>config_epoch.
    rbind (str_field data ''receipt_id'') (\<lambda>receipt_id.
    rbind (str_field data ''request_id'') (\<lambda>request_id.
    rbind (str_field data ''warden_id'') (\<lambda>warden_id.
    rbind (str_field data ''key_id'') (\<lambda>key_id.
    rbind (str_field data ''policy_id'') (\<lambda>policy_id.
    rbind (str_field data ''policy_version'') (\<lambda>policy_version.
    rbind (str_field data ''policy_digest'') (\<lambda>policy_digest.
    rbind (str_field data ''machine_digest'') (\<lambda>machine_digest.
    rbind (str_field data ''lease_id'') (\<lambda>lease_id.
    rbind (str_field data ''lineage_id'') (\<lambda>lineage_id.
    rbind (str_field data ''subject_id'') (\<lambda>subject_id.
    rbind (str_field data ''executor_audience'') (\<lambda>executor_audience.
    rbind (str_field data ''transition'') (\<lambda>transition.
    rbind (str_field data ''source_state'') (\<lambda>source_state.
    rbind (str_field data ''target_state'') (\<lambda>target_state.
    rbind (int_field data ''resulting_sequence'') (\<lambda>resulting_sequence.
    rbind (rbind (jget ''evidence_digest'' data) as_opt_str) (\<lambda>evidence_digest.
    rbind (str_field data ''nonce'') (\<lambda>nonce.
    rbind (int_field data ''issued_at_ns'') (\<lambda>issued_at_ns.
    rbind (int_field data ''expires_at_ns'') (\<lambda>expires_at_ns.
    rbind (jget ''signature'' data) (\<lambda>signature.
    Receipt_post_init
      \<lparr>r_tenant_id = tenant_id, r_envelope_id = envelope_id, r_config_epoch = config_epoch,
       r_receipt_id = receipt_id, r_request_id = request_id, r_warden_id = warden_id,
       r_key_id = key_id, r_policy_id = policy_id, r_policy_version = policy_version,
       r_policy_digest = policy_digest, r_machine_digest = machine_digest, r_lease_id = lease_id,
       r_lineage_id = lineage_id, r_subject_id = subject_id, r_executor_audience = executor_audience,
       r_transition = transition, r_source_state = source_state, r_target_state = target_state,
       r_cost = cost, r_resulting_sequence = resulting_sequence, r_evidence_digest = evidence_digest,
       r_nonce = nonce, r_issued_at_ns = issued_at_ns, r_expires_at_ns = expires_at_ns,
       r_signature = signature\<rparr>))))))))))))))))))))))))))"

section \<open>Transfers\<close>

text \<open>A validated lease request: the dict that \<open>validate_lease_request\<close> returns.\<close>

record LeaseRequest =
  lr_child_lease_id :: string
  lr_lineage_id :: string
  lr_parent_id :: string
  lr_subject_id :: string
  lr_capabilities :: "string list"
  lr_ancestor_path :: "string list"
  lr_branch_epoch :: int
  lr_expires_at_ns :: int

definition LEASE_REQUEST_FIELDS :: "string list" where
  "LEASE_REQUEST_FIELDS = [''child_lease_id'', ''lineage_id'', ''parent_id'', ''subject_id'',
     ''capabilities'', ''ancestor_path'', ''branch_epoch'', ''expires_at_ns'']"

definition LeaseRequest_to_dict :: "LeaseRequest \<Rightarrow> wire_dict" where
  "LeaseRequest_to_dict q =
   [(''child_lease_id'', JStr (lr_child_lease_id q)),
    (''lineage_id'', JStr (lr_lineage_id q)),
    (''parent_id'', JStr (lr_parent_id q)),
    (''subject_id'', JStr (lr_subject_id q)),
    (''capabilities'', jstrs (lr_capabilities q)),
    (''ancestor_path'', jstrs (lr_ancestor_path q)),
    (''branch_epoch'', JInt (lr_branch_epoch q)),
    (''expires_at_ns'', JInt (lr_expires_at_ns q))]"

definition validate_lease_request :: "json \<Rightarrow> LeaseRequest res" where
  "validate_lease_request value =
    rbind (map_err (\<lambda>_. ValidationError) (as_obj value)) (\<lambda>data.
    rbind (strict_fields data LEASE_REQUEST_FIELDS LEASE_REQUEST_FIELDS) (\<lambda>_.
    rbind (str_field data ''child_lease_id'') (\<lambda>child_lease_id.
    rbind (str_field data ''lineage_id'') (\<lambda>lineage_id.
    rbind (str_field data ''parent_id'') (\<lambda>parent_id.
    rbind (str_field data ''subject_id'') (\<lambda>subject_id.
    rbind (req_ids [child_lease_id, lineage_id, parent_id, subject_id]) (\<lambda>_.
    rbind (rbind (jget ''capabilities'' data) strings) (\<lambda>capabilities.
    rbind (rbind (jget ''ancestor_path'' data) strings) (\<lambda>ancestor_path.
    if ancestor_path = [] \<or> last ancestor_path \<noteq> parent_id then Inl ValidationError
    else if \<not> distinct ancestor_path then Inl ValidationError
    else if List.member ancestor_path child_lease_id then Inl ValidationError
    else if length ancestor_path > MAX_LINEAGE_DEPTH then Inl ValidationError
    else rbind (rbind (int_field data ''branch_epoch'') (positive True)) (\<lambda>branch_epoch.
    rbind (rbind (int_field data ''expires_at_ns'') (positive False)) (\<lambda>expires_at_ns.
    Inr \<lparr>lr_child_lease_id = child_lease_id, lr_lineage_id = lineage_id, lr_parent_id = parent_id,
      lr_subject_id = subject_id, lr_capabilities = sort capabilities, lr_ancestor_path = ancestor_path,
      lr_branch_epoch = branch_epoch, lr_expires_at_ns = expires_at_ns\<rparr>)))))))))))"

definition TRANSFER_KIND_POOL :: string where "TRANSFER_KIND_POOL = ''pool''"
definition TRANSFER_KIND_LEASE :: string where "TRANSFER_KIND_LEASE = ''lease''"
definition CHILD_OUTCOME_ISSUED :: string where "CHILD_OUTCOME_ISSUED = ''ISSUED''"
definition CHILD_OUTCOME_FENCED :: string where "CHILD_OUTCOME_FENCED = ''FENCED''"

record TransferVoucher =
  v_tenant_id :: string
  v_envelope_id :: string
  v_config_epoch :: int
  v_transfer_id :: string
  v_source_warden :: string
  v_target_warden :: string
  v_policy_id :: string
  v_policy_version :: string
  v_policy_digest :: string
  v_sequence :: int
  v_amount :: vec
  v_issued_at_ns :: int
  v_key_id :: string
  v_signature :: json
  v_kind :: string
  v_lease_request :: "LeaseRequest option"

definition lease_request_json :: "LeaseRequest option \<Rightarrow> json" where
  "lease_request_json q = (case q of None \<Rightarrow> JNull | Some r \<Rightarrow> JObj (LeaseRequest_to_dict r))"

text \<open>
  The checks of \<open>TransferVoucher.__post_init__\<close> before the kind, and those of
  the kind and lease request, which are still JSON values when the voucher
  comes from \<open>from_dict\<close>: membership in a frozenset raises TypeError on an
  unhashable value.
\<close>

definition voucher_base_checks :: "TransferVoucher \<Rightarrow> TransferVoucher res" where
  "voucher_base_checks v =
    rbind (req_ids [v_tenant_id v, v_envelope_id v, v_transfer_id v, v_policy_id v, v_policy_version v]) (\<lambda>_.
    rbind (require_warden_id (v_source_warden v)) (\<lambda>_.
    rbind (require_warden_id (v_target_warden v)) (\<lambda>_.
    rbind (require_key_id (v_key_id v)) (\<lambda>_.
    rbind (require_digest (v_policy_digest v)) (\<lambda>_.
    if v_source_warden v = v_target_warden v then Inl ValidationError
    else rbind (positive False (v_config_epoch v)) (\<lambda>_.
    rbind (positive False (v_sequence v)) (\<lambda>_.
    rbind (positive True (v_issued_at_ns v)) (\<lambda>_.
    rbind (vector (v_amount v) None) (\<lambda>amount.
    if \<not> list_ex (\<lambda>x. x \<noteq> 0) amount then Inl ValidationError
    else Inr (v\<lparr>v_amount := amount\<rparr>))))))))))"

definition voucher_kind_checks :: "json \<Rightarrow> json \<Rightarrow> (string \<times> LeaseRequest option) res" where
  "voucher_kind_checks kind lease_request =
    (case kind of
       JStr k \<Rightarrow>
         if \<not> List.member [TRANSFER_KIND_POOL, TRANSFER_KIND_LEASE] k then Inl ValidationError
         else if k = TRANSFER_KIND_LEASE
           then rbind (validate_lease_request lease_request) (\<lambda>q. Inr (k, Some q))
         else if lease_request \<noteq> JNull then Inl ValidationError
         else Inr (k, None)
     | JArr _ \<Rightarrow> Inl TypeErr
     | JObj _ \<Rightarrow> Inl TypeErr
     | _ \<Rightarrow> Inl ValidationError)"

definition TransferVoucher_post_init :: "TransferVoucher \<Rightarrow> TransferVoucher res" where
  "TransferVoucher_post_init v =
    rbind (voucher_base_checks v) (\<lambda>w.
    rbind (voucher_kind_checks (JStr (v_kind v)) (lease_request_json (v_lease_request v))) (\<lambda>(k, q).
    Inr (w\<lparr>v_kind := k, v_lease_request := q\<rparr>)))"

definition is_lease :: "TransferVoucher \<Rightarrow> bool" where
  "is_lease v = (v_kind v = TRANSFER_KIND_LEASE)"

definition TransferVoucher_unsigned_payload :: "TransferVoucher \<Rightarrow> wire_dict" where
  "TransferVoucher_unsigned_payload v =
   [(''type'', JStr ''lets.transfer-voucher/v1''),
    (''tenant_id'', JStr (v_tenant_id v)),
    (''envelope_id'', JStr (v_envelope_id v)),
    (''config_epoch'', JInt (v_config_epoch v)),
    (''transfer_id'', JStr (v_transfer_id v)),
    (''source_warden'', JStr (v_source_warden v)),
    (''target_warden'', JStr (v_target_warden v)),
    (''policy_id'', JStr (v_policy_id v)),
    (''policy_version'', JStr (v_policy_version v)),
    (''policy_digest'', JStr (v_policy_digest v)),
    (''sequence'', JInt (v_sequence v)),
    (''amount'', jvec (v_amount v)),
    (''issued_at_ns'', JInt (v_issued_at_ns v)),
    (''key_id'', JStr (v_key_id v))]
   @ (if v_kind v = TRANSFER_KIND_LEASE \<and> v_lease_request v \<noteq> None
      then [(''kind'', JStr (v_kind v)), (''lease_request'', lease_request_json (v_lease_request v))]
      else [])"

definition TransferVoucher_to_dict :: "TransferVoucher \<Rightarrow> wire_dict" where
  "TransferVoucher_to_dict v = TransferVoucher_unsigned_payload v @ [(''signature'', v_signature v)]"

definition TransferVoucher_fields :: "string list" where
  "TransferVoucher_fields =
   [''tenant_id'', ''envelope_id'', ''config_epoch'', ''transfer_id'', ''source_warden'',
    ''target_warden'', ''policy_id'', ''policy_version'', ''policy_digest'', ''sequence'', ''amount'',
    ''issued_at_ns'', ''key_id'', ''signature'', ''kind'', ''lease_request'', ''type'']"

definition TransferVoucher_from_dict :: "wire_dict \<Rightarrow> TransferVoucher res" where
  "TransferVoucher_from_dict data =
    rbind (strict_fields data TransferVoucher_fields
      (filter (\<lambda>k. k \<noteq> ''kind'' \<and> k \<noteq> ''lease_request'') TransferVoucher_fields)) (\<lambda>_.
    if jget_null ''type'' data \<noteq> JStr ''lets.transfer-voucher/v1'' then Inl ValidationError
    else rbind (rbind (jget ''amount'' data) vector_of_json) (\<lambda>amount.
    rbind (str_field data ''tenant_id'') (\<lambda>tenant_id.
    rbind (str_field data ''envelope_id'') (\<lambda>envelope_id.
    rbind (int_field data ''config_epoch'') (\<lambda>config_epoch.
    rbind (str_field data ''transfer_id'') (\<lambda>transfer_id.
    rbind (str_field data ''source_warden'') (\<lambda>source_warden.
    rbind (str_field data ''target_warden'') (\<lambda>target_warden.
    rbind (str_field data ''policy_id'') (\<lambda>policy_id.
    rbind (str_field data ''policy_version'') (\<lambda>policy_version.
    rbind (str_field data ''policy_digest'') (\<lambda>policy_digest.
    rbind (int_field data ''sequence'') (\<lambda>sequence.
    rbind (int_field data ''issued_at_ns'') (\<lambda>issued_at_ns.
    rbind (str_field data ''key_id'') (\<lambda>key_id.
    rbind (jget ''signature'' data) (\<lambda>signature.
    rbind (voucher_base_checks
      \<lparr>v_tenant_id = tenant_id, v_envelope_id = envelope_id, v_config_epoch = config_epoch,
       v_transfer_id = transfer_id, v_source_warden = source_warden, v_target_warden = target_warden,
       v_policy_id = policy_id, v_policy_version = policy_version, v_policy_digest = policy_digest,
       v_sequence = sequence, v_amount = amount, v_issued_at_ns = issued_at_ns, v_key_id = key_id,
       v_signature = signature, v_kind = TRANSFER_KIND_POOL, v_lease_request = None\<rparr>) (\<lambda>v.
    rbind (voucher_kind_checks
      (case jlookup ''kind'' data of None \<Rightarrow> JStr TRANSFER_KIND_POOL | Some k \<Rightarrow> k)
      (jget_null ''lease_request'' data)) (\<lambda>(k, q).
    Inr (v\<lparr>v_kind := k, v_lease_request := q\<rparr>))))))))))))))))))"

record TransferAck =
  a_tenant_id :: string
  a_envelope_id :: string
  a_config_epoch :: int
  a_transfer_id :: string
  a_source_warden :: string
  a_target_warden :: string
  a_sequence :: int
  a_voucher_digest :: string
  a_accepted_at_ns :: int
  a_contiguous_watermark :: int
  a_key_id :: string
  a_signature :: json
  a_child_lease_id :: "string option"
  a_child_outcome :: "string option"

definition ack_base_checks :: "TransferAck \<Rightarrow> TransferAck res" where
  "ack_base_checks a =
    rbind (req_ids [a_tenant_id a, a_envelope_id a, a_transfer_id a]) (\<lambda>_.
    rbind (require_warden_id (a_source_warden a)) (\<lambda>_.
    rbind (require_warden_id (a_target_warden a)) (\<lambda>_.
    rbind (require_key_id (a_key_id a)) (\<lambda>_.
    rbind (require_digest (a_voucher_digest a)) (\<lambda>_.
    rbind (positive False (a_config_epoch a)) (\<lambda>_.
    rbind (positive False (a_sequence a)) (\<lambda>_.
    rbind (positive True (a_contiguous_watermark a)) (\<lambda>_.
    rbind (positive True (a_accepted_at_ns a)) (\<lambda>_. Inr a)))))))))"

definition ack_child_checks :: "json \<Rightarrow> json \<Rightarrow> (string option \<times> string option) res" where
  "ack_child_checks child_lease_id child_outcome =
    (if (child_lease_id = JNull) \<noteq> (child_outcome = JNull) then Inl ValidationError
     else if child_lease_id \<noteq> JNull then
       rbind (rbind (as_str child_lease_id) require_identifier) (\<lambda>c.
       case child_outcome of
         JStr outcome \<Rightarrow>
           if \<not> List.member [CHILD_OUTCOME_ISSUED, CHILD_OUTCOME_FENCED] outcome then Inl ValidationError
           else Inr (Some c, Some outcome)
       | JArr _ \<Rightarrow> Inl TypeErr
       | JObj _ \<Rightarrow> Inl TypeErr
       | _ \<Rightarrow> Inl ValidationError)
     else Inr (None, None))"

definition TransferAck_post_init :: "TransferAck \<Rightarrow> TransferAck res" where
  "TransferAck_post_init a =
    rbind (ack_base_checks a) (\<lambda>b.
    rbind (ack_child_checks (jopt (a_child_lease_id a)) (jopt (a_child_outcome a))) (\<lambda>(c, out).
    Inr (b\<lparr>a_child_lease_id := c, a_child_outcome := out\<rparr>)))"

definition TransferAck_unsigned_payload :: "TransferAck \<Rightarrow> wire_dict" where
  "TransferAck_unsigned_payload a =
   [(''type'', JStr ''lets.transfer-ack/v1''),
    (''tenant_id'', JStr (a_tenant_id a)),
    (''envelope_id'', JStr (a_envelope_id a)),
    (''config_epoch'', JInt (a_config_epoch a)),
    (''transfer_id'', JStr (a_transfer_id a)),
    (''source_warden'', JStr (a_source_warden a)),
    (''target_warden'', JStr (a_target_warden a)),
    (''sequence'', JInt (a_sequence a)),
    (''voucher_digest'', JStr (a_voucher_digest a)),
    (''accepted_at_ns'', JInt (a_accepted_at_ns a)),
    (''contiguous_watermark'', JInt (a_contiguous_watermark a)),
    (''key_id'', JStr (a_key_id a))]
   @ (case a_child_lease_id a of None \<Rightarrow> []
      | Some c \<Rightarrow> [(''child_lease_id'', JStr c), (''child_outcome'', jopt (a_child_outcome a))])"

definition TransferAck_to_dict :: "TransferAck \<Rightarrow> wire_dict" where
  "TransferAck_to_dict a = TransferAck_unsigned_payload a @ [(''signature'', a_signature a)]"

definition TransferAck_fields :: "string list" where
  "TransferAck_fields =
   [''tenant_id'', ''envelope_id'', ''config_epoch'', ''transfer_id'', ''source_warden'',
    ''target_warden'', ''sequence'', ''voucher_digest'', ''accepted_at_ns'', ''contiguous_watermark'',
    ''key_id'', ''signature'', ''child_lease_id'', ''child_outcome'', ''type'']"

definition TransferAck_from_dict :: "wire_dict \<Rightarrow> TransferAck res" where
  "TransferAck_from_dict data =
    rbind (strict_fields data TransferAck_fields
      (filter (\<lambda>k. k \<noteq> ''child_lease_id'' \<and> k \<noteq> ''child_outcome'') TransferAck_fields)) (\<lambda>_.
    if jget_null ''type'' data \<noteq> JStr ''lets.transfer-ack/v1'' then Inl ValidationError
    else rbind (str_field data ''tenant_id'') (\<lambda>tenant_id.
    rbind (str_field data ''envelope_id'') (\<lambda>envelope_id.
    rbind (int_field data ''config_epoch'') (\<lambda>config_epoch.
    rbind (str_field data ''transfer_id'') (\<lambda>transfer_id.
    rbind (str_field data ''source_warden'') (\<lambda>source_warden.
    rbind (str_field data ''target_warden'') (\<lambda>target_warden.
    rbind (int_field data ''sequence'') (\<lambda>sequence.
    rbind (str_field data ''voucher_digest'') (\<lambda>voucher_digest.
    rbind (int_field data ''accepted_at_ns'') (\<lambda>accepted_at_ns.
    rbind (int_field data ''contiguous_watermark'') (\<lambda>contiguous_watermark.
    rbind (str_field data ''key_id'') (\<lambda>key_id.
    rbind (jget ''signature'' data) (\<lambda>signature.
    rbind (ack_base_checks
      \<lparr>a_tenant_id = tenant_id, a_envelope_id = envelope_id, a_config_epoch = config_epoch,
       a_transfer_id = transfer_id, a_source_warden = source_warden, a_target_warden = target_warden,
       a_sequence = sequence, a_voucher_digest = voucher_digest, a_accepted_at_ns = accepted_at_ns,
       a_contiguous_watermark = contiguous_watermark, a_key_id = key_id, a_signature = signature,
       a_child_lease_id = None, a_child_outcome = None\<rparr>) (\<lambda>a.
    rbind (ack_child_checks (jget_null ''child_lease_id'' data) (jget_null ''child_outcome'' data)) (\<lambda>(c, out).
    Inr (a\<lparr>a_child_lease_id := c, a_child_outcome := out\<rparr>))))))))))))))))"

section \<open>Revocations and runtime status\<close>

record BranchRevocation =
  b_tenant_id :: string
  b_envelope_id :: string
  b_config_epoch :: int
  b_branch_lease_id :: string
  b_lineage_id :: string
  b_epoch :: int
  b_issuer_warden :: string
  b_issued_at_ns :: int
  b_reason :: string
  b_key_id :: string
  b_signature :: json

definition BranchRevocation_post_init :: "BranchRevocation \<Rightarrow> BranchRevocation res" where
  "BranchRevocation_post_init b =
    rbind (req_ids [b_tenant_id b, b_envelope_id b, b_branch_lease_id b, b_lineage_id b]) (\<lambda>_.
    rbind (require_warden_id (b_issuer_warden b)) (\<lambda>_.
    rbind (require_key_id (b_key_id b)) (\<lambda>_.
    rbind (positive False (b_config_epoch b)) (\<lambda>_.
    rbind (positive False (b_epoch b)) (\<lambda>_.
    rbind (positive True (b_issued_at_ns b)) (\<lambda>_.
    if b_reason b = [] \<or> length (b_reason b) > 1000 then Inl ValidationError
    else Inr b))))))"

definition BranchRevocation_unsigned_payload :: "BranchRevocation \<Rightarrow> wire_dict" where
  "BranchRevocation_unsigned_payload b =
   [(''type'', JStr ''lets.branch-revocation/v1''),
    (''tenant_id'', JStr (b_tenant_id b)),
    (''envelope_id'', JStr (b_envelope_id b)),
    (''config_epoch'', JInt (b_config_epoch b)),
    (''branch_lease_id'', JStr (b_branch_lease_id b)),
    (''lineage_id'', JStr (b_lineage_id b)),
    (''epoch'', JInt (b_epoch b)),
    (''issuer_warden'', JStr (b_issuer_warden b)),
    (''issued_at_ns'', JInt (b_issued_at_ns b)),
    (''reason'', JStr (b_reason b)),
    (''key_id'', JStr (b_key_id b))]"

definition BranchRevocation_to_dict :: "BranchRevocation \<Rightarrow> wire_dict" where
  "BranchRevocation_to_dict b = BranchRevocation_unsigned_payload b @ [(''signature'', b_signature b)]"

definition BranchRevocation_fields :: "string list" where
  "BranchRevocation_fields =
   [''tenant_id'', ''envelope_id'', ''config_epoch'', ''branch_lease_id'', ''lineage_id'', ''epoch'',
    ''issuer_warden'', ''issued_at_ns'', ''reason'', ''key_id'', ''signature'', ''type'']"

text \<open>
  \<open>len(self.reason)\<close> after \<open>not self.reason\<close>: a non-string reason is not
  type-checked by the code; the annotated type is read here.
\<close>

definition BranchRevocation_from_dict :: "wire_dict \<Rightarrow> BranchRevocation res" where
  "BranchRevocation_from_dict data =
    rbind (strict_fields data BranchRevocation_fields BranchRevocation_fields) (\<lambda>_.
    if jget_null ''type'' data \<noteq> JStr ''lets.branch-revocation/v1'' then Inl ValidationError
    else rbind (str_field data ''tenant_id'') (\<lambda>tenant_id.
    rbind (str_field data ''envelope_id'') (\<lambda>envelope_id.
    rbind (int_field data ''config_epoch'') (\<lambda>config_epoch.
    rbind (str_field data ''branch_lease_id'') (\<lambda>branch_lease_id.
    rbind (str_field data ''lineage_id'') (\<lambda>lineage_id.
    rbind (int_field data ''epoch'') (\<lambda>epoch.
    rbind (str_field data ''issuer_warden'') (\<lambda>issuer_warden.
    rbind (int_field data ''issued_at_ns'') (\<lambda>issued_at_ns.
    rbind (str_field data ''reason'') (\<lambda>reason.
    rbind (str_field data ''key_id'') (\<lambda>key_id.
    rbind (jget ''signature'' data) (\<lambda>signature.
    BranchRevocation_post_init
      \<lparr>b_tenant_id = tenant_id, b_envelope_id = envelope_id, b_config_epoch = config_epoch,
       b_branch_lease_id = branch_lease_id, b_lineage_id = lineage_id, b_epoch = epoch,
       b_issuer_warden = issuer_warden, b_issued_at_ns = issued_at_ns, b_reason = reason,
       b_key_id = key_id, b_signature = signature\<rparr>))))))))))))"

record RuntimeStatus =
  rs_mode :: RuntimeMode
  rs_generation :: int
  rs_reason :: string
  rs_changed_at_ns :: int
  rs_changed_by :: string

definition RuntimeStatus_post_init :: "RuntimeStatus \<Rightarrow> RuntimeStatus res" where
  "RuntimeStatus_post_init s =
    rbind (positive True (rs_generation s)) (\<lambda>_.
    rbind (positive True (rs_changed_at_ns s)) (\<lambda>_.
    rbind (req_ids [rs_changed_by s]) (\<lambda>_.
    if \<not> (1 \<le> length (rs_reason s) \<and> length (rs_reason s) \<le> 2000) then Inl ValidationError
    else Inr s)))"

definition RuntimeStatus_to_dict :: "RuntimeStatus \<Rightarrow> wire_dict" where
  "RuntimeStatus_to_dict s =
   [(''mode'', JStr (mode_value (rs_mode s))),
    (''generation'', JInt (rs_generation s)),
    (''reason'', JStr (rs_reason s)),
    (''changed_at_ns'', JInt (rs_changed_at_ns s)),
    (''changed_by'', JStr (rs_changed_by s))]"

fun as_mode :: "json \<Rightarrow> RuntimeMode res" where
  "as_mode (JStr s) = (if s = ''ACTIVE'' then Inr RM_ACTIVE else if s = ''DRAINING'' then Inr RM_DRAINING
     else Inl ValueErr)"
| "as_mode _ = Inl ValueErr"

definition RuntimeStatus_from_dict :: "wire_dict \<Rightarrow> RuntimeStatus res" where
  "RuntimeStatus_from_dict value =
   (let fields = [''mode'', ''generation'', ''reason'', ''changed_at_ns'', ''changed_by''] in
    rbind (strict_fields value fields fields) (\<lambda>_.
    rbind (rbind (jget ''mode'' value) as_mode) (\<lambda>mode.
    rbind (int_field value ''generation'') (\<lambda>generation.
    rbind (str_field value ''reason'') (\<lambda>reason.
    rbind (int_field value ''changed_at_ns'') (\<lambda>changed_at_ns.
    rbind (str_field value ''changed_by'') (\<lambda>changed_by.
    RuntimeStatus_post_init
      \<lparr>rs_mode = mode, rs_generation = generation, rs_reason = reason,
       rs_changed_at_ns = changed_at_ns, rs_changed_by = changed_by\<rparr>)))))))"

record InvariantSnapshot =
  i_tenant_id :: string
  i_envelope_id :: string
  i_config_epoch :: int
  i_initial_share :: vec
  i_transferred_in :: vec
  i_transferred_out :: vec
  i_free_pool :: vec
  i_lease_residual :: vec
  i_consumed :: vec
  i_checked_at_ns :: int
  i_healthy :: bool

definition InvariantSnapshot_post_init :: "InvariantSnapshot \<Rightarrow> InvariantSnapshot res" where
  "InvariantSnapshot_post_init s =
    rbind (req_ids [i_tenant_id s, i_envelope_id s]) (\<lambda>_.
    rbind (positive False (i_config_epoch s)) (\<lambda>_.
    rbind (vector (i_initial_share s) None) (\<lambda>share.
    rbind (forM [i_initial_share s, i_transferred_in s, i_transferred_out s, i_free_pool s,
        i_lease_residual s, i_consumed s]
      (\<lambda>v. rbind (vector v (Some (length share))) (\<lambda>_. Inr ()))) (\<lambda>_.
    rbind (positive True (i_checked_at_ns s)) (\<lambda>_. Inr s)))))"

section \<open>Wire round trips\<close>

named_theorems wire_simps "reading back the fields of a wire dict"

lemma jget_Cons [wire_simps]: "jget k ((k', v) # d) = (if k = k' then Inr v else jget k d)"
  by (simp add: jget_def jlookup_def)

lemma jlookup_Cons [wire_simps]: "jlookup k ((k', v) # d) = (if k = k' then Some v else jlookup k d)"
  by (simp add: jlookup_def)

lemma jget_null_Cons [wire_simps]: "jget_null k ((k', v) # d) = (if k = k' then v else jget_null k d)"
  by (simp add: jget_null_def jlookup_def)

lemma jget_Nil [wire_simps]: "jget_null k [] = JNull" "jlookup k [] = None"
  by (simp_all add: jget_null_def jlookup_def)

lemma mapM_as_int [wire_simps]: "mapM as_int (map JInt v) = Inr v"
  by (rule mapM_map_Inr) simp

lemma mapM_as_str [wire_simps]: "mapM as_str (map JStr v) = Inr v"
  by (rule mapM_map_Inr) simp

lemma vector_of_jvec [wire_simps]: "vector_of_json (jvec v) = vector v None"
  by (simp add: vector_of_json_def jvec_def wire_simps)

lemma strings_jstrs [wire_simps]: "strings (jstrs xs) = (if [] \<in> set xs then Inl ValidationError else Inr xs)"
  by (auto simp: strings_def jstrs_def wire_simps list_ex_iff)

lemma as_opt_str_jopt [wire_simps]: "as_opt_str (jopt s) = Inr s"
  by (cases s) (simp_all add: jopt_def)

lemma status_of_value [wire_simps]: "status_of (status_value s) = Some s"
  by (cases s) (simp_all add: status_of_def)

lemma as_mode_value [wire_simps]: "as_mode (JStr (mode_value m)) = Inr m"
  by (cases m) simp_all

lemma positive_Inr [res_simps]: "positive z n = Inr m \<longleftrightarrow> m = n \<and> ok (positive z n)"
  by (auto simp: positive_def)

lemma ok_positive: "ok (positive z n) \<longleftrightarrow> 0 \<le> n \<and> n \<le> MAX_RESOURCE \<and> (z \<or> n \<noteq> 0)"
  by (auto simp: positive_def)

lemma req_ids_nonempty: "req_ids xs = Inr u \<Longrightarrow> [] \<notin> set xs"
  by (auto simp: req_ids_def res_simps require_identifier_def require_identifier_max_def)

lemma vector_same: "vector v None = Inr w \<Longrightarrow> w = v"
  by (simp add: vector_None_Inr_iff)

lemma LeaseGrant_post_init_id: "LeaseGrant_post_init g = Inr g' \<Longrightarrow> g' = g"
  by (auto simp: LeaseGrant_post_init_def res_simps)

lemma LeaseGrant_post_initD:
  assumes "LeaseGrant_post_init g = Inr g'"
  shows "vector (g_allocation g) None = Inr (g_allocation g)"
    and "[] \<notin> set (g_capabilities g)" and "[] \<notin> set (g_ancestor_path g)"
  using assms by (auto simp: LeaseGrant_post_init_def res_simps dest: req_ids_nonempty)

lemma LeaseGrant_from_to_dict:
  assumes "LeaseGrant_post_init g = Inr g'" "sorted (g_capabilities g)" "distinct (g_capabilities g)"
  shows "LeaseGrant_from_dict (LeaseGrant_to_dict g) = Inr g"
proof -
  have fields: "strict_fields (LeaseGrant_to_dict g) LeaseGrant_fields
      (filter (\<lambda>k. k \<noteq> ''parent_id'') LeaseGrant_fields) = Inr ()"
    by (simp add: strict_fields_def LeaseGrant_fields_def LeaseGrant_to_dict_def
        LeaseGrant_unsigned_payload_def)
  have sorts: "sort (g_capabilities g) = g_capabilities g" "frozenset (g_capabilities g) = g_capabilities g"
    using assms(2,3) by (simp_all add: sort_key_id_if_sorted frozenset_idem)
  have "LeaseGrant_from_dict (LeaseGrant_to_dict g) = LeaseGrant_post_init g"
    unfolding LeaseGrant_from_dict_def fields
    by (simp add: LeaseGrant_to_dict_def LeaseGrant_unsigned_payload_def wire_simps str_field_def
        int_field_def LeaseGrant_post_initD [OF assms(1)] sorts, cases g, simp)
  then show ?thesis using assms(1) LeaseGrant_post_init_id by auto
qed

lemma LeaseSnapshot_from_to_dict:
  assumes "LeaseSnapshot_post_init s = Inr s'" "LeaseGrant_from_dict (LeaseGrant_to_dict (s_grant s)) = Inr (s_grant s)"
  shows "LeaseSnapshot_from_dict (LeaseSnapshot_to_dict s) = Inr s"
proof -
  have v: "vector (s_residual s) None = Inr (s_residual s)" and s': "s' = s"
    using assms(1) by (auto simp: LeaseSnapshot_post_init_def res_simps wf_vec_def)
  have "LeaseSnapshot_from_dict (LeaseSnapshot_to_dict s) = LeaseSnapshot_post_init s"
    by (simp add: LeaseSnapshot_from_dict_def LeaseSnapshot_to_dict_def strict_fields_def wire_simps
        str_field_def int_field_def assms(2) v, cases s, simp)
  then show ?thesis using assms(1) s' by simp
qed

lemma Receipt_post_initD:
  assumes "Receipt_post_init r = Inr r'"
  shows "vector (r_cost r) None = Inr (r_cost r)" "r' = r"
  using assms by (auto simp: Receipt_post_init_def res_simps)

lemma Receipt_from_to_dict:
  assumes "Receipt_post_init r = Inr r'"
  shows "Receipt_from_dict (Receipt_to_dict r) = Inr r"
proof -
  have fields: "strict_fields (Receipt_to_dict r) Receipt_fields Receipt_fields = Inr ()"
    by (simp add: strict_fields_def Receipt_fields_def Receipt_to_dict_def Receipt_unsigned_payload_def)
  have "Receipt_from_dict (Receipt_to_dict r) = Receipt_post_init r"
    unfolding Receipt_from_dict_def fields
    by (simp add: Receipt_to_dict_def Receipt_unsigned_payload_def wire_simps str_field_def
        int_field_def Receipt_post_initD [OF assms], cases r, simp)
  then show ?thesis using assms Receipt_post_initD(2) by auto
qed

lemma validate_lease_request_idem:
  assumes "validate_lease_request j = Inr q"
  shows "validate_lease_request (JObj (LeaseRequest_to_dict q)) = Inr q"
proof -
  have s: "strings v = Inr xs \<Longrightarrow> [] \<notin> set xs" for v xs
    by (cases v) (auto simp: strings_def res_simps list_ex_iff)
  show ?thesis
    using assms by (auto simp: validate_lease_request_def res_simps LeaseRequest_to_dict_def
        strict_fields_def LEASE_REQUEST_FIELDS_def wire_simps str_field_def int_field_def sort_key_id_if_sorted dest!: s)
qed

lemma voucher_base_checks_id:
  assumes "voucher_base_checks v = Inr w"
  shows "w = v" "vector (v_amount v) None = Inr (v_amount v)"
  using assms by (auto simp: voucher_base_checks_def res_simps)

lemma TransferVoucher_from_to_dict:
  assumes "TransferVoucher_post_init v = Inr v"
  shows "TransferVoucher_from_dict (TransferVoucher_to_dict v) = Inr v"
proof -
  let ?d = "TransferVoucher_to_dict v"
  let ?base = "v\<lparr>v_kind := TRANSFER_KIND_POOL, v_lease_request := None\<rparr>"
  obtain k q where base: "voucher_base_checks v = Inr v"
    and kind: "voucher_kind_checks (JStr (v_kind v)) (lease_request_json (v_lease_request v)) = Inr (k, q)"
    and kq: "v\<lparr>v_kind := k, v_lease_request := q\<rparr> = v"
    using assms voucher_base_checks_id(1) by (fastforce simp: TransferVoucher_post_init_def res_simps)
  have k: "k = v_kind v" "q = v_lease_request v"
    using arg_cong [OF kq, of v_kind] arg_cong [OF kq, of v_lease_request] by simp_all
  have base': "voucher_base_checks ?base = Inr ?base"
    using base by (auto simp: voucher_base_checks_def res_simps)
  have fields: "strict_fields ?d TransferVoucher_fields
      (filter (\<lambda>k. k \<noteq> ''kind'' \<and> k \<noteq> ''lease_request'') TransferVoucher_fields) = Inr ()"
    by (simp add: strict_fields_def TransferVoucher_fields_def TransferVoucher_to_dict_def
        TransferVoucher_unsigned_payload_def)
  have kinds: "(case jlookup ''kind'' ?d of None \<Rightarrow> JStr TRANSFER_KIND_POOL | Some k \<Rightarrow> k) = JStr (v_kind v)"
    "jget_null ''lease_request'' ?d = lease_request_json (v_lease_request v)"
    using kind k by (auto simp: TransferVoucher_to_dict_def TransferVoucher_unsigned_payload_def wire_simps
        voucher_kind_checks_def TRANSFER_KIND_POOL_def TRANSFER_KIND_LEASE_def lease_request_json_def
        res_simps split: if_splits) metis
  have "TransferVoucher_from_dict ?d =
      rbind (voucher_base_checks ?base) (\<lambda>w.
      rbind (voucher_kind_checks (JStr (v_kind v)) (lease_request_json (v_lease_request v))) (\<lambda>(k, q).
        Inr (w\<lparr>v_kind := k, v_lease_request := q\<rparr>)))"
    unfolding TransferVoucher_from_dict_def fields kinds
    by (simp add: TransferVoucher_to_dict_def TransferVoucher_unsigned_payload_def wire_simps str_field_def
        int_field_def voucher_base_checks_id(2) [OF base], cases v, simp)
  also have "\<dots> = Inr v"
    by (simp add: base' kind kq)
  finally show ?thesis .
qed

lemma TransferAck_from_to_dict:
  assumes "TransferAck_post_init a = Inr a"
  shows "TransferAck_from_dict (TransferAck_to_dict a) = Inr a"
proof -
  let ?d = "TransferAck_to_dict a"
  let ?base = "a\<lparr>a_child_lease_id := None, a_child_outcome := None\<rparr>"
  obtain c out where base: "ack_base_checks a = Inr a"
    and child: "ack_child_checks (jopt (a_child_lease_id a)) (jopt (a_child_outcome a)) = Inr (c, out)"
    and co: "a\<lparr>a_child_lease_id := c, a_child_outcome := out\<rparr> = a"
    using assms by (auto simp: TransferAck_post_init_def ack_base_checks_def res_simps)
  have c: "c = a_child_lease_id a" "out = a_child_outcome a"
    using arg_cong [OF co, of a_child_lease_id] arg_cong [OF co, of a_child_outcome] by simp_all
  have base': "ack_base_checks ?base = Inr ?base"
    using base by (auto simp: ack_base_checks_def res_simps)
  have fields: "strict_fields ?d TransferAck_fields
      (filter (\<lambda>k. k \<noteq> ''child_lease_id'' \<and> k \<noteq> ''child_outcome'') TransferAck_fields) = Inr ()"
    by (simp add: strict_fields_def TransferAck_fields_def TransferAck_to_dict_def
        TransferAck_unsigned_payload_def split: option.split)
  have kids: "jget_null ''child_lease_id'' ?d = jopt (a_child_lease_id a)"
    "jget_null ''child_outcome'' ?d = jopt (a_child_outcome a)"
    using child c by (auto simp: TransferAck_to_dict_def TransferAck_unsigned_payload_def wire_simps
        ack_child_checks_def jopt_def res_simps split: option.splits if_splits)
  have sig: "jget ''signature'' ?d = Inr (a_signature a)"
    by (simp add: TransferAck_to_dict_def TransferAck_unsigned_payload_def wire_simps split: option.split)
  have "TransferAck_from_dict ?d =
      rbind (ack_base_checks ?base) (\<lambda>b.
      rbind (ack_child_checks (jopt (a_child_lease_id a)) (jopt (a_child_outcome a))) (\<lambda>(c, out).
        Inr (b\<lparr>a_child_lease_id := c, a_child_outcome := out\<rparr>)))"
    unfolding TransferAck_from_dict_def fields kids sig
    by (simp add: TransferAck_to_dict_def TransferAck_unsigned_payload_def wire_simps str_field_def
        int_field_def, cases a, simp)
  also have "\<dots> = Inr a"
    by (simp add: base' child co)
  finally show ?thesis .
qed

lemma BranchRevocation_from_to_dict:
  assumes "BranchRevocation_post_init b = Inr b'"
  shows "BranchRevocation_from_dict (BranchRevocation_to_dict b) = Inr b"
proof -
  have "b' = b" using assms by (auto simp: BranchRevocation_post_init_def res_simps)
  moreover have "BranchRevocation_from_dict (BranchRevocation_to_dict b) = BranchRevocation_post_init b"
    by (simp add: BranchRevocation_from_dict_def BranchRevocation_to_dict_def BranchRevocation_fields_def
        BranchRevocation_unsigned_payload_def strict_fields_def wire_simps str_field_def int_field_def,
        cases b, simp)
  ultimately show ?thesis using assms by simp
qed

lemma RuntimeStatus_from_to_dict:
  assumes "RuntimeStatus_post_init s = Inr s'"
  shows "RuntimeStatus_from_dict (RuntimeStatus_to_dict s) = Inr s"
proof -
  have "s' = s" using assms by (auto simp: RuntimeStatus_post_init_def res_simps)
  moreover have "RuntimeStatus_from_dict (RuntimeStatus_to_dict s) = RuntimeStatus_post_init s"
    by (simp add: RuntimeStatus_from_dict_def RuntimeStatus_to_dict_def strict_fields_def wire_simps
        str_field_def int_field_def del: as_mode.simps, cases s, simp)
  ultimately show ?thesis using assms by simp
qed

end
