(* ===== verification/Store.thy ===== *)
theory Store
  imports Models
begin

text \<open>
  The warden's SQLite database: the tables of src/src/lets/storage/schema.py that
  the modelled operations read or write, with the CHECK constraints, unique
  indexes, foreign keys and triggers that govern them, and the commit of
  src/src/lets/storage/sqlite.py.

  The database holds at most one envelope (its singleton column), so the
  tenant_id and envelope_id columns, the same in every row, are dropped.  A
  vector column holds the vector itself (\<open>pack\<close> and \<open>unpack\<close> are inverse),
  a canonical-JSON column the JSON value.  A statement that violates a
  constraint or whose trigger aborts returns \<open>Inl IntegrityError\<close>.
\<close>

section \<open>Rows\<close>

record envelope_row =
  e_tenant_id :: string
  e_envelope_id :: string
  e_config_epoch :: int
  e_dimension_count :: nat
  e_dimension_metadata :: json
  e_budget :: vec
  e_initial_local_share :: vec
  e_receipt_ttl_ns :: int
  e_max_clock_uncertainty_ns :: int
  e_transfer_gap_window :: int
  e_config_json :: wire_dict
  e_created_at_ns :: int

record warden_state_row =
  w_free_pool :: vec
  w_lease_residual :: vec
  w_consumed :: vec
  w_transferred_in :: vec
  w_transferred_out :: vec
  w_clock_floor_ns :: "int option"
  w_revision :: int
  w_updated_at_ns :: int

record policy_row =
  p_policy_version :: string
  p_policy_digest :: string
  p_machine_digest :: string
  p_payload :: wire_dict
  p_active :: bool
  p_created_at_ns :: int

record lease_row =
  l_lease_id :: string
  l_lineage_id :: string
  l_parent_id :: "string option"
  l_subject_id :: string
  l_warden_id :: string
  l_allocation :: vec
  l_residual :: vec
  l_capabilities :: "string list"
  l_machine_digest :: string
  l_ancestor_path :: "string list"
  l_branch_epoch :: int
  l_config_epoch :: int
  l_issued_at_ns :: int
  l_expires_at_ns :: int
  l_key_id :: string
  l_signature :: "byte list"
  l_state :: string
  l_status :: LeaseStatus
  l_sequence :: int
  l_policy_version :: string
  l_policy_digest :: string
  l_created_at_ns :: int
  l_updated_at_ns :: int
  l_parent_warden :: "string option"
  l_remote_parent_id :: "string option"

record idempotency_row =
  i_scope :: string
  i_request_id :: string
  i_fingerprint :: string
  i_response :: wire_dict
  i_status_code :: int
  i_created_at_ns :: int

text \<open>The receipts table stores the receipt's columns and its canonical JSON.\<close>

record receipt_row =
  rr_receipt :: Receipt
  rr_signature :: "byte list"

record revocation_row =
  v_rev :: BranchRevocation
  v_rev_observed_at_ns :: int
  v_rev_signature :: "byte list"

record audit_row =
  au_sequence :: int
  au_event_type :: string
  au_entity_type :: "string option"
  au_entity_id :: "string option"
  au_payload :: "byte list"
  au_previous_hash :: "byte list"
  au_event_hash :: "byte list"
  au_created_at_ns :: int

record outbox_row =
  ob_sequence :: int
  ob_event_hash :: "byte list"
  ob_payload :: "byte list"
  ob_created_at_ns :: int

datatype TransferState = TS_PREPARED | TS_ACCEPTED | TS_FINALIZED | TS_ACKNOWLEDGED | TS_CANCELLED

record out_stream_row =
  os_target_warden :: string
  os_config_epoch :: int
  os_next_sequence :: int
  os_acked_through :: int
  os_compacted_through :: int
  os_checkpoint_payload :: "wire_dict option"
  os_updated_at_ns :: int

record out_transfer_row =
  ot_voucher :: TransferVoucher
  ot_digest :: string
  ot_status :: TransferState
  ot_prepared_at_ns :: int
  ot_acknowledged_at_ns :: "int option"
  ot_ack_payload :: "TransferAck option"
  ot_child_lease_id :: "string option"

record in_stream_row =
  is_source_warden :: string
  is_config_epoch :: int
  is_contiguous_through :: int
  is_highest_seen :: int
  is_compacted_through :: int
  is_checkpoint_payload :: "wire_dict option"
  is_updated_at_ns :: int

record in_ack_row =
  ia_ack :: TransferAck
  ia_signature :: "byte list"

record peer_delivery_row =
  pd_record_kind :: string
  pd_record_id :: string
  pd_target_warden :: string
  pd_ordering_key :: string
  pd_stream_position :: int
  pd_payload :: wire_dict
  pd_created_at_ns :: int
  pd_delivered_at_ns :: "int option"
  pd_superseded_at_ns :: "int option"
  pd_last_error :: "string option"

record peer_counter_row =
  pc_record_kind :: string
  pc_target_warden :: string
  pc_delivered_count :: int
  pc_superseded_count :: int
  pc_last_terminal_ns :: int

datatype RemoteChildStatus = RC_PENDING | RC_ACTIVE | RC_FENCED | RC_TERMINATED

record remote_child_row =
  rc_child_lease_id :: string
  rc_parent_id :: string
  rc_target_warden :: string
  rc_transfer_id :: string
  rc_sequence :: int
  rc_allocation :: vec
  rc_expires_at_ns :: int
  rc_status :: RemoteChildStatus
  rc_observed_status :: "string option"
  rc_created_at_ns :: int
  rc_updated_at_ns :: int

record db =
  db_warden_id :: string
  db_signing_key_id :: string
  db_signing_public_key_sha256 :: "byte list"
  db_envelope :: "envelope_row option"
  db_warden_state :: "warden_state_row option"
  db_runtime :: RuntimeStatus
  db_policies :: "policy_row list"
  db_leases :: "lease_row list"
  db_idempotency :: "idempotency_row list"
  db_receipts :: "receipt_row list"
  db_revocations :: "revocation_row list"
  db_out_streams :: "out_stream_row list"
  db_out_transfers :: "out_transfer_row list"
  db_in_streams :: "in_stream_row list"
  db_in_gaps :: "(string \<times> int) list"
  db_in_acks :: "in_ack_row list"
  db_audit :: "audit_row list"
  db_outbox :: "outbox_row list"
  db_peer_delivery :: "peer_delivery_row list"
  db_peer_counters :: "peer_counter_row list"
  db_remote_children :: "remote_child_row list"

type_synonym 'a tx = "db \<Rightarrow> (db \<times> 'a) res"

section \<open>Constraint helpers\<close>

definition text_ok :: "string \<Rightarrow> bool" where
  "text_ok s = (1 \<le> length s \<and> length s \<le> 512)"

definition opt_text_ok :: "string option \<Rightarrow> bool" where
  "opt_text_ok s = (case s of None \<Rightarrow> True | Some x \<Rightarrow> text_ok x)"

definition env_dim :: "db \<Rightarrow> nat" where
  "env_dim db = (case db_envelope db of None \<Rightarrow> 0 | Some e \<Rightarrow> e_dimension_count e)"

definition env_epoch :: "db \<Rightarrow> int" where
  "env_epoch db = (case db_envelope db of None \<Rightarrow> 0 | Some e \<Rightarrow> e_config_epoch e)"

text \<open>
  lets_vector_add and lets_vector_subtract of sqlite.py return NULL when the
  checked operation raises.
\<close>

definition sqlite_vector_add :: "vec \<Rightarrow> vec \<Rightarrow> vec option" where
  "sqlite_vector_add left right =
    (case rbind (add left right) (\<lambda>v. rbind (pack v) (\<lambda>_. Inr v)) of Inl _ \<Rightarrow> None | Inr v \<Rightarrow> Some v)"

definition sqlite_vector_subtract :: "vec \<Rightarrow> vec \<Rightarrow> vec option" where
  "sqlite_vector_subtract left right =
    (case rbind (subtract left right) (\<lambda>v. rbind (pack v) (\<lambda>_. Inr v)) of Inl _ \<Rightarrow> None | Inr v \<Rightarrow> Some v)"

definition packed :: "vec \<Rightarrow> vec res" where
  "packed v = rbind (pack v) (\<lambda>_. Inr v)"

section \<open>warden_state\<close>

definition warden_state_checks :: "db \<Rightarrow> warden_state_row \<Rightarrow> bool" where
  "warden_state_checks db w =
    (list_all (\<lambda>v. wf_vec (env_dim db) v)
       [w_free_pool w, w_lease_residual w, w_consumed w, w_transferred_in w, w_transferred_out w]
     \<and> (case w_clock_floor_ns w of None \<Rightarrow> True | Some f \<Rightarrow> 0 \<le> f)
     \<and> 0 \<le> w_revision w \<and> 0 \<le> w_updated_at_ns w)"

definition insert_warden_state :: "warden_state_row \<Rightarrow> db \<Rightarrow> db res" where
  "insert_warden_state w db =
    (if db_warden_state db \<noteq> None \<or> db_envelope db = None then Inl IntegrityError
     else if \<not> warden_state_checks db w then Inl IntegrityError
     else Inr (db\<lparr>db_warden_state := Some w\<rparr>))"

definition clock_floor_monotonic :: "int option \<Rightarrow> int option \<Rightarrow> bool" where
  "clock_floor_monotonic old new =
    (case old of None \<Rightarrow> True | Some o' \<Rightarrow> (case new of None \<Rightarrow> False | Some n \<Rightarrow> o' \<le> n))"

definition update_warden_state :: "(warden_state_row \<Rightarrow> warden_state_row) \<Rightarrow> db \<Rightarrow> db res" where
  "update_warden_state f db =
    (case db_warden_state db of
       None \<Rightarrow> Inr db
     | Some w \<Rightarrow>
         let w' = f w in
         if \<not> clock_floor_monotonic (w_clock_floor_ns w) (w_clock_floor_ns w') then Inl IntegrityError
         else if \<not> warden_state_checks db w' then Inl IntegrityError
         else Inr (db\<lparr>db_warden_state := Some w'\<rparr>))"

section \<open>leases\<close>

definition lease_checks :: "db \<Rightarrow> lease_row \<Rightarrow> bool" where
  "lease_checks db r =
    (list_all text_ok [l_lease_id r, l_lineage_id r, l_subject_id r, l_warden_id r, l_machine_digest r,
        l_key_id r, l_state r, l_policy_version r, l_policy_digest r]
     \<and> list_all opt_text_ok [l_parent_id r, l_parent_warden r, l_remote_parent_id r]
     \<and> wf_vec (length (l_allocation r)) (l_allocation r) \<and> wf_vec (length (l_residual r)) (l_residual r)
     \<and> 0 \<le> l_branch_epoch r \<and> 1 \<le> l_config_epoch r \<and> 0 \<le> l_issued_at_ns r
     \<and> l_issued_at_ns r \<le> l_expires_at_ns r \<and> l_signature r \<noteq> [] \<and> 0 \<le> l_sequence r
     \<and> 0 \<le> l_created_at_ns r \<and> l_created_at_ns r \<le> l_updated_at_ns r)"

definition leases_vectors_insert :: "db \<Rightarrow> lease_row \<Rightarrow> bool" where
  "leases_vectors_insert db r =
    (length (l_allocation r) = env_dim db \<and> length (l_residual r) = env_dim db
     \<and> l_warden_id r = db_warden_id db \<and> l_config_epoch r = env_epoch db)"

definition leases_remote_parent_consistent :: "lease_row \<Rightarrow> bool" where
  "leases_remote_parent_consistent r =
    ((l_parent_warden r = None) = (l_remote_parent_id r = None)
     \<and> \<not> (l_remote_parent_id r \<noteq> None \<and> l_parent_id r \<noteq> None)
     \<and> l_parent_warden r \<noteq> Some (l_warden_id r))"

text \<open>The trigger leases_residual_total_insert: a NULL sum violates NOT NULL.\<close>

definition leases_residual_total_insert :: "lease_row \<Rightarrow> db \<Rightarrow> db res" where
  "leases_residual_total_insert r db =
    (case db_warden_state db of None \<Rightarrow> Inr db
     | Some w \<Rightarrow> (case sqlite_vector_add (w_lease_residual w) (l_residual r) of
         None \<Rightarrow> Inl IntegrityError
       | Some v \<Rightarrow> update_warden_state (\<lambda>w. w\<lparr>w_lease_residual := v\<rparr>) db))"

definition leases_residual_total_update :: "vec \<Rightarrow> vec \<Rightarrow> db \<Rightarrow> db res" where
  "leases_residual_total_update old new db =
    (case db_warden_state db of None \<Rightarrow> Inr db
     | Some w \<Rightarrow> (case sqlite_vector_subtract (w_lease_residual w) old of
         None \<Rightarrow> Inl IntegrityError
       | Some u \<Rightarrow> (case sqlite_vector_add u new of
           None \<Rightarrow> Inl IntegrityError
         | Some v \<Rightarrow> update_warden_state (\<lambda>w. w\<lparr>w_lease_residual := v\<rparr>) db)))"

definition policy_exists :: "db \<Rightarrow> string \<Rightarrow> string \<Rightarrow> bool" where
  "policy_exists db version digest =
    list_ex (\<lambda>p. p_policy_version p = version \<and> p_policy_digest p = digest) (db_policies db)"

definition insert_lease_row :: "lease_row \<Rightarrow> db \<Rightarrow> db res" where
  "insert_lease_row r db =
    (if \<not> leases_vectors_insert db r \<or> \<not> leases_remote_parent_consistent r \<or> \<not> lease_checks db r
        \<or> \<not> policy_exists db (l_policy_version r) (l_policy_digest r) then Inl IntegrityError
     else rbind (tinsert l_lease_id r (db_leases db)) (\<lambda>rows.
       leases_residual_total_insert r (db\<lparr>db_leases := rows\<rparr>)))"

text \<open>
  UPDATE leases of columns other than the residual, and of the residual, which
  fires leases_vectors_update and leases_residual_total_update.  An update of
  an absent lease changes no row.
\<close>

definition update_lease :: "string \<Rightarrow> (lease_row \<Rightarrow> lease_row) \<Rightarrow> db \<Rightarrow> db res" where
  "update_lease lease_id f db =
    (case tfind l_lease_id lease_id (db_leases db) of
       None \<Rightarrow> Inr db
     | Some r \<Rightarrow>
         if \<not> lease_checks db (f r) then Inl IntegrityError
         else Inr (db\<lparr>db_leases := tupdate l_lease_id lease_id f (db_leases db)\<rparr>))"

definition update_lease_residual :: "string \<Rightarrow> (lease_row \<Rightarrow> lease_row) \<Rightarrow> db \<Rightarrow> db res" where
  "update_lease_residual lease_id f db =
    (case tfind l_lease_id lease_id (db_leases db) of
       None \<Rightarrow> Inr db
     | Some r \<Rightarrow>
         if length (l_residual (f r)) \<noteq> env_dim db \<or> \<not> lease_checks db (f r) then Inl IntegrityError
         else leases_residual_total_update (l_residual r) (l_residual (f r))
           (db\<lparr>db_leases := tupdate l_lease_id lease_id f (db_leases db)\<rparr>))"

section \<open>The other tables\<close>

definition insert_idempotency :: "idempotency_row \<Rightarrow> db \<Rightarrow> db res" where
  "insert_idempotency r db =
    (if db_envelope db = None \<or> \<not> text_ok (i_scope r) \<or> \<not> text_ok (i_request_id r) \<or> i_fingerprint r = []
        \<or> \<not> (100 \<le> i_status_code r \<and> i_status_code r \<le> 599) \<or> i_created_at_ns r < 0
     then Inl IntegrityError
     else rbind (tinsert i_request_id r (db_idempotency db)) (\<lambda>rows.
       Inr (db\<lparr>db_idempotency := rows\<rparr>)))"

definition receipts_expiry_monotonic :: "db \<Rightarrow> Receipt \<Rightarrow> bool" where
  "receipts_expiry_monotonic db n =
    (\<not> list_ex (\<lambda>x. let o' = rr_receipt x in
         r_lease_id o' = r_lease_id n \<and> r_executor_audience o' = r_executor_audience n
         \<and> r_resulting_sequence o' < r_resulting_sequence n \<and> r_expires_at_ns o' > r_expires_at_ns n)
       (db_receipts db)
     \<and> \<not> list_ex (\<lambda>x. let o' = rr_receipt x in
         r_lease_id o' = r_lease_id n \<and> r_executor_audience o' = r_executor_audience n
         \<and> r_resulting_sequence o' > r_resulting_sequence n \<and> r_expires_at_ns o' < r_expires_at_ns n)
       (db_receipts db))"

definition insert_receipt :: "receipt_row \<Rightarrow> db \<Rightarrow> db res" where
  "insert_receipt x db =
    (let r = rr_receipt x in
     if length (r_cost r) \<noteq> env_dim db \<or> r_warden_id r \<noteq> db_warden_id db
        \<or> r_config_epoch r \<noteq> env_epoch db \<or> \<not> receipts_expiry_monotonic db r
        \<or> rr_signature x = [] \<or> \<not> wf_vec (length (r_cost r)) (r_cost r) \<or> r_resulting_sequence r \<le> 0
        \<or> r_issued_at_ns r < 0 \<or> r_expires_at_ns r < r_issued_at_ns r
        \<or> \<not> policy_exists db (r_policy_version r) (r_policy_digest r)
        \<or> tfind l_lease_id (r_lease_id r) (db_leases db) = None
        \<or> list_ex (\<lambda>y. r_lease_id (rr_receipt y) = r_lease_id r
             \<and> r_resulting_sequence (rr_receipt y) = r_resulting_sequence r) (db_receipts db)
     then Inl IntegrityError
     else rbind (tinsert (\<lambda>y. r_receipt_id (rr_receipt y)) x (db_receipts db)) (\<lambda>rows.
       Inr (db\<lparr>db_receipts := rows\<rparr>)))"

definition audit_event_hash :: "(byte list \<Rightarrow> byte list) \<Rightarrow> byte list \<Rightarrow> int \<Rightarrow> string \<Rightarrow> string option
    \<Rightarrow> string option \<Rightarrow> byte list \<Rightarrow> int \<Rightarrow> byte list" where
  "audit_event_hash sha256 previous_hash sequence event_type entity_type entity_id payload created_at_ns =
    (let framed = (\<lambda>value :: byte list. be_encode 8 (int (length value)) @ value);
         or_empty = (\<lambda>x. case x of None \<Rightarrow> [] | Some s \<Rightarrow> s) in
     sha256 (utf8 ''LETS-AUDIT-v1'' @ [0] @ previous_hash @ be_encode 8 sequence @ be_encode 8 created_at_ns
       @ framed (utf8 event_type) @ framed (utf8 (or_empty entity_type)) @ framed (utf8 (or_empty entity_id))
       @ framed payload))"

definition zero_hash :: "byte list" where
  "zero_hash = replicate 32 0"

definition audit_head :: "db \<Rightarrow> audit_row option" where
  "audit_head db = (case db_audit db of [] \<Rightarrow> None | rows \<Rightarrow> Some (last rows))"

text \<open>The trigger audit_log_monotonic; the table is append-only, so its last row is the head.\<close>

definition insert_audit :: "(byte list \<Rightarrow> byte list) \<Rightarrow> audit_row \<Rightarrow> db \<Rightarrow> db res" where
  "insert_audit sha256 r db =
    (let (next, previous) = (case audit_head db of None \<Rightarrow> (0, zero_hash)
        | Some h \<Rightarrow> (au_sequence h + 1, au_event_hash h)) in
     if db_envelope db = None \<or> au_sequence r \<noteq> next \<or> au_previous_hash r \<noteq> previous
        \<or> \<not> text_ok (au_event_type r) \<or> \<not> opt_text_ok (au_entity_type r) \<or> \<not> opt_text_ok (au_entity_id r)
        \<or> length (au_previous_hash r) \<noteq> 32 \<or> length (au_event_hash r) \<noteq> 32
        \<or> au_event_hash r \<noteq> audit_event_hash sha256 (au_previous_hash r) (au_sequence r) (au_event_type r)
             (au_entity_type r) (au_entity_id r) (au_payload r) (au_created_at_ns r)
        \<or> au_created_at_ns r < 0
        \<or> list_ex (\<lambda>y. au_event_hash y = au_event_hash r) (db_audit db)
     then Inl IntegrityError
     else Inr (db\<lparr>db_audit := db_audit db @ [r]\<rparr>))"

definition insert_outbox :: "outbox_row \<Rightarrow> db \<Rightarrow> db res" where
  "insert_outbox r db =
    (if length (ob_event_hash r) \<noteq> 32 \<or> ob_created_at_ns r < 0 then Inl IntegrityError
     else rbind (tinsert ob_sequence r (db_outbox db)) (\<lambda>rows. Inr (db\<lparr>db_outbox := rows\<rparr>)))"

end
