(* ===== verification/Warden.thy ===== *)
theory Warden
  imports Store
begin

text \<open>
  The shared helpers of WardenService in src/src/lets/service.py: identity binding,
  the durable clock check, signing and verification, policies, idempotency,
  the audit log, lease rows and revoked paths.

  \<open>svc\<close> is the service object with everything it takes from outside the
  repository's source: the Ed25519 signer, the trust registry, sha256, the
  evidence evaluator, the resolver of remote leases, the store's capacity
  decision, and for one call the clock's reading and the uuid4 values it draws.
\<close>

section \<open>The service object\<close>

record svc =
  sv_warden_id :: string
  sv_key_id :: string
  sv_public_key :: "byte list"
  sv_sign :: "byte list \<Rightarrow> byte list"
  sv_verify :: "byte list \<Rightarrow> byte list \<Rightarrow> bool"
  sv_trust :: "(string \<Rightarrow> string \<Rightarrow> byte list \<Rightarrow> byte list \<Rightarrow> bool) option"
  sv_trust_current :: "string \<Rightarrow> unit res"
  sv_sha256 :: "byte list \<Rightarrow> byte list"
  sv_evidence :: "json \<Rightarrow> wire_dict option \<Rightarrow> int \<Rightarrow> string \<Rightarrow> string \<Rightarrow> bool res"
  sv_signing_key_validity :: "(int option \<times> int option) option"
  sv_allowed_peer_wardens :: "string list option"
  sv_remote_lease_resolver :: "(string \<Rightarrow> string \<Rightarrow> wire_dict option) option"
  sv_capacity :: bool
  sv_recovery_capacity :: bool
  sv_now_ns :: int
  sv_uncertainty_ns :: int
  sv_uuid :: "nat \<Rightarrow> string"

definition ADMIN_SCOPES :: "string list" where
  "ADMIN_SCOPES = [''lets.admin'', ''lets.warden.admin'']"

definition ROOT_ISSUER_SCOPES :: "string list" where
  "ROOT_ISSUER_SCOPES = ADMIN_SCOPES @ [''lets.lease.issue'']"

definition SUBJECT_LIFECYCLE_SCOPES :: "string list" where
  "SUBJECT_LIFECYCLE_SCOPES = [''lets.admin'', ''lets.lease.manage'']"

definition MAINTENANCE_ROW_BATCH :: nat where
  "MAINTENANCE_ROW_BATCH = 64"

definition MAX_ATOMIC_CASCADE_DESCENDANTS :: nat where
  "MAX_ATOMIC_CASCADE_DESCENDANTS = 64"

text \<open>_ACTIONABLE and _LIVE; the model has no lease in status MIGRATING, which no code sets.\<close>

definition live_statuses :: "LeaseStatus list" where
  "live_statuses = [PROVISIONED, ACTIVE, QUIESCENT]"

section \<open>Identity\<close>

definition identity_fields :: "IdentityContext \<Rightarrow> (string \<times> string \<times> string list) res" where
  "identity_fields identity =
    rbind (require_identifier (id_tenant identity)) (\<lambda>tenant.
    rbind (require_identifier (id_subject identity)) (\<lambda>subject.
    rbind (mapM require_identifier (id_scopes identity)) (\<lambda>scopes.
    Inr (tenant, subject, scopes))))"

definition bind_tenant :: "IdentityContext \<Rightarrow> string \<Rightarrow> (string \<times> string list) res" where
  "bind_tenant identity tenant_id =
    rbind (identity_fields identity) (\<lambda>(identity_tenant, subject, scopes).
    rbind (require_identifier tenant_id) (\<lambda>_.
    if identity_tenant \<noteq> tenant_id then Inl PolicyError else Inr (subject, scopes)))"

definition has_scope :: "string list \<Rightarrow> string list \<Rightarrow> bool" where
  "has_scope scopes accepted = list_ex (\<lambda>s. List.member accepted s) scopes"

definition bind_subject :: "IdentityContext \<Rightarrow> string \<Rightarrow> string \<Rightarrow> string list \<Rightarrow> string res" where
  "bind_subject identity tenant_id subject_id administrative_scopes =
    rbind (bind_tenant identity tenant_id) (\<lambda>(actor, scopes).
    rbind (require_identifier subject_id) (\<lambda>_.
    if actor \<noteq> subject_id \<and> \<not> has_scope scopes administrative_scopes then Inl PolicyError
    else Inr actor))"

definition require_admin :: "IdentityContext \<Rightarrow> string \<Rightarrow> string res" where
  "require_admin identity tenant_id =
    rbind (bind_tenant identity tenant_id) (\<lambda>(actor, scopes).
    if \<not> has_scope scopes ADMIN_SCOPES then Inl PolicyError else Inr actor)"

section \<open>Runtime, envelope, database identity\<close>

definition runtime_status_row :: "db \<Rightarrow> RuntimeStatus res" where
  "runtime_status_row db = map_err (\<lambda>_. StorageError) (RuntimeStatus_post_init (db_runtime db))"

definition require_runtime_active :: "db \<Rightarrow> unit res" where
  "require_runtime_active db =
    rbind (runtime_status_row db) (\<lambda>status.
    if rs_mode status \<noteq> RM_ACTIVE then Inl DrainingError else Inr ())"

definition envelope_of :: "db \<Rightarrow> string \<Rightarrow> string \<Rightarrow> envelope_row res" where
  "envelope_of db tenant_id envelope_id =
    (case db_envelope db of None \<Rightarrow> Inl NotFoundError
     | Some e \<Rightarrow> if e_tenant_id e = tenant_id \<and> e_envelope_id e = envelope_id then Inr e
         else Inl NotFoundError)"

definition singleton_envelope :: "db \<Rightarrow> envelope_row res" where
  "singleton_envelope db = of_option NotFoundError (db_envelope db)"

text \<open>The store's metadata is the row of its envelope.\<close>

definition store_metadata :: "db \<Rightarrow> envelope_row res" where
  "store_metadata db = of_option StorageError (db_envelope db)"

definition verify_database_identity :: "svc \<Rightarrow> db \<Rightarrow> unit res" where
  "verify_database_identity sv db =
    (if db_warden_id db \<noteq> sv_warden_id sv then Inl ConflictError
     else if db_signing_key_id db \<noteq> sv_key_id sv then Inl ConflictError
     else if db_signing_public_key_sha256 db \<noteq> sv_sha256 sv (sv_public_key sv) then Inl ConflictError
     else Inr ())"

section \<open>The clock\<close>

definition require_signing_key_current :: "svc \<Rightarrow> unit res" where
  "require_signing_key_current sv =
    (case sv_signing_key_validity sv of
       None \<Rightarrow> Inr ()
     | Some (not_before_ns, not_after_ns) \<Rightarrow>
         if sv_now_ns sv < 0 \<or> sv_now_ns sv > MAX_RESOURCE \<or> sv_uncertainty_ns sv < 0
            \<or> sv_uncertainty_ns sv > MAX_RESOURCE \<or> sv_now_ns sv > MAX_RESOURCE - sv_uncertainty_ns sv
         then Inl ClockUncertainError
         else if (case not_before_ns of None \<Rightarrow> False | Some b \<Rightarrow> sv_now_ns sv - sv_uncertainty_ns sv < b)
         then Inl SignatureError
         else if (case not_after_ns of None \<Rightarrow> False | Some a \<Rightarrow> sv_now_ns sv + sv_uncertainty_ns sv \<ge> a)
         then Inl SignatureError
         else Inr ())"

text \<open>\<open>_clock_is_safe\<close>: the uncertainty and the database with its floor advanced.\<close>

definition clock_is_safe :: "svc \<Rightarrow> envelope_row \<Rightarrow> bool \<Rightarrow> db \<Rightarrow> (db \<times> int) res" where
  "clock_is_safe sv envelope advance_floor db =
    (let now_ns = sv_now_ns sv; uncertainty = sv_uncertainty_ns sv in
     if now_ns < 0 \<or> now_ns > MAX_RESOURCE then Inl ClockUncertainError
     else if uncertainty < 0 \<or> uncertainty > MAX_RESOURCE then Inl ClockUncertainError
     else if uncertainty > e_max_clock_uncertainty_ns envelope then Inl ClockUncertainError
     else if now_ns > MAX_RESOURCE - uncertainty then Inl ClockUncertainError
     else case db_warden_state db of
       None \<Rightarrow> Inl StorageError
     | Some w \<Rightarrow>
         if (case w_clock_floor_ns w of None \<Rightarrow> False | Some f \<Rightarrow> now_ns + uncertainty < f)
         then Inl ClockUncertainError
         else if advance_floor \<and> (case w_clock_floor_ns w of None \<Rightarrow> True | Some f \<Rightarrow> now_ns > f)
         then rbind (update_warden_state (\<lambda>w. w\<lparr>w_clock_floor_ns := Some now_ns\<rparr>) db) (\<lambda>db'.
           Inr (db', uncertainty))
         else Inr (db, uncertainty))"

section \<open>Signing and verification\<close>

definition sign_wire :: "svc \<Rightarrow> string \<Rightarrow> wire_dict \<Rightarrow> (byte list \<times> wire_dict) res" where
  "sign_wire sv kind payload =
    rbind (require_signing_key_current sv) (\<lambda>_.
    rbind (canonical_json (JObj [(''kind'', JStr kind), (''payload'', JObj payload)])) (\<lambda>message.
    let signature = sv_sign sv message in
    if signature = [] then Inl SignatureError
    else Inr (signature, filter (\<lambda>kv. fst kv \<noteq> ''key_id'' \<and> fst kv \<noteq> ''signature'') payload
      @ [(''key_id'', JStr (sv_key_id sv)), (''signature'', JStr (b64url_encode signature))])))"

definition sign_record :: "svc \<Rightarrow> wire_dict \<Rightarrow> string res" where
  "sign_record sv unsigned_payload =
    rbind (require_signing_key_current sv) (\<lambda>_.
    rbind (canonical_json (JObj unsigned_payload)) (\<lambda>message.
    let signature = sv_sign sv message in
    if signature = [] then Inl SignatureError else Inr (b64url_encode signature)))"

text \<open>
  Verification of a message: the local signer verifies its own key; every other
  key goes to the trust registry.  An exception of either is SignatureError.
\<close>

definition verify_message :: "svc \<Rightarrow> string \<Rightarrow> string \<Rightarrow> byte list \<Rightarrow> byte list \<Rightarrow> unit res" where
  "verify_message sv warden_id key_id message signature =
    (if warden_id = sv_warden_id sv \<and> key_id = sv_key_id sv
     then (if sv_verify sv message signature then Inr () else Inl SignatureError)
     else case sv_trust sv of
       None \<Rightarrow> Inl SignatureError
     | Some verify \<Rightarrow> if verify warden_id key_id message signature then Inr () else Inl SignatureError)"

definition decode_signature :: "json \<Rightarrow> byte list res" where
  "decode_signature j =
    (case j of JStr s \<Rightarrow> map_err (\<lambda>_. SignatureError) (b64url_decode s) | _ \<Rightarrow> Inl SignatureError)"

definition verify_record :: "svc \<Rightarrow> wire_dict \<Rightarrow> json \<Rightarrow> string \<Rightarrow> string \<Rightarrow> unit res" where
  "verify_record sv unsigned_payload signature key_id warden_id =
    rbind (decode_signature signature) (\<lambda>sig.
    rbind (canonical_json (JObj unsigned_payload)) (\<lambda>message.
    verify_message sv warden_id key_id message sig))"

definition verify_signed :: "svc \<Rightarrow> string \<Rightarrow> wire_dict \<Rightarrow> string \<Rightarrow> unit res" where
  "verify_signed sv kind wire warden_id =
    (case (jget_null ''key_id'' wire, jget_null ''signature'' wire) of
       (JStr key_id, JStr signature_text) \<Rightarrow>
         rbind (map_err (\<lambda>_. SignatureError) (b64url_decode signature_text)) (\<lambda>signature.
         let unsigned = filter (\<lambda>kv. fst kv \<noteq> ''signature'' \<and> fst kv \<noteq> ''key_id'') wire in
         rbind (canonical_json (JObj [(''kind'', JStr kind), (''payload'', JObj unsigned)])) (\<lambda>message.
         verify_message sv warden_id key_id message signature))
     | _ \<Rightarrow> Inl SignatureError)"

section \<open>Policies\<close>

definition machine_of :: "wire_dict \<Rightarrow> wire_dict res" where
  "machine_of payload =
    (case jlookup ''machine'' payload of
       None \<Rightarrow> Inr payload
     | Some (JObj machine) \<Rightarrow> Inr machine
     | Some _ \<Rightarrow> Inl ValidationError)"

definition initial_state_of :: "wire_dict \<Rightarrow> string res" where
  "initial_state_of payload =
    rbind (machine_of payload) (\<lambda>machine.
    case jget_null ''initial_state'' machine of
      JStr initial \<Rightarrow> require_identifier initial
    | _ \<Rightarrow> Inl ValidationError)"

text \<open>\<open>rule.get(a, rule.get(b))\<close>.\<close>

definition jget_alt :: "string \<Rightarrow> string \<Rightarrow> wire_dict \<Rightarrow> json" where
  "jget_alt a b d = (case jlookup a d of Some v \<Rightarrow> v | None \<Rightarrow> jget_null b d)"

definition transition_candidates :: "lets_error \<Rightarrow> wire_dict \<Rightarrow> json list res" where
  "transition_candidates err machine =
    (case jget_null ''transitions'' machine of
       JObj kvs \<Rightarrow> Inr (map snd kvs)
     | JArr xs \<Rightarrow> Inr xs
     | _ \<Rightarrow> Inl err)"

definition transition_matches :: "string \<Rightarrow> string \<Rightarrow> json \<Rightarrow> bool" where
  "transition_matches name state candidate =
    (case candidate of
       JObj c \<Rightarrow> jget_alt ''name'' ''transition'' c = JStr name
         \<and> jget_alt ''source'' ''source_state'' c = JStr state
     | _ \<Rightarrow> False)"

text \<open>
  \<open>_transition\<close>: the rule and its cost.  \<open>require_identifier\<close> of a target
  that is no string raises ValidationError.
\<close>

definition transition_of :: "wire_dict \<Rightarrow> string \<Rightarrow> string \<Rightarrow> nat \<Rightarrow> (wire_dict \<times> vec) res" where
  "transition_of payload state name dimensions =
    rbind (machine_of payload) (\<lambda>machine.
    rbind (transition_candidates PolicyError machine) (\<lambda>candidates.
    case filter (transition_matches name state) candidates of
      [JObj rule] \<Rightarrow>
        rbind (rbind (as_str (jget_alt ''target'' ''target_state'' rule)) require_identifier) (\<lambda>_.
        case jget_null ''cost'' rule of
          JArr items \<Rightarrow> rbind (mapM as_int items) (\<lambda>value.
            rbind (vector value (Some dimensions)) (\<lambda>cost. Inr (rule, cost)))
        | _ \<Rightarrow> Inl PolicyError)
    | _ \<Rightarrow> Inl PolicyError))"

definition policy_of :: "db \<Rightarrow> string \<Rightarrow> policy_row res" where
  "policy_of db policy_digest =
    of_option PolicyError (find (\<lambda>p. p_policy_digest p = policy_digest) (db_policies db))"

definition declared_capabilities :: "wire_dict \<Rightarrow> string list res" where
  "declared_capabilities policy =
    rbind (machine_of policy) (\<lambda>machine.
    rbind (transition_candidates StorageError machine) (\<lambda>candidates.
    Inr (concat (map (\<lambda>candidate. case candidate of
        JObj c \<Rightarrow> (case jget_null ''capability'' c of JStr s \<Rightarrow> [s] | _ \<Rightarrow> [])
      | _ \<Rightarrow> []) candidates))))"

definition policy_id_of :: "wire_dict \<Rightarrow> string res" where
  "policy_id_of payload =
    (case jget_alt ''policy_id'' ''policy_version'' payload of JStr s \<Rightarrow> Inr s | _ \<Rightarrow> Inl StorageError)"

section \<open>Idempotency\<close>

definition fingerprint :: "svc \<Rightarrow> string \<Rightarrow> wire_dict \<Rightarrow> string res" where
  "fingerprint sv operation arguments =
    canonical_digest (sv_sha256 sv) (JObj [(''operation'', JStr operation), (''arguments'', JObj arguments)])"

definition idempotent_response :: "db \<Rightarrow> string \<Rightarrow> string \<Rightarrow> string \<Rightarrow> wire_dict option res" where
  "idempotent_response db scope request_id fp =
    (case tfind i_request_id request_id (db_idempotency db) of
       None \<Rightarrow> Inr None
     | Some row \<Rightarrow>
         if i_scope row \<noteq> scope \<or> i_fingerprint row \<noteq> fp then Inl ConflictError
         else Inr (Some (i_response row)))"

text \<open>The rows of a database whose envelope is another tenant's are not selected.\<close>

definition degraded_idempotent_response :: "db \<Rightarrow> string \<Rightarrow> string \<Rightarrow> string \<Rightarrow> string \<Rightarrow> string \<Rightarrow> wire_dict res" where
  "degraded_idempotent_response db tenant_id envelope_id scope request_id fp =
    (case envelope_of db tenant_id envelope_id of
       Inl _ \<Rightarrow> Inl CapacityError
     | Inr _ \<Rightarrow>
         rbind (idempotent_response db scope request_id fp) (\<lambda>response.
         of_option CapacityError response))"

definition remember_response :: "string \<Rightarrow> string \<Rightarrow> string \<Rightarrow> wire_dict \<Rightarrow> int \<Rightarrow> int \<Rightarrow> db \<Rightarrow> db res" where
  "remember_response scope request_id fp response now_ns status_code db =
    rbind (canonical_json (JObj response)) (\<lambda>_.
    insert_idempotency
      \<lparr>i_scope = scope, i_request_id = request_id, i_fingerprint = fp, i_response = response,
       i_status_code = status_code, i_created_at_ns = now_ns\<rparr> db)"

section \<open>The audit log\<close>

definition append_audit :: "svc \<Rightarrow> envelope_row \<Rightarrow> string \<Rightarrow> string option \<Rightarrow> string option \<Rightarrow> string
    \<Rightarrow> wire_dict \<Rightarrow> db \<Rightarrow> db res" where
  "append_audit sv envelope event_type entity_type entity_id actor_id details db =
    (let now_ns = sv_now_ns sv;
         (sequence, previous_hash) = (case audit_head db of None \<Rightarrow> (0, zero_hash)
           | Some h \<Rightarrow> (au_sequence h + 1, au_event_hash h));
         body = [(''sequence'', JInt sequence), (''event_type'', JStr event_type),
           (''tenant_id'', JStr (e_tenant_id envelope)), (''envelope_id'', JStr (e_envelope_id envelope)),
           (''entity_type'', jopt entity_type), (''entity_id'', jopt entity_id),
           (''actor_id'', JStr actor_id), (''occurred_at_ns'', JInt now_ns), (''details'', JObj details)] in
     rbind (sign_wire sv ''audit-event/v1'' body) (\<lambda>(_, signed).
     rbind (canonical_json (JObj signed)) (\<lambda>payload.
     let event_hash = audit_event_hash (sv_sha256 sv) previous_hash sequence event_type entity_type
           entity_id payload now_ns in
     rbind (insert_audit (sv_sha256 sv)
       \<lparr>au_sequence = sequence, au_event_type = event_type, au_entity_type = entity_type,
        au_entity_id = entity_id, au_payload = payload, au_previous_hash = previous_hash,
        au_event_hash = event_hash, au_created_at_ns = now_ns\<rparr> db) (\<lambda>db'.
     insert_outbox
       \<lparr>ob_sequence = sequence, ob_event_hash = event_hash, ob_payload = payload,
        ob_created_at_ns = now_ns\<rparr> db'))))"

section \<open>Lease rows\<close>

definition grant_from_row :: "envelope_row \<Rightarrow> db \<Rightarrow> lease_row \<Rightarrow> LeaseGrant res" where
  "grant_from_row envelope db row =
    (case find (\<lambda>p. p_policy_digest p = l_policy_digest row) (db_policies db) of
       None \<Rightarrow> Inl StorageError
     | Some p \<Rightarrow>
         rbind (policy_id_of (p_payload p)) (\<lambda>policy_id.
         LeaseGrant_post_init
           \<lparr>g_tenant_id = e_tenant_id envelope, g_envelope_id = e_envelope_id envelope,
            g_config_epoch = l_config_epoch row, g_lease_id = l_lease_id row,
            g_lineage_id = l_lineage_id row,
            g_parent_id = (case l_remote_parent_id row of None \<Rightarrow> l_parent_id row | Some q \<Rightarrow> Some q),
            g_subject_id = l_subject_id row, g_warden_id = l_warden_id row,
            g_allocation = l_allocation row, g_capabilities = frozenset (l_capabilities row),
            g_policy_id = policy_id, g_policy_version = l_policy_version row,
            g_policy_digest = l_policy_digest row, g_machine_digest = l_machine_digest row,
            g_ancestor_path = l_ancestor_path row, g_branch_epoch = l_branch_epoch row,
            g_issued_at_ns = l_issued_at_ns row, g_expires_at_ns = l_expires_at_ns row,
            g_key_id = l_key_id row, g_signature = JStr (b64url_encode (l_signature row))\<rparr>))"

definition snapshot_from_row :: "envelope_row \<Rightarrow> db \<Rightarrow> lease_row \<Rightarrow> LeaseSnapshot res" where
  "snapshot_from_row envelope db row =
    rbind (grant_from_row envelope db row) (\<lambda>grant.
    LeaseSnapshot_post_init
      \<lparr>s_grant = grant, s_residual = l_residual row, s_current_state = l_state row,
       s_status = l_status row, s_sequence = l_sequence row, s_updated_at_ns = l_updated_at_ns row\<rparr>)"

definition load_lease :: "db \<Rightarrow> string \<Rightarrow> lease_row res" where
  "load_lease db lease_id = of_option NotFoundError (tfind l_lease_id lease_id (db_leases db))"

definition path_revoked :: "db \<Rightarrow> string \<Rightarrow> string list \<Rightarrow> bool" where
  "path_revoked db lineage_id path =
    list_ex (\<lambda>r. b_lineage_id (v_rev r) = lineage_id \<and> List.member path (b_branch_lease_id (v_rev r)))
      (db_revocations db)"

definition lease_revoked :: "db \<Rightarrow> lease_row \<Rightarrow> bool" where
  "lease_revoked db lease = path_revoked db (l_lineage_id lease) (l_ancestor_path lease @ [l_lease_id lease])"

definition degraded_lease_idempotent_response :: "db \<Rightarrow> string \<Rightarrow> string \<Rightarrow> string \<Rightarrow> string \<Rightarrow> string list
    \<Rightarrow> bool \<Rightarrow> string \<Rightarrow> string \<Rightarrow> string \<Rightarrow> wire_dict res" where
  "degraded_lease_idempotent_response db tenant_id envelope_id lease_id actor scopes
      require_root_management scope request_id fp =
    (case envelope_of db tenant_id envelope_id of
       Inl _ \<Rightarrow> Inl NotFoundError
     | Inr _ \<Rightarrow>
         rbind (load_lease db lease_id) (\<lambda>lease.
         let has_management_scope = has_scope scopes SUBJECT_LIFECYCLE_SCOPES in
         if actor \<noteq> l_subject_id lease \<and> \<not> has_management_scope then Inl PolicyError
         else if require_root_management \<and> l_parent_id lease = None \<and> \<not> has_management_scope
         then Inl PolicyError
         else rbind (idempotent_response db scope request_id fp) (\<lambda>response.
           of_option CapacityError response)))"

definition materialize_revoked_branch :: "string \<Rightarrow> string \<Rightarrow> int \<Rightarrow> db \<Rightarrow> (db \<times> string list \<times> bool) res" where
  "materialize_revoked_branch lineage_id branch_lease_id now_ns db =
    (let rows = take (MAINTENANCE_ROW_BATCH + 1) (sort (map l_lease_id (filter (\<lambda>c.
           l_lineage_id c = lineage_id \<and> List.member live_statuses (l_status c)
           \<and> (l_lease_id c = branch_lease_id \<or> List.member (l_ancestor_path c) branch_lease_id))
           (db_leases db))));
         affected = take MAINTENANCE_ROW_BATCH rows in
     rbind (foldM (\<lambda>d lease_id. update_lease lease_id (\<lambda>r.
         if List.member live_statuses (l_status r)
         then r\<lparr>l_status := REVOKED, l_sequence := l_sequence r + 1, l_updated_at_ns := now_ns\<rparr> else r) d)
       db affected) (\<lambda>db'.
     Inr (db', affected, length rows \<le> MAINTENANCE_ROW_BATCH)))"

definition require_actionable :: "svc \<Rightarrow> envelope_row \<Rightarrow> lease_row \<Rightarrow> db \<Rightarrow> db res" where
  "require_actionable sv envelope lease db =
    (if l_status lease \<noteq> ACTIVE then Inl PolicyError
     else rbind (clock_is_safe sv envelope True db) (\<lambda>(db', uncertainty).
       if sv_now_ns sv + uncertainty \<ge> l_expires_at_ns lease then Inl ExpiredError
       else if lease_revoked db' lease then Inl PolicyError
       else Inr db'))"

definition positive_ttl :: "int \<Rightarrow> int res" where
  "positive_ttl ttl_ns = (if ttl_ns \<le> 0 \<or> ttl_ns > MAX_RESOURCE then Inl ValidationError else Inr ttl_ns)"

definition new_grant :: "svc \<Rightarrow> string \<Rightarrow> string \<Rightarrow> int \<Rightarrow> string \<Rightarrow> string \<Rightarrow> string option \<Rightarrow> string \<Rightarrow> vec
    \<Rightarrow> string list \<Rightarrow> policy_row \<Rightarrow> string list \<Rightarrow> int \<Rightarrow> int \<Rightarrow> int \<Rightarrow> LeaseGrant res" where
  "new_grant sv tenant_id envelope_id config_epoch lease_id lineage_id parent_id subject_id allocation
      capabilities policy ancestor_path branch_epoch issued_at_ns expires_at_ns =
    rbind (policy_id_of (p_payload policy)) (\<lambda>policy_id.
    rbind (LeaseGrant_post_init
      \<lparr>g_tenant_id = tenant_id, g_envelope_id = envelope_id, g_config_epoch = config_epoch,
       g_lease_id = lease_id, g_lineage_id = lineage_id, g_parent_id = parent_id,
       g_subject_id = subject_id, g_warden_id = sv_warden_id sv, g_allocation = allocation,
       g_capabilities = capabilities, g_policy_id = policy_id,
       g_policy_version = p_policy_version policy, g_policy_digest = p_policy_digest policy,
       g_machine_digest = p_machine_digest policy, g_ancestor_path = ancestor_path,
       g_branch_epoch = branch_epoch, g_issued_at_ns = issued_at_ns,
       g_expires_at_ns = expires_at_ns, g_key_id = sv_key_id sv, g_signature = JStr []\<rparr>) (\<lambda>unsigned.
    rbind (sign_record sv (LeaseGrant_unsigned_payload unsigned)) (\<lambda>signature.
    LeaseGrant_post_init (unsigned\<lparr>g_signature := JStr signature\<rparr>))))"

definition insert_lease :: "LeaseGrant \<Rightarrow> vec \<Rightarrow> string \<Rightarrow> LeaseStatus \<Rightarrow> int \<Rightarrow> int \<Rightarrow> string option \<Rightarrow> db \<Rightarrow> db res" where
  "insert_lease grant residual state status sequence now_ns parent_warden db =
    rbind (packed (g_allocation grant)) (\<lambda>allocation.
    rbind (packed residual) (\<lambda>residual.
    rbind (rbind (as_str (g_signature grant)) b64url_decode) (\<lambda>signature.
    insert_lease_row
      \<lparr>l_lease_id = g_lease_id grant, l_lineage_id = g_lineage_id grant,
       l_parent_id = (if parent_warden \<noteq> None then None else g_parent_id grant),
       l_subject_id = g_subject_id grant, l_warden_id = g_warden_id grant, l_allocation = allocation,
       l_residual = residual, l_capabilities = sort (g_capabilities grant),
       l_machine_digest = g_machine_digest grant, l_ancestor_path = g_ancestor_path grant,
       l_branch_epoch = g_branch_epoch grant, l_config_epoch = g_config_epoch grant,
       l_issued_at_ns = g_issued_at_ns grant, l_expires_at_ns = g_expires_at_ns grant,
       l_key_id = g_key_id grant, l_signature = signature, l_state = state, l_status = status,
       l_sequence = sequence, l_policy_version = g_policy_version grant,
       l_policy_digest = g_policy_digest grant, l_created_at_ns = now_ns, l_updated_at_ns = now_ns,
       l_parent_warden = parent_warden,
       l_remote_parent_id = (if parent_warden = None then None else g_parent_id grant)\<rparr> db)))"

section \<open>Transactions\<close>

text \<open>
  \<open>_assert_local_conservation\<close> of sqlite.py, run before every commit.  The
  foreign key of leases to their parent is deferred, so it is checked there
  too.  A transaction whose body raises, or whose commit check fails, leaves
  the database as it was.
\<close>

definition conservation_snapshot :: "envelope_row \<Rightarrow> warden_state_row \<Rightarrow> ConservationSnapshot" where
  "conservation_snapshot e w =
    \<lparr>cs_initial_share = e_initial_local_share e, cs_transferred_in = w_transferred_in w,
     cs_transferred_out = w_transferred_out w, cs_free_pool = w_free_pool w,
     cs_residual = w_lease_residual w, cs_consumed = w_consumed w\<rparr>"

definition assert_local_conservation :: "bool \<Rightarrow> db \<Rightarrow> unit res" where
  "assert_local_conservation reconcile db =
    (case (db_envelope db, db_warden_state db) of
       (Some e, Some w) \<Rightarrow>
         let d = e_dimension_count e in
         rbind (map_err (\<lambda>_. InvariantError) (
           rbind (vector (w_free_pool w) (Some d)) (\<lambda>free_pool.
           rbind (vector (w_lease_residual w) (Some d)) (\<lambda>lease_residual.
           rbind (vector (w_consumed w) (Some d)) (\<lambda>consumed.
           rbind (vector (w_transferred_in w) (Some d)) (\<lambda>transferred_in.
           rbind (vector (w_transferred_out w) (Some d)) (\<lambda>transferred_out.
           rbind (if reconcile
             then rbind (mapM (\<lambda>r. vector (l_residual r) (Some d)) (db_leases db)) (\<lambda>residuals.
               rbind (total residuals (int d)) (\<lambda>scanned_residual.
               if scanned_residual \<noteq> lease_residual then Inl InvariantError else Inr ()))
             else Inr ()) (\<lambda>_.
           rbind (add (e_initial_local_share e) transferred_in) (\<lambda>available.
           rbind (add free_pool lease_residual) (\<lambda>l.
           rbind (add consumed transferred_out) (\<lambda>r.
           rbind (add l r) (\<lambda>accounted.
           Inr (available = accounted))))))))))))) (\<lambda>equal.
         if \<not> equal then Inl InvariantError else Inr ())
     | _ \<Rightarrow> Inl InvariantError)"

definition parents_exist :: "db \<Rightarrow> bool" where
  "parents_exist db = list_all (\<lambda>r. case l_parent_id r of None \<Rightarrow> True
     | Some p \<Rightarrow> tfind l_lease_id p (db_leases db) \<noteq> None) (db_leases db)"

definition commit :: "db \<Rightarrow> unit res" where
  "commit db =
    (case assert_local_conservation False db of
       Inl e \<Rightarrow> Inl (if parents_exist db then e else IntegrityError)
     | Inr _ \<Rightarrow> if \<not> parents_exist db then Inl IntegrityError else Inr ())"

text \<open>The store's database after a write transaction, and what the caller sees.\<close>

definition write_tx :: "'a tx \<Rightarrow> db \<Rightarrow> db \<times> 'a res" where
  "write_tx body db =
    (case body db of
       Inl e \<Rightarrow> (db, Inl e)
     | Inr (db', x) \<Rightarrow> (case commit db' of Inl e \<Rightarrow> (db, Inl e) | Inr _ \<Rightarrow> (db', Inr x)))"

text \<open>
  \<open>with self._write_or_degraded_retry()\<close>: without capacity only the degraded
  branch runs, which reads.
\<close>

definition write_or_degraded :: "bool \<Rightarrow> 'a res \<Rightarrow> 'a tx \<Rightarrow> 'a tx" where
  "write_or_degraded capacity degraded body db =
    (if \<not> capacity then rbind degraded (\<lambda>x. Inr (db, x)) else body db)"

definition invariant_snapshot_row :: "svc \<Rightarrow> envelope_row \<Rightarrow> db \<Rightarrow> InvariantSnapshot res" where
  "invariant_snapshot_row sv envelope db =
    (case db_warden_state db of
       None \<Rightarrow> Inl StorageError
     | Some w \<Rightarrow>
         rbind (cs_post_init (conservation_snapshot envelope w)) (\<lambda>c.
         rbind (healthy c) (\<lambda>h.
         InvariantSnapshot_post_init
           \<lparr>i_tenant_id = e_tenant_id envelope, i_envelope_id = e_envelope_id envelope,
            i_config_epoch = e_config_epoch envelope, i_initial_share = cs_initial_share c,
            i_transferred_in = cs_transferred_in c, i_transferred_out = cs_transferred_out c,
            i_free_pool = cs_free_pool c, i_lease_residual = cs_residual c,
            i_consumed = cs_consumed c, i_checked_at_ns = sv_now_ns sv, i_healthy = h\<rparr>)))"

definition invariant_snapshot :: "svc \<Rightarrow> IdentityContext \<Rightarrow> db \<Rightarrow> InvariantSnapshot res" where
  "invariant_snapshot sv identity db =
    rbind (identity_fields identity) (\<lambda>(identity_tenant, _, _).
    rbind (singleton_envelope db) (\<lambda>envelope.
    if identity_tenant \<noteq> e_tenant_id envelope then Inl PolicyError
    else invariant_snapshot_row sv envelope db))"

definition ready :: "svc \<Rightarrow> db \<Rightarrow> bool" where
  "ready sv db =
    (sv_capacity sv \<and>
     (case rbind (require_signing_key_current sv) (\<lambda>_.
        rbind (verify_database_identity sv db) (\<lambda>_.
        rbind (singleton_envelope db) (\<lambda>envelope.
        rbind (clock_is_safe sv envelope False db) (\<lambda>_.
        rbind (runtime_status_row db) (\<lambda>status.
        if rs_mode status \<noteq> RM_ACTIVE then Inr False
        else rbind (invariant_snapshot_row sv envelope db) (\<lambda>s. Inr (i_healthy s))))))) of
        Inl _ \<Rightarrow> False | Inr b \<Rightarrow> b))"

end
