(* ===== verification/Lease_Ops.thy ===== *)
theory Lease_Ops
  imports Warden
begin

text \<open>
  The lease operations of WardenService: issue_root, spawn and authorize.  Each
  operation is split where the source enters its transaction: the validation
  of the arguments and the request fingerprint, and the body of the write
  transaction.  The fresh identifiers are \<open>sv_uuid\<close>, in the order the call
  draws them.
\<close>

section \<open>issue_root\<close>

record root_request =
  rq_actor :: string
  rq_subject_id :: string
  rq_allocation :: vec
  rq_capabilities :: "string list"
  rq_policy_digest :: string
  rq_ttl :: int
  rq_lineage :: "string option"
  rq_fingerprint :: string

definition nonzero :: "vec \<Rightarrow> bool" where
  "nonzero v = list_ex (\<lambda>x. x \<noteq> 0) v"

definition issue_root_request :: "svc \<Rightarrow> string \<Rightarrow> IdentityContext \<Rightarrow> string \<Rightarrow> string \<Rightarrow> string \<Rightarrow> vec
    \<Rightarrow> string list \<Rightarrow> string \<Rightarrow> int \<Rightarrow> string option \<Rightarrow> db \<Rightarrow> root_request res" where
  "issue_root_request sv request_id identity tenant_id envelope_id subject_id allocation capabilities
      policy_digest ttl_ns lineage_id db =
    rbind (req_ids [request_id, envelope_id]) (\<lambda>_.
    rbind (require_digest policy_digest) (\<lambda>_.
    rbind (bind_tenant identity tenant_id) (\<lambda>(actor, scopes).
    rbind (require_identifier subject_id) (\<lambda>_.
    if \<not> has_scope scopes ROOT_ISSUER_SCOPES then Inl PolicyError
    else rbind (positive_ttl ttl_ns) (\<lambda>ttl.
    rbind (case lineage_id of None \<Rightarrow> Inr () | Some l \<Rightarrow> req_ids [l]) (\<lambda>_.
    rbind (mapM require_identifier capabilities) (\<lambda>caps.
    rbind (store_metadata db) (\<lambda>meta.
    rbind (vector allocation (Some (e_dimension_count meta))) (\<lambda>checked_allocation.
    if \<not> nonzero checked_allocation then Inl ValidationError
    else rbind (fingerprint sv ''issue_root''
      [(''actor'', JStr actor), (''subject_id'', JStr subject_id),
       (''allocation'', jvec checked_allocation), (''capabilities'', jstrs (frozenset caps)),
       (''policy_digest'', JStr policy_digest), (''ttl_ns'', JInt ttl),
       (''lineage_id'', jopt lineage_id), (''config_epoch'', JInt (e_config_epoch meta))]) (\<lambda>fp.
    Inr \<lparr>rq_actor = actor, rq_subject_id = subject_id, rq_allocation = checked_allocation,
      rq_capabilities = frozenset caps, rq_policy_digest = policy_digest, rq_ttl = ttl,
      rq_lineage = lineage_id, rq_fingerprint = fp\<rparr>))))))))))"

text \<open>
  The guards of the transaction after the idempotency lookup: the policy row and
  the expiry of the new lease.
\<close>

definition max_ttl_ok :: "wire_dict \<Rightarrow> int \<Rightarrow> bool" where
  "max_ttl_ok policy ttl =
    (case jget_null ''max_lease_ttl_ns'' policy of JInt m \<Rightarrow> ttl \<le> m
     | JBool b \<Rightarrow> ttl \<le> (if b then 1 else 0) | _ \<Rightarrow> False)"

definition issue_root_guards :: "svc \<Rightarrow> root_request \<Rightarrow> int \<Rightarrow> db \<Rightarrow> (policy_row \<times> vec \<times> int) res" where
  "issue_root_guards sv q uncertainty db =
    rbind (require_runtime_active db) (\<lambda>_.
    rbind (policy_of db (rq_policy_digest q)) (\<lambda>policy.
    rbind (declared_capabilities (p_payload policy)) (\<lambda>declared.
    if \<not> list_all (List.member declared) (rq_capabilities q) then Inl PolicyError
    else if \<not> max_ttl_ok (p_payload policy) (rq_ttl q) then Inl PolicyError
    else rbind (of_option StorageError (db_warden_state db)) (\<lambda>w.
    rbind (less_than_or_equal (rq_allocation q) (w_free_pool w)) (\<lambda>covered.
    if \<not> covered then Inl PolicyError
    else let expires_at_ns = sv_now_ns sv + rq_ttl q in
      if expires_at_ns \<le> sv_now_ns sv + uncertainty then Inl ExpiredError
      else Inr (policy, w_free_pool w, expires_at_ns))))))"

definition issue_root_effect :: "svc \<Rightarrow> string \<Rightarrow> root_request \<Rightarrow> envelope_row \<Rightarrow> policy_row \<Rightarrow> vec \<Rightarrow> int
    \<Rightarrow> LeaseGrant tx" where
  "issue_root_effect sv request_id q envelope policy free_pool expires_at_ns db =
    rbind (new_id (sv_uuid sv 0) ''lease'') (\<lambda>lease_id.
    rbind (case rq_lineage q of Some l \<Rightarrow> Inr l | None \<Rightarrow> new_id (sv_uuid sv 1) ''lineage'') (\<lambda>actual_lineage.
    rbind (new_grant sv (e_tenant_id envelope) (e_envelope_id envelope) (e_config_epoch envelope) lease_id
      actual_lineage None (rq_subject_id q) (rq_allocation q) (rq_capabilities q) policy [] 0
      (sv_now_ns sv) expires_at_ns) (\<lambda>grant.
    rbind (initial_state_of (p_payload policy)) (\<lambda>state.
    rbind (insert_lease grant (rq_allocation q) state ACTIVE 0 (sv_now_ns sv) None db) (\<lambda>db1.
    rbind (rbind (subtract free_pool (rq_allocation q)) packed) (\<lambda>free'.
    rbind (update_warden_state (\<lambda>w. w\<lparr>w_free_pool := free', w_revision := w_revision w + 1,
      w_updated_at_ns := sv_now_ns sv\<rparr>) db1) (\<lambda>db2.
    rbind (append_audit sv envelope ''lease.root-issued'' (Some ''lease'') (Some lease_id) (rq_actor q)
      [(''lineage_id'', JStr actual_lineage), (''allocation'', jvec (rq_allocation q)),
       (''policy_digest'', JStr (rq_policy_digest q))] db2) (\<lambda>db3.
    rbind (remember_response ''issue_root'' request_id (rq_fingerprint q) (LeaseGrant_to_dict grant)
      (sv_now_ns sv) 201 db3) (\<lambda>db4.
    Inr (db4, grant))))))))))"

definition issue_root_body :: "svc \<Rightarrow> string \<Rightarrow> string \<Rightarrow> string \<Rightarrow> root_request \<Rightarrow> LeaseGrant tx" where
  "issue_root_body sv request_id tenant_id envelope_id q db =
    rbind (verify_database_identity sv db) (\<lambda>_.
    rbind (envelope_of db tenant_id envelope_id) (\<lambda>envelope.
    rbind (clock_is_safe sv envelope True db) (\<lambda>(db0, uncertainty).
    rbind (idempotent_response db0 ''issue_root'' request_id (rq_fingerprint q)) (\<lambda>prior.
    case prior of
      Some response \<Rightarrow> rbind (LeaseGrant_from_dict response) (\<lambda>g. Inr (db0, g))
    | None \<Rightarrow>
        rbind (issue_root_guards sv q uncertainty db0) (\<lambda>(policy, free_pool, expires_at_ns).
        issue_root_effect sv request_id q envelope policy free_pool expires_at_ns db0)))))"

definition issue_root :: "svc \<Rightarrow> string \<Rightarrow> IdentityContext \<Rightarrow> string \<Rightarrow> string \<Rightarrow> string \<Rightarrow> vec
    \<Rightarrow> string list \<Rightarrow> string \<Rightarrow> int \<Rightarrow> string option \<Rightarrow> LeaseGrant tx" where
  "issue_root sv request_id identity tenant_id envelope_id subject_id allocation capabilities
      policy_digest ttl_ns lineage_id db =
    rbind (issue_root_request sv request_id identity tenant_id envelope_id subject_id allocation
      capabilities policy_digest ttl_ns lineage_id db) (\<lambda>q.
    write_or_degraded (sv_capacity sv)
      (rbind (degraded_idempotent_response db tenant_id envelope_id ''issue_root'' request_id
        (rq_fingerprint q)) LeaseGrant_from_dict)
      (issue_root_body sv request_id tenant_id envelope_id q) db)"

section \<open>spawn\<close>

definition sequence_ok :: "int option \<Rightarrow> bool" where
  "sequence_ok expected = (case expected of None \<Rightarrow> True | Some n \<Rightarrow> 0 \<le> n \<and> n \<le> MAX_RESOURCE)"

record spawn_request =
  sq_actor :: string
  sq_scopes :: "string list"
  sq_parent_id :: string
  sq_subject_id :: string
  sq_allocation :: vec
  sq_capabilities :: "string list"
  sq_ttl :: int
  sq_policy_digest :: "string option"
  sq_expected_sequence :: "int option"
  sq_fingerprint :: string

definition spawn_request_of :: "svc \<Rightarrow> string \<Rightarrow> IdentityContext \<Rightarrow> string \<Rightarrow> string \<Rightarrow> vec \<Rightarrow> string list
    \<Rightarrow> int \<Rightarrow> string option \<Rightarrow> int option \<Rightarrow> db \<Rightarrow> spawn_request res" where
  "spawn_request_of sv request_id identity parent_id subject_id allocation capabilities ttl_ns
      policy_digest expected_sequence db =
    rbind (req_ids [request_id, parent_id, subject_id]) (\<lambda>_.
    rbind (positive_ttl ttl_ns) (\<lambda>ttl.
    rbind (mapM require_identifier capabilities) (\<lambda>caps.
    rbind (case policy_digest of None \<Rightarrow> Inr [] | Some d \<Rightarrow> require_digest d) (\<lambda>_.
    if \<not> sequence_ok expected_sequence then Inl ValidationError
    else rbind (identity_fields identity) (\<lambda>(identity_tenant, actor, scopes).
    rbind (store_metadata db) (\<lambda>meta.
    if identity_tenant \<noteq> e_tenant_id meta then Inl PolicyError
    else rbind (vector allocation (Some (e_dimension_count meta))) (\<lambda>checked_allocation.
    if \<not> nonzero checked_allocation then Inl ValidationError
    else rbind (fingerprint sv ''spawn''
      [(''actor'', JStr actor), (''parent_id'', JStr parent_id), (''subject_id'', JStr subject_id),
       (''allocation'', jvec checked_allocation), (''capabilities'', jstrs (frozenset caps)),
       (''ttl_ns'', JInt ttl), (''requested_policy_digest'', jopt policy_digest),
       (''expected_sequence'', jopt_int expected_sequence),
       (''config_epoch'', JInt (e_config_epoch meta))]) (\<lambda>fp.
    Inr \<lparr>sq_actor = actor, sq_scopes = scopes, sq_parent_id = parent_id, sq_subject_id = subject_id,
      sq_allocation = checked_allocation, sq_capabilities = frozenset caps, sq_ttl = ttl,
      sq_policy_digest = policy_digest, sq_expected_sequence = expected_sequence,
      sq_fingerprint = fp\<rparr>))))))))"

text \<open>
  The guards of the spawn transaction after the idempotency lookup, on the parent
  row as it was loaded: the policy, the child's expiry and path.
\<close>

definition spawn_guards :: "svc \<Rightarrow> spawn_request \<Rightarrow> envelope_row \<Rightarrow> lease_row \<Rightarrow> db
    \<Rightarrow> (db \<times> policy_row \<times> int) res" where
  "spawn_guards sv q envelope parent db =
    (let selected_policy_digest = (case sq_policy_digest q of Some d \<Rightarrow> d | None \<Rightarrow> l_policy_digest parent) in
     rbind (require_runtime_active db) (\<lambda>_.
     rbind (require_actionable sv envelope parent db) (\<lambda>db1.
     if (case sq_expected_sequence q of None \<Rightarrow> False | Some n \<Rightarrow> l_sequence parent \<noteq> n) then Inl ConflictError
     else if \<not> list_all (List.member (l_capabilities parent)) (sq_capabilities q) then Inl PolicyError
     else rbind (less_than_or_equal (sq_allocation q) (l_residual parent)) (\<lambda>covered.
     if \<not> covered then Inl PolicyError
     else rbind (policy_of db1 selected_policy_digest) (\<lambda>policy.
     if selected_policy_digest \<noteq> l_policy_digest parent then Inl PolicyError
     else if \<not> max_ttl_ok (p_payload policy) (sq_ttl q) then Inl PolicyError
     else let expires_at_ns = min (sv_now_ns sv + sq_ttl q) (l_expires_at_ns parent) in
       rbind (clock_is_safe sv envelope True db1) (\<lambda>(db2, uncertainty).
       if expires_at_ns \<le> sv_now_ns sv + uncertainty then Inl ExpiredError
       else if length (l_ancestor_path parent) \<ge> MAX_LINEAGE_DEPTH then Inl PolicyError
       else Inr (db2, policy, expires_at_ns)))))))"

definition spawn_effect :: "svc \<Rightarrow> string \<Rightarrow> spawn_request \<Rightarrow> envelope_row \<Rightarrow> lease_row \<Rightarrow> policy_row \<Rightarrow> int
    \<Rightarrow> LeaseGrant tx" where
  "spawn_effect sv request_id q envelope parent policy expires_at_ns db =
    rbind (new_id (sv_uuid sv 0) ''lease'') (\<lambda>lease_id.
    rbind (new_grant sv (e_tenant_id envelope) (e_envelope_id envelope) (e_config_epoch envelope) lease_id
      (l_lineage_id parent) (Some (sq_parent_id q)) (sq_subject_id q) (sq_allocation q)
      (sq_capabilities q) policy (l_ancestor_path parent @ [sq_parent_id q]) (l_branch_epoch parent)
      (sv_now_ns sv) expires_at_ns) (\<lambda>grant.
    rbind (rbind (subtract (l_residual parent) (sq_allocation q)) packed) (\<lambda>residual'.
    rbind (update_lease_residual (sq_parent_id q) (\<lambda>r. r\<lparr>l_residual := residual',
      l_sequence := l_sequence r + 1, l_updated_at_ns := sv_now_ns sv\<rparr>) db) (\<lambda>db1.
    rbind (initial_state_of (p_payload policy)) (\<lambda>state.
    rbind (insert_lease grant (sq_allocation q) state ACTIVE 0 (sv_now_ns sv) None db1) (\<lambda>db2.
    rbind (append_audit sv envelope ''lease.spawned'' (Some ''lease'') (Some lease_id) (sq_actor q)
      [(''parent_id'', JStr (sq_parent_id q)), (''lineage_id'', JStr (l_lineage_id parent)),
       (''allocation'', jvec (sq_allocation q)),
       (''policy_digest'', JStr (case sq_policy_digest q of Some d \<Rightarrow> d | None \<Rightarrow> l_policy_digest parent))]
      db2) (\<lambda>db3.
    rbind (remember_response (''spawn:'' @ sq_parent_id q) request_id (sq_fingerprint q)
      (LeaseGrant_to_dict grant) (sv_now_ns sv) 201 db3) (\<lambda>db4.
    Inr (db4, grant)))))))))"

definition spawn_body :: "svc \<Rightarrow> string \<Rightarrow> spawn_request \<Rightarrow> LeaseGrant tx" where
  "spawn_body sv request_id q db =
    rbind (singleton_envelope db) (\<lambda>envelope.
    rbind (clock_is_safe sv envelope True db) (\<lambda>(db0, _).
    rbind (load_lease db0 (sq_parent_id q)) (\<lambda>parent.
    if sq_actor q \<noteq> l_subject_id parent \<and> \<not> has_scope (sq_scopes q) SUBJECT_LIFECYCLE_SCOPES
    then Inl PolicyError
    else rbind (idempotent_response db0 (''spawn:'' @ sq_parent_id q) request_id (sq_fingerprint q)) (\<lambda>prior.
    case prior of
      Some response \<Rightarrow> rbind (LeaseGrant_from_dict response) (\<lambda>g. Inr (db0, g))
    | None \<Rightarrow>
        rbind (spawn_guards sv q envelope parent db0) (\<lambda>(db1, policy, expires_at_ns).
        spawn_effect sv request_id q envelope parent policy expires_at_ns db1)))))"

definition spawn :: "svc \<Rightarrow> string \<Rightarrow> IdentityContext \<Rightarrow> string \<Rightarrow> string \<Rightarrow> vec \<Rightarrow> string list \<Rightarrow> int
    \<Rightarrow> string option \<Rightarrow> int option \<Rightarrow> LeaseGrant tx" where
  "spawn sv request_id identity parent_id subject_id allocation capabilities ttl_ns policy_digest
      expected_sequence db =
    rbind (spawn_request_of sv request_id identity parent_id subject_id allocation capabilities ttl_ns
      policy_digest expected_sequence db) (\<lambda>q.
    rbind (store_metadata db) (\<lambda>meta.
    write_or_degraded (sv_capacity sv)
      (rbind (degraded_lease_idempotent_response db (e_tenant_id meta) (e_envelope_id meta) parent_id
        (sq_actor q) (sq_scopes q) False (''spawn:'' @ parent_id) request_id (sq_fingerprint q))
        LeaseGrant_from_dict)
      (spawn_body sv request_id q) db))"

section \<open>authorize\<close>

record authorize_request =
  aq_actor :: string
  aq_scopes :: "string list"
  aq_lease_id :: string
  aq_transition :: string
  aq_audience :: string
  aq_nonce :: string
  aq_evidence :: "wire_dict option"
  aq_evidence_digest :: "string option"
  aq_expected_state :: "string option"
  aq_expected_sequence :: "int option"
  aq_fingerprint :: string

definition authorize_request_of :: "svc \<Rightarrow> string \<Rightarrow> IdentityContext \<Rightarrow> string \<Rightarrow> string \<Rightarrow> string \<Rightarrow> string
    \<Rightarrow> wire_dict option \<Rightarrow> string option \<Rightarrow> int option \<Rightarrow> db \<Rightarrow> authorize_request res" where
  "authorize_request_of sv request_id identity lease_id transition audience nonce evidence expected_state
      expected_sequence db =
    rbind (req_ids [request_id, lease_id, transition, audience, nonce]) (\<lambda>_.
    if length nonce < 16 then Inl ValidationError
    else rbind (case expected_state of None \<Rightarrow> Inr () | Some s \<Rightarrow> req_ids [s]) (\<lambda>_.
    if \<not> sequence_ok expected_sequence then Inl ValidationError
    else rbind (case evidence of None \<Rightarrow> Inr None
      | Some e \<Rightarrow> rbind (canonical_digest (sv_sha256 sv) (JObj e)) (\<lambda>d. Inr (Some d))) (\<lambda>evidence_digest.
    rbind (identity_fields identity) (\<lambda>(identity_tenant, actor, scopes).
    rbind (store_metadata db) (\<lambda>meta.
    if identity_tenant \<noteq> e_tenant_id meta then Inl PolicyError
    else rbind (fingerprint sv ''authorize''
      [(''actor'', JStr actor), (''lease_id'', JStr lease_id), (''transition'', JStr transition),
       (''audience'', JStr audience), (''nonce'', JStr nonce), (''evidence_digest'', jopt evidence_digest),
       (''expected_state'', jopt expected_state), (''expected_sequence'', jopt_int expected_sequence),
       (''config_epoch'', JInt (e_config_epoch meta))]) (\<lambda>fp.
    Inr \<lparr>aq_actor = actor, aq_scopes = scopes, aq_lease_id = lease_id, aq_transition = transition,
      aq_audience = audience, aq_nonce = nonce, aq_evidence = evidence,
      aq_evidence_digest = evidence_digest, aq_expected_state = expected_state,
      aq_expected_sequence = expected_sequence, aq_fingerprint = fp\<rparr>))))))"

text \<open>The audience policy of a rule; a frozenset of an unhashable element is TypeError.\<close>

definition audience_allowed :: "wire_dict \<Rightarrow> string \<Rightarrow> unit res" where
  "audience_allowed rule audience =
    (let allowed_audiences =
       (case jget_null ''audiences'' rule of
          JNull \<Rightarrow> (case jlookup ''audience'' rule of None \<Rightarrow> JNull | Some a \<Rightarrow> JArr [a])
        | v \<Rightarrow> v) in
     case allowed_audiences of
       JNull \<Rightarrow> Inr ()
     | JStr s \<Rightarrow> if audience \<noteq> s then Inl PolicyError else Inr ()
     | JArr xs \<Rightarrow>
         if list_ex (\<lambda>x. case x of JArr _ \<Rightarrow> True | JObj _ \<Rightarrow> True | _ \<Rightarrow> False) xs then Inl TypeErr
         else if \<not> List.member xs (JStr audience) then Inl PolicyError else Inr ()
     | _ \<Rightarrow> Inl PolicyError)"

definition evidence_error :: "lets_error \<Rightarrow> lets_error" where
  "evidence_error e = (if is_subclass e PolicyError \<or> is_subclass e ValidationError then e else PolicyError)"

text \<open>The newest receipt of a lease for an audience.\<close>

definition latest_receipt :: "db \<Rightarrow> string \<Rightarrow> string \<Rightarrow> Receipt option" where
  "latest_receipt db lease_id audience =
    (case rev (sort_key r_resulting_sequence (filter (\<lambda>r. r_lease_id r = lease_id
        \<and> r_executor_audience r = audience) (map rr_receipt (db_receipts db)))) of
       [] \<Rightarrow> None | r # _ \<Rightarrow> Some r)"

record authorized =
  az_policy :: policy_row
  az_cost :: vec
  az_target_state :: string
  az_expires_at :: int

text \<open>
  The guards of the authorize transaction after the idempotency lookup, on the
  lease row as it was loaded.
\<close>

definition authorize_guards :: "svc \<Rightarrow> authorize_request \<Rightarrow> envelope_row \<Rightarrow> lease_row \<Rightarrow> db
    \<Rightarrow> (db \<times> authorized) res" where
  "authorize_guards sv q envelope lease db =
    rbind (require_runtime_active db) (\<lambda>_.
    rbind (require_actionable sv envelope lease db) (\<lambda>db1.
    if (case aq_expected_state q of None \<Rightarrow> False | Some s \<Rightarrow> l_state lease \<noteq> s) then Inl ConflictError
    else if (case aq_expected_sequence q of None \<Rightarrow> False | Some n \<Rightarrow> l_sequence lease \<noteq> n) then Inl ConflictError
    else if list_ex (\<lambda>x. r_executor_audience (rr_receipt x) = aq_audience q
      \<and> r_nonce (rr_receipt x) = aq_nonce q) (db_receipts db1) then Inl ReplayError
    else rbind (policy_of db1 (l_policy_digest lease)) (\<lambda>policy.
    if p_machine_digest policy \<noteq> l_machine_digest lease then Inl PolicyError
    else rbind (transition_of (p_payload policy) (l_state lease) (aq_transition q)
      (e_dimension_count envelope)) (\<lambda>(rule, cost).
    case jget_null ''capability'' rule of
      JStr capability \<Rightarrow>
        if \<not> List.member (l_capabilities lease) capability then Inl PolicyError
        else rbind (audience_allowed rule (aq_audience q)) (\<lambda>_.
        rbind (map_err evidence_error (sv_evidence sv (jget_null ''evidence'' rule) (aq_evidence q)
          (sv_now_ns sv) (l_subject_id lease) (aq_audience q))) (\<lambda>evidence_allowed.
        if \<not> evidence_allowed then Inl PolicyError
        else rbind (less_than_or_equal cost (l_residual lease)) (\<lambda>covered.
        if \<not> covered then Inl PolicyError
        else rbind (of_option StorageError (db_warden_state db1)) (\<lambda>_.
        rbind (map_err (\<lambda>_. PolicyError) (as_str (jget_alt ''target'' ''target_state'' rule))) (\<lambda>target_state.
        let receipt_expires_at = min (sv_now_ns sv + e_receipt_ttl_ns envelope) (l_expires_at_ns lease) in
        if (case latest_receipt db1 (aq_lease_id q) (aq_audience q) of None \<Rightarrow> False
            | Some r \<Rightarrow> receipt_expires_at < r_expires_at_ns r) then Inl ConflictError
        else rbind (clock_is_safe sv envelope True db1) (\<lambda>(db2, uncertainty).
        if receipt_expires_at \<le> sv_now_ns sv + uncertainty then Inl ExpiredError
        else Inr (db2, \<lparr>az_policy = policy, az_cost = cost, az_target_state = target_state,
          az_expires_at = receipt_expires_at\<rparr>)))))))
    | _ \<Rightarrow> Inl PolicyError))))"

definition authorize_receipt :: "svc \<Rightarrow> string \<Rightarrow> authorize_request \<Rightarrow> envelope_row \<Rightarrow> lease_row \<Rightarrow> authorized
    \<Rightarrow> Receipt res" where
  "authorize_receipt sv request_id q envelope lease z =
    rbind (policy_id_of (p_payload (az_policy z))) (\<lambda>policy_id.
    rbind (new_id (sv_uuid sv 0) ''receipt'') (\<lambda>receipt_id.
    rbind (Receipt_post_init
      \<lparr>r_tenant_id = e_tenant_id envelope, r_envelope_id = e_envelope_id envelope,
       r_config_epoch = e_config_epoch envelope, r_receipt_id = receipt_id, r_request_id = request_id,
       r_warden_id = sv_warden_id sv, r_key_id = sv_key_id sv, r_policy_id = policy_id,
       r_policy_version = p_policy_version (az_policy z), r_policy_digest = p_policy_digest (az_policy z),
       r_machine_digest = p_machine_digest (az_policy z), r_lease_id = aq_lease_id q,
       r_lineage_id = l_lineage_id lease, r_subject_id = l_subject_id lease,
       r_executor_audience = aq_audience q, r_transition = aq_transition q, r_source_state = l_state lease,
       r_target_state = az_target_state z, r_cost = az_cost z, r_resulting_sequence = l_sequence lease + 1,
       r_evidence_digest = aq_evidence_digest q, r_nonce = aq_nonce q, r_issued_at_ns = sv_now_ns sv,
       r_expires_at_ns = az_expires_at z, r_signature = JStr []\<rparr>) (\<lambda>unsigned.
    rbind (sign_record sv (Receipt_unsigned_payload unsigned)) (\<lambda>signature.
    Receipt_post_init (unsigned\<lparr>r_signature := JStr signature\<rparr>)))))"

definition authorize_effect :: "svc \<Rightarrow> string \<Rightarrow> authorize_request \<Rightarrow> envelope_row \<Rightarrow> lease_row \<Rightarrow> authorized
    \<Rightarrow> Receipt tx" where
  "authorize_effect sv request_id q envelope lease z db =
    rbind (of_option StorageError (db_warden_state db)) (\<lambda>w.
    rbind (authorize_receipt sv request_id q envelope lease z) (\<lambda>receipt.
    rbind (canonical_json (JObj (Receipt_to_dict receipt))) (\<lambda>_.
    rbind (rbind (subtract (l_residual lease) (az_cost z)) packed) (\<lambda>residual'.
    rbind (update_lease_residual (aq_lease_id q) (\<lambda>r. r\<lparr>l_residual := residual',
      l_state := az_target_state z, l_sequence := l_sequence lease + 1,
      l_updated_at_ns := sv_now_ns sv\<rparr>) db) (\<lambda>db1.
    rbind (rbind (add (w_consumed w) (az_cost z)) packed) (\<lambda>consumed'.
    rbind (update_warden_state (\<lambda>w. w\<lparr>w_consumed := consumed', w_revision := w_revision w + 1,
      w_updated_at_ns := sv_now_ns sv\<rparr>) db1) (\<lambda>db2.
    rbind (rbind (as_str (r_signature receipt)) b64url_decode) (\<lambda>signature.
    rbind (insert_receipt \<lparr>rr_receipt = receipt, rr_signature = signature\<rparr> db2) (\<lambda>db3.
    rbind (append_audit sv envelope ''transition.authorized'' (Some ''receipt'') (Some (r_receipt_id receipt))
      (aq_actor q)
      [(''lease_id'', JStr (aq_lease_id q)), (''transition'', JStr (aq_transition q)),
       (''source_state'', JStr (l_state lease)), (''target_state'', JStr (az_target_state z)),
       (''cost'', jvec (az_cost z)), (''resulting_sequence'', JInt (l_sequence lease + 1)),
       (''executor_audience'', JStr (aq_audience q)), (''evidence_digest'', jopt (aq_evidence_digest q))]
      db3) (\<lambda>db4.
    rbind (remember_response (''authorize:'' @ aq_lease_id q) request_id (aq_fingerprint q)
      (Receipt_to_dict receipt) (sv_now_ns sv) 200 db4) (\<lambda>db5.
    Inr (db5, receipt))))))))))))"

definition authorize_body :: "svc \<Rightarrow> string \<Rightarrow> authorize_request \<Rightarrow> Receipt tx" where
  "authorize_body sv request_id q db =
    rbind (singleton_envelope db) (\<lambda>envelope.
    rbind (clock_is_safe sv envelope True db) (\<lambda>(db0, _).
    rbind (load_lease db0 (aq_lease_id q)) (\<lambda>lease.
    if aq_actor q \<noteq> l_subject_id lease \<and> \<not> has_scope (aq_scopes q) SUBJECT_LIFECYCLE_SCOPES
    then Inl PolicyError
    else rbind (idempotent_response db0 (''authorize:'' @ aq_lease_id q) request_id (aq_fingerprint q)) (\<lambda>prior.
    case prior of
      Some response \<Rightarrow> rbind (Receipt_from_dict response) (\<lambda>r. Inr (db0, r))
    | None \<Rightarrow>
        rbind (authorize_guards sv q envelope lease db0) (\<lambda>(db1, z).
        authorize_effect sv request_id q envelope lease z db1)))))"

definition authorize :: "svc \<Rightarrow> string \<Rightarrow> IdentityContext \<Rightarrow> string \<Rightarrow> string \<Rightarrow> string \<Rightarrow> string
    \<Rightarrow> wire_dict option \<Rightarrow> string option \<Rightarrow> int option \<Rightarrow> Receipt tx" where
  "authorize sv request_id identity lease_id transition audience nonce evidence expected_state
      expected_sequence db =
    rbind (authorize_request_of sv request_id identity lease_id transition audience nonce evidence
      expected_state expected_sequence db) (\<lambda>q.
    rbind (store_metadata db) (\<lambda>meta.
    write_or_degraded (sv_capacity sv)
      (rbind (degraded_lease_idempotent_response db (e_tenant_id meta) (e_envelope_id meta) lease_id
        (aq_actor q) (aq_scopes q) False (''authorize:'' @ lease_id) request_id (aq_fingerprint q))
        Receipt_from_dict)
      (authorize_body sv request_id q) db))"

end
