(* ===== verification/Lifecycle.thy ===== *)
theory Lifecycle
  imports Lease_Ops
begin

text \<open>
  The lifecycle operations of WardenService: renew, quiesce, resume, close and
  reclaim_expired, and the read operations snapshot and peer_lease_status.
\<close>

section \<open>renew\<close>

record renew_request =
  nq_actor :: string
  nq_scopes :: "string list"
  nq_lease_id :: string
  nq_ttl :: int
  nq_expected_sequence :: "int option"
  nq_cascade :: bool
  nq_fingerprint :: string

definition renew_request_of :: "svc \<Rightarrow> string \<Rightarrow> IdentityContext \<Rightarrow> string \<Rightarrow> int \<Rightarrow> int option \<Rightarrow> bool \<Rightarrow> db
    \<Rightarrow> renew_request res" where
  "renew_request_of sv request_id identity lease_id ttl_ns expected_sequence cascade db =
    rbind (req_ids [request_id, lease_id]) (\<lambda>_.
    rbind (positive_ttl ttl_ns) (\<lambda>ttl.
    if \<not> sequence_ok expected_sequence then Inl ValidationError
    else rbind (identity_fields identity) (\<lambda>(identity_tenant, actor, scopes).
    rbind (store_metadata db) (\<lambda>meta.
    if identity_tenant \<noteq> e_tenant_id meta then Inl PolicyError
    else rbind (fingerprint sv ''renew''
      [(''actor'', JStr actor), (''lease_id'', JStr lease_id), (''ttl_ns'', JInt ttl),
       (''expected_sequence'', jopt_int expected_sequence), (''cascade'', JBool cascade),
       (''config_epoch'', JInt (e_config_epoch meta))]) (\<lambda>fp.
    Inr \<lparr>nq_actor = actor, nq_scopes = scopes, nq_lease_id = lease_id, nq_ttl = ttl,
      nq_expected_sequence = expected_sequence, nq_cascade = cascade, nq_fingerprint = fp\<rparr>)))))"

text \<open>The identifiers of the live descendants that expire after the requested expiry.\<close>

definition longer_descendants :: "db \<Rightarrow> string \<Rightarrow> int \<Rightarrow> string list" where
  "longer_descendants db lease_id requested =
    take (MAX_ATOMIC_CASCADE_DESCENDANTS + 1) (sort (map l_lease_id (filter (\<lambda>c.
      List.member [PROVISIONED, ACTIVE, QUIESCENT, REVOKED] (l_status c)
      \<and> l_expires_at_ns c > requested \<and> List.member (l_ancestor_path c) lease_id) (db_leases db))))"

definition renew_parent_ok :: "db \<Rightarrow> lease_row \<Rightarrow> int \<Rightarrow> unit res" where
  "renew_parent_ok db lease requested =
    (case l_parent_id lease of
       None \<Rightarrow> Inr ()
     | Some parent_id \<Rightarrow>
         rbind (load_lease db parent_id) (\<lambda>parent.
         if \<not> List.member [ACTIVE, QUIESCENT] (l_status parent) then Inl PolicyError
         else if lease_revoked db parent then Inl PolicyError
         else if requested > l_expires_at_ns parent then Inl PolicyError
         else Inr ()))"

definition renew_guards :: "svc \<Rightarrow> renew_request \<Rightarrow> envelope_row \<Rightarrow> lease_row \<Rightarrow> db
    \<Rightarrow> (db \<times> int \<times> string list) res" where
  "renew_guards sv q envelope lease db =
    rbind (require_runtime_active db) (\<lambda>_.
    if \<not> List.member [ACTIVE, QUIESCENT] (l_status lease) then Inl PolicyError
    else rbind (clock_is_safe sv envelope True db) (\<lambda>(db1, uncertainty).
    if sv_now_ns sv + uncertainty \<ge> l_expires_at_ns lease then Inl ExpiredError
    else if lease_revoked db1 lease then Inl PolicyError
    else rbind (policy_of db1 (l_policy_digest lease)) (\<lambda>policy.
    if \<not> max_ttl_ok (p_payload policy) (nq_ttl q) then Inl PolicyError
    else if (case nq_expected_sequence q of None \<Rightarrow> False | Some n \<Rightarrow> l_sequence lease \<noteq> n) then Inl ConflictError
    else let requested = sv_now_ns sv + nq_ttl q in
      rbind (renew_parent_ok db1 lease requested) (\<lambda>_.
      if requested \<le> sv_now_ns sv + uncertainty then Inl ExpiredError
      else let descendant_ids = longer_descendants db1 (nq_lease_id q) requested in
        if length descendant_ids > MAX_ATOMIC_CASCADE_DESCENDANTS then Inl PolicyError
        else if descendant_ids \<noteq> [] \<and> \<not> nq_cascade q then Inl ConflictError
        else Inr (db1, requested, descendant_ids)))))"

text \<open>Re-sign one lease with a new issue time and expiry.\<close>

definition resign_lease :: "svc \<Rightarrow> envelope_row \<Rightarrow> int \<Rightarrow> lease_row \<Rightarrow> db \<Rightarrow> db res" where
  "resign_lease sv envelope requested lease db =
    rbind (grant_from_row envelope db lease) (\<lambda>grant.
    rbind (LeaseGrant_post_init (grant\<lparr>g_issued_at_ns := sv_now_ns sv, g_expires_at_ns := requested,
      g_key_id := sv_key_id sv, g_signature := JStr []\<rparr>)) (\<lambda>renewed.
    rbind (sign_record sv (LeaseGrant_unsigned_payload renewed)) (\<lambda>signature.
    rbind (b64url_decode signature) (\<lambda>sig.
    update_lease (l_lease_id lease) (\<lambda>r. r\<lparr>l_issued_at_ns := sv_now_ns sv, l_expires_at_ns := requested,
      l_key_id := sv_key_id sv, l_signature := sig, l_sequence := l_sequence r + 1,
      l_updated_at_ns := sv_now_ns sv\<rparr>) db))))"

definition renew_effect :: "svc \<Rightarrow> string \<Rightarrow> renew_request \<Rightarrow> envelope_row \<Rightarrow> lease_row \<Rightarrow> int \<Rightarrow> string list
    \<Rightarrow> LeaseSnapshot tx" where
  "renew_effect sv request_id q envelope lease requested descendant_ids db =
    rbind (foldM (\<lambda>d descendant_id.
      rbind (load_lease d descendant_id) (\<lambda>descendant. resign_lease sv envelope requested descendant d))
      db descendant_ids) (\<lambda>db1.
    rbind (resign_lease sv envelope requested lease db1) (\<lambda>db2.
    rbind (load_lease db2 (nq_lease_id q)) (\<lambda>updated.
    rbind (snapshot_from_row envelope db2 updated) (\<lambda>snapshot.
    rbind (append_audit sv envelope ''lease.renewed'' (Some ''lease'') (Some (nq_lease_id q)) (nq_actor q)
      [(''expires_at_ns'', JInt requested), (''cascaded_descendants'', jstrs descendant_ids),
       (''sequence'', JInt (s_sequence snapshot))] db2) (\<lambda>db3.
    rbind (remember_response (''renew:'' @ nq_lease_id q) request_id (nq_fingerprint q)
      (LeaseSnapshot_to_dict snapshot) (sv_now_ns sv) 200 db3) (\<lambda>db4.
    Inr (db4, snapshot)))))))"

definition renew_body :: "svc \<Rightarrow> string \<Rightarrow> renew_request \<Rightarrow> LeaseSnapshot tx" where
  "renew_body sv request_id q db =
    rbind (singleton_envelope db) (\<lambda>envelope.
    rbind (clock_is_safe sv envelope True db) (\<lambda>(db0, _).
    rbind (load_lease db0 (nq_lease_id q)) (\<lambda>lease.
    let managed = has_scope (nq_scopes q) SUBJECT_LIFECYCLE_SCOPES in
    if nq_actor q \<noteq> l_subject_id lease \<and> \<not> managed then Inl PolicyError
    else if l_parent_id lease = None \<and> \<not> managed then Inl PolicyError
    else rbind (idempotent_response db0 (''renew:'' @ nq_lease_id q) request_id (nq_fingerprint q)) (\<lambda>prior.
    case prior of
      Some response \<Rightarrow> rbind (LeaseSnapshot_from_dict response) (\<lambda>s. Inr (db0, s))
    | None \<Rightarrow>
        rbind (renew_guards sv q envelope lease db0) (\<lambda>(db1, requested, descendant_ids).
        renew_effect sv request_id q envelope lease requested descendant_ids db1)))))"

definition renew :: "svc \<Rightarrow> string \<Rightarrow> IdentityContext \<Rightarrow> string \<Rightarrow> int \<Rightarrow> int option \<Rightarrow> bool \<Rightarrow> LeaseSnapshot tx" where
  "renew sv request_id identity lease_id ttl_ns expected_sequence cascade db =
    rbind (renew_request_of sv request_id identity lease_id ttl_ns expected_sequence cascade db) (\<lambda>q.
    rbind (store_metadata db) (\<lambda>meta.
    write_or_degraded (sv_capacity sv)
      (rbind (degraded_lease_idempotent_response db (e_tenant_id meta) (e_envelope_id meta) lease_id
        (nq_actor q) (nq_scopes q) True (''renew:'' @ lease_id) request_id (nq_fingerprint q))
        LeaseSnapshot_from_dict)
      (renew_body sv request_id q) db))"

section \<open>Remote children of a lease that is closed\<close>

definition open_child :: "remote_child_row \<Rightarrow> bool" where
  "open_child c = List.member [RC_PENDING, RC_ACTIVE] (rc_status c)"

definition TERMINAL_LEASE_STATUSES :: "string list" where
  "TERMINAL_LEASE_STATUSES = [''CLOSED'', ''EXPIRED'', ''REVOKED'', ''TERMINATED'']"

text \<open>
  \<open>_probe_remote_children\<close>, in a read transaction before the write; a resolver
  that raises counts as one that knows nothing of the lease.
\<close>

definition probe_remote_children :: "svc \<Rightarrow> string \<Rightarrow> db \<Rightarrow> (string \<times> string) list res" where
  "probe_remote_children sv parent_id db =
    rbind (singleton_envelope db) (\<lambda>envelope.
    let grace_ns = sv_uncertainty_ns sv + e_receipt_ttl_ns envelope;
        rows = sort_key rc_child_lease_id (filter (\<lambda>c. rc_parent_id c = parent_id \<and> open_child c
          \<and> rc_expires_at_ns c + grace_ns > sv_now_ns sv) (db_remote_children db)) in
    case sv_remote_lease_resolver sv of
      None \<Rightarrow> Inr []
    | Some resolver \<Rightarrow>
        Inr (concat (map (\<lambda>row. case resolver (rc_target_warden row) (rc_child_lease_id row) of
            None \<Rightarrow> []
          | Some snapshot \<Rightarrow> (case jget_null ''status'' snapshot of
              JStr observed \<Rightarrow> if List.member TERMINAL_LEASE_STATUSES observed
                then [(rc_child_lease_id row, observed)] else []
            | _ \<Rightarrow> [])) rows)))"

definition remote_child_checks :: "remote_child_row \<Rightarrow> bool" where
  "remote_child_checks c =
    (list_all text_ok [rc_child_lease_id c, rc_parent_id c, rc_target_warden c, rc_transfer_id c]
     \<and> 0 < rc_sequence c \<and> wf_vec (length (rc_allocation c)) (rc_allocation c) \<and> nonzero (rc_allocation c)
     \<and> 0 \<le> rc_expires_at_ns c
     \<and> (case rc_observed_status c of None \<Rightarrow> True | Some s \<Rightarrow> 1 \<le> length s \<and> length s \<le> 64)
     \<and> 0 \<le> rc_created_at_ns c \<and> rc_created_at_ns c \<le> rc_updated_at_ns c)"

text \<open>UPDATE remote_children; the number of rows changed is returned with the database.\<close>

definition update_remote_children :: "(remote_child_row \<Rightarrow> bool) \<Rightarrow> (remote_child_row \<Rightarrow> remote_child_row) \<Rightarrow> db
    \<Rightarrow> (db \<times> nat) res" where
  "update_remote_children sel f db =
    (let hits = filter sel (db_remote_children db) in
     if \<not> list_all (\<lambda>c. remote_child_checks (f c)) hits then Inl IntegrityError
     else Inr (db\<lparr>db_remote_children := map (\<lambda>c. if sel c then f c else c) (db_remote_children db)\<rparr>, length hits))"

definition terminate_remote_child :: "svc \<Rightarrow> envelope_row \<Rightarrow> string \<Rightarrow> string \<Rightarrow> string \<times> string \<Rightarrow> db \<Rightarrow> db res" where
  "terminate_remote_child sv envelope lease_id actor = (\<lambda>(child_lease_id, observed) db.
    rbind (update_remote_children
      (\<lambda>c. rc_parent_id c = lease_id \<and> rc_child_lease_id c = child_lease_id \<and> open_child c)
      (\<lambda>c. c\<lparr>rc_status := RC_TERMINATED, rc_observed_status := Some observed,
        rc_updated_at_ns := sv_now_ns sv\<rparr>) db) (\<lambda>(db1, rowcount).
    if rowcount \<noteq> 0 then
      append_audit sv envelope ''lease.remote-child-terminated'' (Some ''lease'') (Some child_lease_id) actor
        [(''parent_id'', JStr lease_id), (''observed_status'', JStr observed)] db1
    else Inr db1))"

definition require_no_live_descendants :: "svc \<Rightarrow> envelope_row \<Rightarrow> string \<Rightarrow> string \<Rightarrow> (string \<times> string) list
    \<Rightarrow> db \<Rightarrow> db res" where
  "require_no_live_descendants sv envelope lease_id actor terminated db =
    rbind (clock_is_safe sv envelope True db) (\<lambda>(db1, uncertainty).
    let grace_ns = uncertainty + e_receipt_ttl_ns envelope in
    rbind (foldM (\<lambda>d t. terminate_remote_child sv envelope lease_id actor t d) db1 terminated) (\<lambda>db2.
    if list_ex (\<lambda>c. l_parent_id c = Some lease_id \<and> List.member live_statuses (l_status c)
      \<and> l_expires_at_ns c + uncertainty > sv_now_ns sv) (db_leases db2) then Inl PolicyError
    else if list_ex (\<lambda>c. rc_parent_id c = lease_id \<and> open_child c
      \<and> rc_expires_at_ns c + grace_ns > sv_now_ns sv) (db_remote_children db2) then Inl PolicyError
    else Inr db2))"

section \<open>quiesce, resume and close\<close>

datatype lifecycle_op = Quiesce | Resume | Close

fun op_name :: "lifecycle_op \<Rightarrow> string" where
  "op_name Quiesce = ''quiesce''"
| "op_name Resume = ''resume''"
| "op_name Close = ''close''"

fun op_event :: "lifecycle_op \<Rightarrow> string" where
  "op_event Quiesce = ''lease.quiesced''"
| "op_event Resume = ''lease.resumed''"
| "op_event Close = ''lease.closed''"

record lifecycle_request =
  cq_actor :: string
  cq_scopes :: "string list"
  cq_lease_id :: string
  cq_expected_sequence :: "int option"
  cq_fingerprint :: string

definition lifecycle_request_of :: "lifecycle_op \<Rightarrow> svc \<Rightarrow> string \<Rightarrow> IdentityContext \<Rightarrow> string \<Rightarrow> int option \<Rightarrow> db
    \<Rightarrow> lifecycle_request res" where
  "lifecycle_request_of operation sv request_id identity lease_id expected_sequence db =
    rbind (req_ids [request_id, lease_id]) (\<lambda>_.
    if \<not> sequence_ok expected_sequence then Inl ValidationError
    else rbind (identity_fields identity) (\<lambda>(identity_tenant, actor, scopes).
    rbind (store_metadata db) (\<lambda>meta.
    if identity_tenant \<noteq> e_tenant_id meta then Inl PolicyError
    else rbind (fingerprint sv (op_name operation)
      [(''actor'', JStr actor), (''lease_id'', JStr lease_id),
       (''expected_sequence'', jopt_int expected_sequence),
       (''config_epoch'', JInt (e_config_epoch meta))]) (\<lambda>fp.
    Inr \<lparr>cq_actor = actor, cq_scopes = scopes, cq_lease_id = lease_id,
      cq_expected_sequence = expected_sequence, cq_fingerprint = fp\<rparr>))))"

text \<open>
  The decision of an operation: the database after its guards, and the status to
  write, or None when the lease already is in the state asked for.
\<close>

definition lifecycle_decide :: "lifecycle_op \<Rightarrow> svc \<Rightarrow> lifecycle_request \<Rightarrow> envelope_row \<Rightarrow> lease_row
    \<Rightarrow> (string \<times> string) list \<Rightarrow> db \<Rightarrow> (db \<times> LeaseStatus option) res" where
  "lifecycle_decide operation sv q envelope lease terminated db =
    (case operation of
       Quiesce \<Rightarrow>
         if l_status lease = QUIESCENT then Inr (db, None)
         else rbind (require_actionable sv envelope lease db) (\<lambda>db1. Inr (db1, Some QUIESCENT))
     | Resume \<Rightarrow>
         if l_status lease = ACTIVE then Inr (db, None)
         else if l_status lease = QUIESCENT then
           rbind (clock_is_safe sv envelope True db) (\<lambda>(db1, _).
           if sv_now_ns sv + sv_uncertainty_ns sv \<ge> l_expires_at_ns lease then Inl ExpiredError
           else if lease_revoked db1 lease then Inl PolicyError
           else Inr (db1, Some ACTIVE))
         else Inl PolicyError
     | Close \<Rightarrow>
         if List.member [CLOSED, EXPIRED] (l_status lease) then Inr (db, None)
         else rbind (require_no_live_descendants sv envelope (cq_lease_id q) (cq_actor q) terminated db)
           (\<lambda>db1. Inr (db1, Some CLOSED)))"

definition lifecycle_mutate :: "lifecycle_op \<Rightarrow> svc \<Rightarrow> lifecycle_request \<Rightarrow> envelope_row \<Rightarrow> lease_row
    \<Rightarrow> LeaseStatus \<Rightarrow> db \<Rightarrow> db res" where
  "lifecycle_mutate operation sv q envelope lease resulting_status db =
    rbind (zero (int (length (l_residual lease)))) (\<lambda>zeros.
    let returned = (if operation = Close then l_residual lease else zeros);
        new_residual = (if operation = Close then zeros else l_residual lease) in
    rbind (packed new_residual) (\<lambda>residual'.
    rbind (update_lease_residual (cq_lease_id q) (\<lambda>r. r\<lparr>l_residual := residual',
      l_status := resulting_status, l_sequence := l_sequence r + 1,
      l_updated_at_ns := sv_now_ns sv\<rparr>) db) (\<lambda>db1.
    rbind (if operation = Close \<and> nonzero returned
      then rbind (of_option StorageError (db_warden_state db1)) (\<lambda>w.
        rbind (rbind (add (w_free_pool w) returned) packed) (\<lambda>free'.
        update_warden_state (\<lambda>w. w\<lparr>w_free_pool := free', w_revision := w_revision w + 1,
          w_updated_at_ns := sv_now_ns sv\<rparr>) db1))
      else Inr db1) (\<lambda>db2.
    append_audit sv envelope (op_event operation) (Some ''lease'') (Some (cq_lease_id q)) (cq_actor q)
      [(''returned'', jvec returned)] db2))))"

definition lifecycle_body :: "lifecycle_op \<Rightarrow> svc \<Rightarrow> string \<Rightarrow> lifecycle_request \<Rightarrow> (string \<times> string) list
    \<Rightarrow> LeaseSnapshot tx" where
  "lifecycle_body operation sv request_id q terminated db =
    rbind (singleton_envelope db) (\<lambda>envelope.
    rbind (clock_is_safe sv envelope True db) (\<lambda>(db0, _).
    rbind (load_lease db0 (cq_lease_id q)) (\<lambda>lease.
    if cq_actor q \<noteq> l_subject_id lease \<and> \<not> has_scope (cq_scopes q) SUBJECT_LIFECYCLE_SCOPES
    then Inl PolicyError
    else rbind (idempotent_response db0 (op_name operation @ '':'' @ cq_lease_id q) request_id
      (cq_fingerprint q)) (\<lambda>prior.
    case prior of
      Some response \<Rightarrow> rbind (LeaseSnapshot_from_dict response) (\<lambda>s. Inr (db0, s))
    | None \<Rightarrow>
        rbind (if operation = Resume then require_runtime_active db0 else Inr ()) (\<lambda>_.
        if (case cq_expected_sequence q of None \<Rightarrow> False | Some n \<Rightarrow> l_sequence lease \<noteq> n)
        then Inl ConflictError
        else rbind (lifecycle_decide operation sv q envelope lease terminated db0) (\<lambda>(db1, decision).
        rbind (case decision of None \<Rightarrow> Inr db1
          | Some resulting_status \<Rightarrow>
              lifecycle_mutate operation sv q envelope lease resulting_status db1) (\<lambda>db2.
        rbind (load_lease db2 (cq_lease_id q)) (\<lambda>updated.
        rbind (snapshot_from_row envelope db2 updated) (\<lambda>snapshot.
        rbind (remember_response (op_name operation @ '':'' @ cq_lease_id q) request_id (cq_fingerprint q)
          (LeaseSnapshot_to_dict snapshot) (sv_now_ns sv) 200 db2) (\<lambda>db3.
        Inr (db3, snapshot)))))))))))"

definition lifecycle :: "lifecycle_op \<Rightarrow> svc \<Rightarrow> string \<Rightarrow> IdentityContext \<Rightarrow> string \<Rightarrow> int option
    \<Rightarrow> LeaseSnapshot tx" where
  "lifecycle operation sv request_id identity lease_id expected_sequence db =
    rbind (lifecycle_request_of operation sv request_id identity lease_id expected_sequence db) (\<lambda>q.
    rbind (if operation = Close then probe_remote_children sv lease_id db else Inr []) (\<lambda>terminated.
    rbind (store_metadata db) (\<lambda>meta.
    write_or_degraded (if operation = Resume then sv_capacity sv else sv_recovery_capacity sv)
      (rbind (degraded_lease_idempotent_response db (e_tenant_id meta) (e_envelope_id meta) lease_id
        (cq_actor q) (cq_scopes q) False (op_name operation @ '':'' @ lease_id) request_id
        (cq_fingerprint q)) LeaseSnapshot_from_dict)
      (lifecycle_body operation sv request_id q terminated) db)))"

definition quiesce :: "svc \<Rightarrow> string \<Rightarrow> IdentityContext \<Rightarrow> string \<Rightarrow> int option \<Rightarrow> LeaseSnapshot tx" where
  "quiesce = lifecycle Quiesce"

definition resume :: "svc \<Rightarrow> string \<Rightarrow> IdentityContext \<Rightarrow> string \<Rightarrow> int option \<Rightarrow> LeaseSnapshot tx" where
  "resume = lifecycle Resume"

definition close :: "svc \<Rightarrow> string \<Rightarrow> IdentityContext \<Rightarrow> string \<Rightarrow> int option \<Rightarrow> LeaseSnapshot tx" where
  "close = lifecycle Close"

section \<open>reclaim_expired\<close>

definition reclaimable :: "db \<Rightarrow> int \<Rightarrow> int \<Rightarrow> lease_row \<Rightarrow> bool" where
  "reclaimable db latest_expiry lower_bound_now c =
    (List.member [PROVISIONED, ACTIVE, QUIESCENT, REVOKED] (l_status c) \<and> l_expires_at_ns c \<le> latest_expiry
     \<and> \<not> list_ex (\<lambda>x. r_lease_id (rr_receipt x) = l_lease_id c
          \<and> r_expires_at_ns (rr_receipt x) > lower_bound_now) (db_receipts db))"

definition reclaim_candidates :: "svc \<Rightarrow> envelope_row \<Rightarrow> int \<Rightarrow> db \<Rightarrow> lease_row list" where
  "reclaim_candidates sv envelope uncertainty db =
    (let lower_bound_now = sv_now_ns sv - uncertainty;
         latest = lower_bound_now - e_receipt_ttl_ns envelope in
     if latest \<ge> 0
     then take MAINTENANCE_ROW_BATCH
       (sort_key l_lease_id (filter (reclaimable db latest lower_bound_now) (db_leases db)))
     else [])"

text \<open>One iteration of the loop over the candidates.\<close>

definition reclaim_one :: "svc \<Rightarrow> vec \<Rightarrow> db \<times> vec \<Rightarrow> lease_row \<Rightarrow> (db \<times> vec) res" where
  "reclaim_one sv zeros = (\<lambda>(db, reclaimed) lease.
    rbind (add reclaimed (l_residual lease)) (\<lambda>reclaimed'.
    rbind (packed zeros) (\<lambda>residual'.
    rbind (update_lease_residual (l_lease_id lease) (\<lambda>r. r\<lparr>l_residual := residual', l_status := EXPIRED,
      l_sequence := l_sequence r + 1, l_updated_at_ns := sv_now_ns sv\<rparr>) db) (\<lambda>db'.
    Inr (db', reclaimed')))))"

definition reclaim_body :: "svc \<Rightarrow> IdentityContext \<Rightarrow> string option \<Rightarrow> string option \<Rightarrow> vec tx" where
  "reclaim_body sv identity tenant_id envelope_id db =
    rbind (singleton_envelope db) (\<lambda>envelope.
    if (case tenant_id of None \<Rightarrow> False | Some t \<Rightarrow> t \<noteq> e_tenant_id envelope) then Inl NotFoundError
    else if (case envelope_id of None \<Rightarrow> False | Some e \<Rightarrow> e \<noteq> e_envelope_id envelope) then Inl NotFoundError
    else rbind (require_admin identity (e_tenant_id envelope)) (\<lambda>actor.
    rbind (clock_is_safe sv envelope True db) (\<lambda>(db0, uncertainty).
    rbind (zero (int (e_dimension_count envelope))) (\<lambda>zeros.
    let candidates = reclaim_candidates sv envelope uncertainty db0 in
    rbind (foldM (reclaim_one sv zeros) (db0, zeros) candidates) (\<lambda>(db1, reclaimed).
    if candidates = [] then Inr (db1, reclaimed)
    else rbind (of_option StorageError (db_warden_state db1)) (\<lambda>w.
    rbind (rbind (add (w_free_pool w) reclaimed) packed) (\<lambda>free'.
    rbind (update_warden_state (\<lambda>w. w\<lparr>w_free_pool := free', w_revision := w_revision w + 1,
      w_updated_at_ns := sv_now_ns sv\<rparr>) db1) (\<lambda>db2.
    rbind (append_audit sv envelope ''leases.reclaimed'' (Some ''envelope'') (Some (e_envelope_id envelope))
      actor
      [(''lease_ids'', jstrs (map l_lease_id candidates)), (''reclaimed'', jvec reclaimed),
       (''lower_bound_now_ns'', JInt (sv_now_ns sv - uncertainty))] db2) (\<lambda>db3.
    Inr (db3, reclaimed))))))))))"

definition reclaim_expired :: "svc \<Rightarrow> IdentityContext \<Rightarrow> string option \<Rightarrow> string option \<Rightarrow> vec tx" where
  "reclaim_expired sv identity tenant_id envelope_id db =
    write_or_degraded (sv_recovery_capacity sv) (Inl CapacityError)
      (reclaim_body sv identity tenant_id envelope_id) db"

section \<open>Reading a lease\<close>

definition snapshot :: "svc \<Rightarrow> IdentityContext \<Rightarrow> string \<Rightarrow> db \<Rightarrow> LeaseSnapshot res" where
  "snapshot sv identity lease_id db =
    rbind (require_identifier lease_id) (\<lambda>_.
    rbind (identity_fields identity) (\<lambda>(identity_tenant, actor, scopes).
    rbind (singleton_envelope db) (\<lambda>envelope.
    if identity_tenant \<noteq> e_tenant_id envelope then Inl PolicyError
    else rbind (load_lease db lease_id) (\<lambda>lease.
    if actor \<noteq> l_subject_id lease \<and> \<not> has_scope scopes SUBJECT_LIFECYCLE_SCOPES then Inl PolicyError
    else snapshot_from_row envelope db lease))))"

definition peer_lease_status :: "svc \<Rightarrow> IdentityContext \<Rightarrow> string \<Rightarrow> db \<Rightarrow> LeaseSnapshot res" where
  "peer_lease_status sv identity lease_id db =
    rbind (require_identifier lease_id) (\<lambda>_.
    rbind (identity_fields identity) (\<lambda>(identity_tenant, actor, scopes).
    let is_peer = (case sv_allowed_peer_wardens sv of None \<Rightarrow> False | Some ps \<Rightarrow> List.member ps actor) in
    if \<not> is_peer \<and> \<not> has_scope scopes (ADMIN_SCOPES @ [''lets.peer'']) then Inl PolicyError
    else rbind (singleton_envelope db) (\<lambda>envelope.
    if identity_tenant \<noteq> e_tenant_id envelope then Inl PolicyError
    else rbind (load_lease db lease_id) (\<lambda>lease. snapshot_from_row envelope db lease))))"

end
