(* ===== verification/Revocation.thy ===== *)
theory Revocation
  imports Lifecycle
begin

text \<open>
  Branch revocation in WardenService: revoke_branch, which issues a signed
  revocation with the next epoch of its branch, and ingest_revocation, which
  accepts one from a peer; both materialize the revocation on a bounded batch of
  local leases and queue it for delivery.
\<close>

section \<open>The revocations table\<close>

definition rev_key :: "revocation_row \<Rightarrow> string \<times> string" where
  "rev_key r = (b_lineage_id (v_rev r), b_branch_lease_id (v_rev r))"

definition revocation_checks :: "revocation_row \<Rightarrow> bool" where
  "revocation_checks r =
    (let b = v_rev r in
     list_all text_ok [b_lineage_id b, b_branch_lease_id b, b_issuer_warden b, b_key_id b]
     \<and> 0 < b_epoch b \<and> 1 \<le> b_config_epoch b \<and> 0 \<le> v_rev_observed_at_ns r
     \<and> 1 \<le> length (b_reason b) \<and> length (b_reason b) \<le> 1000
     \<and> 0 \<le> b_issued_at_ns b \<and> b_issued_at_ns b \<le> v_rev_observed_at_ns r \<and> v_rev_signature r \<noteq> [])"

definition insert_revocation :: "revocation_row \<Rightarrow> db \<Rightarrow> db res" where
  "insert_revocation r db =
    (if b_config_epoch (v_rev r) \<noteq> env_epoch db \<or> \<not> revocation_checks r then Inl IntegrityError
     else rbind (tinsert rev_key r (db_revocations db)) (\<lambda>rows. Inr (db\<lparr>db_revocations := rows\<rparr>)))"

text \<open>UPDATE revocations under the trigger revocations_epoch_update.\<close>

definition update_revocation :: "revocation_row \<Rightarrow> db \<Rightarrow> db res" where
  "update_revocation r db =
    (case tfind rev_key (rev_key r) (db_revocations db) of
       None \<Rightarrow> Inr db
     | Some old \<Rightarrow>
         if b_epoch (v_rev r) \<le> b_epoch (v_rev old) \<or> b_config_epoch (v_rev r) \<noteq> b_config_epoch (v_rev old)
            \<or> \<not> revocation_checks r then Inl IntegrityError
         else Inr (db\<lparr>db_revocations := tupdate rev_key (rev_key r) (\<lambda>_. r) (db_revocations db)\<rparr>))"

section \<open>Peer delivery\<close>

definition pd_key :: "peer_delivery_row \<Rightarrow> string \<times> string \<times> string" where
  "pd_key r = (pd_record_kind r, pd_record_id r, pd_target_warden r)"

definition pc_key :: "peer_counter_row \<Rightarrow> string \<times> string" where
  "pc_key r = (pc_record_kind r, pc_target_warden r)"

definition pending_in_stream :: "string \<Rightarrow> string \<Rightarrow> string \<Rightarrow> peer_delivery_row \<Rightarrow> bool" where
  "pending_in_stream record_kind target_warden ordering_key r =
    (pd_record_kind r = record_kind \<and> pd_target_warden r = target_warden \<and> pd_ordering_key r = ordering_key
     \<and> pd_delivered_at_ns r = None \<and> pd_superseded_at_ns r = None)"

definition supersede_pending :: "string \<Rightarrow> string \<Rightarrow> string \<Rightarrow> int \<Rightarrow> db \<Rightarrow> db res" where
  "supersede_pending record_kind target_warden ordering_key now_ns db =
    (let sel = pending_in_stream record_kind target_warden ordering_key;
         hits = filter sel (db_peer_delivery db);
         db1 = db\<lparr>db_peer_delivery := map (\<lambda>r. if sel r then r\<lparr>pd_superseded_at_ns := Some now_ns,
           pd_last_error := Some ''superseded by newer signed state''\<rparr> else r) (db_peer_delivery db)\<rparr> in
     if hits = [] then Inr db1
     else if now_ns < 0 then Inl IntegrityError
     else if tfind pc_key (record_kind, target_warden) (db_peer_counters db1) = None
     then Inr (db1\<lparr>db_peer_counters := db_peer_counters db1 @ [\<lparr>pc_record_kind = record_kind,
       pc_target_warden = target_warden, pc_delivered_count = 0,
       pc_superseded_count = int (length hits), pc_last_terminal_ns = now_ns\<rparr>]\<rparr>)
     else Inr (db1\<lparr>db_peer_counters := tupdate pc_key (record_kind, target_warden) (\<lambda>c.
       c\<lparr>pc_superseded_count := pc_superseded_count c + int (length hits),
         pc_last_terminal_ns := now_ns\<rparr>) (db_peer_counters db1)\<rparr>))"

definition peer_delivery_checks :: "peer_delivery_row \<Rightarrow> bool" where
  "peer_delivery_checks r =
    (List.member [''transfer'', ''revocation'', ''checkpoint''] (pd_record_kind r)
     \<and> text_ok (pd_record_id r) \<and> 1 \<le> length (pd_target_warden r) \<and> length (pd_target_warden r) \<le> 128
     \<and> text_ok (pd_ordering_key r) \<and> 0 < pd_stream_position r \<and> 0 \<le> pd_created_at_ns r)"

definition enqueue_peer_delivery :: "string \<Rightarrow> string \<Rightarrow> string \<Rightarrow> string \<Rightarrow> int \<Rightarrow> wire_dict \<Rightarrow> int \<Rightarrow> bool
    \<Rightarrow> db \<Rightarrow> db res" where
  "enqueue_peer_delivery record_kind record_id target_warden ordering_key stream_position payload now_ns
      supersede_older db =
    rbind (if supersede_older then supersede_pending record_kind target_warden ordering_key now_ns db
      else Inr db) (\<lambda>db1.
    let r = \<lparr>pd_record_kind = record_kind, pd_record_id = record_id, pd_target_warden = target_warden,
      pd_ordering_key = ordering_key, pd_stream_position = stream_position, pd_payload = payload,
      pd_created_at_ns = now_ns, pd_delivered_at_ns = None, pd_superseded_at_ns = None,
      pd_last_error = None\<rparr> in
    if \<not> peer_delivery_checks r then Inl IntegrityError
    else rbind (tinsert pd_key r (db_peer_delivery db1)) (\<lambda>rows.
      Inr (db1\<lparr>db_peer_delivery := rows\<rparr>)))"

section \<open>revoke_branch\<close>

record revoke_request =
  vq_actor :: string
  vq_lease_id :: string
  vq_reason :: string
  vq_expected_epoch :: "int option"
  vq_fingerprint :: string

definition revoke_request_of :: "svc \<Rightarrow> string \<Rightarrow> IdentityContext \<Rightarrow> string \<Rightarrow> string \<Rightarrow> int option \<Rightarrow> db
    \<Rightarrow> revoke_request res" where
  "revoke_request_of sv request_id identity lease_id reason expected_epoch db =
    rbind (req_ids [request_id, lease_id]) (\<lambda>_.
    if reason = [] \<or> length reason > 1000 then Inl ValidationError
    else if \<not> sequence_ok expected_epoch then Inl ValidationError
    else rbind (identity_fields identity) (\<lambda>(identity_tenant, actor, scopes).
    if \<not> has_scope scopes (ADMIN_SCOPES @ [''lets.branch.revoke'']) then Inl PolicyError
    else rbind (store_metadata db) (\<lambda>meta.
    if identity_tenant \<noteq> e_tenant_id meta then Inl PolicyError
    else rbind (fingerprint sv ''revoke_branch''
      [(''actor'', JStr actor), (''lease_id'', JStr lease_id), (''reason'', JStr reason),
       (''expected_epoch'', jopt_int expected_epoch), (''config_epoch'', JInt (e_config_epoch meta))]) (\<lambda>fp.
    Inr \<lparr>vq_actor = actor, vq_lease_id = lease_id, vq_reason = reason,
      vq_expected_epoch = expected_epoch, vq_fingerprint = fp\<rparr>))))"

definition branch_epoch_of :: "db \<Rightarrow> string \<Rightarrow> string \<Rightarrow> int option" where
  "branch_epoch_of db lineage_id branch_lease_id =
    map_option (\<lambda>r. b_epoch (v_rev r)) (tfind rev_key (lineage_id, branch_lease_id) (db_revocations db))"

text \<open>The retry of a revocation: materialize the next batch.\<close>

definition rematerialize :: "svc \<Rightarrow> envelope_row \<Rightarrow> string \<Rightarrow> string \<Rightarrow> string \<Rightarrow> wire_dict \<Rightarrow> db \<Rightarrow> db res" where
  "rematerialize sv envelope lineage_id branch_lease_id actor details db =
    rbind (materialize_revoked_branch lineage_id branch_lease_id (sv_now_ns sv) db) (\<lambda>(db1, affected, complete).
    if affected \<noteq> [] then
      append_audit sv envelope ''branch.revocation-materialized'' (Some ''lease'') (Some branch_lease_id) actor
        (details @ [(''affected'', jstrs affected), (''materialization_complete'', JBool complete)]) db1
    else Inr db1)"

definition revoke_record :: "svc \<Rightarrow> envelope_row \<Rightarrow> string \<Rightarrow> string \<Rightarrow> int \<Rightarrow> string \<Rightarrow> BranchRevocation res" where
  "revoke_record sv envelope lease_id lineage_id epoch reason =
    rbind (BranchRevocation_post_init
      \<lparr>b_tenant_id = e_tenant_id envelope, b_envelope_id = e_envelope_id envelope,
       b_config_epoch = e_config_epoch envelope, b_branch_lease_id = lease_id, b_lineage_id = lineage_id,
       b_epoch = epoch, b_issuer_warden = sv_warden_id sv, b_issued_at_ns = sv_now_ns sv,
       b_reason = reason, b_key_id = sv_key_id sv, b_signature = JStr []\<rparr>) (\<lambda>unsigned.
    rbind (sign_record sv (BranchRevocation_unsigned_payload unsigned)) (\<lambda>signature.
    BranchRevocation_post_init (unsigned\<lparr>b_signature := JStr signature\<rparr>)))"

definition store_revocation :: "BranchRevocation \<Rightarrow> int \<Rightarrow> bool \<Rightarrow> db \<Rightarrow> db res" where
  "store_revocation revocation now_ns exists db =
    rbind (rbind (as_str (b_signature revocation)) b64url_decode) (\<lambda>signature.
    let r = \<lparr>v_rev = revocation, v_rev_observed_at_ns = now_ns, v_rev_signature = signature\<rparr> in
    if exists then update_revocation r db else insert_revocation r db)"

definition enqueue_revocation :: "svc \<Rightarrow> BranchRevocation \<Rightarrow> db \<Rightarrow> db res" where
  "enqueue_revocation sv revocation db =
    (case sv_allowed_peer_wardens sv of
       None \<Rightarrow> Inr db
     | Some peers \<Rightarrow>
         rbind (canonical_digest (sv_sha256 sv) (JObj (BranchRevocation_to_dict revocation))) (\<lambda>delivery_id.
         rbind (canonical_digest (sv_sha256 sv) (JObj [(''lineage_id'', JStr (b_lineage_id revocation)),
           (''branch_lease_id'', JStr (b_branch_lease_id revocation))])) (\<lambda>ordering_key.
         foldM (\<lambda>d target. enqueue_peer_delivery ''revocation'' delivery_id target ordering_key
           (b_epoch revocation) (BranchRevocation_to_dict revocation) (sv_now_ns sv) True d)
           db (frozenset peers))))"

definition revoke_branch_effect :: "svc \<Rightarrow> string \<Rightarrow> revoke_request \<Rightarrow> envelope_row \<Rightarrow> string \<Rightarrow> int option
    \<Rightarrow> BranchRevocation tx" where
  "revoke_branch_effect sv request_id q envelope lineage_id current db =
    (let current_epoch = (case current of None \<Rightarrow> 0 | Some e \<Rightarrow> e) in
     if (case vq_expected_epoch q of None \<Rightarrow> False | Some n \<Rightarrow> n \<noteq> current_epoch) then Inl ConflictError
     else rbind (revoke_record sv envelope (vq_lease_id q) lineage_id (current_epoch + 1) (vq_reason q)) (\<lambda>revocation.
     rbind (canonical_json (JObj (BranchRevocation_to_dict revocation))) (\<lambda>_.
     rbind (store_revocation revocation (sv_now_ns sv) (current \<noteq> None) db) (\<lambda>db1.
     rbind (enqueue_revocation sv revocation db1) (\<lambda>db2.
     rbind (materialize_revoked_branch lineage_id (vq_lease_id q) (sv_now_ns sv) db2)
       (\<lambda>(db3, affected, complete).
     rbind (append_audit sv envelope ''branch.revoked'' (Some ''lease'') (Some (vq_lease_id q)) (vq_actor q)
       [(''lineage_id'', JStr lineage_id), (''epoch'', JInt (b_epoch revocation)),
        (''reason'', JStr (vq_reason q)), (''affected'', jstrs affected),
        (''materialization_complete'', JBool complete)] db3) (\<lambda>db4.
     rbind (remember_response (''revoke:'' @ vq_lease_id q) request_id (vq_fingerprint q)
       (BranchRevocation_to_dict revocation) (sv_now_ns sv) 200 db4) (\<lambda>db5.
     Inr (db5, revocation)))))))))"

definition revoke_branch_body :: "svc \<Rightarrow> string \<Rightarrow> revoke_request \<Rightarrow> BranchRevocation tx" where
  "revoke_branch_body sv request_id q db =
    rbind (singleton_envelope db) (\<lambda>envelope.
    rbind (clock_is_safe sv envelope True db) (\<lambda>(db0, _).
    rbind (load_lease db0 (vq_lease_id q)) (\<lambda>branch.
    let lineage_id = l_lineage_id branch; current = branch_epoch_of db0 lineage_id (vq_lease_id q) in
    rbind (idempotent_response db0 (''revoke:'' @ vq_lease_id q) request_id (vq_fingerprint q)) (\<lambda>prior.
    case prior of
      Some response \<Rightarrow>
        rbind (BranchRevocation_from_dict response) (\<lambda>prior_revocation.
        rbind (rematerialize sv envelope lineage_id (vq_lease_id q) (vq_actor q)
          [(''lineage_id'', JStr lineage_id), (''epoch'', JInt (case current of None \<Rightarrow> 0 | Some e \<Rightarrow> e))]
          db0) (\<lambda>db1. Inr (db1, prior_revocation)))
    | None \<Rightarrow> revoke_branch_effect sv request_id q envelope lineage_id current db0))))"

definition revoke_branch :: "svc \<Rightarrow> string \<Rightarrow> IdentityContext \<Rightarrow> string \<Rightarrow> string \<Rightarrow> int option
    \<Rightarrow> BranchRevocation tx" where
  "revoke_branch sv request_id identity lease_id reason expected_epoch db =
    rbind (revoke_request_of sv request_id identity lease_id reason expected_epoch db) (\<lambda>q.
    rbind (store_metadata db) (\<lambda>meta.
    write_or_degraded (sv_recovery_capacity sv)
      (rbind (degraded_idempotent_response db (e_tenant_id meta) (e_envelope_id meta)
        (''revoke:'' @ lease_id) request_id (vq_fingerprint q)) BranchRevocation_from_dict)
      (revoke_branch_body sv request_id q) db))"

section \<open>ingest_revocation\<close>

definition INGEST_SCOPES :: "string list" where
  "INGEST_SCOPES = ADMIN_SCOPES @ [''lets.branch.revoke.ingest'', ''lets.revocation.propagate'', ''lets.peer'']"

definition ingest_body :: "svc \<Rightarrow> string \<Rightarrow> string \<Rightarrow> BranchRevocation \<Rightarrow> BranchRevocation tx" where
  "ingest_body sv identity_tenant actor parsed db =
    rbind (envelope_of db (b_tenant_id parsed) (b_envelope_id parsed)) (\<lambda>envelope.
    rbind (clock_is_safe sv envelope True db) (\<lambda>(db0, _).
    if identity_tenant \<noteq> b_tenant_id parsed then Inl PolicyError
    else if b_config_epoch parsed \<noteq> e_config_epoch envelope then Inl ConflictError
    else let branch = tfind l_lease_id (b_branch_lease_id parsed) (db_leases db0);
             current = branch_epoch_of db0 (b_lineage_id parsed) (b_branch_lease_id parsed);
             details = [(''lineage_id'', JStr (b_lineage_id parsed)), (''epoch'', JInt (b_epoch parsed)),
               (''issuer_warden'', JStr (b_issuer_warden parsed))] in
      if (case branch of None \<Rightarrow> False | Some b \<Rightarrow> l_lineage_id b \<noteq> b_lineage_id parsed) then Inl ConflictError
      else if (case branch of None \<Rightarrow> False | Some b \<Rightarrow> l_warden_id b \<noteq> b_issuer_warden parsed) then Inl PolicyError
      else rbind (canonical_json (JObj (BranchRevocation_to_dict parsed))) (\<lambda>payload.
      if (case current of None \<Rightarrow> False | Some e \<Rightarrow> b_epoch parsed < e) then Inl ReplayError
      else if current = Some (b_epoch parsed)
      then (if (case tfind rev_key (b_lineage_id parsed, b_branch_lease_id parsed) (db_revocations db0) of
              None \<Rightarrow> False
            | Some r \<Rightarrow> canonical_json (JObj (BranchRevocation_to_dict (v_rev r))) \<noteq> Inr payload)
        then Inl ConflictError
        else rbind (rematerialize sv envelope (b_lineage_id parsed) (b_branch_lease_id parsed) actor details
          db0) (\<lambda>db1. Inr (db1, parsed)))
      else rbind (store_revocation parsed (sv_now_ns sv) (current \<noteq> None) db0) (\<lambda>db1.
        rbind (materialize_revoked_branch (b_lineage_id parsed) (b_branch_lease_id parsed) (sv_now_ns sv) db1)
          (\<lambda>(db2, affected, complete).
        rbind (append_audit sv envelope ''branch.revocation-ingested'' (Some ''lease'')
          (Some (b_branch_lease_id parsed)) actor
          (details @ [(''affected'', jstrs affected), (''materialization_complete'', JBool complete)]) db2)
          (\<lambda>db3. Inr (db3, parsed)))))))"

definition ingest_revocation :: "svc \<Rightarrow> IdentityContext \<Rightarrow> BranchRevocation \<Rightarrow> BranchRevocation tx" where
  "ingest_revocation sv identity parsed db =
    rbind (identity_fields identity) (\<lambda>(identity_tenant, actor, scopes).
    if actor \<noteq> b_issuer_warden parsed \<and> \<not> has_scope scopes INGEST_SCOPES then Inl PolicyError
    else rbind (verify_record sv (BranchRevocation_unsigned_payload parsed) (b_signature parsed)
      (b_key_id parsed) (b_issuer_warden parsed)) (\<lambda>_.
    write_or_degraded (sv_recovery_capacity sv) (Inl CapacityError)
      (ingest_body sv identity_tenant actor parsed) db))"

end
