(* ===== verification/Transfer_Send.thy ===== *)
theory Transfer_Send
  imports Revocation
begin

text \<open>
  The sending half of the transfer protocol in WardenService: prepare_transfer
  moves rights from the free pool, and spawn_remote from a lease, into a signed
  voucher of the next sequence number of the target's stream.
\<close>

section \<open>Outgoing streams and transfers\<close>

definition out_stream_checks :: "out_stream_row \<Rightarrow> bool" where
  "out_stream_checks s =
    (text_ok (os_target_warden s) \<and> 1 \<le> os_config_epoch s \<and> 0 < os_next_sequence s \<and> 0 \<le> os_acked_through s
     \<and> 0 \<le> os_compacted_through s \<and> 0 \<le> os_updated_at_ns s \<and> os_acked_through s < os_next_sequence s
     \<and> os_compacted_through s \<le> os_acked_through s
     \<and> (os_compacted_through s = 0 \<or> os_checkpoint_payload s \<noteq> None))"

definition update_out_stream :: "string \<Rightarrow> (out_stream_row \<Rightarrow> out_stream_row) \<Rightarrow> db \<Rightarrow> db res" where
  "update_out_stream target f db =
    (case tfind os_target_warden target (db_out_streams db) of
       None \<Rightarrow> Inr db
     | Some s \<Rightarrow>
         if \<not> out_stream_checks (f s) then Inl IntegrityError
         else Inr (db\<lparr>db_out_streams := tupdate os_target_warden target f (db_out_streams db)\<rparr>))"

text \<open>INSERT ... ON CONFLICT DO NOTHING, then the SELECT and the epoch check that follow it.\<close>

definition open_out_stream :: "string \<Rightarrow> int \<Rightarrow> int \<Rightarrow> db \<Rightarrow> (db \<times> out_stream_row) res" where
  "open_out_stream target_warden config_epoch now_ns db =
    rbind (case tfind os_target_warden target_warden (db_out_streams db) of
        Some _ \<Rightarrow> Inr db
      | None \<Rightarrow>
          let s = \<lparr>os_target_warden = target_warden, os_config_epoch = config_epoch, os_next_sequence = 1,
            os_acked_through = 0, os_compacted_through = 0, os_checkpoint_payload = None,
            os_updated_at_ns = now_ns\<rparr> in
          if config_epoch \<noteq> env_epoch db \<or> target_warden = db_warden_id db \<or> \<not> out_stream_checks s
          then Inl IntegrityError
          else Inr (db\<lparr>db_out_streams := db_out_streams db @ [s]\<rparr>)) (\<lambda>db1.
    case tfind os_target_warden target_warden (db_out_streams db1) of
      None \<Rightarrow> Inl StorageError
    | Some s \<Rightarrow> if os_config_epoch s \<noteq> config_epoch then Inl ConflictError else Inr (db1, s))"

definition ot_key :: "out_transfer_row \<Rightarrow> string \<times> int" where
  "ot_key r = (v_target_warden (ot_voucher r), v_sequence (ot_voucher r))"

definition out_transfer_checks :: "db \<Rightarrow> out_transfer_row \<Rightarrow> bool" where
  "out_transfer_checks db r =
    (let v = ot_voucher r in
     length (v_amount v) = env_dim db \<and> wf_vec (length (v_amount v)) (v_amount v) \<and> nonzero (v_amount v)
     \<and> v_config_epoch v = env_epoch db \<and> v_source_warden v = db_warden_id db
     \<and> v_source_warden v \<noteq> v_target_warden v \<and> 0 < v_sequence v \<and> 0 \<le> ot_prepared_at_ns r
     \<and> list_all text_ok [v_transfer_id v, v_source_warden v, v_target_warden v, v_policy_version v,
          v_policy_digest v, ot_digest r, v_key_id v]
     \<and> opt_text_ok (ot_child_lease_id r)
     \<and> (v_kind v = TRANSFER_KIND_LEASE) = (v_lease_request v \<noteq> None)
     \<and> (v_kind v = TRANSFER_KIND_LEASE) = (ot_child_lease_id r \<noteq> None)
     \<and> (case ot_acknowledged_at_ns r of None \<Rightarrow> True | Some t \<Rightarrow> ot_prepared_at_ns r \<le> t))"

definition insert_out_transfer :: "out_transfer_row \<Rightarrow> db \<Rightarrow> db res" where
  "insert_out_transfer r db =
    (if \<not> out_transfer_checks db r
        \<or> \<not> policy_exists db (v_policy_version (ot_voucher r)) (v_policy_digest (ot_voucher r))
        \<or> tfind os_target_warden (v_target_warden (ot_voucher r)) (db_out_streams db) = None
        \<or> list_ex (\<lambda>x. ot_digest x = ot_digest r) (db_out_transfers db)
        \<or> list_ex (\<lambda>x. v_transfer_id (ot_voucher x) = v_transfer_id (ot_voucher r)) (db_out_transfers db)
     then Inl IntegrityError
     else rbind (tinsert ot_key r (db_out_transfers db)) (\<lambda>rows. Inr (db\<lparr>db_out_transfers := rows\<rparr>)))"

definition make_voucher :: "svc \<Rightarrow> envelope_row \<Rightarrow> string \<Rightarrow> string \<Rightarrow> policy_row \<Rightarrow> int \<Rightarrow> vec
    \<Rightarrow> string \<Rightarrow> LeaseRequest option \<Rightarrow> TransferVoucher res" where
  "make_voucher sv envelope transfer_id target_warden policy sequence rights kind lease_request =
    rbind (policy_id_of (p_payload policy)) (\<lambda>policy_id.
    rbind (TransferVoucher_post_init
      \<lparr>v_tenant_id = e_tenant_id envelope, v_envelope_id = e_envelope_id envelope,
       v_config_epoch = e_config_epoch envelope, v_transfer_id = transfer_id,
       v_source_warden = sv_warden_id sv, v_target_warden = target_warden, v_policy_id = policy_id,
       v_policy_version = p_policy_version policy, v_policy_digest = p_policy_digest policy,
       v_sequence = sequence, v_amount = rights, v_issued_at_ns = sv_now_ns sv,
       v_key_id = sv_key_id sv, v_signature = JStr [], v_kind = kind,
       v_lease_request = lease_request\<rparr>) (\<lambda>unsigned.
    rbind (sign_record sv (TransferVoucher_unsigned_payload unsigned)) (\<lambda>signature.
    TransferVoucher_post_init (unsigned\<lparr>v_signature := JStr signature\<rparr>))))"

text \<open>
  The statements prepare_transfer and spawn_remote share: store the voucher,
  queue it and take its sequence number.
\<close>

definition emit_voucher :: "svc \<Rightarrow> bool \<Rightarrow> TransferVoucher \<Rightarrow> string option \<Rightarrow> db \<Rightarrow> (db \<times> string) res" where
  "emit_voucher sv enqueue voucher child_lease_id db =
    rbind (canonical_digest (sv_sha256 sv) (JObj (TransferVoucher_to_dict voucher))) (\<lambda>voucher_digest.
    rbind (packed (v_amount voucher)) (\<lambda>_.
    rbind (rbind (as_str (v_signature voucher)) b64url_decode) (\<lambda>signature.
    if signature = [] then Inl IntegrityError
    else rbind (insert_out_transfer
      \<lparr>ot_voucher = voucher, ot_digest = voucher_digest, ot_status = TS_PREPARED,
       ot_prepared_at_ns = sv_now_ns sv, ot_acknowledged_at_ns = None, ot_ack_payload = None,
       ot_child_lease_id = child_lease_id\<rparr> db) (\<lambda>db1.
    rbind (if enqueue then enqueue_peer_delivery ''transfer'' (v_transfer_id voucher)
        (v_target_warden voucher) (v_target_warden voucher) (v_sequence voucher)
        (TransferVoucher_to_dict voucher) (sv_now_ns sv) False db1
      else Inr db1) (\<lambda>db2.
    rbind (update_out_stream (v_target_warden voucher) (\<lambda>s. s\<lparr>os_next_sequence := os_next_sequence s + 1,
      os_updated_at_ns := sv_now_ns sv\<rparr>) db2) (\<lambda>db3.
    Inr (db3, voucher_digest)))))))"

section \<open>prepare_transfer\<close>

record transfer_request =
  tq_actor :: string
  tq_target :: string
  tq_amount :: vec
  tq_policy_digest :: "string option"
  tq_fingerprint :: string

definition prepare_request_of :: "svc \<Rightarrow> string \<Rightarrow> IdentityContext \<Rightarrow> string \<Rightarrow> string \<Rightarrow> string \<Rightarrow> vec
    \<Rightarrow> string option \<Rightarrow> db \<Rightarrow> transfer_request res" where
  "prepare_request_of sv request_id identity tenant_id envelope_id target_warden rights policy_digest db =
    rbind (req_ids [request_id, envelope_id]) (\<lambda>_.
    rbind (require_warden_id target_warden) (\<lambda>_.
    if target_warden = sv_warden_id sv then Inl ValidationError
    else if (case sv_allowed_peer_wardens sv of None \<Rightarrow> False | Some ps \<Rightarrow> \<not> List.member ps target_warden)
    then Inl PolicyError
    else rbind (bind_tenant identity tenant_id) (\<lambda>(actor, scopes).
    if actor \<noteq> sv_warden_id sv \<and> \<not> has_scope scopes (ADMIN_SCOPES @ [''lets.transfer'']) then Inl PolicyError
    else rbind (case policy_digest of None \<Rightarrow> Inr [] | Some d \<Rightarrow> require_digest d) (\<lambda>_.
    rbind (store_metadata db) (\<lambda>meta.
    rbind (vector rights (Some (e_dimension_count meta))) (\<lambda>checked_amount.
    if \<not> nonzero checked_amount then Inl ValidationError
    else rbind (fingerprint sv ''prepare_transfer''
      [(''actor'', JStr actor), (''target_warden'', JStr target_warden), (''amount'', jvec checked_amount),
       (''requested_policy_digest'', jopt policy_digest),
       (''config_epoch'', JInt (e_config_epoch meta))]) (\<lambda>fp.
    Inr \<lparr>tq_actor = actor, tq_target = target_warden, tq_amount = checked_amount,
      tq_policy_digest = policy_digest, tq_fingerprint = fp\<rparr>)))))))"

definition select_policy :: "db \<Rightarrow> string option \<Rightarrow> policy_row res" where
  "select_policy db policy_digest =
    (case policy_digest of
       None \<Rightarrow> of_option PolicyError (find p_active (db_policies db))
     | Some d \<Rightarrow> policy_of db d)"

definition require_target_current :: "svc \<Rightarrow> string \<Rightarrow> unit res" where
  "require_target_current sv target_warden =
    (case sv_trust sv of None \<Rightarrow> Inl SignatureError | Some _ \<Rightarrow> sv_trust_current sv target_warden)"

definition prepare_effect :: "svc \<Rightarrow> string \<Rightarrow> transfer_request \<Rightarrow> envelope_row \<Rightarrow> policy_row
    \<Rightarrow> TransferVoucher tx" where
  "prepare_effect sv request_id q envelope policy db =
    rbind (of_option StorageError (db_warden_state db)) (\<lambda>w.
    rbind (less_than_or_equal (tq_amount q) (w_free_pool w)) (\<lambda>covered.
    if \<not> covered then Inl PolicyError
    else rbind (open_out_stream (tq_target q) (e_config_epoch envelope) (sv_now_ns sv) db) (\<lambda>(db1, stream).
    rbind (new_id (sv_uuid sv 0) ''transfer'') (\<lambda>transfer_id.
    rbind (make_voucher sv envelope transfer_id (tq_target q) policy (os_next_sequence stream) (tq_amount q)
      TRANSFER_KIND_POOL None) (\<lambda>voucher.
    rbind (emit_voucher sv (sv_allowed_peer_wardens sv \<noteq> None) voucher None db1) (\<lambda>(db2, voucher_digest).
    rbind (rbind (subtract (w_free_pool w) (tq_amount q)) packed) (\<lambda>free'.
    rbind (rbind (add (w_transferred_out w) (tq_amount q)) packed) (\<lambda>out'.
    rbind (update_warden_state (\<lambda>w. w\<lparr>w_free_pool := free', w_transferred_out := out',
      w_revision := w_revision w + 1, w_updated_at_ns := sv_now_ns sv\<rparr>) db2) (\<lambda>db3.
    rbind (append_audit sv envelope ''transfer.prepared'' (Some ''transfer'') (Some (v_transfer_id voucher))
      (tq_actor q)
      [(''target_warden'', JStr (tq_target q)), (''sequence'', JInt (v_sequence voucher)),
       (''amount'', jvec (tq_amount q)), (''voucher_digest'', JStr voucher_digest)] db3) (\<lambda>db4.
    rbind (remember_response (''prepare_transfer:'' @ tq_target q) request_id (tq_fingerprint q)
      (TransferVoucher_to_dict voucher) (sv_now_ns sv) 201 db4) (\<lambda>db5.
    Inr (db5, voucher))))))))))))"

definition prepare_body :: "svc \<Rightarrow> string \<Rightarrow> string \<Rightarrow> string \<Rightarrow> transfer_request \<Rightarrow> TransferVoucher tx" where
  "prepare_body sv request_id tenant_id envelope_id q db =
    rbind (verify_database_identity sv db) (\<lambda>_.
    rbind (envelope_of db tenant_id envelope_id) (\<lambda>envelope.
    rbind (clock_is_safe sv envelope True db) (\<lambda>(db0, _).
    rbind (select_policy db0 (tq_policy_digest q)) (\<lambda>policy.
    rbind (idempotent_response db0 (''prepare_transfer:'' @ tq_target q) request_id (tq_fingerprint q)) (\<lambda>prior.
    case prior of
      Some response \<Rightarrow> rbind (TransferVoucher_from_dict response) (\<lambda>v. Inr (db0, v))
    | None \<Rightarrow>
        rbind (require_runtime_active db0) (\<lambda>_.
        rbind (require_target_current sv (tq_target q)) (\<lambda>_.
        prepare_effect sv request_id q envelope policy db0)))))))"

definition prepare_transfer :: "svc \<Rightarrow> string \<Rightarrow> IdentityContext \<Rightarrow> string \<Rightarrow> string \<Rightarrow> string \<Rightarrow> vec
    \<Rightarrow> string option \<Rightarrow> TransferVoucher tx" where
  "prepare_transfer sv request_id identity tenant_id envelope_id target_warden rights policy_digest db =
    rbind (prepare_request_of sv request_id identity tenant_id envelope_id target_warden rights
      policy_digest db) (\<lambda>q.
    write_or_degraded (sv_capacity sv)
      (rbind (degraded_idempotent_response db tenant_id envelope_id (''prepare_transfer:'' @ target_warden)
        request_id (tq_fingerprint q)) TransferVoucher_from_dict)
      (prepare_body sv request_id tenant_id envelope_id q) db)"

section \<open>spawn_remote\<close>

record remote_request =
  mq_actor :: string
  mq_scopes :: "string list"
  mq_parent_id :: string
  mq_target :: string
  mq_subject_id :: string
  mq_allocation :: vec
  mq_capabilities :: "string list"
  mq_ttl :: int
  mq_expected_sequence :: "int option"
  mq_fingerprint :: string

definition spawn_remote_request_of :: "svc \<Rightarrow> string \<Rightarrow> IdentityContext \<Rightarrow> string \<Rightarrow> string \<Rightarrow> string \<Rightarrow> vec
    \<Rightarrow> string list \<Rightarrow> int \<Rightarrow> int option \<Rightarrow> db \<Rightarrow> remote_request res" where
  "spawn_remote_request_of sv request_id identity parent_id target_warden subject_id allocation
      capabilities ttl_ns expected_sequence db =
    rbind (req_ids [request_id, parent_id, subject_id]) (\<lambda>_.
    rbind (require_warden_id target_warden) (\<lambda>_.
    if target_warden = sv_warden_id sv then Inl ValidationError
    else if (case sv_allowed_peer_wardens sv of None \<Rightarrow> True | Some ps \<Rightarrow> \<not> List.member ps target_warden)
    then Inl PolicyError
    else rbind (positive_ttl ttl_ns) (\<lambda>ttl.
    rbind (mapM require_identifier capabilities) (\<lambda>caps.
    if \<not> sequence_ok expected_sequence then Inl ValidationError
    else rbind (identity_fields identity) (\<lambda>(identity_tenant, actor, scopes).
    rbind (store_metadata db) (\<lambda>meta.
    if identity_tenant \<noteq> e_tenant_id meta then Inl PolicyError
    else rbind (vector allocation (Some (e_dimension_count meta))) (\<lambda>checked_allocation.
    if \<not> nonzero checked_allocation then Inl ValidationError
    else rbind (fingerprint sv ''spawn_remote''
      [(''actor'', JStr actor), (''parent_id'', JStr parent_id), (''target_warden'', JStr target_warden),
       (''subject_id'', JStr subject_id), (''allocation'', jvec checked_allocation),
       (''capabilities'', jstrs (frozenset caps)), (''ttl_ns'', JInt ttl),
       (''expected_sequence'', jopt_int expected_sequence),
       (''config_epoch'', JInt (e_config_epoch meta))]) (\<lambda>fp.
    Inr \<lparr>mq_actor = actor, mq_scopes = scopes, mq_parent_id = parent_id, mq_target = target_warden,
      mq_subject_id = subject_id, mq_allocation = checked_allocation,
      mq_capabilities = frozenset caps, mq_ttl = ttl, mq_expected_sequence = expected_sequence,
      mq_fingerprint = fp\<rparr>))))))))"

definition spawn_remote_guards :: "svc \<Rightarrow> remote_request \<Rightarrow> envelope_row \<Rightarrow> int \<Rightarrow> lease_row \<Rightarrow> db
    \<Rightarrow> (db \<times> policy_row \<times> int) res" where
  "spawn_remote_guards sv q envelope uncertainty parent db =
    rbind (require_runtime_active db) (\<lambda>_.
    rbind (require_actionable sv envelope parent db) (\<lambda>db1.
    if (case mq_expected_sequence q of None \<Rightarrow> False | Some n \<Rightarrow> l_sequence parent \<noteq> n) then Inl ConflictError
    else if \<not> list_all (List.member (l_capabilities parent)) (mq_capabilities q) then Inl PolicyError
    else rbind (less_than_or_equal (mq_allocation q) (l_residual parent)) (\<lambda>covered.
    if \<not> covered then Inl PolicyError
    else rbind (policy_of db1 (l_policy_digest parent)) (\<lambda>policy.
    if \<not> max_ttl_ok (p_payload policy) (mq_ttl q) then Inl PolicyError
    else let expires_at_ns = min (sv_now_ns sv + mq_ttl q) (l_expires_at_ns parent) in
      if expires_at_ns \<le> sv_now_ns sv + uncertainty then Inl ExpiredError
      else if length (l_ancestor_path parent) \<ge> MAX_LINEAGE_DEPTH then Inl PolicyError
      else rbind (require_target_current sv (mq_target q)) (\<lambda>_.
        Inr (db1, policy, expires_at_ns))))))"

definition insert_remote_child :: "remote_child_row \<Rightarrow> db \<Rightarrow> db res" where
  "insert_remote_child c db =
    (if \<not> remote_child_checks c \<or> tfind l_lease_id (rc_parent_id c) (db_leases db) = None then Inl IntegrityError
     else rbind (tinsert rc_child_lease_id c (db_remote_children db)) (\<lambda>rows.
       Inr (db\<lparr>db_remote_children := rows\<rparr>)))"

definition remote_lease_request :: "remote_request \<Rightarrow> lease_row \<Rightarrow> string \<Rightarrow> int \<Rightarrow> LeaseRequest" where
  "remote_lease_request q parent child_lease_id expires_at_ns =
    \<lparr>lr_child_lease_id = child_lease_id, lr_lineage_id = l_lineage_id parent,
     lr_parent_id = mq_parent_id q, lr_subject_id = mq_subject_id q,
     lr_capabilities = mq_capabilities q, lr_ancestor_path = l_ancestor_path parent @ [mq_parent_id q],
     lr_branch_epoch = l_branch_epoch parent, lr_expires_at_ns = expires_at_ns\<rparr>"

text \<open>The debit of the parent lease and the row of the remote child.\<close>

definition spawn_remote_debit :: "svc \<Rightarrow> remote_request \<Rightarrow> lease_row \<Rightarrow> vec \<Rightarrow> string \<Rightarrow> TransferVoucher \<Rightarrow> int
    \<Rightarrow> db \<Rightarrow> db res" where
  "spawn_remote_debit sv q parent transferred_out child_lease_id voucher expires_at_ns db =
    rbind (rbind (subtract (l_residual parent) (mq_allocation q)) packed) (\<lambda>residual'.
    rbind (update_lease_residual (mq_parent_id q) (\<lambda>r. r\<lparr>l_residual := residual',
      l_sequence := l_sequence r + 1, l_updated_at_ns := sv_now_ns sv\<rparr>) db) (\<lambda>db1.
    rbind (rbind (add transferred_out (mq_allocation q)) packed) (\<lambda>out'.
    rbind (update_warden_state (\<lambda>w. w\<lparr>w_transferred_out := out', w_revision := w_revision w + 1,
      w_updated_at_ns := sv_now_ns sv\<rparr>) db1) (\<lambda>db2.
    insert_remote_child
      \<lparr>rc_child_lease_id = child_lease_id, rc_parent_id = mq_parent_id q, rc_target_warden = mq_target q,
       rc_transfer_id = v_transfer_id voucher, rc_sequence = v_sequence voucher,
       rc_allocation = mq_allocation q, rc_expires_at_ns = expires_at_ns, rc_status = RC_PENDING,
       rc_observed_status = None, rc_created_at_ns = sv_now_ns sv, rc_updated_at_ns = sv_now_ns sv\<rparr> db2))))"

definition spawn_remote_effect :: "svc \<Rightarrow> string \<Rightarrow> remote_request \<Rightarrow> envelope_row \<Rightarrow> lease_row \<Rightarrow> policy_row
    \<Rightarrow> int \<Rightarrow> TransferVoucher tx" where
  "spawn_remote_effect sv request_id q envelope parent policy expires_at_ns db =
    rbind (of_option StorageError (db_warden_state db)) (\<lambda>w.
    rbind (open_out_stream (mq_target q) (e_config_epoch envelope) (sv_now_ns sv) db) (\<lambda>(db1, stream).
    rbind (new_id (sv_uuid sv 0) ''lease'') (\<lambda>child_lease_id.
    rbind (new_id (sv_uuid sv 1) ''transfer'') (\<lambda>transfer_id.
    rbind (make_voucher sv envelope transfer_id (mq_target q) policy (os_next_sequence stream)
      (mq_allocation q) TRANSFER_KIND_LEASE
      (Some (remote_lease_request q parent child_lease_id expires_at_ns))) (\<lambda>voucher.
    rbind (emit_voucher sv True voucher (Some child_lease_id) db1) (\<lambda>(db2, voucher_digest).
    rbind (spawn_remote_debit sv q parent (w_transferred_out w) child_lease_id voucher expires_at_ns db2) (\<lambda>db3.
    rbind (append_audit sv envelope ''lease.spawned-remote'' (Some ''lease'') (Some child_lease_id) (mq_actor q)
      [(''parent_id'', JStr (mq_parent_id q)), (''lineage_id'', JStr (l_lineage_id parent)),
       (''target_warden'', JStr (mq_target q)), (''transfer_id'', JStr (v_transfer_id voucher)),
       (''sequence'', JInt (v_sequence voucher)), (''allocation'', jvec (mq_allocation q)),
       (''voucher_digest'', JStr voucher_digest)] db3) (\<lambda>db4.
    rbind (remember_response (''spawn_remote:'' @ mq_parent_id q) request_id (mq_fingerprint q)
      (TransferVoucher_to_dict voucher) (sv_now_ns sv) 201 db4) (\<lambda>db5.
    Inr (db5, voucher))))))))))"

definition spawn_remote_body :: "svc \<Rightarrow> string \<Rightarrow> remote_request \<Rightarrow> TransferVoucher tx" where
  "spawn_remote_body sv request_id q db =
    rbind (verify_database_identity sv db) (\<lambda>_.
    rbind (singleton_envelope db) (\<lambda>envelope.
    rbind (clock_is_safe sv envelope True db) (\<lambda>(db0, uncertainty).
    rbind (load_lease db0 (mq_parent_id q)) (\<lambda>parent.
    if mq_actor q \<noteq> l_subject_id parent \<and> \<not> has_scope (mq_scopes q) SUBJECT_LIFECYCLE_SCOPES
    then Inl PolicyError
    else rbind (idempotent_response db0 (''spawn_remote:'' @ mq_parent_id q) request_id (mq_fingerprint q)) (\<lambda>prior.
    case prior of
      Some response \<Rightarrow> rbind (TransferVoucher_from_dict response) (\<lambda>v. Inr (db0, v))
    | None \<Rightarrow>
        rbind (spawn_remote_guards sv q envelope uncertainty parent db0) (\<lambda>(db1, policy, expires_at_ns).
        spawn_remote_effect sv request_id q envelope parent policy expires_at_ns db1))))))"

definition spawn_remote :: "svc \<Rightarrow> string \<Rightarrow> IdentityContext \<Rightarrow> string \<Rightarrow> string \<Rightarrow> string \<Rightarrow> vec \<Rightarrow> string list
    \<Rightarrow> int \<Rightarrow> int option \<Rightarrow> TransferVoucher tx" where
  "spawn_remote sv request_id identity parent_id target_warden subject_id allocation capabilities ttl_ns
      expected_sequence db =
    rbind (spawn_remote_request_of sv request_id identity parent_id target_warden subject_id allocation
      capabilities ttl_ns expected_sequence db) (\<lambda>q.
    rbind (store_metadata db) (\<lambda>meta.
    write_or_degraded (sv_capacity sv)
      (rbind (degraded_lease_idempotent_response db (e_tenant_id meta) (e_envelope_id meta) parent_id
        (mq_actor q) (mq_scopes q) False (''spawn_remote:'' @ parent_id) request_id (mq_fingerprint q))
        TransferVoucher_from_dict)
      (spawn_remote_body sv request_id q) db))"

end
