(* ===== verification/Transfer_Settle.thy ===== *)
theory Transfer_Settle
  imports Transfer_Send
begin

text \<open>
  The receiving and closing half of the transfer protocol in WardenService:
  accept_transfer with the admission of remote children, finalize_transfer, and
  the two checkpoint operations.
\<close>

section \<open>Inbound streams\<close>

definition in_stream_checks :: "in_stream_row \<Rightarrow> bool" where
  "in_stream_checks s =
    (text_ok (is_source_warden s) \<and> 1 \<le> is_config_epoch s \<and> 0 \<le> is_contiguous_through s
     \<and> is_contiguous_through s \<le> is_highest_seen s \<and> 0 \<le> is_compacted_through s \<and> 0 \<le> is_updated_at_ns s
     \<and> is_compacted_through s \<le> is_contiguous_through s
     \<and> (is_compacted_through s = 0 \<or> is_checkpoint_payload s \<noteq> None))"

definition update_in_stream :: "string \<Rightarrow> (in_stream_row \<Rightarrow> in_stream_row) \<Rightarrow> db \<Rightarrow> db res" where
  "update_in_stream source f db =
    (case tfind is_source_warden source (db_in_streams db) of
       None \<Rightarrow> Inr db
     | Some s \<Rightarrow>
         if \<not> in_stream_checks (f s) then Inl IntegrityError
         else Inr (db\<lparr>db_in_streams := tupdate is_source_warden source f (db_in_streams db)\<rparr>))"

definition open_in_stream :: "string \<Rightarrow> int \<Rightarrow> int \<Rightarrow> db \<Rightarrow> (db \<times> in_stream_row) res" where
  "open_in_stream source_warden config_epoch now_ns db =
    rbind (case tfind is_source_warden source_warden (db_in_streams db) of
        Some _ \<Rightarrow> Inr db
      | None \<Rightarrow>
          let s = \<lparr>is_source_warden = source_warden, is_config_epoch = config_epoch,
            is_contiguous_through = 0, is_highest_seen = 0, is_compacted_through = 0,
            is_checkpoint_payload = None, is_updated_at_ns = now_ns\<rparr> in
          if config_epoch \<noteq> env_epoch db \<or> source_warden = db_warden_id db \<or> \<not> in_stream_checks s
          then Inl IntegrityError
          else Inr (db\<lparr>db_in_streams := db_in_streams db @ [s]\<rparr>)) (\<lambda>db1.
    case tfind is_source_warden source_warden (db_in_streams db1) of
      None \<Rightarrow> Inl StorageError
    | Some s \<Rightarrow> if is_config_epoch s \<noteq> config_epoch then Inl ConflictError else Inr (db1, s))"

text \<open>The loop of \<open>_advance_inbound_gap_prefix\<close> over the ordered gap rows.\<close>

fun advance_prefix :: "int \<Rightarrow> int list \<Rightarrow> int" where
  "advance_prefix advanced [] = advanced"
| "advance_prefix advanced (s # rows) = (if s \<noteq> advanced + 1 then advanced else advance_prefix s rows)"

definition advance_inbound_gap_prefix :: "string \<Rightarrow> int \<Rightarrow> db \<Rightarrow> (db \<times> int) res" where
  "advance_inbound_gap_prefix source_warden watermark db =
    (let rows = take MAINTENANCE_ROW_BATCH (sort (map snd (filter (\<lambda>g. fst g = source_warden
           \<and> snd g > watermark) (db_in_gaps db))));
         advanced = advance_prefix watermark rows;
         count = advanced - watermark;
         in_range = (\<lambda>g. fst g = source_warden \<and> snd g > watermark \<and> snd g \<le> advanced) in
     if count = 0 then Inr (db, advanced)
     else if int (length (filter in_range (db_in_gaps db))) \<noteq> count \<or> count > int MAINTENANCE_ROW_BATCH
     then Inl InvariantError
     else Inr (db\<lparr>db_in_gaps := filter (\<lambda>g. \<not> in_range g) (db_in_gaps db)\<rparr>, advanced))"

definition ia_key :: "in_ack_row \<Rightarrow> string \<times> int" where
  "ia_key r = (a_source_warden (ia_ack r), a_sequence (ia_ack r))"

definition insert_in_ack :: "in_ack_row \<Rightarrow> db \<Rightarrow> db res" where
  "insert_in_ack r db =
    (let a = ia_ack r in
     if a_config_epoch a \<noteq> env_epoch db \<or> a_target_warden a \<noteq> db_warden_id db
        \<or> a_source_warden a = a_target_warden a \<or> a_sequence a \<le> 0 \<or> a_contiguous_watermark a < 0
        \<or> a_accepted_at_ns a < 0 \<or> ia_signature r = []
        \<or> \<not> list_all text_ok [a_transfer_id a, a_source_warden a, a_target_warden a, a_voucher_digest a, a_key_id a]
        \<or> tfind is_source_warden (a_source_warden a) (db_in_streams db) = None
        \<or> list_ex (\<lambda>x. a_source_warden (ia_ack x) = a_source_warden a
             \<and> a_transfer_id (ia_ack x) = a_transfer_id a) (db_in_acks db)
     then Inl IntegrityError
     else rbind (tinsert ia_key r (db_in_acks db)) (\<lambda>rows. Inr (db\<lparr>db_in_acks := rows\<rparr>)))"

definition insert_in_gap :: "string \<Rightarrow> int \<Rightarrow> db \<Rightarrow> db res" where
  "insert_in_gap source_warden sequence db =
    (if sequence \<le> 0 \<or> tfind is_source_warden source_warden (db_in_streams db) = None then Inl IntegrityError
     else rbind (tinsert id (source_warden, sequence) (db_in_gaps db)) (\<lambda>rows.
       Inr (db\<lparr>db_in_gaps := rows\<rparr>)))"

section \<open>accept_transfer\<close>

text \<open>
  \<open>_admit_remote_child\<close>: the child's identifier, its outcome, and whether a
  lease was inserted.  A lease voucher always carries a validated request.
\<close>

definition admit_remote_child :: "svc \<Rightarrow> envelope_row \<Rightarrow> TransferVoucher \<Rightarrow> policy_row \<Rightarrow> vec \<Rightarrow> int \<Rightarrow> db
    \<Rightarrow> (db \<times> string \<times> string \<times> bool) res" where
  "admit_remote_child sv envelope voucher policy rights uncertainty db =
    (case v_lease_request voucher of
       None \<Rightarrow> Inl ValidationError
     | Some request \<Rightarrow>
         let child_lease_id = lr_child_lease_id request in
         if tfind l_lease_id child_lease_id (db_leases db) \<noteq> None then Inl ConflictError
         else rbind (declared_capabilities (p_payload policy)) (\<lambda>declared.
         if \<not> list_all (List.member declared) (lr_capabilities request) then Inl PolicyError
         else if lr_expires_at_ns request \<le> sv_now_ns sv + uncertainty
         then Inr (db, child_lease_id, CHILD_OUTCOME_FENCED, False)
         else if path_revoked db (lr_lineage_id request) (lr_ancestor_path request)
         then Inr (db, child_lease_id, CHILD_OUTCOME_FENCED, False)
         else rbind (new_grant sv (v_tenant_id voucher) (v_envelope_id voucher) (e_config_epoch envelope)
           child_lease_id (lr_lineage_id request) (Some (lr_parent_id request)) (lr_subject_id request)
           rights (frozenset (lr_capabilities request)) policy (lr_ancestor_path request)
           (lr_branch_epoch request) (sv_now_ns sv) (lr_expires_at_ns request)) (\<lambda>grant.
         rbind (initial_state_of (p_payload policy)) (\<lambda>state.
         rbind (insert_lease grant rights state ACTIVE 0 (sv_now_ns sv) (Some (v_source_warden voucher)) db) (\<lambda>db1.
         Inr (db1, child_lease_id, CHILD_OUTCOME_ISSUED, True))))))"

definition TRANSFER_PEER_SCOPES :: "string list" where
  "TRANSFER_PEER_SCOPES = ADMIN_SCOPES @ [''lets.peer'', ''lets.transfer'']"

text \<open>The voucher arrives again: the stored acknowledgement, and the watermark catches up.\<close>

definition accept_duplicate :: "svc \<Rightarrow> string \<Rightarrow> envelope_row \<Rightarrow> TransferVoucher \<Rightarrow> string \<Rightarrow> in_ack_row
    \<Rightarrow> TransferAck tx" where
  "accept_duplicate sv actor envelope parsed digest existing db =
    (if a_voucher_digest (ia_ack existing) \<noteq> digest then Inl ConflictError
     else case tfind is_source_warden (v_source_warden parsed) (db_in_streams db) of
       None \<Rightarrow> Inl StorageError
     | Some stream \<Rightarrow>
         if v_sequence parsed \<le> is_compacted_through stream then Inl ReplayError
         else let prior_watermark = is_contiguous_through stream in
           rbind (advance_inbound_gap_prefix (v_source_warden parsed) prior_watermark db) (\<lambda>(db1, advanced).
           if advanced > prior_watermark then
             rbind (update_in_stream (v_source_warden parsed) (\<lambda>s. s\<lparr>is_contiguous_through := advanced,
               is_updated_at_ns := sv_now_ns sv\<rparr>) db1) (\<lambda>db2.
             rbind (append_audit sv envelope ''transfer.inbound-watermark-advanced'' (Some ''warden'')
               (Some (v_source_warden parsed)) actor
               [(''trigger_transfer_id'', JStr (v_transfer_id parsed)),
                (''trigger_sequence'', JInt (v_sequence parsed)),
                (''prior_contiguous_through'', JInt prior_watermark),
                (''contiguous_through'', JInt advanced)] db2) (\<lambda>db3.
             Inr (db3, ia_ack existing)))
           else Inr (db1, ia_ack existing)))"

text \<open>The position of a new voucher in its stream: the stream, its new watermark and highest sequence.\<close>

definition accept_position :: "svc \<Rightarrow> envelope_row \<Rightarrow> TransferVoucher \<Rightarrow> db \<Rightarrow> (db \<times> int \<times> int) res" where
  "accept_position sv envelope parsed db =
    (if list_ex (\<lambda>x. a_source_warden (ia_ack x) = v_source_warden parsed
        \<and> a_transfer_id (ia_ack x) = v_transfer_id parsed) (db_in_acks db) then Inl ConflictError
     else rbind (open_in_stream (v_source_warden parsed) (v_config_epoch parsed) (sv_now_ns sv) db)
       (\<lambda>(db1, stream).
     let contiguous = is_contiguous_through stream in
     if v_sequence parsed \<le> contiguous then Inl ReplayError
     else if v_sequence parsed > contiguous + e_transfer_gap_window envelope then Inl ReplayError
     else rbind (if v_sequence parsed > contiguous + 1
       then rbind (insert_in_gap (v_source_warden parsed) (v_sequence parsed) db1) (\<lambda>db2. Inr (db2, contiguous))
       else advance_inbound_gap_prefix (v_source_warden parsed) (v_sequence parsed) db1) (\<lambda>(db2, new_contiguous).
     Inr (db2, new_contiguous, max (is_highest_seen stream) (v_sequence parsed)))))"

definition make_ack :: "svc \<Rightarrow> TransferVoucher \<Rightarrow> string \<Rightarrow> int \<Rightarrow> string option \<Rightarrow> string option \<Rightarrow> TransferAck res" where
  "make_ack sv parsed digest new_contiguous child_lease_id child_outcome =
    rbind (TransferAck_post_init
      \<lparr>a_tenant_id = v_tenant_id parsed, a_envelope_id = v_envelope_id parsed,
       a_config_epoch = v_config_epoch parsed, a_transfer_id = v_transfer_id parsed,
       a_source_warden = v_source_warden parsed, a_target_warden = sv_warden_id sv,
       a_sequence = v_sequence parsed, a_voucher_digest = digest, a_accepted_at_ns = sv_now_ns sv,
       a_contiguous_watermark = new_contiguous, a_key_id = sv_key_id sv, a_signature = JStr [],
       a_child_lease_id = child_lease_id, a_child_outcome = child_outcome\<rparr>) (\<lambda>unsigned.
    rbind (sign_record sv (TransferAck_unsigned_payload unsigned)) (\<lambda>signature.
    TransferAck_post_init (unsigned\<lparr>a_signature := JStr signature\<rparr>)))"

text \<open>The credit of a voucher: the pool, or the lease already inserted, and the inflow counter.\<close>

definition accept_credit :: "svc \<Rightarrow> bool \<Rightarrow> vec \<Rightarrow> db \<Rightarrow> db res" where
  "accept_credit sv issued rights db =
    rbind (of_option StorageError (db_warden_state db)) (\<lambda>w.
    rbind (if issued then Inr (w_free_pool w) else add (w_free_pool w) rights) (\<lambda>credited_pool.
    rbind (packed credited_pool) (\<lambda>free'.
    rbind (rbind (add (w_transferred_in w) rights) packed) (\<lambda>in'.
    update_warden_state (\<lambda>w. w\<lparr>w_free_pool := free', w_transferred_in := in',
      w_revision := w_revision w + 1, w_updated_at_ns := sv_now_ns sv\<rparr>) db))))"

definition accept_new :: "svc \<Rightarrow> string \<Rightarrow> envelope_row \<Rightarrow> TransferVoucher \<Rightarrow> string \<Rightarrow> policy_row \<Rightarrow> vec \<Rightarrow> int
    \<Rightarrow> TransferAck tx" where
  "accept_new sv actor envelope parsed digest policy rights uncertainty db =
    rbind (accept_position sv envelope parsed db) (\<lambda>(db1, new_contiguous, highest_seen).
    rbind (if is_lease parsed
      then rbind (admit_remote_child sv envelope parsed policy rights uncertainty db1) (\<lambda>(d, c, out, issued).
        Inr (d, Some c, Some out, issued))
      else Inr (db1, None, None, False)) (\<lambda>(db2, child_lease_id, child_outcome, issued).
    rbind (make_ack sv parsed digest new_contiguous child_lease_id child_outcome) (\<lambda>ack.
    rbind (canonical_json (JObj (TransferAck_to_dict ack))) (\<lambda>_.
    rbind (accept_credit sv issued rights db2) (\<lambda>db3.
    rbind (case child_lease_id of None \<Rightarrow> Inr db3
      | Some c \<Rightarrow> append_audit sv envelope
          (if issued then ''lease.remote-child-issued'' else ''lease.remote-child-fenced'')
          (Some ''lease'') (Some c) actor
          [(''source_warden'', JStr (v_source_warden parsed)), (''transfer_id'', JStr (v_transfer_id parsed)),
           (''sequence'', JInt (v_sequence parsed)), (''allocation'', jvec rights),
           (''child_outcome'', jopt child_outcome),
           (''parent_id'', jopt (map_option lr_parent_id (v_lease_request parsed)))] db3) (\<lambda>db4.
    rbind (update_in_stream (v_source_warden parsed) (\<lambda>s. s\<lparr>is_contiguous_through := new_contiguous,
      is_highest_seen := highest_seen, is_updated_at_ns := sv_now_ns sv\<rparr>) db4) (\<lambda>db5.
    rbind (rbind (as_str (a_signature ack)) b64url_decode) (\<lambda>signature.
    rbind (insert_in_ack \<lparr>ia_ack = ack, ia_signature = signature\<rparr> db5) (\<lambda>db6.
    rbind (append_audit sv envelope ''transfer.accepted'' (Some ''transfer'') (Some (v_transfer_id parsed)) actor
      [(''source_warden'', JStr (v_source_warden parsed)), (''sequence'', JInt (v_sequence parsed)),
       (''amount'', jvec rights), (''voucher_digest'', JStr digest),
       (''contiguous_watermark'', JInt new_contiguous)] db6) (\<lambda>db7.
    Inr (db7, ack)))))))))))"

definition accept_body :: "svc \<Rightarrow> string \<Rightarrow> string \<Rightarrow> TransferVoucher \<Rightarrow> TransferAck tx" where
  "accept_body sv identity_tenant actor parsed db =
    rbind (envelope_of db (v_tenant_id parsed) (v_envelope_id parsed)) (\<lambda>envelope.
    rbind (clock_is_safe sv envelope True db) (\<lambda>(db0, uncertainty).
    if identity_tenant \<noteq> v_tenant_id parsed then Inl PolicyError
    else if v_target_warden parsed \<noteq> sv_warden_id sv then Inl PolicyError
    else if v_config_epoch parsed \<noteq> e_config_epoch envelope then Inl ConflictError
    else rbind (policy_of db0 (v_policy_digest parsed)) (\<lambda>policy.
    if v_policy_version parsed \<noteq> p_policy_version policy
       \<or> JStr (v_policy_id parsed) \<noteq> jget_alt ''policy_id'' ''policy_version'' (p_payload policy)
    then Inl PolicyError
    else rbind (vector (v_amount parsed) (Some (e_dimension_count envelope))) (\<lambda>rights.
    rbind (canonical_digest (sv_sha256 sv) (JObj (TransferVoucher_to_dict parsed))) (\<lambda>digest.
    case tfind ia_key (v_source_warden parsed, v_sequence parsed) (db_in_acks db0) of
      Some existing \<Rightarrow> accept_duplicate sv actor envelope parsed digest existing db0
    | None \<Rightarrow> accept_new sv actor envelope parsed digest policy rights uncertainty db0)))))"

definition accept_transfer :: "svc \<Rightarrow> IdentityContext \<Rightarrow> TransferVoucher \<Rightarrow> TransferAck tx" where
  "accept_transfer sv identity parsed db =
    rbind (identity_fields identity) (\<lambda>(identity_tenant, actor, scopes).
    if actor \<noteq> sv_warden_id sv \<and> \<not> has_scope scopes TRANSFER_PEER_SCOPES then Inl PolicyError
    else rbind (verify_record sv (TransferVoucher_unsigned_payload parsed) (v_signature parsed)
      (v_key_id parsed) (v_source_warden parsed)) (\<lambda>_.
    write_or_degraded (sv_recovery_capacity sv) (Inl CapacityError)
      (accept_body sv identity_tenant actor parsed) db))"

section \<open>finalize_transfer\<close>

definition finalized_status :: "TransferState \<Rightarrow> bool" where
  "finalized_status st = (st = TS_FINALIZED \<or> st = TS_ACKNOWLEDGED)"

fun advance_finalized :: "int \<Rightarrow> (int \<times> TransferState) list \<Rightarrow> int" where
  "advance_finalized advanced [] = advanced"
| "advance_finalized advanced ((s, st) # rows) =
    (if s \<noteq> advanced + 1 \<or> \<not> finalized_status st then advanced else advance_finalized s rows)"

definition advance_outgoing_finalized_prefix :: "string \<Rightarrow> int \<Rightarrow> db \<Rightarrow> int" where
  "advance_outgoing_finalized_prefix target_warden watermark db =
    (let rows = take MAINTENANCE_ROW_BATCH (sort_key fst (map (\<lambda>r. (v_sequence (ot_voucher r), ot_status r))
           (filter (\<lambda>r. v_target_warden (ot_voucher r) = target_warden \<and> v_sequence (ot_voucher r) > watermark)
             (db_out_transfers db)))) in
     advance_finalized watermark rows)"

definition update_out_transfer :: "string \<times> int \<Rightarrow> (out_transfer_row \<Rightarrow> out_transfer_row) \<Rightarrow> db \<Rightarrow> db res" where
  "update_out_transfer k f db =
    (case tfind ot_key k (db_out_transfers db) of
       None \<Rightarrow> Inr db
     | Some r \<Rightarrow>
         if \<not> out_transfer_checks db (f r) then Inl IntegrityError
         else Inr (db\<lparr>db_out_transfers := tupdate ot_key k f (db_out_transfers db)\<rparr>))"

definition finalize_again :: "svc \<Rightarrow> string \<Rightarrow> envelope_row \<Rightarrow> TransferAck \<Rightarrow> byte list \<Rightarrow> out_transfer_row \<Rightarrow> int
    \<Rightarrow> TransferAck tx" where
  "finalize_again sv actor envelope ack ack_payload outgoing prior_watermark db =
    rbind (case ot_ack_payload outgoing of
        None \<Rightarrow> Inl ConflictError
      | Some stored \<Rightarrow> rbind (canonical_json (JObj (TransferAck_to_dict stored))) (\<lambda>stored_ack.
          if stored_ack \<noteq> ack_payload then Inl ConflictError else Inr ())) (\<lambda>_.
    let watermark = advance_outgoing_finalized_prefix (a_target_warden ack) prior_watermark db in
    if watermark > prior_watermark then
      rbind (update_out_stream (a_target_warden ack) (\<lambda>s. s\<lparr>os_acked_through := watermark,
        os_updated_at_ns := sv_now_ns sv\<rparr>) db) (\<lambda>db1.
      rbind (append_audit sv envelope ''transfer.outbound-watermark-advanced'' (Some ''warden'')
        (Some (a_target_warden ack)) actor
        [(''trigger_transfer_id'', JStr (a_transfer_id ack)), (''trigger_sequence'', JInt (a_sequence ack)),
         (''prior_acked_through'', JInt prior_watermark), (''acked_through'', JInt watermark)] db1) (\<lambda>db2.
      Inr (db2, ack)))
    else Inr (db, ack))"

text \<open>What the acknowledgement of a lease voucher tells the parent about its remote child.\<close>

definition finalize_child :: "svc \<Rightarrow> string \<Rightarrow> envelope_row \<Rightarrow> TransferAck \<Rightarrow> out_transfer_row \<Rightarrow> db \<Rightarrow> db res" where
  "finalize_child sv actor envelope ack outgoing db =
    (if v_kind (ot_voucher outgoing) = TRANSFER_KIND_LEASE then
       (case (ot_child_lease_id outgoing, a_child_outcome ack) of
          (Some expected_child, Some child_outcome) \<Rightarrow>
            if a_child_lease_id ack \<noteq> Some expected_child then Inl ConflictError
            else rbind (update_remote_children
              (\<lambda>c. rc_child_lease_id c = expected_child \<and> rc_status c = RC_PENDING)
              (\<lambda>c. c\<lparr>rc_status := (if child_outcome = CHILD_OUTCOME_ISSUED then RC_ACTIVE else RC_FENCED),
                rc_observed_status := Some child_outcome, rc_updated_at_ns := sv_now_ns sv\<rparr>) db) (\<lambda>(db1, _).
            append_audit sv envelope ''lease.remote-child-acknowledged'' (Some ''lease'') (Some expected_child)
              actor [(''target_warden'', JStr (a_target_warden ack)),
                (''transfer_id'', JStr (a_transfer_id ack)), (''sequence'', JInt (a_sequence ack)),
                (''child_outcome'', JStr child_outcome)] db1)
        | _ \<Rightarrow> Inl ConflictError)
     else if a_child_lease_id ack \<noteq> None then Inl ConflictError
     else Inr db)"

definition finalize_prepared :: "svc \<Rightarrow> string \<Rightarrow> envelope_row \<Rightarrow> TransferAck \<Rightarrow> out_transfer_row \<Rightarrow> int
    \<Rightarrow> TransferAck tx" where
  "finalize_prepared sv actor envelope ack outgoing prior_watermark db =
    rbind (finalize_child sv actor envelope ack outgoing db) (\<lambda>db1.
    rbind (update_out_transfer (a_target_warden ack, a_sequence ack) (\<lambda>r. r\<lparr>ot_status := TS_FINALIZED,
      ot_acknowledged_at_ns := Some (sv_now_ns sv), ot_ack_payload := Some ack\<rparr>) db1) (\<lambda>db2.
    let watermark = advance_outgoing_finalized_prefix (a_target_warden ack) prior_watermark db2 in
    rbind (update_out_stream (a_target_warden ack) (\<lambda>s. s\<lparr>os_acked_through := watermark,
      os_updated_at_ns := sv_now_ns sv\<rparr>) db2) (\<lambda>db3.
    rbind (append_audit sv envelope ''transfer.finalized'' (Some ''transfer'') (Some (a_transfer_id ack)) actor
      [(''target_warden'', JStr (a_target_warden ack)), (''sequence'', JInt (a_sequence ack)),
       (''acked_through'', JInt watermark), (''voucher_digest'', JStr (a_voucher_digest ack))] db3) (\<lambda>db4.
    Inr (db4, ack)))))"

definition finalize_body :: "svc \<Rightarrow> string \<Rightarrow> string \<Rightarrow> TransferAck \<Rightarrow> TransferAck tx" where
  "finalize_body sv identity_tenant actor ack db =
    rbind (envelope_of db (a_tenant_id ack) (a_envelope_id ack)) (\<lambda>envelope.
    rbind (clock_is_safe sv envelope True db) (\<lambda>(db0, _).
    if identity_tenant \<noteq> a_tenant_id ack then Inl PolicyError
    else if a_source_warden ack \<noteq> sv_warden_id sv then Inl PolicyError
    else if a_config_epoch ack \<noteq> e_config_epoch envelope then Inl ConflictError
    else rbind (of_option NotFoundError
      (tfind ot_key (a_target_warden ack, a_sequence ack) (db_out_transfers db0))) (\<lambda>outgoing.
    if v_transfer_id (ot_voucher outgoing) \<noteq> a_transfer_id ack then Inl ConflictError
    else if ot_digest outgoing \<noteq> a_voucher_digest ack then Inl ConflictError
    else rbind (canonical_json (JObj (TransferAck_to_dict ack))) (\<lambda>ack_payload.
    rbind (of_option StorageError (tfind os_target_warden (a_target_warden ack) (db_out_streams db0))) (\<lambda>stream.
    if finalized_status (ot_status outgoing)
    then finalize_again sv actor envelope ack ack_payload outgoing (os_acked_through stream) db0
    else if ot_status outgoing \<noteq> TS_PREPARED then Inl ConflictError
    else finalize_prepared sv actor envelope ack outgoing (os_acked_through stream) db0)))))"

definition finalize_transfer :: "svc \<Rightarrow> IdentityContext \<Rightarrow> TransferAck \<Rightarrow> TransferAck tx" where
  "finalize_transfer sv identity ack db =
    rbind (identity_fields identity) (\<lambda>(identity_tenant, actor, scopes).
    if actor \<noteq> sv_warden_id sv \<and> \<not> has_scope scopes TRANSFER_PEER_SCOPES then Inl PolicyError
    else rbind (verify_record sv (TransferAck_unsigned_payload ack) (a_signature ack)
      (a_key_id ack) (a_target_warden ack)) (\<lambda>_.
    write_or_degraded (sv_recovery_capacity sv) (Inl CapacityError)
      (finalize_body sv identity_tenant actor ack) db))"

section \<open>Checkpoints\<close>

text \<open>The DELETE of the first rows, at most a maintenance batch of them, up to a sequence.\<close>

definition prune_outgoing_transfer_prefix :: "string \<Rightarrow> int \<Rightarrow> db \<Rightarrow> db" where
  "prune_outgoing_transfer_prefix target_warden through_sequence db =
    (let victims = take MAINTENANCE_ROW_BATCH (sort (map (v_sequence \<circ> ot_voucher)
           (filter (\<lambda>r. v_target_warden (ot_voucher r) = target_warden
              \<and> v_sequence (ot_voucher r) \<le> through_sequence) (db_out_transfers db)))) in
     db\<lparr>db_out_transfers := filter (\<lambda>r. \<not> (v_target_warden (ot_voucher r) = target_warden
       \<and> List.member victims (v_sequence (ot_voucher r)))) (db_out_transfers db)\<rparr>)"

definition prune_inbound_ack_prefix :: "string \<Rightarrow> int \<Rightarrow> db \<Rightarrow> db" where
  "prune_inbound_ack_prefix source_warden through_sequence db =
    (let victims = take MAINTENANCE_ROW_BATCH (sort (map (a_sequence \<circ> ia_ack)
           (filter (\<lambda>r. a_source_warden (ia_ack r) = source_warden
              \<and> a_sequence (ia_ack r) \<le> through_sequence) (db_in_acks db)))) in
     db\<lparr>db_in_acks := filter (\<lambda>r. \<not> (a_source_warden (ia_ack r) = source_warden
       \<and> List.member victims (a_sequence (ia_ack r)))) (db_in_acks db)\<rparr>)"

definition delivered :: "db \<Rightarrow> string \<Rightarrow> out_transfer_row \<Rightarrow> bool" where
  "delivered db target_warden r =
    (case tfind pd_key (''transfer'', v_transfer_id (ot_voucher r), target_warden) (db_peer_delivery db) of
       None \<Rightarrow> False
     | Some d \<Rightarrow> pd_delivered_at_ns d \<noteq> None)"

definition checkpoint_effect :: "svc \<Rightarrow> string \<Rightarrow> envelope_row \<Rightarrow> string \<Rightarrow> int \<Rightarrow> wire_dict tx" where
  "checkpoint_effect sv actor envelope target_warden through db =
    (let prefix_rows = filter (\<lambda>r. v_target_warden (ot_voucher r) = target_warden
           \<and> v_sequence (ot_voucher r) \<le> through) (db_out_transfers db) in
     if \<not> list_all (\<lambda>r. finalized_status (ot_status r)) prefix_rows then Inl ConflictError
     else if sv_allowed_peer_wardens sv \<noteq> None \<and> \<not> list_all (delivered db target_warden) prefix_rows
     then Inl ConflictError
     else rbind (sign_wire sv ''transfer-checkpoint/v1''
       [(''type'', JStr ''lets.transfer-checkpoint/v1''), (''tenant_id'', JStr (e_tenant_id envelope)),
        (''envelope_id'', JStr (e_envelope_id envelope)), (''config_epoch'', JInt (e_config_epoch envelope)),
        (''source_warden'', JStr (sv_warden_id sv)), (''target_warden'', JStr target_warden),
        (''through_sequence'', JInt through), (''issued_at_ns'', JInt (sv_now_ns sv))]) (\<lambda>(_, checkpoint).
     rbind (canonical_json (JObj checkpoint)) (\<lambda>_.
     rbind (update_out_stream target_warden (\<lambda>s. s\<lparr>os_compacted_through := through,
       os_checkpoint_payload := Some checkpoint, os_updated_at_ns := sv_now_ns sv\<rparr>) db) (\<lambda>db1.
     rbind (if sv_allowed_peer_wardens sv = None then Inr db1
       else rbind (canonical_digest (sv_sha256 sv) (JObj checkpoint)) (\<lambda>record_id.
         enqueue_peer_delivery ''checkpoint'' record_id target_warden target_warden through checkpoint
           (sv_now_ns sv) True db1)) (\<lambda>db2.
     rbind (append_audit sv envelope ''transfer.checkpoint-created'' (Some ''warden'') (Some target_warden)
       actor [(''through_sequence'', JInt through)] (prune_outgoing_transfer_prefix target_warden through db2)) (\<lambda>db3.
     Inr (db3, checkpoint)))))))"

definition create_checkpoint_body :: "svc \<Rightarrow> string \<Rightarrow> string \<Rightarrow> string \<Rightarrow> int option \<Rightarrow> wire_dict tx" where
  "create_checkpoint_body sv identity_tenant actor target_warden through_sequence db =
    rbind (singleton_envelope db) (\<lambda>envelope.
    rbind (clock_is_safe sv envelope True db) (\<lambda>(db0, _).
    if identity_tenant \<noteq> e_tenant_id envelope then Inl PolicyError
    else rbind (of_option NotFoundError (tfind os_target_warden target_warden (db_out_streams db0))) (\<lambda>stream.
    let through = (case through_sequence of None \<Rightarrow> os_acked_through stream | Some n \<Rightarrow> n) in
    if through \<le> 0 then Inl ConflictError
    else if through > os_acked_through stream then Inl ConflictError
    else if through = os_compacted_through stream then
      (case os_checkpoint_payload stream of
         None \<Rightarrow> Inl StorageError
       | Some payload \<Rightarrow> Inr (prune_outgoing_transfer_prefix target_warden through db0, payload))
    else if through < os_compacted_through stream then Inl ConflictError
    else checkpoint_effect sv actor envelope target_warden through db0)))"

definition create_transfer_checkpoint :: "svc \<Rightarrow> IdentityContext \<Rightarrow> string \<Rightarrow> int option \<Rightarrow> wire_dict tx" where
  "create_transfer_checkpoint sv identity target_warden through_sequence db =
    rbind (require_warden_id target_warden) (\<lambda>_.
    rbind (identity_fields identity) (\<lambda>(identity_tenant, actor, scopes).
    if actor \<noteq> sv_warden_id sv \<and> \<not> has_scope scopes TRANSFER_PEER_SCOPES then Inl PolicyError
    else if (case through_sequence of None \<Rightarrow> False | Some n \<Rightarrow> n \<le> 0 \<or> n > MAX_RESOURCE) then Inl ValidationError
    else write_or_degraded (sv_recovery_capacity sv) (Inl CapacityError)
      (create_checkpoint_body sv identity_tenant actor target_warden through_sequence) db))"

definition CHECKPOINT_FIELDS :: "string list" where
  "CHECKPOINT_FIELDS =
    [''type'', ''tenant_id'', ''envelope_id'', ''config_epoch'', ''source_warden'', ''target_warden'',
     ''through_sequence'', ''issued_at_ns'', ''key_id'', ''signature'']"

definition checkpoint_string :: "wire_dict \<Rightarrow> string \<Rightarrow> string res" where
  "checkpoint_string wire field =
    (case jget_null field wire of JStr value \<Rightarrow> require_identifier value | _ \<Rightarrow> Inl ValidationError)"

definition checkpoint_int :: "wire_dict \<Rightarrow> string \<Rightarrow> int res" where
  "checkpoint_int wire field =
    (case jget_null field wire of
       JInt value \<Rightarrow>
         if value < 0 \<or> (field \<noteq> ''issued_at_ns'' \<and> value = 0) \<or> value > MAX_RESOURCE then Inl ValidationError
         else Inr value
     | _ \<Rightarrow> Inl ValidationError)"

definition ingest_checkpoint_body :: "svc \<Rightarrow> string \<Rightarrow> string \<Rightarrow> string list \<Rightarrow> int list \<Rightarrow> wire_dict \<Rightarrow> wire_dict tx" where
  "ingest_checkpoint_body sv identity_tenant actor texts ints wire db =
    (case (texts, ints) of
       ([tenant_id, envelope_id, source_warden, target_warden, key_id], [config_epoch, through, issued_at_ns]) \<Rightarrow>
         rbind (envelope_of db tenant_id envelope_id) (\<lambda>envelope.
         rbind (clock_is_safe sv envelope True db) (\<lambda>(db0, _).
         if identity_tenant \<noteq> tenant_id then Inl PolicyError
         else if target_warden \<noteq> sv_warden_id sv then Inl PolicyError
         else if config_epoch \<noteq> e_config_epoch envelope then Inl ConflictError
         else rbind (of_option NotFoundError (tfind is_source_warden source_warden (db_in_streams db0))) (\<lambda>stream.
         rbind (canonical_json (JObj wire)) (\<lambda>payload.
         if through > is_contiguous_through stream then Inl ConflictError
         else if through < is_compacted_through stream then Inl ReplayError
         else if through = is_compacted_through stream then
           (case is_checkpoint_payload stream of
              None \<Rightarrow> Inl ConflictError
            | Some existing \<Rightarrow> rbind (canonical_json (JObj existing)) (\<lambda>existing_payload.
                if existing_payload \<noteq> payload then Inl ConflictError
                else Inr (prune_inbound_ack_prefix source_warden through db0, wire)))
         else rbind (update_in_stream source_warden (\<lambda>s. s\<lparr>is_compacted_through := through,
           is_checkpoint_payload := Some wire, is_updated_at_ns := sv_now_ns sv\<rparr>) db0) (\<lambda>db1.
         rbind (append_audit sv envelope ''transfer.checkpoint-ingested'' (Some ''warden'') (Some source_warden)
           actor [(''through_sequence'', JInt through)] (prune_inbound_ack_prefix source_warden through db1)) (\<lambda>db2.
         Inr (db2, wire)))))))
     | _ \<Rightarrow> Inl ValidationError)"

definition ingest_transfer_checkpoint :: "svc \<Rightarrow> IdentityContext \<Rightarrow> wire_dict \<Rightarrow> wire_dict tx" where
  "ingest_transfer_checkpoint sv identity wire db =
    (if set (map fst wire) \<noteq> set CHECKPOINT_FIELDS
        \<or> jget_null ''type'' wire \<noteq> JStr ''lets.transfer-checkpoint/v1''
     then Inl ValidationError
     else rbind (mapM (checkpoint_string wire)
       [''tenant_id'', ''envelope_id'', ''source_warden'', ''target_warden'', ''key_id'']) (\<lambda>texts.
     rbind (mapM (checkpoint_int wire) [''config_epoch'', ''through_sequence'', ''issued_at_ns'']) (\<lambda>ints.
     rbind (identity_fields identity) (\<lambda>(identity_tenant, actor, scopes).
     if actor \<noteq> texts ! 2 \<and> \<not> has_scope scopes TRANSFER_PEER_SCOPES then Inl PolicyError
     else rbind (verify_signed sv ''transfer-checkpoint/v1'' wire (texts ! 2)) (\<lambda>_.
     write_or_degraded (sv_recovery_capacity sv) (Inl CapacityError)
       (ingest_checkpoint_body sv identity_tenant actor texts ints wire) db)))))"

end
