(* ===== verification/Policy.thy ===== *)
theory Policy
  imports Models
begin

text \<open>
  src/src/lets/policy.py: evidence rules with their validation, their wire form
  and their fail-closed evaluation.

  A field that \<open>from_dict\<close> passes on unchecked is a JSON value, with JNull for
  None; the sentinel \<open>_MISSING\<close> of a rule's value is the option None.
\<close>

section \<open>Evidence rules\<close>

definition BOOLEAN_OPS :: "string list" where
  "BOOLEAN_OPS = [''all'', ''any'']"

definition COMPARISON_OPS :: "string list" where
  "COMPARISON_OPS = [''eq'', ''ne'', ''lt'', ''lte'', ''gt'', ''gte'']"

definition PATH_OPS :: "string list" where
  "PATH_OPS = ''exists'' # COMPARISON_OPS"

definition RESERVED_ROOTS :: "string list" where
  "RESERVED_ROOTS = [''evidence'', ''now_ns'', ''subject'', ''audience'']"

definition MAX_EVIDENCE_DEPTH :: nat where "MAX_EVIDENCE_DEPTH = 32"
definition MAX_EVIDENCE_NODES :: nat where "MAX_EVIDENCE_NODES = 256"
definition MAX_EVIDENCE_VALUES :: nat where "MAX_EVIDENCE_VALUES = 256"
definition MAX_MACHINE_TRANSITIONS :: nat where "MAX_MACHINE_TRANSITIONS = 1024"
definition MAX_POLICY_DIMENSIONS :: nat where "MAX_POLICY_DIMENSIONS = 256"
definition MAX_TRANSFER_GAP_WINDOW :: int where "MAX_TRANSFER_GAP_WINDOW = 1048576"

datatype EvidenceRule = EvidenceRule
  (er_op: string) (er_path: json) (er_value: "json option") (er_values: "json list")
  (er_rules: "EvidenceRule list") (er_rule: "EvidenceRule option")
  (er_observed_at_path: json) (er_max_age_ns: json)

text \<open>\<open>value.split(".")\<close>.\<close>

fun split_dot :: "string \<Rightarrow> string list" where
  "split_dot [] = [[]]"
| "split_dot (c # cs) =
    (if c = CHR ''.'' then [] # split_dot cs
     else case split_dot cs of [] \<Rightarrow> [[c]] | part # parts \<Rightarrow> (c # part) # parts)"

definition validate_path :: "json \<Rightarrow> unit res" where
  "validate_path value =
    (case value of
       JStr s \<Rightarrow> if s = [] then Inl ValidationError
         else forM (split_dot s) (\<lambda>part. rbind (require_identifier_max 128 part) (\<lambda>_. Inr ()))
     | _ \<Rightarrow> Inl ValidationError)"

definition validate_literal :: "json \<Rightarrow> unit res" where
  "validate_literal value =
    map_err (\<lambda>e. if e = TypeErr \<or> e = ValueErr then ValidationError else e)
      (rbind (canonical_json value) (\<lambda>_. Inr ()))"

text \<open>\<open>_reject_extras\<close>: no field outside the ones the operation takes is present.\<close>

definition present_fields :: "EvidenceRule \<Rightarrow> string list" where
  "present_fields r =
    (if er_path r \<noteq> JNull then [''path''] else []) @ (if er_value r \<noteq> None then [''value''] else [])
    @ (if er_values r \<noteq> [] then [''values''] else []) @ (if er_rules r \<noteq> [] then [''rules''] else [])
    @ (if er_rule r \<noteq> None then [''rule''] else [])
    @ (if er_observed_at_path r \<noteq> JNull then [''observed_at_path''] else [])
    @ (if er_max_age_ns r \<noteq> JNull then [''max_age_ns''] else [])"

definition reject_extras :: "EvidenceRule \<Rightarrow> string list \<Rightarrow> unit res" where
  "reject_extras r allowed =
    (if list_all (List.member allowed) (present_fields r) then Inr () else Inl ValidationError)"

text \<open>
  The loop of \<open>_validate_shape\<close>: the stack is popped from its end, the
  rules of a node are pushed in order and its nested rule last.
\<close>

definition er_children :: "EvidenceRule \<Rightarrow> EvidenceRule list" where
  "er_children r = er_rules r @ (case er_rule r of None \<Rightarrow> [] | Some n \<Rightarrow> [n])"

primrec er_nodes :: "EvidenceRule \<Rightarrow> nat" where
  "er_nodes (EvidenceRule op path val vals rules rule obs age) =
    Suc (sum_list (map er_nodes rules) + (case map_option er_nodes rule of None \<Rightarrow> 0 | Some n \<Rightarrow> n))"

primrec er_depth :: "EvidenceRule \<Rightarrow> nat" where
  "er_depth (EvidenceRule op path val vals rules rule obs age) =
    Suc (max (foldr max (map er_depth rules) 0) (case map_option er_depth rule of None \<Rightarrow> 0 | Some n \<Rightarrow> n))"

lemma er_nodes_children: "er_nodes r = Suc (sum_list (map er_nodes (er_children r)))"
  by (cases r) (simp add: er_children_def split: option.split)

lemma er_nodes_pos [simp]: "0 < er_nodes r"
  by (cases r) simp

function shape_loop :: "nat \<Rightarrow> (EvidenceRule \<times> nat) list \<Rightarrow> unit res" where
  "shape_loop nodes stack =
    (case rev stack of
       [] \<Rightarrow> Inr ()
     | (current, depth) # rest \<Rightarrow>
         let nodes' = nodes + 1 in
         if depth > MAX_EVIDENCE_DEPTH then Inl ValidationError
         else if nodes' > MAX_EVIDENCE_NODES then Inl ValidationError
         else shape_loop nodes' (rev rest @ map (\<lambda>item. (item, depth + 1)) (er_children current)))"
  by pat_completeness auto
termination
proof (relation "measure (\<lambda>(n, st). sum_list (map (er_nodes \<circ> fst) st))", goal_cases)
  case (2 nodes stack p rest current depth n')
  then have st: "stack = rev rest @ [(current, depth)]"
    by (metis rev.simps(2) rev_rev_ident)
  have "map (er_nodes \<circ> fst) (map (\<lambda>item. (item, depth + 1)) (er_children current))
      = map er_nodes (er_children current)"
    by simp
  then show ?case
    using er_nodes_children [of current] by (simp add: st o_def)
qed simp

declare shape_loop.simps [simp del]

definition validate_shape :: "EvidenceRule \<Rightarrow> unit res" where
  "validate_shape r = shape_loop 0 [(r, 1)]"

definition er_op_checks :: "EvidenceRule \<Rightarrow> unit res" where
  "er_op_checks r =
    (let op = er_op r in
     if List.member BOOLEAN_OPS op then
       if er_rules r = [] then Inl ValidationError else reject_extras r [''rules'']
     else if op = ''not'' then
       if er_rule r = None then Inl ValidationError else reject_extras r [''rule'']
     else if List.member PATH_OPS op then
       rbind (validate_path (er_path r)) (\<lambda>_.
       if List.member COMPARISON_OPS op \<and> er_value r = None then Inl ValidationError
       else if op = ''exists'' \<and> er_value r \<noteq> None then Inl ValidationError
       else reject_extras r (if List.member COMPARISON_OPS op then [''path'', ''value''] else [''path'']))
     else if op = ''in'' then
       rbind (validate_path (er_path r)) (\<lambda>_.
       if er_values r = [] then Inl ValidationError else reject_extras r [''path'', ''values''])
     else if op = ''fresh'' then
       rbind (validate_path (er_observed_at_path r)) (\<lambda>_.
       case er_max_age_ns r of
         JInt n \<Rightarrow> if n < 0 \<or> n > MAX_RESOURCE then Inl ValidationError
           else reject_extras r [''observed_at_path'', ''max_age_ns'']
       | _ \<Rightarrow> Inl ValidationError)
     else Inl ValidationError)"

definition er_post_init :: "EvidenceRule \<Rightarrow> EvidenceRule res" where
  "er_post_init r =
    rbind (er_op_checks r) (\<lambda>_.
    rbind (case er_value r of None \<Rightarrow> Inr () | Some v \<Rightarrow> validate_literal v) (\<lambda>_.
    if length (er_values r) > MAX_EVIDENCE_VALUES then Inl ValidationError
    else rbind (forM (er_values r) validate_literal) (\<lambda>_.
    rbind (validate_shape r) (\<lambda>_. Inr r))))"

primrec er_to_dict :: "EvidenceRule \<Rightarrow> wire_dict" where
  "er_to_dict (EvidenceRule op path val vals rules rule obs age) =
    (''op'', JStr op) #
    (if List.member BOOLEAN_OPS op then [(''rules'', JArr (map JObj (map er_to_dict rules)))]
     else if op = ''not'' then
       (case map_option er_to_dict rule of None \<Rightarrow> [] | Some d \<Rightarrow> [(''rule'', JObj d)])
     else if op = ''in'' then [(''path'', path), (''values'', JArr vals)]
     else if op = ''fresh'' then [(''observed_at_path'', obs), (''max_age_ns'', age)]
     else (''path'', path) # (case val of None \<Rightarrow> [] | Some v \<Rightarrow> [(''value'', v)]))"

definition EVIDENCE_FIELDS :: "string list" where
  "EVIDENCE_FIELDS = [''op'', ''path'', ''value'', ''values'', ''rules'', ''rule'', ''observed_at_path'', ''max_age_ns'']"

text \<open>
  \<open>_from_dict\<close>: the counter of visited rules is threaded through the
  traversal.  The first argument is the number of levels still allowed, that
  is, MAX_EVIDENCE_DEPTH + 1 - depth.
\<close>

primrec thread :: "('a \<Rightarrow> nat \<Rightarrow> ('b \<times> nat) res) \<Rightarrow> 'a list \<Rightarrow> nat \<Rightarrow> ('b list \<times> nat) res" where
  "thread f [] c = Inr ([], c)"
| "thread f (x # xs) c =
    rbind (f x c) (\<lambda>(y, c1). rbind (thread f xs c1) (\<lambda>(ys, c2). Inr (y # ys, c2)))"

definition er_fields :: "wire_dict \<Rightarrow> (json list \<Rightarrow> nat \<Rightarrow> (EvidenceRule list \<times> nat) res)
    \<Rightarrow> (json \<Rightarrow> nat \<Rightarrow> (EvidenceRule \<times> nat) res) \<Rightarrow> nat \<Rightarrow> (EvidenceRule \<times> nat) res" where
  "er_fields d parse_rules parse_rule counter =
    (if list_ex (\<lambda>k. \<not> List.member EVIDENCE_FIELDS k) (map fst d) then Inl ValidationError
     else rbind (as_str (jget_null ''op'' d)) (\<lambda>op.
     rbind (case jlookup ''rules'' d of
         None \<Rightarrow> Inr ([], counter)
       | Some (JArr raw_rules) \<Rightarrow> parse_rules raw_rules counter
       | Some _ \<Rightarrow> Inl ValidationError) (\<lambda>(rules, counter2).
     rbind (if jget_null ''rule'' d = JNull then Inr (None, counter2)
       else rbind (parse_rule (jget_null ''rule'' d) counter2) (\<lambda>(nested, c). Inr (Some nested, c)))
       (\<lambda>(nested, counter3).
     rbind (case jlookup ''values'' d of
         None \<Rightarrow> Inr []
       | Some (JArr raw_values) \<Rightarrow> Inr raw_values
       | Some _ \<Rightarrow> Inl ValidationError) (\<lambda>raw_values.
     rbind (er_post_init (EvidenceRule op (jget_null ''path'' d) (jlookup ''value'' d) raw_values
       rules nested (jget_null ''observed_at_path'' d) (jget_null ''max_age_ns'' d))) (\<lambda>r.
     Inr (r, counter3)))))))"

primrec er_from_json :: "nat \<Rightarrow> json \<Rightarrow> nat \<Rightarrow> (EvidenceRule \<times> nat) res" where
  "er_from_json 0 data counter = Inl ValidationError"
| "er_from_json (Suc levels) data counter =
    (if counter + 1 > MAX_EVIDENCE_NODES then Inl ValidationError
     else case data of
       JObj d \<Rightarrow> er_fields d (thread (er_from_json levels)) (er_from_json levels) (counter + 1)
     | _ \<Rightarrow> Inl ValidationError)"

definition er_from_dict :: "wire_dict \<Rightarrow> EvidenceRule res" where
  "er_from_dict data = rbind (er_from_json MAX_EVIDENCE_DEPTH (JObj data) 0) (\<lambda>(r, _). Inr r)"

section \<open>Evaluation of evidence\<close>

datatype EvidenceResult = ALLOW | DENY | INVALID

definition allow_if :: "bool \<Rightarrow> EvidenceResult" where
  "allow_if b = (if b then ALLOW else DENY)"

fun walk :: "json \<Rightarrow> string list \<Rightarrow> json option" where
  "walk current [] = Some current"
| "walk current (part # parts) =
    (case current of
       JObj d \<Rightarrow> (case jlookup part d of None \<Rightarrow> None | Some v \<Rightarrow> walk v parts)
     | _ \<Rightarrow> None)"

definition resolve_path :: "string \<Rightarrow> wire_dict \<Rightarrow> int \<Rightarrow> string \<Rightarrow> string \<Rightarrow> json option" where
  "resolve_path path evidence now_ns subject_id audience =
    (let parts = split_dot path in
     if List.member RESERVED_ROOTS (hd parts)
     then walk (JObj [(''evidence'', JObj evidence), (''now_ns'', JInt now_ns),
       (''subject'', JStr subject_id), (''audience'', JStr audience)]) parts
     else walk (JObj evidence) parts)"

text \<open>Python's \<open>type(a) is type(b)\<close> on JSON values.\<close>

fun same_type :: "json \<Rightarrow> json \<Rightarrow> bool" where
  "same_type JNull JNull = True"
| "same_type (JBool _) (JBool _) = True"
| "same_type (JInt _) (JInt _) = True"
| "same_type (JStr _) (JStr _) = True"
| "same_type (JArr _) (JArr _) = True"
| "same_type (JObj _) (JObj _) = True"
| "same_type _ _ = False"

definition same_json :: "json \<Rightarrow> json \<Rightarrow> bool res" where
  "same_json a b = rbind (canonical_json a) (\<lambda>x. rbind (canonical_json b) (\<lambda>y. Inr (x = y)))"

definition compare_values :: "string \<Rightarrow> 'a::linorder \<Rightarrow> 'a \<Rightarrow> EvidenceResult" where
  "compare_values op actual expected =
    (if op = ''lt'' then allow_if (actual < expected) else if op = ''lte'' then allow_if (actual \<le> expected)
     else if op = ''gt'' then allow_if (actual > expected) else if op = ''gte'' then allow_if (actual \<ge> expected)
     else INVALID)"

text \<open>\<open>any(encoded == canonical_json(candidate) for candidate in compatible)\<close>.\<close>

primrec any_same :: "byte list \<Rightarrow> json list \<Rightarrow> bool res" where
  "any_same encoded [] = Inr False"
| "any_same encoded (c # cs) =
    rbind (canonical_json c) (\<lambda>x. if encoded = x then Inr True else any_same encoded cs)"

definition leaf_result :: "EvidenceRule \<Rightarrow> wire_dict \<Rightarrow> int \<Rightarrow> string \<Rightarrow> string \<Rightarrow> EvidenceResult res" where
  "leaf_result r facts now_ns subject_id audience =
    (let op = er_op r in
     case (if op = ''fresh'' then er_observed_at_path r else er_path r) of
       JStr path \<Rightarrow>
         (case resolve_path path facts now_ns subject_id audience of
            None \<Rightarrow> Inr (if op = ''exists'' then DENY else INVALID)
          | Some actual \<Rightarrow>
              if op = ''exists'' then Inr ALLOW
              else if op = ''eq'' \<or> op = ''ne'' then
                (case er_value r of
                   None \<Rightarrow> Inr INVALID
                 | Some expected \<Rightarrow>
                     if \<not> same_type actual expected then Inr INVALID
                     else rbind (same_json actual expected) (\<lambda>equal. Inr (allow_if (equal = (op = ''eq'')))))
              else if op = ''in'' then
                (let compatible = filter (same_type actual) (er_values r) in
                 if compatible = [] then Inr INVALID
                 else rbind (canonical_json actual) (\<lambda>encoded.
                   rbind (any_same encoded compatible) (\<lambda>m. Inr (allow_if m))))
              else if op = ''fresh'' then
                (case (actual, er_max_age_ns r) of
                   (JInt t, JInt max_age) \<Rightarrow> Inr (allow_if (0 \<le> now_ns - t \<and> now_ns - t \<le> max_age))
                 | _ \<Rightarrow> Inr INVALID)
              else (case (actual, er_value r) of
                   (JInt a, Some (JInt b)) \<Rightarrow> Inr (compare_values op a b)
                 | (JStr a, Some (JStr b)) \<Rightarrow> Inr (compare_values op a b)
                 | _ \<Rightarrow> Inr INVALID))
     | _ \<Rightarrow> Inr INVALID)"

primrec evidence_result :: "EvidenceRule \<Rightarrow> wire_dict \<Rightarrow> int \<Rightarrow> string \<Rightarrow> string \<Rightarrow> EvidenceResult res" where
  "evidence_result (EvidenceRule op path val vals rules rule obs age) =
    (let rules_eval = map evidence_result rules; rule_eval = map_option evidence_result rule in
     (\<lambda>facts now_ns subject_id audience.
       if List.member BOOLEAN_OPS op then
         rbind (mapM (\<lambda>f. f facts now_ns subject_id audience) rules_eval) (\<lambda>results.
         Inr (if List.member results INVALID then INVALID
           else if op = ''all'' then allow_if (list_all (\<lambda>x. x = ALLOW) results)
           else allow_if (list_ex (\<lambda>x. x = ALLOW) results)))
       else if op = ''not'' then
         (case rule_eval of
            None \<Rightarrow> Inr INVALID
          | Some f \<Rightarrow> rbind (f facts now_ns subject_id audience) (\<lambda>nested.
              Inr (case nested of INVALID \<Rightarrow> INVALID | ALLOW \<Rightarrow> DENY | DENY \<Rightarrow> ALLOW)))
       else leaf_result (EvidenceRule op path val vals rules rule obs age) facts now_ns subject_id audience))"

text \<open>A stored rule is a JSON value: JNull is None, and a rule that is no object is refused.\<close>

definition evaluate_evidence :: "json \<Rightarrow> wire_dict option \<Rightarrow> int \<Rightarrow> string \<Rightarrow> string \<Rightarrow> bool res" where
  "evaluate_evidence rule evidence now_ns subject_id audience =
    (if rule = JNull then Inr True
     else case (case rule of
         JObj d \<Rightarrow>
           rbind (er_from_dict d) (\<lambda>expression.
           let facts = (case evidence of None \<Rightarrow> [] | Some f \<Rightarrow> f) in
           rbind (canonical_json (JObj facts)) (\<lambda>_.
           rbind (evidence_result expression facts now_ns subject_id audience) (\<lambda>result.
           Inr (result = ALLOW))))
       | _ \<Rightarrow> Inr False) of
       Inr b \<Rightarrow> Inr b
     | Inl e \<Rightarrow> if List.member [KeyErr, TypeErr, ValueErr, ValidationError] e then Inr False else Inl e)"

end
