(* ===== verification/Admin.thy ===== *)
theory Admin
  imports Lease_Ops Policy
begin

text \<open>
  The administrative operations of WardenService: runtime_status,
  set_runtime_mode, create_envelope and register_policy.
\<close>

section \<open>Runtime mode\<close>

definition runtime_status :: "svc \<Rightarrow> IdentityContext \<Rightarrow> db \<Rightarrow> RuntimeStatus res" where
  "runtime_status sv identity db =
    rbind (verify_database_identity sv db) (\<lambda>_.
    rbind (singleton_envelope db) (\<lambda>envelope.
    rbind (require_admin identity (e_tenant_id envelope)) (\<lambda>_.
    runtime_status_row db)))"

text \<open>UPDATE runtime_control with its CHECKs and the generation trigger.\<close>

definition update_runtime_control :: "RuntimeStatus \<Rightarrow> db \<Rightarrow> db res" where
  "update_runtime_control updated db =
    (if rs_generation updated \<noteq> rs_generation (db_runtime db) + 1
        \<or> rs_changed_at_ns updated < rs_changed_at_ns (db_runtime db)
        \<or> rs_generation updated < 0 \<or> rs_changed_at_ns updated < 0
        \<or> \<not> (1 \<le> length (rs_reason updated) \<and> length (rs_reason updated) \<le> 2000)
        \<or> \<not> text_ok (rs_changed_by updated)
     then Inl IntegrityError
     else Inr (db\<lparr>db_runtime := updated\<rparr>))"

definition change_runtime_mode :: "svc \<Rightarrow> string \<Rightarrow> envelope_row \<Rightarrow> RuntimeMode \<Rightarrow> string \<Rightarrow> RuntimeStatus tx" where
  "change_runtime_mode sv actor envelope mode reason db =
    rbind (runtime_status_row db) (\<lambda>current.
    if rs_mode current = mode \<and> rs_reason current = reason then Inr (db, current)
    else rbind (RuntimeStatus_post_init \<lparr>rs_mode = mode, rs_generation = rs_generation current + 1,
        rs_reason = reason, rs_changed_at_ns = sv_now_ns sv, rs_changed_by = actor\<rparr>) (\<lambda>updated.
      rbind (update_runtime_control updated db) (\<lambda>db1.
      rbind (append_audit sv envelope ''warden.runtime-mode-changed'' (Some ''warden'') (Some (sv_warden_id sv))
        actor [(''previous_mode'', JStr (mode_value (rs_mode current))), (''mode'', JStr (mode_value (rs_mode updated))),
          (''generation'', JInt (rs_generation updated)), (''reason'', JStr (rs_reason updated))] db1) (\<lambda>db2.
      Inr (db2, updated)))))"

definition runtime_mode_body :: "svc \<Rightarrow> string \<Rightarrow> string \<Rightarrow> RuntimeMode \<Rightarrow> string \<Rightarrow> string \<Rightarrow> RuntimeStatus tx" where
  "runtime_mode_body sv request_id actor mode reason fp db =
    rbind (verify_database_identity sv db) (\<lambda>_.
    rbind (singleton_envelope db) (\<lambda>envelope.
    rbind (clock_is_safe sv envelope True db) (\<lambda>(db0, _).
    rbind (idempotent_response db0 ''set_runtime_mode'' request_id fp) (\<lambda>prior.
    case prior of
      Some response \<Rightarrow> rbind (RuntimeStatus_from_dict response) (\<lambda>s. Inr (db0, s))
    | None \<Rightarrow>
        rbind (change_runtime_mode sv actor envelope mode reason db0) (\<lambda>(db1, updated).
        rbind (remember_response ''set_runtime_mode'' request_id fp (RuntimeStatus_to_dict updated)
          (sv_now_ns sv) 200 db1) (\<lambda>db2.
        Inr (db2, updated)))))))"

definition set_runtime_mode :: "svc \<Rightarrow> string \<Rightarrow> IdentityContext \<Rightarrow> string \<Rightarrow> string \<Rightarrow> RuntimeStatus tx" where
  "set_runtime_mode sv request_id identity mode reason db =
    rbind (require_identifier request_id) (\<lambda>_.
    rbind (map_err (\<lambda>_. ValidationError) (as_mode (JStr mode))) (\<lambda>requested_mode.
    if \<not> (1 \<le> length reason \<and> length reason \<le> 2000) then Inl ValidationError
    else rbind (store_metadata db) (\<lambda>meta.
    rbind (require_admin identity (e_tenant_id meta)) (\<lambda>actor.
    rbind (fingerprint sv ''set_runtime_mode'' [(''actor'', JStr actor),
      (''mode'', JStr (mode_value requested_mode)), (''reason'', JStr reason)]) (\<lambda>fp.
    write_or_degraded (if requested_mode = RM_DRAINING then sv_recovery_capacity sv else sv_capacity sv)
      (rbind (degraded_idempotent_response db (e_tenant_id meta) (e_envelope_id meta) ''runtime-mode''
        request_id fp) RuntimeStatus_from_dict)
      (runtime_mode_body sv request_id actor requested_mode reason fp) db)))))"

section \<open>create_envelope\<close>

text \<open>Python's == on JSON values: True equals 1, and dicts compare without order.\<close>

primrec py_eq :: "json \<Rightarrow> json \<Rightarrow> bool" where
  "py_eq JNull = (\<lambda>w. w = JNull)"
| "py_eq (JBool b) = (\<lambda>w. case w of JBool c \<Rightarrow> b = c | JInt n \<Rightarrow> n = (if b then 1 else 0) | _ \<Rightarrow> False)"
| "py_eq (JInt n) = (\<lambda>w. case w of JInt m \<Rightarrow> n = m | JBool b \<Rightarrow> n = (if b then 1 else 0) | _ \<Rightarrow> False)"
| "py_eq (JStr s) = (\<lambda>w. w = JStr s)"
| "py_eq (JArr xs) = (let fs = map py_eq xs in
     (\<lambda>w. case w of JArr ys \<Rightarrow> list_all2 (\<lambda>f y. f y) fs ys | _ \<Rightarrow> False))"
| "py_eq (JObj kvs) = (let fs = map (map_prod id py_eq) kvs in
     (\<lambda>w. case w of
        JObj d \<Rightarrow> length fs = length d
          \<and> list_all (\<lambda>(k, f). case jlookup k d of None \<Rightarrow> False | Some v \<Rightarrow> f v) fs
      | _ \<Rightarrow> False))"

record envelope_config =
  c_tenant_id :: string
  c_envelope_id :: string
  c_config_epoch :: int
  c_budget :: vec
  c_local_share :: vec
  c_receipt_ttl_ns :: int
  c_max_clock_uncertainty_ns :: int
  c_transfer_gap_window :: int
  c_dimension_metadata :: "wire_dict list"
  c_config :: "wire_dict option"

definition envelope_config_checks :: "envelope_config \<Rightarrow> (vec \<times> vec) res" where
  "envelope_config_checks c =
    rbind (require_identifier (c_envelope_id c)) (\<lambda>_.
    rbind (positive False (c_config_epoch c)) (\<lambda>_.
    rbind (vector (c_budget c) None) (\<lambda>configured_budget.
    if length configured_budget > 256 then Inl ValidationError
    else rbind (vector (c_local_share c) (Some (length configured_budget))) (\<lambda>share.
    rbind (less_than_or_equal share configured_budget) (\<lambda>covered.
    if \<not> covered then Inl ValidationError
    else rbind (positive False (c_receipt_ttl_ns c)) (\<lambda>_.
    rbind (positive True (c_max_clock_uncertainty_ns c)) (\<lambda>_.
    rbind (positive False (c_transfer_gap_window c)) (\<lambda>_.
    if c_transfer_gap_window c > MAX_TRANSFER_GAP_WINDOW then Inl ValidationError
    else if c_dimension_metadata c \<noteq> [] \<and> length (c_dimension_metadata c) \<noteq> length configured_budget
    then Inl ValidationError
    else Inr (configured_budget, share)))))))))"

definition configuration_of :: "envelope_config \<Rightarrow> vec \<Rightarrow> vec \<Rightarrow> wire_dict" where
  "configuration_of c configured_budget share =
    [(''tenant_id'', JStr (c_tenant_id c)), (''envelope_id'', JStr (c_envelope_id c)),
     (''config_epoch'', JInt (c_config_epoch c)), (''budget'', jvec configured_budget),
     (''local_share'', jvec share), (''receipt_ttl_ns'', JInt (c_receipt_ttl_ns c)),
     (''max_clock_uncertainty_ns'', JInt (c_max_clock_uncertainty_ns c)),
     (''transfer_gap_window'', JInt (c_transfer_gap_window c)),
     (''dimension_metadata'', JArr (map JObj (c_dimension_metadata c))),
     (''extensions'', JObj (case c_config c of None \<Rightarrow> [] | Some d \<Rightarrow> d))]"

definition envelope_checks :: "envelope_row \<Rightarrow> bool" where
  "envelope_checks e =
    (text_ok (e_tenant_id e) \<and> text_ok (e_envelope_id e) \<and> 1 \<le> e_config_epoch e
     \<and> 1 \<le> e_dimension_count e \<and> e_dimension_count e \<le> 256
     \<and> wf_vec (e_dimension_count e) (e_budget e) \<and> wf_vec (e_dimension_count e) (e_initial_local_share e)
     \<and> 0 < e_receipt_ttl_ns e \<and> 0 \<le> e_max_clock_uncertainty_ns e
     \<and> 0 < e_transfer_gap_window e \<and> e_transfer_gap_window e \<le> 1048576 \<and> 0 \<le> e_created_at_ns e)"

definition insert_envelope :: "envelope_row \<Rightarrow> db \<Rightarrow> db res" where
  "insert_envelope e db =
    (if db_envelope db \<noteq> None \<or> \<not> envelope_checks e then Inl IntegrityError
     else Inr (db\<lparr>db_envelope := Some e\<rparr>))"

definition create_envelope_body :: "svc \<Rightarrow> string \<Rightarrow> envelope_config \<Rightarrow> vec \<Rightarrow> vec \<Rightarrow> InvariantSnapshot tx" where
  "create_envelope_body sv actor c configured_budget share db =
    (let configuration = configuration_of c configured_budget share in
    rbind (verify_database_identity sv db) (\<lambda>_.
    case db_envelope db of
      Some existing \<Rightarrow>
        rbind (clock_is_safe sv existing True db) (\<lambda>(db0, _).
        if \<not> py_eq (JObj (e_config_json existing)) (JObj configuration) then Inl ConflictError
        else rbind (invariant_snapshot_row sv existing db0) (\<lambda>s. Inr (db0, s)))
    | None \<Rightarrow>
        rbind (require_runtime_active db) (\<lambda>_.
        rbind (canonical_json (JArr (map JObj (c_dimension_metadata c)))) (\<lambda>_.
        rbind (packed configured_budget) (\<lambda>_.
        rbind (packed share) (\<lambda>_.
        rbind (canonical_json (JObj configuration)) (\<lambda>_.
        rbind (insert_envelope
          \<lparr>e_tenant_id = c_tenant_id c, e_envelope_id = c_envelope_id c, e_config_epoch = c_config_epoch c,
           e_dimension_count = length configured_budget,
           e_dimension_metadata = JArr (map JObj (c_dimension_metadata c)), e_budget = configured_budget,
           e_initial_local_share = share, e_receipt_ttl_ns = c_receipt_ttl_ns c,
           e_max_clock_uncertainty_ns = c_max_clock_uncertainty_ns c,
           e_transfer_gap_window = c_transfer_gap_window c, e_config_json = configuration,
           e_created_at_ns = sv_now_ns sv\<rparr> db) (\<lambda>db1.
        rbind (zero (int (length configured_budget))) (\<lambda>zeros.
        rbind (insert_warden_state
          \<lparr>w_free_pool = share, w_lease_residual = zeros, w_consumed = zeros, w_transferred_in = zeros,
           w_transferred_out = zeros, w_clock_floor_ns = Some (sv_now_ns sv), w_revision = 0,
           w_updated_at_ns = sv_now_ns sv\<rparr> db1) (\<lambda>db2.
        rbind (envelope_of db2 (c_tenant_id c) (c_envelope_id c)) (\<lambda>envelope.
        rbind (canonical_digest (sv_sha256 sv) (JObj configuration)) (\<lambda>digest.
        rbind (append_audit sv envelope ''envelope.created'' (Some ''envelope'') (Some (c_envelope_id c)) actor
          [(''config_digest'', JStr digest)] db2) (\<lambda>db3.
        rbind (invariant_snapshot_row sv envelope db3) (\<lambda>s. Inr (db3, s)))))))))))))))"

definition create_envelope :: "svc \<Rightarrow> IdentityContext \<Rightarrow> envelope_config \<Rightarrow> InvariantSnapshot tx" where
  "create_envelope sv identity c db =
    rbind (require_admin identity (c_tenant_id c)) (\<lambda>actor.
    rbind (envelope_config_checks c) (\<lambda>(configured_budget, share).
    write_or_degraded (sv_capacity sv) (Inl CapacityError)
      (create_envelope_body sv actor c configured_budget share) db))"

section \<open>register_policy\<close>

definition ALLOWED_POLICY_FIELDS :: "string list" where
  "ALLOWED_POLICY_FIELDS =
    [''tenant_id'', ''envelope_id'', ''policy_id'', ''policy_version'', ''resources'', ''machine'',
     ''machine_digest'', ''max_lease_ttl_ns'', ''receipt_ttl_ns'', ''max_clock_uncertainty_ns'',
     ''transfer_gap_window'', ''policy_digest'']"

text \<open>\<open>d[k] = v\<close> and \<open>{key: value for ... if key != k}\<close>.\<close>

fun jset :: "string \<Rightarrow> json \<Rightarrow> wire_dict \<Rightarrow> wire_dict" where
  "jset k v [] = [(k, v)]"
| "jset k v ((k', w) # d) = (if k' = k then (k, v) # d else (k', w) # jset k v d)"

definition jremove :: "string \<Rightarrow> wire_dict \<Rightarrow> wire_dict" where
  "jremove k d = filter (\<lambda>kv. fst kv \<noteq> k) d"

text \<open>\<open>_policy_payload\<close> of a mapping: a nested payload with the outer identity fields.\<close>

definition policy_payload :: "wire_dict \<Rightarrow> wire_dict" where
  "policy_payload policy =
    (case jlookup ''payload'' policy of
       Some (JObj nested) \<Rightarrow>
         foldl (\<lambda>merged name. case jlookup name policy of None \<Rightarrow> merged | Some v \<Rightarrow> jset name v merged) nested
           [''tenant_id'', ''envelope_id'', ''policy_version'', ''policy_digest'', ''machine_digest'']
     | _ \<Rightarrow> policy)"

definition digest_of_json :: "json \<Rightarrow> string res" where
  "digest_of_json v = rbind (as_str v) require_digest"

text \<open>The digests: the payload with machine_digest and policy_digest filled in, and both digests.\<close>

definition policy_digests :: "svc \<Rightarrow> wire_dict \<Rightarrow> (wire_dict \<times> string \<times> string) res" where
  "policy_digests sv payload =
    rbind (machine_of payload) (\<lambda>machine.
    rbind (canonical_digest (sv_sha256 sv) (JObj (jremove ''machine_digest'' machine))) (\<lambda>computed_machine_digest.
    let supplied = (case jlookup ''machine_digest'' payload of Some v \<Rightarrow> v | None \<Rightarrow> jget_null ''machine_digest'' machine);
        payload1 = (if supplied = JNull then jset ''machine_digest'' (JStr computed_machine_digest) payload else payload) in
    rbind (digest_of_json (if supplied = JNull then JStr computed_machine_digest else supplied)) (\<lambda>machine_digest.
    if machine_digest \<noteq> computed_machine_digest then Inl ValidationError
    else rbind (canonical_digest (sv_sha256 sv) (JObj (jremove ''policy_digest'' payload1))) (\<lambda>computed_policy_digest.
    rbind (digest_of_json (case jlookup ''policy_digest'' payload1 of None \<Rightarrow> JStr computed_policy_digest | Some v \<Rightarrow> v))
      (\<lambda>policy_digest.
    if policy_digest \<noteq> computed_policy_digest then Inl ValidationError
    else Inr (jset ''policy_digest'' (JStr policy_digest) payload1, machine_digest, policy_digest))))))"

definition check_transition :: "nat \<Rightarrow> (string \<times> string) list \<Rightarrow> json \<Rightarrow> (string \<times> string) list res" where
  "check_transition dimensions names item =
    (case item of
       JObj t \<Rightarrow>
         rbind (rbind (as_str (jget_alt ''name'' ''transition'' t)) require_identifier) (\<lambda>name.
         rbind (rbind (as_str (jget_alt ''source'' ''source_state'' t)) require_identifier) (\<lambda>source.
         rbind (rbind (as_str (jget_alt ''target'' ''target_state'' t)) require_identifier) (\<lambda>_.
         rbind (rbind (as_str (jget_null ''capability'' t)) require_identifier) (\<lambda>_.
         if List.member names (source, name) then Inl ValidationError
         else (case jget_null ''cost'' t of
           JArr cost_raw \<Rightarrow>
             rbind (rbind (mapM as_int cost_raw) (\<lambda>v. vector v (Some dimensions))) (\<lambda>checked_cost.
             if \<not> nonzero checked_cost then Inl ValidationError
             else (case jget_null ''evidence'' t of
               JNull \<Rightarrow> Inr (names @ [(source, name)])
             | JObj raw_evidence \<Rightarrow> rbind (er_from_dict raw_evidence) (\<lambda>_. Inr (names @ [(source, name)]))
             | _ \<Rightarrow> Inl ValidationError))
         | _ \<Rightarrow> Inl ValidationError)))))
     | _ \<Rightarrow> Inl ValidationError)"

definition policy_content_checks :: "envelope_row \<Rightarrow> wire_dict \<Rightarrow> (string \<times> string) res" where
  "policy_content_checks envelope payload =
    (case (jget_null ''policy_version'' payload, jget_alt ''policy_id'' ''policy_version'' payload) of
       (JStr policy_version, JStr policy_id) \<Rightarrow>
         rbind (req_ids [policy_version, policy_id]) (\<lambda>_.
         case jget_null ''resources'' payload of
           JArr resources \<Rightarrow>
             if length resources \<noteq> e_dimension_count envelope then Inl ValidationError
             else if \<not> py_eq (jget_null ''receipt_ttl_ns'' payload) (JInt (e_receipt_ttl_ns envelope))
               \<or> \<not> py_eq (jget_null ''max_clock_uncertainty_ns'' payload) (JInt (e_max_clock_uncertainty_ns envelope))
               \<or> \<not> py_eq (jget_null ''transfer_gap_window'' payload) (JInt (e_transfer_gap_window envelope))
             then Inl ValidationError
             else rbind (initial_state_of payload) (\<lambda>_.
               rbind (machine_of payload) (\<lambda>machine.
               rbind (transition_candidates ValidationError machine) (\<lambda>transition_values.
               if transition_values = [] \<or> length transition_values > MAX_MACHINE_TRANSITIONS
               then Inl ValidationError
               else rbind (foldM (check_transition (e_dimension_count envelope)) [] transition_values) (\<lambda>_.
               Inr (policy_version, policy_id)))))
         | _ \<Rightarrow> Inl ValidationError)
     | _ \<Rightarrow> Inl ValidationError)"

definition insert_policy :: "policy_row \<Rightarrow> db \<Rightarrow> db res" where
  "insert_policy p db =
    (if \<not> list_all text_ok [p_policy_version p, p_policy_digest p, p_machine_digest p] \<or> p_created_at_ns p < 0
        \<or> db_envelope db = None
        \<or> list_ex (\<lambda>x. p_policy_digest x = p_policy_digest p) (db_policies db)
        \<or> (p_active p \<and> list_ex p_active (db_policies db))
     then Inl IntegrityError
     else rbind (tinsert p_policy_version p (db_policies db)) (\<lambda>rows. Inr (db\<lparr>db_policies := rows\<rparr>)))"

definition register_store :: "svc \<Rightarrow> string \<Rightarrow> envelope_row \<Rightarrow> wire_dict \<Rightarrow> string \<Rightarrow> string \<Rightarrow> string \<Rightarrow> string
    \<Rightarrow> string tx" where
  "register_store sv actor_id envelope payload policy_version policy_id machine_digest policy_digest db =
    rbind (canonical_json (JObj payload)) (\<lambda>stored_payload.
    case tfind p_policy_version policy_version (db_policies db) of
      Some existing \<Rightarrow>
        rbind (canonical_json (JObj (p_payload existing))) (\<lambda>existing_payload.
        if p_policy_digest existing \<noteq> policy_digest \<or> existing_payload \<noteq> stored_payload then Inl ConflictError
        else Inr (db, policy_digest))
    | None \<Rightarrow>
        rbind (require_runtime_active db) (\<lambda>_.
        let active = \<not> list_ex p_active (db_policies db) in
        rbind (insert_policy
          \<lparr>p_policy_version = policy_version, p_policy_digest = policy_digest, p_machine_digest = machine_digest,
           p_payload = payload, p_active = active, p_created_at_ns = sv_now_ns sv\<rparr> db) (\<lambda>db1.
        rbind (append_audit sv envelope ''policy.registered'' (Some ''policy'') (Some policy_digest) actor_id
          [(''policy_id'', JStr policy_id), (''policy_version'', JStr policy_version),
           (''machine_digest'', JStr machine_digest), (''active'', JBool active)] db1) (\<lambda>db2.
        Inr (db2, policy_digest)))))"

definition register_body :: "svc \<Rightarrow> IdentityContext option \<Rightarrow> wire_dict \<Rightarrow> string tx" where
  "register_body sv identity payload db =
    rbind (verify_database_identity sv db) (\<lambda>_.
    rbind (singleton_envelope db) (\<lambda>envelope.
    rbind (clock_is_safe sv envelope True db) (\<lambda>(db0, _).
    rbind (case identity of None \<Rightarrow> Inr (sv_warden_id sv)
      | Some i \<Rightarrow> rbind (identity_fields i) (\<lambda>(identity_tenant, actor, scopes).
          if \<not> has_scope scopes ADMIN_SCOPES then Inl PolicyError
          else if identity_tenant \<noteq> e_tenant_id envelope then Inl PolicyError
          else Inr actor)) (\<lambda>actor_id.
    if (case jlookup ''tenant_id'' payload of None \<Rightarrow> False | Some v \<Rightarrow> v \<noteq> JStr (e_tenant_id envelope))
       \<or> (case jlookup ''envelope_id'' payload of None \<Rightarrow> False | Some v \<Rightarrow> v \<noteq> JStr (e_envelope_id envelope))
    then Inl PolicyError
    else rbind (policy_digests sv payload) (\<lambda>(payload', machine_digest, policy_digest).
    rbind (policy_content_checks envelope payload') (\<lambda>(policy_version, policy_id).
    register_store sv actor_id envelope payload' policy_version policy_id machine_digest policy_digest db0))))))"

definition register_policy :: "svc \<Rightarrow> wire_dict \<Rightarrow> IdentityContext option \<Rightarrow> string tx" where
  "register_policy sv policy identity db =
    (let payload = policy_payload policy in
     if list_ex (\<lambda>k. \<not> List.member ALLOWED_POLICY_FIELDS k) (map fst payload) then Inl ValidationError
     else write_or_degraded (sv_capacity sv) (Inl CapacityError) (register_body sv identity payload) db)"

end
