(* ===== verification/Statements.thy ===== *)
theory Statements
  imports Transfer_Settle Admin
begin

text \<open>
  The statements that the operations of WardenService run against the database,
  as a step relation \<open>stmt\<close> between databases, and the executions \<open>runs\<close>
  of a transaction body.  Every operation that returns is an execution, so a
  property that each statement keeps, because of a constraint or a trigger of
  the schema, holds of every operation.
\<close>

section \<open>Frames\<close>

text \<open>What each statement touches; the other tables are as they were.\<close>

named_theorems frames "the tables a statement touches"

lemma state_frame [frames]: "update_warden_state f db = Inr db' \<Longrightarrow> \<exists>w. db' = db\<lparr>db_warden_state := w\<rparr>"
  by (cases "db_warden_state db") (auto simp: update_warden_state_def Let_def res_simps intro: exI [of _ None] exI [of _ "db_warden_state db"])

lemma total_insert_frame: "leases_residual_total_insert r db = Inr db' \<Longrightarrow> \<exists>w. db' = db\<lparr>db_warden_state := w\<rparr>"
  by (cases "db_warden_state db") (auto simp: leases_residual_total_insert_def res_simps dest: state_frame intro: exI [of _ None])

lemma total_update_frame: "leases_residual_total_update u v db = Inr db' \<Longrightarrow> \<exists>w. db' = db\<lparr>db_warden_state := w\<rparr>"
  by (cases "db_warden_state db") (auto simp: leases_residual_total_update_def res_simps dest: state_frame intro: exI [of _ None])

lemma lease_row_frame [frames]: "insert_lease_row r db = Inr db' \<Longrightarrow>
    \<exists>w. db' = db\<lparr>db_leases := db_leases db @ [r], db_warden_state := w\<rparr> \<and> tfind l_lease_id (l_lease_id r) (db_leases db) = None"
  by (auto simp: insert_lease_row_def res_simps dest!: total_insert_frame)

lemma update_lease_frame [frames]: "update_lease k f db = Inr db' \<Longrightarrow> db' = db\<lparr>db_leases := tupdate l_lease_id k f (db_leases db)\<rparr>"
  by (auto simp: update_lease_def res_simps tupdate_absent split: option.split_asm)

lemma residual_frame [frames]: "update_lease_residual k f db = Inr db' \<Longrightarrow>
    \<exists>w. db' = db\<lparr>db_leases := tupdate l_lease_id k f (db_leases db), db_warden_state := w\<rparr>"
  by (cases "tfind l_lease_id k (db_leases db)")
    (auto simp: update_lease_residual_def res_simps tupdate_absent dest!: total_update_frame intro: exI [of _ "db_warden_state db"])

lemma idempotency_frame [frames]: "insert_idempotency i db = Inr db' \<Longrightarrow>
    db' = db\<lparr>db_idempotency := db_idempotency db @ [i]\<rparr> \<and> tfind i_request_id (i_request_id i) (db_idempotency db) = None"
  by (auto simp: insert_idempotency_def res_simps)

lemma receipt_frame [frames]: "insert_receipt x db = Inr db' \<Longrightarrow> db' = db\<lparr>db_receipts := db_receipts db @ [x]\<rparr>"
  by (auto simp: insert_receipt_def Let_def res_simps)

lemma audit_frame [frames]: "insert_audit h a db = Inr db' \<Longrightarrow> db' = db\<lparr>db_audit := db_audit db @ [a]\<rparr>"
  by (auto simp: insert_audit_def res_simps split: prod.splits)

lemma outbox_frame [frames]: "insert_outbox b db = Inr db' \<Longrightarrow> db' = db\<lparr>db_outbox := db_outbox db @ [b]\<rparr>"
  by (auto simp: insert_outbox_def res_simps)

lemma revocation_frame [frames]:
  "insert_revocation v db = Inr db' \<Longrightarrow> db' = db\<lparr>db_revocations := db_revocations db @ [v]\<rparr> \<and> tfind rev_key (rev_key v) (db_revocations db) = None"
  "update_revocation v db = Inr db' \<Longrightarrow> db' = db\<lparr>db_revocations := tupdate rev_key (rev_key v) (\<lambda>_. v) (db_revocations db)\<rparr>"
  by (auto simp: insert_revocation_def update_revocation_def res_simps tupdate_absent split: option.split_asm)

lemma out_stream_frame [frames]:
  "open_out_stream t e n db = Inr (db', os) \<Longrightarrow> \<exists>ss. db' = db\<lparr>db_out_streams := ss\<rparr>"
  "update_out_stream t g db = Inr db' \<Longrightarrow> \<exists>ss. db' = db\<lparr>db_out_streams := ss\<rparr>"
  by (auto simp: open_out_stream_def update_out_stream_def Let_def res_simps split: option.split_asm
      intro: exI [of _ "db_out_streams db"])

lemma out_transfer_frame [frames]:
  "insert_out_transfer t db = Inr db' \<Longrightarrow> \<exists>ts. db' = db\<lparr>db_out_transfers := ts\<rparr>"
  "update_out_transfer k h db = Inr db' \<Longrightarrow> \<exists>ts. db' = db\<lparr>db_out_transfers := ts\<rparr>"
  by (auto simp: insert_out_transfer_def update_out_transfer_def res_simps split: option.split_asm
      intro: exI [of _ "db_out_transfers db"])

lemma in_stream_frame [frames]:
  "open_in_stream t e n db = Inr (db', z) \<Longrightarrow> \<exists>ss. db' = db\<lparr>db_in_streams := ss\<rparr>"
  "update_in_stream t q db = Inr db' \<Longrightarrow> \<exists>ss. db' = db\<lparr>db_in_streams := ss\<rparr>"
  by (auto simp: open_in_stream_def update_in_stream_def Let_def res_simps split: option.split_asm
      intro: exI [of _ "db_in_streams db"])

lemma in_gap_frame [frames]:
  "insert_in_gap t n db = Inr db' \<Longrightarrow> \<exists>gs. db' = db\<lparr>db_in_gaps := gs\<rparr>"
  "advance_inbound_gap_prefix t n db = Inr (db', m) \<Longrightarrow> \<exists>gs. db' = db\<lparr>db_in_gaps := gs\<rparr>"
  by (auto simp: insert_in_gap_def advance_inbound_gap_prefix_def Let_def res_simps split: if_split_asm
      intro: exI [of _ "db_in_gaps db"])

lemma other_frames [frames]:
  "insert_in_ack y db = Inr db' \<Longrightarrow> \<exists>as. db' = db\<lparr>db_in_acks := as\<rparr>"
  "insert_remote_child c db = Inr db' \<Longrightarrow> \<exists>cs. db' = db\<lparr>db_remote_children := cs\<rparr>"
  "update_remote_children sel u db = Inr (db', n) \<Longrightarrow> \<exists>cs. db' = db\<lparr>db_remote_children := cs\<rparr>"
  "update_runtime_control s' db = Inr db' \<Longrightarrow> \<exists>s. db' = db\<lparr>db_runtime := s\<rparr>"
  "insert_policy p db = Inr db' \<Longrightarrow> \<exists>ps. db' = db\<lparr>db_policies := ps\<rparr>"
  by (auto simp: insert_in_ack_def insert_remote_child_def update_remote_children_def update_runtime_control_def
      insert_policy_def Let_def res_simps)

section \<open>Statements\<close>

text \<open>The columns that the trigger leases_signed_identity_immutable protects.\<close>

definition lease_identity where
  "lease_identity r =
    (l_lease_id r, l_lineage_id r, l_parent_id r, l_subject_id r, l_warden_id r, l_allocation r,
     l_capabilities r, l_machine_digest r, l_ancestor_path r, l_config_epoch r, l_policy_version r,
     l_policy_digest r, l_created_at_ns r, l_parent_warden r, l_remote_parent_id r)"

text \<open>
  What a child lease inherits from its parent, and an update that does not extend
  the term of a lease: it keeps the expiry and does not reopen a finished lease.
\<close>

definition open_status :: "LeaseStatus \<Rightarrow> bool" where
  "open_status s = List.member [PROVISIONED, ACTIVE, QUIESCENT, REVOKED] s"

definition attenuates :: "lease_row \<Rightarrow> lease_row \<Rightarrow> bool" where
  "attenuates c p =
    (l_lineage_id c = l_lineage_id p \<and> l_ancestor_path c = l_ancestor_path p @ [l_lease_id p]
     \<and> set (l_capabilities c) \<subseteq> set (l_capabilities p) \<and> l_policy_digest c = l_policy_digest p
     \<and> (open_status (l_status c) \<longrightarrow> l_expires_at_ns c \<le> l_expires_at_ns p))"

definition same_term :: "lease_row \<Rightarrow> lease_row \<Rightarrow> bool" where
  "same_term r r' = (l_expires_at_ns r' = l_expires_at_ns r \<and> (open_status (l_status r') \<longrightarrow> open_status (l_status r)))"

definition nonce_used :: "db \<Rightarrow> string \<Rightarrow> string \<Rightarrow> bool" where
  "nonce_used db audience nonce =
    list_ex (\<lambda>x. r_executor_audience (rr_receipt x) = audience \<and> r_nonce (rr_receipt x) = nonce) (db_receipts db)"

text \<open>
  Three kinds of statements are reserved to some operations: only renew signs a
  lease again with a new expiry, only accept_transfer and
  ingest_transfer_checkpoint write the inbound streams, and only the sending
  operations write the outgoing ones.  The set says which kinds an execution may
  contain.
\<close>

datatype kind = Resign | Inbound | Outbound

inductive stmt :: "kind set \<Rightarrow> svc \<Rightarrow> db \<Rightarrow> db \<Rightarrow> bool" for ks sv where
  state: "update_warden_state f db = Inr db' \<Longrightarrow> (\<And>w. w_lease_residual (f w) = w_lease_residual w) \<Longrightarrow>
    stmt ks sv db db'"
| lease_insert: "insert_lease_row r db = Inr db' \<Longrightarrow>
    (\<And>p. l_parent_id r = Some p \<Longrightarrow> \<exists>pr. tfind l_lease_id p (db_leases db) = Some pr \<and> attenuates r pr) \<Longrightarrow> stmt ks sv db db'"
| lease_update: "update_lease lease_id f db = Inr db' \<Longrightarrow>
    (\<And>r. lease_identity (f r) = lease_identity r \<and> l_residual (f r) = l_residual r) \<Longrightarrow>
    (\<And>r. tfind l_lease_id lease_id (db_leases db) = Some r \<Longrightarrow> l_sequence r \<le> l_sequence (f r) \<and> same_term r (f r)) \<Longrightarrow>
    stmt ks sv db db'"
| lease_resign: "update_lease lease_id f db = Inr db' \<Longrightarrow>
    (\<And>r. lease_identity (f r) = lease_identity r \<and> l_residual (f r) = l_residual r) \<Longrightarrow>
    (\<And>r. l_sequence r \<le> l_sequence (f r)) \<Longrightarrow> Resign \<in> ks \<Longrightarrow> stmt ks sv db db'"
| lease_residual: "update_lease_residual lease_id f db = Inr db' \<Longrightarrow>
    (\<And>r. lease_identity (f r) = lease_identity r) \<Longrightarrow>
    (\<And>r. tfind l_lease_id lease_id (db_leases db) = Some r \<Longrightarrow> l_sequence r < l_sequence (f r) \<and> same_term r (f r)) \<Longrightarrow>
    stmt ks sv db db'"
| idempotency: "insert_idempotency i db = Inr db' \<Longrightarrow> stmt ks sv db db'"
| receipt: "insert_receipt x db = Inr db' \<Longrightarrow> \<not> nonce_used db (r_executor_audience (rr_receipt x)) (r_nonce (rr_receipt x)) \<Longrightarrow>
    stmt ks sv db db'"
| audit: "insert_audit (sv_sha256 sv) a db = Inr db' \<Longrightarrow> stmt ks sv db db'"
| outbox: "insert_outbox b db = Inr db' \<Longrightarrow> stmt ks sv db db'"
| rev_insert: "insert_revocation v db = Inr db' \<Longrightarrow> stmt ks sv db db'"
| rev_update: "update_revocation v db = Inr db' \<Longrightarrow> stmt ks sv db db'"
| peer: "stmt ks sv db (db\<lparr>db_peer_delivery := pd, db_peer_counters := pc\<rparr>)"
| out_open: "open_out_stream target epoch now db = Inr (db', s) \<Longrightarrow> Outbound \<in> ks \<Longrightarrow> stmt ks sv db db'"
| out_stream: "update_out_stream target g db = Inr db' \<Longrightarrow> Outbound \<in> ks \<Longrightarrow> stmt ks sv db db'"
| out_insert: "insert_out_transfer t db = Inr db' \<Longrightarrow> Outbound \<in> ks \<Longrightarrow> stmt ks sv db db'"
| out_update: "update_out_transfer k h db = Inr db' \<Longrightarrow> Outbound \<in> ks \<Longrightarrow> stmt ks sv db db'"
| out_prune: "Outbound \<in> ks \<Longrightarrow> stmt ks sv db (prune_outgoing_transfer_prefix target n db)"
| in_open: "open_in_stream source epoch now db = Inr (db', z) \<Longrightarrow> Inbound \<in> ks \<Longrightarrow> stmt ks sv db db'"
| in_stream: "update_in_stream source q db = Inr db' \<Longrightarrow> Inbound \<in> ks \<Longrightarrow> stmt ks sv db db'"
| in_gap: "insert_in_gap source n db = Inr db' \<Longrightarrow> Inbound \<in> ks \<Longrightarrow> stmt ks sv db db'"
| in_advance: "advance_inbound_gap_prefix source n db = Inr (db', m) \<Longrightarrow> Inbound \<in> ks \<Longrightarrow> stmt ks sv db db'"
| in_ack: "insert_in_ack y db = Inr db' \<Longrightarrow> Inbound \<in> ks \<Longrightarrow> stmt ks sv db db'"
| in_prune: "Inbound \<in> ks \<Longrightarrow> stmt ks sv db (prune_inbound_ack_prefix source n db)"
| child_insert: "insert_remote_child c db = Inr db' \<Longrightarrow> stmt ks sv db db'"
| child_update: "update_remote_children sel u db = Inr (db', n') \<Longrightarrow> stmt ks sv db db'"
| runtime: "update_runtime_control s' db = Inr db' \<Longrightarrow> stmt ks sv db db'"
| policy: "insert_policy p db = Inr db' \<Longrightarrow> stmt ks sv db db'"

text \<open>
  \<open>runs ks sv db db'\<close>: a sequence of statements.  The introduction rules go
  backwards from the last statement.
\<close>

definition runs :: "kind set \<Rightarrow> svc \<Rightarrow> db \<Rightarrow> db \<Rightarrow> bool" where
  "runs ks sv = (stmt ks sv)\<^sup>*\<^sup>*"

named_theorems runs_intros "a program that returned ran statements"

lemma runs_refl: "runs ks sv db db"
  by (simp add: runs_def)

lemma runs_step: "stmt ks sv db db' \<Longrightarrow> runs ks sv s db \<Longrightarrow> runs ks sv s db'"
  by (simp add: runs_def)

lemma runs_trans: "runs ks sv a b \<Longrightarrow> runs ks sv b c \<Longrightarrow> runs ks sv a c"
  by (simp add: runs_def)

lemma runs_induct [consumes 1, case_names refl step]:
  assumes "runs ks sv a b" "P a" "\<And>x y. runs ks sv a x \<Longrightarrow> stmt ks sv x y \<Longrightarrow> P x \<Longrightarrow> P y"
  shows "P b"
  using assms unfolding runs_def by (induction rule: rtranclp_induct) (auto simp: runs_def)

lemma runs_foldM:
  assumes "foldM f a xs = Inr b" "\<And>x c d. x \<in> set xs \<Longrightarrow> f c x = Inr d \<Longrightarrow> runs ks sv (p c) (p d)" "runs ks sv s (p a)"
  shows "runs ks sv s (p b)"
  using assms(1,3) by (rule foldM_invariant) (use assms(2) runs_trans in blast)

text \<open>A case distinction on a JSON value with one constructor that does not raise.\<close>

lemma json_case_Inr_iff [res_simps]:
  "(case j of JStr v \<Rightarrow> f v | _ \<Rightarrow> Inl e) = Inr y \<longleftrightarrow> (\<exists>v. j = JStr v \<and> f v = Inr y)"
  "(case j of JArr w \<Rightarrow> g w | _ \<Rightarrow> Inl e) = Inr y \<longleftrightarrow> (\<exists>w. j = JArr w \<and> g w = Inr y)"
  "(case j of JObj d \<Rightarrow> h d | _ \<Rightarrow> Inl e) = Inr y \<longleftrightarrow> (\<exists>d. j = JObj d \<and> h d = Inr y)"
  by (cases j; simp)+

section \<open>Helpers as executions\<close>

lemma state_runs [runs_intros]:
  "update_warden_state f db = Inr db' \<Longrightarrow> (\<And>w. w_lease_residual (f w) = w_lease_residual w) \<Longrightarrow> runs ks sv s db \<Longrightarrow> runs ks sv s db'"
  by (blast intro: runs_step stmt.intros)

lemma clock_runs [runs_intros]: "clock_is_safe sv e b db = Inr (db', u) \<Longrightarrow> runs ks sv s db \<Longrightarrow> runs ks sv s db'"
  by (auto simp: clock_is_safe_def Let_def res_simps split: if_splits intro: state_runs)

lemma lease_residual_runs [runs_intros]:
  "update_lease_residual lease_id f db = Inr db' \<Longrightarrow> (\<And>r. lease_identity (f r) = lease_identity r) \<Longrightarrow>
    (\<And>r. tfind l_lease_id lease_id (db_leases db) = Some r \<Longrightarrow> l_sequence r < l_sequence (f r) \<and> same_term r (f r)) \<Longrightarrow>
    runs ks sv s db \<Longrightarrow> runs ks sv s db'"
  by (blast intro: runs_step stmt.lease_residual)

lemma lease_update_runs [runs_intros]:
  "update_lease lease_id f db = Inr db' \<Longrightarrow> (\<And>r. lease_identity (f r) = lease_identity r \<and> l_residual (f r) = l_residual r) \<Longrightarrow>
    (\<And>r. tfind l_lease_id lease_id (db_leases db) = Some r \<Longrightarrow> l_sequence r \<le> l_sequence (f r) \<and> same_term r (f r)) \<Longrightarrow>
    runs ks sv s db \<Longrightarrow> runs ks sv s db'"
  by (blast intro: runs_step stmt.lease_update)

lemma simple_runs [runs_intros]:
  "insert_idempotency i db = Inr db' \<Longrightarrow> runs ks sv s db \<Longrightarrow> runs ks sv s db'"
  "insert_revocation v db = Inr db' \<Longrightarrow> runs ks sv s db \<Longrightarrow> runs ks sv s db'"
  "update_revocation v db = Inr db' \<Longrightarrow> runs ks sv s db \<Longrightarrow> runs ks sv s db'"
  "open_out_stream target epoch now db = Inr (db', os) \<Longrightarrow> Outbound \<in> ks \<Longrightarrow> runs ks sv s db \<Longrightarrow> runs ks sv s db'"
  "update_out_stream target g db = Inr db' \<Longrightarrow> Outbound \<in> ks \<Longrightarrow> runs ks sv s db \<Longrightarrow> runs ks sv s db'"
  "insert_out_transfer t db = Inr db' \<Longrightarrow> Outbound \<in> ks \<Longrightarrow> runs ks sv s db \<Longrightarrow> runs ks sv s db'"
  "update_out_transfer k h db = Inr db' \<Longrightarrow> Outbound \<in> ks \<Longrightarrow> runs ks sv s db \<Longrightarrow> runs ks sv s db'"
  "runs ks sv s db \<Longrightarrow> Outbound \<in> ks \<Longrightarrow> runs ks sv s (prune_outgoing_transfer_prefix target n db)"
  "open_in_stream source epoch now db = Inr (db', z) \<Longrightarrow> Inbound \<in> ks \<Longrightarrow> runs ks sv s db \<Longrightarrow> runs ks sv s db'"
  "update_in_stream source q db = Inr db' \<Longrightarrow> Inbound \<in> ks \<Longrightarrow> runs ks sv s db \<Longrightarrow> runs ks sv s db'"
  "insert_in_gap source n db = Inr db' \<Longrightarrow> Inbound \<in> ks \<Longrightarrow> runs ks sv s db \<Longrightarrow> runs ks sv s db'"
  "advance_inbound_gap_prefix source n db = Inr (db', m) \<Longrightarrow> Inbound \<in> ks \<Longrightarrow> runs ks sv s db \<Longrightarrow> runs ks sv s db'"
  "insert_in_ack y db = Inr db' \<Longrightarrow> Inbound \<in> ks \<Longrightarrow> runs ks sv s db \<Longrightarrow> runs ks sv s db'"
  "runs ks sv s db \<Longrightarrow> Inbound \<in> ks \<Longrightarrow> runs ks sv s (prune_inbound_ack_prefix source n db)"
  "insert_remote_child c db = Inr db' \<Longrightarrow> runs ks sv s db \<Longrightarrow> runs ks sv s db'"
  "update_remote_children sel u db = Inr (db', n') \<Longrightarrow> runs ks sv s db \<Longrightarrow> runs ks sv s db'"
  "update_runtime_control s' db = Inr db' \<Longrightarrow> runs ks sv s db \<Longrightarrow> runs ks sv s db'"
  "insert_policy p db = Inr db' \<Longrightarrow> runs ks sv s db \<Longrightarrow> runs ks sv s db'"
  by (blast intro: runs_step stmt.intros)+

lemma audit_runs [runs_intros]:
  "append_audit sv e t et ei a d db = Inr db' \<Longrightarrow> runs ks sv s db \<Longrightarrow> runs ks sv s db'"
  by (auto simp: append_audit_def Let_def res_simps split: prod.splits intro: runs_step stmt.audit stmt.outbox)

lemma remember_runs [runs_intros]:
  "remember_response sc rid fp resp now code db = Inr db' \<Longrightarrow> runs ks sv s db \<Longrightarrow> runs ks sv s db'"
  by (auto simp: remember_response_def res_simps intro: simple_runs(1))

lemma new_grant_fields:
  "new_grant sv t e ce lid lin pid subj alloc caps pol path ep iss ex = Inr g \<Longrightarrow>
    g_lease_id g = lid \<and> g_allocation g = alloc \<and> g_capabilities g = caps \<and> g_expires_at_ns g = ex
    \<and> g_lineage_id g = lin \<and> g_parent_id g = pid \<and> g_ancestor_path g = path \<and> g_subject_id g = subj
    \<and> g_branch_epoch g = ep \<and> g_policy_digest g = p_policy_digest pol \<and> g_issued_at_ns g = iss"
  by (auto simp: new_grant_def res_simps LeaseGrant_post_init_def Let_def)

lemma insert_root_runs:
  "insert_lease g res st status sq now pw db = Inr db' \<Longrightarrow> g_parent_id g = None \<or> pw \<noteq> None \<Longrightarrow> runs ks sv s db \<Longrightarrow> runs ks sv s db'"
  apply (clarsimp simp: insert_lease_def res_simps)
  by (erule runs_step [OF stmt.lease_insert]) (auto split: if_split_asm)

text \<open>The child of a local parent, with the parent row as it is when the child is inserted.\<close>

definition child_of :: "LeaseGrant \<Rightarrow> lease_row \<Rightarrow> bool" where
  "child_of g p =
    (g_lineage_id g = l_lineage_id p \<and> g_ancestor_path g = l_ancestor_path p @ [l_lease_id p]
     \<and> set (g_capabilities g) \<subseteq> set (l_capabilities p) \<and> g_policy_digest g = l_policy_digest p
     \<and> g_expires_at_ns g \<le> l_expires_at_ns p)"

lemma insert_child_runs:
  "insert_lease g res st status sq now None db = Inr db' \<Longrightarrow> g_parent_id g = Some pid \<Longrightarrow>
    tfind l_lease_id pid (db_leases db) = Some p \<Longrightarrow> child_of g p \<Longrightarrow> runs ks sv s db \<Longrightarrow> runs ks sv s db'"
  apply (clarsimp simp: insert_lease_def res_simps)
  by (erule runs_step [OF stmt.lease_insert]) (auto simp: child_of_def attenuates_def)

lemma peer_runs: "runs ks sv s db \<Longrightarrow> runs ks sv s (db\<lparr>db_peer_delivery := pd\<rparr>)"
  "runs ks sv s db \<Longrightarrow> runs ks sv s (db\<lparr>db_peer_counters := pc\<rparr>)"
  using runs_step [OF stmt.peer [where db = db and pd = pd and pc = "db_peer_counters db"]]
    runs_step [OF stmt.peer [where db = db and pd = "db_peer_delivery db" and pc = pc]] by simp_all

lemma supersede_runs: "supersede_pending rk tw ky now db = Inr db' \<Longrightarrow> runs ks sv s db \<Longrightarrow> runs ks sv s db'"
  by (auto simp: supersede_pending_def Let_def split: if_splits intro: peer_runs)

lemma enqueue_runs [runs_intros]:
  "enqueue_peer_delivery rk rid tw ky sp pl now older db = Inr db' \<Longrightarrow> runs ks sv s db \<Longrightarrow> runs ks sv s db'"
  by (auto simp: enqueue_peer_delivery_def Let_def res_simps split: if_splits intro: peer_runs supersede_runs)

lemma actionable_runs [runs_intros]: "require_actionable sv e l db = Inr db' \<Longrightarrow> runs ks sv s db \<Longrightarrow> runs ks sv s db'"
  by (auto simp: require_actionable_def res_simps split: prod.splits intro: clock_runs)

lemma degraded_runs:
  "write_or_degraded c m body db = Inr (db', x) \<Longrightarrow> (c \<Longrightarrow> body db = Inr (db', x) \<Longrightarrow> runs ks sv db db') \<Longrightarrow> runs ks sv db db'"
  by (auto simp: write_or_degraded_def res_simps split: if_splits intro: runs_refl)

section \<open>Operations on leases as executions\<close>

lemma issue_root_effect_runs [runs_intros]:
  "issue_root_effect sv rid q en p fp ex db = Inr (db', g) \<Longrightarrow> runs ks sv s db \<Longrightarrow> runs ks sv s db'"
  apply (clarsimp simp: issue_root_effect_def res_simps)
  by ((erule runs_intros insert_root_runs | (simp; fail) | (drule new_grant_fields, simp; fail))+)

lemma issue_root_runs:
  "issue_root sv rid ident t e subj alloc caps pd ttl lin db = Inr (db', g) \<Longrightarrow> runs ks sv db db'"
  apply (clarsimp simp: issue_root_def res_simps elim!: degraded_runs)
  apply (auto simp: issue_root_body_def res_simps split: prod.splits option.split_asm)
  by ((erule runs_intros | rule runs_refl)+)

lemma spawn_guards_runs [runs_intros]:
  "spawn_guards sv q e parent db = Inr (db', x) \<Longrightarrow> runs ks sv s db \<Longrightarrow> runs ks sv s db'"
  apply (clarsimp simp: spawn_guards_def Let_def res_simps split: prod.splits)
  by ((erule runs_intros | (simp; fail))+)

lemma policy_of_digest: "policy_of db d = Inr p \<Longrightarrow> p_policy_digest p = d"
  by (auto simp: policy_of_def res_simps find_Some_iff)

lemma actionable_leases: "require_actionable sv e l db = Inr db' \<Longrightarrow> db_leases db' = db_leases db"
  by (auto simp: require_actionable_def clock_is_safe_def update_warden_state_def Let_def res_simps
      split: prod.splits if_splits option.splits)

lemma clock_leases: "clock_is_safe sv e b db = Inr (db', u) \<Longrightarrow> db_leases db' = db_leases db"
  by (auto simp: clock_is_safe_def update_warden_state_def Let_def res_simps split: if_splits option.splits)

lemma clock_uncertainty: "clock_is_safe sv e b db = Inr (db', u) \<Longrightarrow> u = sv_uncertainty_ns sv"
  by (auto simp: clock_is_safe_def Let_def res_simps split: if_splits)

lemma clock_facts: "clock_is_safe sv e b db = Inr (db', u) \<Longrightarrow> u = sv_uncertainty_ns sv \<and> db_leases db' = db_leases db"
  using clock_uncertainty clock_leases by blast

lemma actionable_facts:
  "require_actionable sv e l db = Inr db' \<Longrightarrow> db_leases db' = db_leases db \<and> l_status l = ACTIVE
    \<and> sv_now_ns sv + sv_uncertainty_ns sv < l_expires_at_ns l \<and> \<not> lease_revoked db' l"
  using actionable_leases by (auto simp: require_actionable_def res_simps dest: clock_uncertainty)

lemma spawn_guards_facts:
  assumes "spawn_guards sv q e parent db = Inr (db', p, ex)"
  shows "db_leases db' = db_leases db" "set (sq_capabilities q) \<subseteq> set (l_capabilities parent)"
    "p_policy_digest p = l_policy_digest parent" "ex \<le> l_expires_at_ns parent" "ex \<le> sv_now_ns sv + sq_ttl q"
    "l_status parent = ACTIVE" "length (l_ancestor_path parent) < MAX_LINEAGE_DEPTH"
    "sv_now_ns sv + sv_uncertainty_ns sv < ex"
  using assms by (auto simp: spawn_guards_def Let_def res_simps list_all_iff subset_code(1)
      dest!: clock_facts policy_of_digest actionable_facts)

lemma residual_leases:
  assumes "update_lease_residual k f db = Inr db'"
  shows "db_leases db' = tupdate l_lease_id k f (db_leases db)"
  using assms by (auto simp: update_lease_residual_def leases_residual_total_update_def update_warden_state_def Let_def
      res_simps tupdate_absent split: option.split_asm)

lemma spawn_effect_runs:
  assumes "spawn_effect sv rid q en parent p ex db = Inr (db', g)" "runs ks sv s db"
    "tfind l_lease_id (sq_parent_id q) (db_leases db) = Some parent" "set (sq_capabilities q) \<subseteq> set (l_capabilities parent)"
    "p_policy_digest p = l_policy_digest parent" "ex \<le> l_expires_at_ns parent"
  shows "runs ks sv s db'"
proof -
  from assms(1) obtain lid st res db1 db2 where
    g: "new_grant sv (e_tenant_id en) (e_envelope_id en) (e_config_epoch en) lid (l_lineage_id parent)
      (Some (sq_parent_id q)) (sq_subject_id q) (sq_allocation q) (sq_capabilities q) p
      (l_ancestor_path parent @ [sq_parent_id q]) (l_branch_epoch parent) (sv_now_ns sv) ex = Inr g"
    and 1: "update_lease_residual (sq_parent_id q) (\<lambda>r. r\<lparr>l_residual := res,
      l_sequence := l_sequence r + 1, l_updated_at_ns := sv_now_ns sv\<rparr>) db = Inr db1"
    and 2: "insert_lease g (sq_allocation q) st ACTIVE 0 (sv_now_ns sv) None db1 = Inr db2"
    and n: "runs ks sv s db2 \<Longrightarrow> runs ks sv s db'"
    by (clarsimp simp: spawn_effect_def res_simps) (rule that, assumption+, (erule runs_intros | assumption)+)
  let ?p = "parent\<lparr>l_residual := res, l_sequence := l_sequence parent + 1, l_updated_at_ns := sv_now_ns sv\<rparr>"
  have id: "l_lease_id parent = sq_parent_id q" using tfind_Some_iff [OF assms(3)] by simp
  have "tfind l_lease_id (sq_parent_id q) (db_leases db1) = Some ?p"
    unfolding residual_leases [OF 1] by (subst tfind_tupdate) (simp_all add: assms(3))
  moreover have "child_of g ?p"
    using new_grant_fields [OF g] assms(4-6) id by (simp add: child_of_def)
  moreover have "runs ks sv s db1"
    using 1 by (rule lease_residual_runs) (simp_all add: lease_identity_def same_term_def assms(2))
  ultimately have "runs ks sv s db2"
    using insert_child_runs [OF 2] new_grant_fields [OF g] by blast
  then show ?thesis by (rule n)
qed

lemma spawn_step_runs:
  assumes "spawn_guards sv q e parent db = Inr (db1, p, ex)" "spawn_effect sv rid q e parent p ex db1 = Inr (db', g)"
    "tfind l_lease_id (sq_parent_id q) (db_leases db) = Some parent" "runs ks sv s db"
  shows "runs ks sv s db'"
  by (rule spawn_effect_runs [OF assms(2) spawn_guards_runs [OF assms(1,4)]])
    (simp_all add: spawn_guards_facts [OF assms(1)] assms(3))

lemma spawn_runs:
  "spawn sv rid ident pid subj alloc caps ttl pd es db = Inr (db', g) \<Longrightarrow> runs ks sv db db'"
  apply (clarsimp simp: spawn_def res_simps elim!: degraded_runs)
  apply (auto simp: spawn_body_def load_lease_def res_simps split: prod.splits option.split_asm)
  by ((erule (2) spawn_step_runs | erule runs_intros | rule runs_refl | (simp; fail))+)

lemma authorize_guards_runs [runs_intros]:
  "authorize_guards sv q e lease db = Inr (db', z) \<Longrightarrow> runs ks sv s db \<Longrightarrow> runs ks sv s db'"
  apply (clarsimp simp: authorize_guards_def Let_def res_simps split: prod.splits)
  by ((erule runs_intros | (simp; fail))+)

lemma clock_receipts: "clock_is_safe sv e b db = Inr (db', u) \<Longrightarrow> db_receipts db' = db_receipts db"
  by (auto simp: clock_is_safe_def Let_def res_simps dest!: state_frame split: if_splits)

text \<open>What the guards of authorize have checked when they let a request through.\<close>

lemma authorize_guards_facts:
  assumes "authorize_guards sv q e lease db = Inr (db', z)"
  shows "db_leases db' = db_leases db" "\<not> nonce_used db' (aq_audience q) (aq_nonce q)"
    "l_status lease = ACTIVE" "sv_now_ns sv + sv_uncertainty_ns sv < az_expires_at z"
    "az_expires_at z \<le> l_expires_at_ns lease" "az_expires_at z \<le> sv_now_ns sv + e_receipt_ttl_ns e"
    "p_policy_digest (az_policy z) = l_policy_digest lease" "p_machine_digest (az_policy z) = l_machine_digest lease"
    "less_than_or_equal (az_cost z) (l_residual lease) = Inr True"
  using assms by (auto simp: authorize_guards_def nonce_used_def Let_def res_simps clock_receipts
      dest!: actionable_facts policy_of_digest dest: clock_leases clock_uncertainty)

lemma authorize_receipt_fields:
  "authorize_receipt sv rid q en lease z = Inr r \<Longrightarrow>
    r_cost r = az_cost z \<and> r_lease_id r = aq_lease_id q \<and> r_resulting_sequence r = l_sequence lease + 1
    \<and> r_source_state r = l_state lease \<and> r_target_state r = az_target_state z \<and> r_executor_audience r = aq_audience q
    \<and> r_nonce r = aq_nonce q \<and> r_transition r = aq_transition q \<and> r_expires_at_ns r = az_expires_at z
    \<and> r_request_id r = rid \<and> r_subject_id r = l_subject_id lease \<and> r_issued_at_ns r = sv_now_ns sv
    \<and> r_policy_digest r = p_policy_digest (az_policy z)"
  by (auto simp: authorize_receipt_def res_simps Receipt_post_init_def Let_def)

lemma receipt_runs:
  "insert_receipt x db = Inr db' \<Longrightarrow> runs ks sv s db \<Longrightarrow>
    \<not> nonce_used db (r_executor_audience (rr_receipt x)) (r_nonce (rr_receipt x)) \<Longrightarrow> runs ks sv s db'"
  by (blast intro: runs_step stmt.receipt)

lemma authorize_effect_runs:
  assumes "authorize_effect sv rid q en lease z db = Inr (db', x)" "load_lease db (aq_lease_id q) = Inr lease"
    "runs ks sv s db" "\<not> nonce_used db (aq_audience q) (aq_nonce q)"
  shows "runs ks sv s db'"
proof -
  from assms(1) obtain res con db1 db2 sg db3 where rc: "authorize_receipt sv rid q en lease z = Inr x"
    and 1: "update_lease_residual (aq_lease_id q) (\<lambda>r. r\<lparr>l_residual := res, l_state := az_target_state z,
      l_sequence := l_sequence lease + 1, l_updated_at_ns := sv_now_ns sv\<rparr>) db = Inr db1"
    and 2: "update_warden_state (\<lambda>w. w\<lparr>w_consumed := con, w_revision := w_revision w + 1,
      w_updated_at_ns := sv_now_ns sv\<rparr>) db1 = Inr db2"
    and 3: "insert_receipt \<lparr>rr_receipt = x, rr_signature = sg\<rparr> db2 = Inr db3"
    and n: "runs ks sv s db3 \<Longrightarrow> runs ks sv s db'"
    by (clarsimp simp: authorize_effect_def res_simps) (rule that, assumption+, (erule runs_intros | assumption)+)
  have "runs ks sv s db1"
    using 1 by (rule lease_residual_runs) (use assms(2,3) in \<open>auto simp: load_lease_def res_simps lease_identity_def same_term_def\<close>)
  then have "runs ks sv s db2" by (rule state_runs [OF 2, rotated]) simp
  moreover have "db_receipts db2 = db_receipts db"
    using 1 2 by (auto dest!: frames)
  ultimately have "runs ks sv s db3"
    using receipt_runs [OF 3] assms(4) authorize_receipt_fields [OF rc] by (simp add: nonce_used_def)
  then show ?thesis by (rule n)
qed

lemma authorize_step_runs:
  assumes "authorize_guards sv q e lease db = Inr (db1, z)" "authorize_effect sv rid q e lease z db1 = Inr (db', x)"
    "load_lease db (aq_lease_id q) = Inr lease" "runs ks sv s db"
  shows "runs ks sv s db'"
  using authorize_effect_runs [OF assms(2) _ authorize_guards_runs [OF assms(1,4)]] assms(3)
    authorize_guards_facts(1,2) [OF assms(1)] by (simp add: load_lease_def)

lemma authorize_runs:
  "authorize sv rid ident lid tr aud nonce ev est esq db = Inr (db', r) \<Longrightarrow> runs ks sv db db'"
  apply (clarsimp simp: authorize_def res_simps elim!: degraded_runs)
  apply (auto simp: authorize_body_def res_simps split: prod.splits option.split_asm)
  by ((erule (2) authorize_step_runs | erule runs_intros | rule runs_refl)+)

lemma resign_runs: "resign_lease sv e t l db = Inr db' \<Longrightarrow> Resign \<in> ks \<Longrightarrow> runs ks sv s db \<Longrightarrow> runs ks sv s db'"
  apply (clarsimp simp: resign_lease_def res_simps)
  by (erule runs_step [OF stmt.lease_resign]) (simp_all add: lease_identity_def)

lemma renew_cascade_runs [runs_intros]:
  "foldM (\<lambda>d i. rbind (load_lease d i) (\<lambda>l. resign_lease sv e t l d)) db ids = Inr db' \<Longrightarrow> Resign \<in> ks \<Longrightarrow> runs ks sv s db \<Longrightarrow> runs ks sv s db'"
  by (erule runs_foldM [where p = "\<lambda>d. d"]) (auto simp: res_simps intro: resign_runs runs_refl)

lemma renew_guards_runs [runs_intros]:
  "renew_guards sv q e l db = Inr (db', x) \<Longrightarrow> runs ks sv s db \<Longrightarrow> runs ks sv s db'"
  apply (clarsimp simp: renew_guards_def Let_def res_simps split: prod.splits)
  by ((erule runs_intros | (simp; fail))+)

lemma renew_effect_runs [runs_intros]:
  "renew_effect sv rid q e l t ids db = Inr (db', x) \<Longrightarrow> Resign \<in> ks \<Longrightarrow> runs ks sv s db \<Longrightarrow> runs ks sv s db'"
  apply (clarsimp simp: renew_effect_def res_simps)
  by ((erule runs_intros resign_runs | (simp; fail))+)

lemma renew_runs: "renew sv rid ident lid ttl es cas db = Inr (db', x) \<Longrightarrow> Resign \<in> ks \<Longrightarrow> runs ks sv db db'"
  apply (clarsimp simp: renew_def res_simps elim!: degraded_runs)
  apply (auto simp: renew_body_def Let_def res_simps split: prod.splits option.split_asm)
  by ((erule runs_intros resign_runs | rule runs_refl | (simp; fail))+)

lemma terminate_runs [runs_intros]:
  "terminate_remote_child sv e lid act t db = Inr db' \<Longrightarrow> runs ks sv s db \<Longrightarrow> runs ks sv s db'"
  apply (auto simp: terminate_remote_child_def res_simps split: prod.splits if_split_asm)
  by ((erule runs_intros | (simp; fail))+)

lemma terminate_all_runs [runs_intros]:
  "foldM (\<lambda>d t. terminate_remote_child sv e lid act t d) db ts = Inr db' \<Longrightarrow> runs ks sv s db \<Longrightarrow> runs ks sv s db'"
  by (erule runs_foldM [where p = "\<lambda>d. d"]) (auto intro: terminate_runs runs_refl)

lemma no_live_runs [runs_intros]:
  "require_no_live_descendants sv e lid act ts db = Inr db' \<Longrightarrow> runs ks sv s db \<Longrightarrow> runs ks sv s db'"
  apply (clarsimp simp: require_no_live_descendants_def Let_def res_simps split: prod.splits)
  by ((erule runs_intros | (simp; fail))+)

lemma lifecycle_decide_runs [runs_intros]:
  "lifecycle_decide op sv q e l ts db = Inr (db', x) \<Longrightarrow> runs ks sv s db \<Longrightarrow> runs ks sv s db'"
  apply (auto simp: lifecycle_decide_def res_simps split: prod.splits lifecycle_op.splits if_split_asm)
  by ((erule runs_intros | (simp; fail))+)

lemma lifecycle_decide_facts:
  assumes "lifecycle_decide op sv q e l ts db = Inr (db', Some st)"
  shows "open_status st \<Longrightarrow> db_leases db' = db_leases db \<and> open_status (l_status l)" "(st = CLOSED) = (op = Close)"
  using assms by (auto simp: lifecycle_decide_def open_status_def res_simps dest: clock_leases actionable_facts
      split: lifecycle_op.splits if_split_asm)

lemma lifecycle_mutate_runs:
  assumes "lifecycle_mutate op sv q e l st db = Inr db'" "runs ks sv s db"
    "\<And>r. tfind l_lease_id (cq_lease_id q) (db_leases db) = Some r \<Longrightarrow> open_status st \<Longrightarrow> open_status (l_status r)"
  shows "runs ks sv s db'"
  using assms apply (auto simp: lifecycle_mutate_def Let_def res_simps split: if_split_asm)
  by ((erule runs_intros | (simp add: lease_identity_def same_term_def open_status_def; fail))+)

lemma lifecycle_step_runs:
  assumes "lifecycle_decide op sv q e l ts db = Inr (db1, d)" "tfind l_lease_id (cq_lease_id q) (db_leases db) = Some l"
    "(case d of None \<Rightarrow> Inr db1 | Some st \<Rightarrow> lifecycle_mutate op sv q e l st db1) = Inr db'" "runs ks sv s db"
  shows "runs ks sv s db'"
proof (cases d)
  case None
  then show ?thesis using assms(3) lifecycle_decide_runs [OF assms(1,4)] by simp
next
  case (Some st)
  then show ?thesis
    using lifecycle_mutate_runs [OF _ lifecycle_decide_runs [OF assms(1,4)], of op q e l st db'] assms(1-3)
      lifecycle_decide_facts(1) [of op sv q e l ts db db1 st] by simp
qed

lemma lifecycle_body_cases:
  assumes "lifecycle_body op sv rid q ts db = Inr (db', x)"
  obtains (retry) en u r where "clock_is_safe sv en True db = Inr (db', u)"
      "idempotent_response db' (op_name op @ '':'' @ cq_lease_id q) rid (cq_fingerprint q) = Inr (Some r)"
  | (fresh) en db0 u lease db1 d db2 snap where "clock_is_safe sv en True db = Inr (db0, u)"
      "tfind l_lease_id (cq_lease_id q) (db_leases db0) = Some lease"
      "idempotent_response db0 (op_name op @ '':'' @ cq_lease_id q) rid (cq_fingerprint q) = Inr None"
      "lifecycle_decide op sv q en lease ts db0 = Inr (db1, d)"
      "(case d of None \<Rightarrow> Inr db1 | Some st \<Rightarrow> lifecycle_mutate op sv q en lease st db1) = Inr db2"
      "remember_response (op_name op @ '':'' @ cq_lease_id q) rid (cq_fingerprint q) snap (sv_now_ns sv) 200 db2 = Inr db'"
proof -
  from assms obtain en db0 u lease prior where c: "clock_is_safe sv en True db = Inr (db0, u)"
    and l: "tfind l_lease_id (cq_lease_id q) (db_leases db0) = Some lease"
    and p: "idempotent_response db0 (op_name op @ '':'' @ cq_lease_id q) rid (cq_fingerprint q) = Inr prior"
    and r: "(case prior of Some response \<Rightarrow> rbind (LeaseSnapshot_from_dict response) (\<lambda>s. Inr (db0, s))
      | None \<Rightarrow>
        rbind (if op = Resume then require_runtime_active db0 else Inr ()) (\<lambda>_.
        if (case cq_expected_sequence q of None \<Rightarrow> False | Some n \<Rightarrow> l_sequence lease \<noteq> n)
        then Inl ConflictError
        else rbind (lifecycle_decide op sv q en lease ts db0) (\<lambda>(db1, decision).
        rbind (case decision of None \<Rightarrow> Inr db1 | Some st \<Rightarrow> lifecycle_mutate op sv q en lease st db1) (\<lambda>db2.
        rbind (load_lease db2 (cq_lease_id q)) (\<lambda>updated.
        rbind (snapshot_from_row en db2 updated) (\<lambda>snapshot.
        rbind (remember_response (op_name op @ '':'' @ cq_lease_id q) rid (cq_fingerprint q)
          (LeaseSnapshot_to_dict snapshot) (sv_now_ns sv) 200 db2) (\<lambda>db3. Inr (db3, snapshot)))))))) = Inr (db', x)"
    by (auto simp: lifecycle_body_def load_lease_def rbind_Inr_iff of_option_Inr_iff guard_Inr_iff)
  show thesis
  proof (cases prior)
    case None
    with r obtain db1 d db2 snap where "lifecycle_decide op sv q en lease ts db0 = Inr (db1, d)"
      "(case d of None \<Rightarrow> Inr db1 | Some st \<Rightarrow> lifecycle_mutate op sv q en lease st db1) = Inr db2"
      "remember_response (op_name op @ '':'' @ cq_lease_id q) rid (cq_fingerprint q) snap (sv_now_ns sv) 200 db2 = Inr db'"
      by (auto simp: rbind_Inr_iff guard_Inr_iff)
    then show thesis using fresh c l p None by metis
  next
    case (Some y)
    then have "db' = db0" using r by (auto simp: rbind_Inr_iff)
    then show thesis using retry c p Some by metis
  qed
qed

lemma lifecycle_body_runs: "lifecycle_body op sv rid q ts db = Inr (db', x) \<Longrightarrow> runs ks sv db db'"
proof (erule lifecycle_body_cases)
  fix en u r
  assume "clock_is_safe sv en True db = Inr (db', u)"
  then show ?thesis by (rule clock_runs) (rule runs_refl)
next
  fix en db0 u lease db1 d db2 snap
  assume c: "clock_is_safe sv en True db = Inr (db0, u)" and l: "tfind l_lease_id (cq_lease_id q) (db_leases db0) = Some lease"
    and d: "lifecycle_decide op sv q en lease ts db0 = Inr (db1, d)"
    and m: "(case d of None \<Rightarrow> Inr db1 | Some st \<Rightarrow> lifecycle_mutate op sv q en lease st db1) = Inr db2"
    and r: "remember_response (op_name op @ '':'' @ cq_lease_id q) rid (cq_fingerprint q) snap (sv_now_ns sv) 200 db2 = Inr db'"
  show ?thesis by (rule remember_runs [OF r lifecycle_step_runs [OF d l m clock_runs [OF c runs_refl]]])
qed

lemma lifecycle_runs: "lifecycle op sv rid ident lid es db = Inr (db', x) \<Longrightarrow> runs ks sv db db'"
  by (clarsimp simp: lifecycle_def res_simps elim!: degraded_runs) (erule lifecycle_body_runs)

lemma reclaim_loop_runs [runs_intros]:
  "foldM (reclaim_one sv zeros) (db, v) ls = Inr (db', v') \<Longrightarrow> runs ks sv s db \<Longrightarrow> runs ks sv s db'"
proof -
  assume h: "foldM (reclaim_one sv zeros) (db, v) ls = Inr (db', v')" "runs ks sv s db"
  have "runs ks sv (fst c) (fst d)" if "reclaim_one sv zeros c l = Inr d" for c l d
    using that apply (clarsimp simp: reclaim_one_def res_simps split: prod.splits)
    by ((erule runs_intros | rule runs_refl | (simp add: lease_identity_def same_term_def open_status_def; fail))+)
  with runs_foldM [where p = fst, OF h(1)] h(2) show ?thesis by simp
qed

lemma reclaim_runs: "reclaim_expired sv ident t e db = Inr (db', v) \<Longrightarrow> runs ks sv db db'"
  apply (clarsimp simp: reclaim_expired_def elim!: degraded_runs)
  apply (auto simp: reclaim_body_def Let_def res_simps split: prod.splits if_split_asm)
  by ((erule runs_intros | rule runs_refl | (simp; fail))+)

section \<open>Revocation as executions\<close>

lemma materialize_runs [runs_intros]:
  "materialize_revoked_branch lin br now db = Inr (db', x) \<Longrightarrow> runs ks sv s db \<Longrightarrow> runs ks sv s db'"
proof -
  assume "materialize_revoked_branch lin br now db = Inr (db', x)" "runs ks sv s db"
  then obtain ids where "foldM (\<lambda>d lease_id. update_lease lease_id (\<lambda>r.
         if List.member live_statuses (l_status r)
         then r\<lparr>l_status := REVOKED, l_sequence := l_sequence r + 1, l_updated_at_ns := now\<rparr> else r) d)
       db ids = Inr db'" and r: "runs ks sv s db"
    by (auto simp: materialize_revoked_branch_def Let_def res_simps)
  from this(1) show ?thesis
    by (rule runs_foldM [where p = "\<lambda>d. d"]) (auto intro: r lease_update_runs runs_refl simp: lease_identity_def same_term_def open_status_def live_statuses_def)
qed

lemma rematerialize_runs [runs_intros]:
  "rematerialize sv e lin br act d db = Inr db' \<Longrightarrow> runs ks sv s db \<Longrightarrow> runs ks sv s db'"
  apply (auto simp: rematerialize_def res_simps split: prod.splits if_split_asm)
  by ((erule runs_intros | (simp; fail))+)

lemma store_revocation_runs [runs_intros]:
  "store_revocation v now ex db = Inr db' \<Longrightarrow> runs ks sv s db \<Longrightarrow> runs ks sv s db'"
  apply (auto simp: store_revocation_def Let_def res_simps split: if_split_asm)
  by ((erule runs_intros | (simp; fail))+)

lemma enqueue_revocation_runs [runs_intros]:
  "enqueue_revocation sv v db = Inr db' \<Longrightarrow> runs ks sv s db \<Longrightarrow> runs ks sv s db'"
  apply (auto simp: enqueue_revocation_def res_simps split: option.splits)
  by (erule runs_foldM [where p = "\<lambda>d. d"]) (auto intro: enqueue_runs runs_refl)

lemma revoke_branch_runs: "revoke_branch sv rid ident lid rs ep db = Inr (db', v) \<Longrightarrow> runs ks sv db db'"
  apply (clarsimp simp: revoke_branch_def res_simps elim!: degraded_runs)
  apply (auto simp: revoke_branch_body_def revoke_branch_effect_def Let_def res_simps split: prod.splits option.split_asm)
  by ((erule runs_intros | rule runs_refl)+)

lemma ingest_runs: "ingest_revocation sv ident v db = Inr (db', x) \<Longrightarrow> runs ks sv db db'"
  apply (clarsimp simp: ingest_revocation_def res_simps elim!: degraded_runs split: prod.splits)
  apply (auto simp: ingest_body_def Let_def res_simps split: prod.splits if_split_asm)
  by ((erule runs_intros | rule runs_refl)+)

section \<open>Transfers as executions\<close>

lemma emit_runs [runs_intros]: "emit_voucher sv en v c db = Inr (db', d) \<Longrightarrow> Outbound \<in> ks \<Longrightarrow> runs ks sv s db \<Longrightarrow> runs ks sv s db'"
  apply (auto simp: emit_voucher_def res_simps split: if_split_asm)
  by ((erule runs_intros | (simp; fail))+)

lemma prepare_effect_runs [runs_intros]:
  "prepare_effect sv rid q e p db = Inr (db', v) \<Longrightarrow> Outbound \<in> ks \<Longrightarrow> runs ks sv s db \<Longrightarrow> runs ks sv s db'"
  apply (clarsimp simp: prepare_effect_def res_simps split: prod.splits)
  by ((erule runs_intros | (simp; fail))+)

lemma prepare_runs: "prepare_transfer sv rid ident t e tw am pd db = Inr (db', v) \<Longrightarrow> Outbound \<in> ks \<Longrightarrow> runs ks sv db db'"
  apply (clarsimp simp: prepare_transfer_def res_simps elim!: degraded_runs)
  apply (auto simp: prepare_body_def res_simps split: prod.splits option.split_asm)
  by ((erule runs_intros | rule runs_refl | (simp; fail))+)

lemma remote_debit_runs [runs_intros]:
  "spawn_remote_debit sv q parent out c v ex db = Inr db' \<Longrightarrow> runs ks sv s db \<Longrightarrow> runs ks sv s db'"
  apply (clarsimp simp: spawn_remote_debit_def res_simps)
  by ((erule runs_intros | (simp add: lease_identity_def same_term_def open_status_def; fail))+)

lemma spawn_remote_guards_runs [runs_intros]:
  "spawn_remote_guards sv q e u parent db = Inr (db', x) \<Longrightarrow> runs ks sv s db \<Longrightarrow> runs ks sv s db'"
  apply (clarsimp simp: spawn_remote_guards_def Let_def res_simps)
  by ((erule runs_intros | (simp; fail))+)

lemma spawn_remote_effect_runs [runs_intros]:
  "spawn_remote_effect sv rid q e parent p ex db = Inr (db', v) \<Longrightarrow> Outbound \<in> ks \<Longrightarrow> runs ks sv s db \<Longrightarrow> runs ks sv s db'"
  apply (clarsimp simp: spawn_remote_effect_def res_simps split: prod.splits)
  by ((erule runs_intros | (simp; fail))+)

lemma spawn_remote_runs:
  "spawn_remote sv rid ident pid tw subj alloc caps ttl es db = Inr (db', v) \<Longrightarrow> Outbound \<in> ks \<Longrightarrow> runs ks sv db db'"
  apply (clarsimp simp: spawn_remote_def res_simps elim!: degraded_runs)
  apply (auto simp: spawn_remote_body_def res_simps split: prod.splits option.split_asm)
  by ((erule runs_intros | rule runs_refl | (simp; fail))+)

lemma admit_runs [runs_intros]:
  "admit_remote_child sv e v p am u db = Inr (db', c, out, issued) \<Longrightarrow> runs ks sv s db \<Longrightarrow> runs ks sv s db'"
  apply (auto simp: admit_remote_child_def Let_def res_simps split: if_split_asm)
  by ((erule runs_intros insert_root_runs | (simp; fail))+)

lemma accept_duplicate_runs [runs_intros]:
  "accept_duplicate sv act e v dg x db = Inr (db', a) \<Longrightarrow> Inbound \<in> ks \<Longrightarrow> runs ks sv s db \<Longrightarrow> runs ks sv s db'"
  apply (auto simp: accept_duplicate_def Let_def res_simps split: prod.splits if_split_asm)
  by ((erule runs_intros | (simp; fail))+)

lemma accept_position_runs [runs_intros]:
  "accept_position sv e v db = Inr (db', x) \<Longrightarrow> Inbound \<in> ks \<Longrightarrow> runs ks sv s db \<Longrightarrow> runs ks sv s db'"
  apply (auto simp: accept_position_def Let_def res_simps split: prod.splits if_split_asm)
  by ((erule runs_intros | (simp; fail))+)

lemma accept_credit_runs [runs_intros]:
  "accept_credit sv issued am db = Inr db' \<Longrightarrow> runs ks sv s db \<Longrightarrow> runs ks sv s db'"
  apply (clarsimp simp: accept_credit_def res_simps)
  by ((erule runs_intros | (simp; fail))+)

lemma accept_new_runs [runs_intros]:
  "accept_new sv act e v dg p am u db = Inr (db', a) \<Longrightarrow> Inbound \<in> ks \<Longrightarrow> runs ks sv s db \<Longrightarrow> runs ks sv s db'"
  apply (auto simp: accept_new_def res_simps split: prod.splits option.split_asm if_split_asm)
  by ((erule runs_intros | (simp; fail))+)

lemma accept_runs: "accept_transfer sv ident v db = Inr (db', a) \<Longrightarrow> Inbound \<in> ks \<Longrightarrow> runs ks sv db db'"
  apply (clarsimp simp: accept_transfer_def res_simps elim!: degraded_runs split: prod.splits)
  apply (auto simp: accept_body_def Let_def res_simps split: prod.splits option.split_asm)
  by ((erule runs_intros | rule runs_refl | (simp; fail))+)

lemma finalize_child_runs [runs_intros]:
  "finalize_child sv act e a r db = Inr db' \<Longrightarrow> runs ks sv s db \<Longrightarrow> runs ks sv s db'"
  apply (auto simp: finalize_child_def res_simps split: prod.splits option.split_asm if_split_asm)
  by ((erule runs_intros | (simp; fail))+)

lemma finalize_again_runs [runs_intros]:
  "finalize_again sv act e a pl r w db = Inr (db', x) \<Longrightarrow> Outbound \<in> ks \<Longrightarrow> runs ks sv s db \<Longrightarrow> runs ks sv s db'"
  apply (auto simp: finalize_again_def Let_def res_simps split: if_split_asm)
  by ((erule runs_intros | (simp; fail))+)

lemma finalize_prepared_runs [runs_intros]:
  "finalize_prepared sv act e a r w db = Inr (db', x) \<Longrightarrow> Outbound \<in> ks \<Longrightarrow> runs ks sv s db \<Longrightarrow> runs ks sv s db'"
  apply (clarsimp simp: finalize_prepared_def Let_def res_simps)
  by ((erule runs_intros | (simp; fail))+)

lemma finalize_runs: "finalize_transfer sv ident a db = Inr (db', x) \<Longrightarrow> Outbound \<in> ks \<Longrightarrow> runs ks sv db db'"
  apply (clarsimp simp: finalize_transfer_def res_simps elim!: degraded_runs split: prod.splits)
  apply (auto simp: finalize_body_def res_simps split: prod.splits if_split_asm)
  by ((erule runs_intros | rule runs_refl | (simp; fail))+)

lemma checkpoint_effect_runs [runs_intros]:
  "checkpoint_effect sv act e tw n db = Inr (db', x) \<Longrightarrow> Outbound \<in> ks \<Longrightarrow> runs ks sv s db \<Longrightarrow> runs ks sv s db'"
  apply (cases "sv_allowed_peer_wardens sv"; clarsimp simp: checkpoint_effect_def Let_def res_simps split: prod.splits)
  by ((assumption | rule simple_runs(8) | erule runs_intros | (simp; fail))+)

lemma create_checkpoint_runs: "create_transfer_checkpoint sv ident tw n db = Inr (db', x) \<Longrightarrow> Outbound \<in> ks \<Longrightarrow> runs ks sv db db'"
  apply (clarsimp simp: create_transfer_checkpoint_def res_simps elim!: degraded_runs split: prod.splits)
  apply (clarsimp simp: create_checkpoint_body_def Let_def res_simps split: prod.splits)
  apply (split if_split_asm; clarsimp simp: res_simps)
  by ((rule simple_runs(8) | erule runs_intros | rule runs_refl | (simp; fail))+)

lemma ingest_checkpoint_runs: "ingest_transfer_checkpoint sv ident wire db = Inr (db', x) \<Longrightarrow> Inbound \<in> ks \<Longrightarrow> runs ks sv db db'"
  apply (clarsimp simp: ingest_transfer_checkpoint_def res_simps elim!: degraded_runs split: prod.splits)
  apply (auto simp: ingest_checkpoint_body_def Let_def res_simps split: prod.splits if_split_asm list.splits)
  by ((erule runs_intros | rule runs_refl | rule simple_runs(14) | (simp; fail))+)

section \<open>Administration as executions\<close>

lemma set_runtime_mode_runs: "set_runtime_mode sv rid ident mode reason db = Inr (db', x) \<Longrightarrow> runs ks sv db db'"
  apply (clarsimp simp: set_runtime_mode_def res_simps elim!: degraded_runs)
  apply (auto simp: runtime_mode_body_def change_runtime_mode_def res_simps split: prod.splits option.split_asm if_split_asm)
  by ((erule runs_intros | rule runs_refl | (simp; fail))+)

lemma register_store_runs [runs_intros]:
  "register_store sv act e pl pv pid md pd db = Inr (db', x) \<Longrightarrow> runs ks sv s db \<Longrightarrow> runs ks sv s db'"
  apply (auto simp: register_store_def Let_def res_simps split: option.split_asm)
  by ((erule runs_intros | rule runs_refl | (simp; fail))+)

lemma register_policy_runs: "register_policy sv p ident db = Inr (db', x) \<Longrightarrow> runs ks sv db db'"
  apply (clarsimp simp: register_policy_def Let_def res_simps elim!: degraded_runs)
  apply (clarsimp simp: register_body_def res_simps split: prod.splits)
  by ((erule runs_intros | rule runs_refl | (simp; fail))+)

end
