(* ===== verification/Ledger.thy ===== *)
theory Ledger
  imports Statements
begin

text \<open>
  The abstract specification of a warden's rights: a double-entry ledger over the
  accounts pool, lease, consumed and transferred-out, whose balances sum to the
  inflow (the genesis share and everything transferred in).  A posting moves an
  amount between accounts or credits it.  \<open>books\<close> is the abstraction of a
  database, \<open>ledger_ok\<close> the store's own full reconciliation, and the lemmas
  relate the two to the statements that touch the vectors.
\<close>

section \<open>The abstract ledger\<close>

datatype account = Pool | Lease string | Consumed | Out

type_synonym balances = "account \<Rightarrow> nat \<Rightarrow> int"

record ledger =
  bal :: balances
  inflow :: "nat \<Rightarrow> int"

datatype posting = Move account account vec | Credit account vec

definition deposit :: "account \<Rightarrow> vec \<Rightarrow> balances \<Rightarrow> balances" where
  "deposit a v B = B(a := (\<lambda>i. B a i + amount v i))"

definition withdraw :: "account \<Rightarrow> vec \<Rightarrow> balances \<Rightarrow> balances" where
  "withdraw a v B = B(a := (\<lambda>i. B a i - amount v i))"

fun post :: "posting \<Rightarrow> ledger \<Rightarrow> ledger" where
  "post (Move a b v) L = L\<lparr>bal := deposit b v (withdraw a v (bal L))\<rparr>"
| "post (Credit a v) L = L\<lparr>bal := deposit a v (bal L), inflow := (\<lambda>i. inflow L i + amount v i)\<rparr>"

text \<open>Every right is on exactly one account.\<close>

definition conserved :: "ledger \<Rightarrow> bool" where
  "conserved L = (\<exists>S. finite S \<and> (\<forall>a i. a \<notin> S \<longrightarrow> bal L a i = 0) \<and> (\<forall>i. (\<Sum>a\<in>S. bal L a i) = inflow L i))"

lemma sum_deposit: "finite S \<Longrightarrow> a \<in> S \<Longrightarrow> (\<Sum>x\<in>S. deposit a v B x i) = (\<Sum>x\<in>S. B x i) + amount v i"
  by (simp add: deposit_def sum.remove [of S a] fun_upd_def)

lemma sum_withdraw: "finite S \<Longrightarrow> a \<in> S \<Longrightarrow> (\<Sum>x\<in>S. withdraw a v B x i) = (\<Sum>x\<in>S. B x i) - amount v i"
  by (simp add: withdraw_def sum.remove [of S a] fun_upd_def)

lemma conserved_extend:
  assumes "conserved L" "finite T"
  obtains S where "finite S" "T \<subseteq> S" "\<forall>a i. a \<notin> S \<longrightarrow> bal L a i = 0" "\<forall>i. (\<Sum>a\<in>S. bal L a i) = inflow L i"
proof -
  from assms(1) obtain S where S: "finite S" "\<forall>a i. a \<notin> S \<longrightarrow> bal L a i = 0" "\<forall>i. (\<Sum>a\<in>S. bal L a i) = inflow L i"
    by (auto simp: conserved_def)
  have "(\<Sum>a\<in>S \<union> T. bal L a i) = (\<Sum>a\<in>S. bal L a i)" for i
    using S assms(2) by (intro sum.mono_neutral_right) auto
  with S assms(2) show thesis by (intro that [of "S \<union> T"]) auto
qed

lemma post_conserved: "conserved L \<Longrightarrow> conserved (post p L)"
proof (cases p)
  case (Move a b v)
  assume "conserved L"
  then obtain S where S: "finite S" "{a, b} \<subseteq> S" "\<forall>a i. a \<notin> S \<longrightarrow> bal L a i = 0" "\<forall>i. (\<Sum>a\<in>S. bal L a i) = inflow L i"
    by (rule conserved_extend [where T = "{a, b}"]) auto
  then show ?thesis
    unfolding conserved_def Move
    by (intro exI [of _ S]) (auto simp: sum_deposit sum_withdraw, auto simp: deposit_def withdraw_def)
next
  case (Credit a v)
  assume "conserved L"
  then obtain S where S: "finite S" "{a} \<subseteq> S" "\<forall>a i. a \<notin> S \<longrightarrow> bal L a i = 0" "\<forall>i. (\<Sum>a\<in>S. bal L a i) = inflow L i"
    by (rule conserved_extend [where T = "{a}"]) auto
  then show ?thesis
    unfolding conserved_def Credit
    by (intro exI [of _ S]) (auto simp: sum_deposit, auto simp: deposit_def)
qed

section \<open>The abstraction of a database\<close>

definition held :: "(warden_state_row \<Rightarrow> vec) \<Rightarrow> db \<Rightarrow> nat \<Rightarrow> int" where
  "held f db i = (case db_warden_state db of None \<Rightarrow> 0 | Some w \<Rightarrow> amount (f w) i)"

definition share :: "db \<Rightarrow> nat \<Rightarrow> int" where
  "share db i = (case db_envelope db of None \<Rightarrow> 0 | Some e \<Rightarrow> amount (e_initial_local_share e) i)"

definition lease_balance :: "lease_row list \<Rightarrow> string \<Rightarrow> nat \<Rightarrow> int" where
  "lease_balance ls lease_id i = (case tfind l_lease_id lease_id ls of None \<Rightarrow> 0 | Some l \<Rightarrow> amount (l_residual l) i)"

fun balance :: "db \<Rightarrow> account \<Rightarrow> nat \<Rightarrow> int" where
  "balance db Pool = held w_free_pool db"
| "balance db (Lease lease_id) = lease_balance (db_leases db) lease_id"
| "balance db Consumed = held w_consumed db"
| "balance db Out = held w_transferred_out db"

definition books :: "db \<Rightarrow> ledger" where
  "books db = \<lparr>bal = balance db, inflow = (\<lambda>i. share db i + held w_transferred_in db i)\<rparr>"

lemma books_sel [simp]: "bal (books db) = balance db" "inflow (books db) i = share db i + held w_transferred_in db i"
  by (simp_all add: books_def)

text \<open>What the constraints and the residual triggers of the schema keep.\<close>

definition lease_total :: "lease_row list \<Rightarrow> nat \<Rightarrow> int" where
  "lease_total ls i = sum_list (map (\<lambda>l. amount (l_residual l) i) ls)"

definition wf_struct :: "db \<Rightarrow> bool" where
  "wf_struct db =
    (\<exists>e w. db_envelope db = Some e \<and> db_warden_state db = Some w
      \<and> wf_vec (e_dimension_count e) (e_initial_local_share e)
      \<and> wf_vec (e_dimension_count e) (w_free_pool w) \<and> wf_vec (e_dimension_count e) (w_lease_residual w)
      \<and> wf_vec (e_dimension_count e) (w_consumed w) \<and> wf_vec (e_dimension_count e) (w_transferred_in w)
      \<and> wf_vec (e_dimension_count e) (w_transferred_out w)
      \<and> tkeys l_lease_id (db_leases db)
      \<and> (\<forall>l\<in>set (db_leases db). wf_vec (e_dimension_count e) (l_residual l))
      \<and> (\<forall>i. amount (w_lease_residual w) i = lease_total (db_leases db) i))"

text \<open>
  The store's full reconciliation: \<open>_assert_local_conservation\<close> with
  reconcile=True, on a table with unique lease identifiers and a valid share.
\<close>

definition ledger_ok :: "db \<Rightarrow> bool" where
  "ledger_ok db = (assert_local_conservation True db = Inr () \<and> tkeys l_lease_id (db_leases db)
     \<and> (case db_envelope db of None \<Rightarrow> False
        | Some e \<Rightarrow> wf_vec (e_dimension_count e) (e_initial_local_share e)))"

section \<open>Reconciliation and conservation\<close>

lemma lease_total_accounts:
  assumes "tkeys l_lease_id (db_leases db)"
  shows "(\<Sum>a\<in>Lease ` l_lease_id ` set (db_leases db). balance db a i) = lease_total (db_leases db) i"
proof -
  let ?ls = "db_leases db"
  have d: "distinct ?ls" "inj_on l_lease_id (set ?ls)"
    using assms by (auto simp: tkeys_def distinct_map)
  have "lease_total ?ls i = (\<Sum>l\<in>set ?ls. amount (l_residual l) i)"
    using d(1) by (simp add: lease_total_def sum_list_distinct_conv_sum_set)
  also have "\<dots> = (\<Sum>l\<in>set ?ls. lease_balance ?ls (l_lease_id l) i)"
    using tfind_unique [OF assms] by (intro sum.cong) (auto simp: lease_balance_def)
  finally show ?thesis
    using d(2) by (simp add: image_image sum.reindex inj_on_def)
qed

definition support :: "db \<Rightarrow> account set" where
  "support db = {Pool, Consumed, Out} \<union> Lease ` l_lease_id ` set (db_leases db)"

lemma balance_outside_support: "a \<notin> support db \<Longrightarrow> balance db a i = 0"
  by (cases a) (auto simp: support_def lease_balance_def tfind_None_iff split: option.splits dest: tfind_Some_iff)

lemma sum_support:
  assumes "tkeys l_lease_id (db_leases db)"
  shows "(\<Sum>a\<in>support db. balance db a i)
    = held w_free_pool db i + lease_total (db_leases db) i + held w_consumed db i + held w_transferred_out db i"
  unfolding support_def using lease_total_accounts [OF assms, of i] by (subst sum.union_disjoint) auto

lemma conserved_books:
  assumes "tkeys l_lease_id (db_leases db)"
  shows "conserved (books db) \<longleftrightarrow> (\<forall>i. held w_free_pool db i + lease_total (db_leases db) i + held w_consumed db i
      + held w_transferred_out db i = share db i + held w_transferred_in db i)" (is "?L = ?R")
proof
  have f: "finite (support db)" by (simp add: support_def)
  {
    assume ?L
    then obtain S where S: "finite S" "support db \<subseteq> S" "\<forall>i. (\<Sum>a\<in>S. balance db a i) = share db i + held w_transferred_in db i"
      using conserved_extend [OF _ f] by (metis books_def ledger.select_convs)
    have "(\<Sum>a\<in>S. balance db a i) = (\<Sum>a\<in>support db. balance db a i)" for i
      using S(1,2) by (intro sum.mono_neutral_right) (auto simp: balance_outside_support)
    with S(3) show ?R by (simp add: sum_support [OF assms])
  next
    assume ?R
    then show ?L
      unfolding conserved_def books_def
      by (intro exI [of _ "support db"]) (simp add: f balance_outside_support sum_support [OF assms])
  }
qed

lemma mapM_vector_residuals:
  "mapM (\<lambda>r. vector (l_residual r) (Some d)) ls = Inr vs \<longleftrightarrow> vs = map l_residual ls \<and> (\<forall>l\<in>set ls. wf_vec d (l_residual l))"
  by (induction ls arbitrary: vs) (auto simp: res_simps)

lemma scanned_residual_iff:
  assumes "\<forall>l\<in>set ls. wf_vec d (l_residual l)" "wf_vec d v"
  shows "total (map l_residual ls) (int d) = Inr v \<longleftrightarrow> (\<forall>i. amount v i = lease_total ls i)" (is "?L = ?R")
proof
  assume ?L
  then show ?R by (auto simp: lease_total_def o_def dest: total_amount)
next
  assume r: ?R
  have d: "0 < d" using assms(2) by (simp add: wf_vec_iff)
  have "\<forall>i. sum_list (map (\<lambda>v. amount v i) (map l_residual ls)) \<le> MAX_RESOURCE"
    using r amount_bounds(2) [OF assms(2)] by (simp add: lease_total_def o_def)
  then obtain u where u: "total (map l_residual ls) (int d) = Inr u"
    using total_ok_iff [of "map l_residual ls" d] assms(1) d by auto
  have "foldM add (replicate d 0) (map l_residual ls) = Inr u"
    using u by (auto simp: total_def res_simps)
  then have "wf_vec d u"
    by (rule foldM_invariant) (use assms(1) d wf_vec_zero wf_vec_add in auto)
  then have "u = v"
    using assms(2) r total_amount [OF u] by (intro vec_eqI) (auto simp: wf_vec_length lease_total_def o_def)
  with u show ?L by simp
qed

text \<open>The store's check accepts exactly the balanced books whose sums fit a signed 64-bit integer.\<close>

definition balanced :: "db \<Rightarrow> bool" where
  "balanced db = (wf_struct db \<and> conserved (books db) \<and> (\<forall>i. inflow (books db) i \<le> MAX_RESOURCE))"

lemma conservation_adds:
  assumes "wf_vec d s" "wf_vec d t" "wf_vec d f" "wf_vec d l" "wf_vec d c" "wf_vec d x"
  shows "(\<exists>av p q ac. add s t = Inr av \<and> add f l = Inr p \<and> add c x = Inr q \<and> add p q = Inr ac \<and> av = ac)
    \<longleftrightarrow> (\<forall>i. amount f i + amount l i + amount c i + amount x i = amount s i + amount t i
         \<and> amount s i + amount t i \<le> MAX_RESOURCE)" (is "?L = ?R")
proof
  assume ?L
  then obtain p q ac where h: "add s t = Inr ac" "add f l = Inr p" "add c x = Inr q" "add p q = Inr ac" by auto
  show ?R
  proof
    fix i
    show "amount f i + amount l i + amount c i + amount x i = amount s i + amount t i
        \<and> amount s i + amount t i \<le> MAX_RESOURCE"
      using amount_add [OF h(1), of i] amount_add [OF h(2), of i] amount_add [OF h(3), of i] amount_add [OF h(4), of i]
        amount_bounds(2) [OF wf_vec_add [OF h(1) assms(1,2)], of i] by linarith
  qed
next
  assume r: ?R
  note nn = amount_bounds(1) [OF assms(3)] amount_bounds(1) [OF assms(4)]
    amount_bounds(1) [OF assms(5)] amount_bounds(1) [OF assms(6)]
  note len = wf_vec_length [OF assms(1)] wf_vec_length [OF assms(2)] wf_vec_length [OF assms(3)]
    wf_vec_length [OF assms(4)] wf_vec_length [OF assms(5)] wf_vec_length [OF assms(6)]
  obtain av where av: "add s t = Inr av"
    using r add_ok_iff [of s t] len by auto
  have "amount f i + amount l i \<le> MAX_RESOURCE" "amount c i + amount x i \<le> MAX_RESOURCE" for i
    using r nn(1) [of i] nn(2) [of i] nn(3) [of i] nn(4) [of i] by (smt (verit))+
  then obtain p q where pq: "add f l = Inr p" "add c x = Inr q"
    using add_ok_iff [of f l] add_ok_iff [of c x] len by auto
  have s: "amount p i + amount q i = amount s i + amount t i" for i
    using r amount_add [OF pq(1), of i] amount_add [OF pq(2), of i] by (simp add: add.assoc)
  then obtain ac where ac: "add p q = Inr ac"
    using r add_ok_iff [of p q] add_length [OF pq(1)] add_length [OF pq(2)] len by auto
  have "av = ac"
    using vec.plus_val [OF av] vec.plus_val [OF ac] s add_length [OF av] add_length [OF ac] add_length [OF pq(1)] len
    by (intro vec_eqI) auto
  with av pq ac show ?L by blast
qed

lemma ledger_ok_iff: "ledger_ok db \<longleftrightarrow> balanced db"
proof (cases "db_envelope db")
  case None
  then show ?thesis by (simp add: ledger_ok_def balanced_def wf_struct_def)
next
  case e: (Some e)
  show ?thesis
  proof (cases "db_warden_state db")
    case None
    then show ?thesis using e by (simp add: ledger_ok_def balanced_def wf_struct_def assert_local_conservation_def)
  next
    case w: (Some w)
    let ?d = "e_dimension_count e"
    have a: "assert_local_conservation True db = Inr () \<longleftrightarrow>
        wf_vec ?d (w_free_pool w) \<and> wf_vec ?d (w_lease_residual w) \<and> wf_vec ?d (w_consumed w)
        \<and> wf_vec ?d (w_transferred_in w) \<and> wf_vec ?d (w_transferred_out w)
        \<and> (\<forall>l\<in>set (db_leases db). wf_vec ?d (l_residual l))
        \<and> total (map l_residual (db_leases db)) (int ?d) = Inr (w_lease_residual w)
        \<and> (\<exists>av p q ac. add (e_initial_local_share e) (w_transferred_in w) = Inr av
            \<and> add (w_free_pool w) (w_lease_residual w) = Inr p
            \<and> add (w_consumed w) (w_transferred_out w) = Inr q \<and> add p q = Inr ac \<and> av = ac)"
      unfolding assert_local_conservation_def e w Let_def
      by (auto simp: res_simps mapM_vector_residuals split: if_splits)
    show ?thesis
    proof (cases "tkeys l_lease_id (db_leases db) \<and> wf_vec ?d (e_initial_local_share e) \<and> wf_struct db")
      case True
      then have wf: "wf_vec ?d (w_free_pool w)" "wf_vec ?d (w_lease_residual w)" "wf_vec ?d (w_consumed w)"
        "wf_vec ?d (w_transferred_in w)" "wf_vec ?d (w_transferred_out w)"
        "\<forall>l\<in>set (db_leases db). wf_vec ?d (l_residual l)"
        "\<forall>i. amount (w_lease_residual w) i = lease_total (db_leases db) i"
        by (auto simp: wf_struct_def e w)
      then show ?thesis
        using True conservation_adds [of ?d "e_initial_local_share e" "w_transferred_in w" "w_free_pool w"
            "w_lease_residual w" "w_consumed w" "w_transferred_out w"]
        by (auto simp: ledger_ok_def a e balanced_def conserved_books scanned_residual_iff held_def share_def w)
    next
      case False
      then show ?thesis
        using scanned_residual_iff [of "db_leases db" ?d "w_lease_residual w"]
        by (auto simp: ledger_ok_def a e balanced_def wf_struct_def w)
    qed
  qed
qed

section \<open>Statements and the ledger\<close>

text \<open>Everything above depends on the envelope, the vectors of the state and the holdings only.\<close>

definition view where
  "view db = (map_option (\<lambda>e. (e_dimension_count e, e_initial_local_share e)) (db_envelope db),
    map_option (\<lambda>w. (w_free_pool w, w_lease_residual w, w_consumed w, w_transferred_in w, w_transferred_out w))
      (db_warden_state db),
    map (\<lambda>l. (l_lease_id l, l_residual l)) (db_leases db))"

definition same_books :: "db \<Rightarrow> db \<Rightarrow> bool" where
  "same_books db db' = (view db' = view db)"

lemma holdings_cong:
  fixes ls ms :: "lease_row list"
  assumes "map (\<lambda>l. (l_lease_id l, l_residual l)) ls = map (\<lambda>l. (l_lease_id l, l_residual l)) ms"
  shows "tkeys l_lease_id ls = tkeys l_lease_id ms" "lease_total ls = lease_total ms"
    "lease_balance ls = lease_balance ms" "l_residual ` set ls = l_residual ` set ms"
proof -
  have k: "map l_lease_id ls = map l_lease_id ms" and r: "map l_residual ls = map l_residual ms"
    using arg_cong [OF assms, of "map fst"] arg_cong [OF assms, of "map snd"] by (auto simp: o_def)
  from k show "tkeys l_lease_id ls = tkeys l_lease_id ms" by (simp add: tkeys_def)
  from r show "l_residual ` set ls = l_residual ` set ms" by (metis set_map)
  have "map (\<lambda>l. amount (l_residual l) i) ls = map (\<lambda>l. amount (l_residual l) i) ms" for i
    using arg_cong [OF r, of "map (\<lambda>v. amount v i)"] by (simp add: o_def)
  then show "lease_total ls = lease_total ms" by (simp add: lease_total_def fun_eq_iff)
  have "map_option l_residual (tfind l_lease_id k ls) = map_option l_residual (tfind l_lease_id k ms)" for k
    using assms by (induction ls ms rule: list_induct2') (auto simp: tfind_def)
  then show "lease_balance ls = lease_balance ms"
    by (auto simp: lease_balance_def fun_eq_iff split: option.splits) (metis option.map_disc_iff option.simps(9) option.inject option.distinct(1))+
qed

lemma same_books_refl [simp]: "same_books db db"
  by (simp add: same_books_def)

lemma same_books_trans: "same_books a b \<Longrightarrow> same_books b c \<Longrightarrow> same_books a c"
  by (simp add: same_books_def)

lemma held_view:
  "map_option (\<lambda>w. (w_free_pool w, w_lease_residual w, w_consumed w, w_transferred_in w, w_transferred_out w))
      (db_warden_state db') =
    map_option (\<lambda>w. (w_free_pool w, w_lease_residual w, w_consumed w, w_transferred_in w, w_transferred_out w))
      (db_warden_state db) \<Longrightarrow>
    held w_free_pool db' = held w_free_pool db \<and> held w_consumed db' = held w_consumed db
    \<and> held w_transferred_in db' = held w_transferred_in db \<and> held w_transferred_out db' = held w_transferred_out db"
  by (cases "db_warden_state db"; cases "db_warden_state db'") (auto simp: held_def fun_eq_iff)

lemma same_books_books: "same_books db db' \<Longrightarrow> books db' = books db"
proof -
  assume s: "same_books db db'"
  have "balance db' a = balance db a" for a
    using s held_view [of db' db] holdings_cong(3) [of "db_leases db'" "db_leases db"]
    by (cases a) (auto simp: same_books_def view_def)
  moreover have "share db' = share db"
    using s by (cases "db_envelope db"; cases "db_envelope db'") (auto simp: same_books_def view_def share_def fun_eq_iff)
  ultimately show ?thesis
    using s held_view [of db' db] by (auto simp: books_def same_books_def view_def fun_eq_iff)
qed

lemma same_books_wf:
  assumes "same_books db db'" "wf_struct db"
  shows "wf_struct db'"
proof -
  from assms(2) obtain e w where e: "db_envelope db = Some e" "db_warden_state db = Some w"
    by (auto simp: wf_struct_def)
  with assms(1) obtain e' w' where e': "db_envelope db' = Some e'" "db_warden_state db' = Some w'"
    by (auto simp: same_books_def view_def)
  have v: "e_dimension_count e' = e_dimension_count e" "e_initial_local_share e' = e_initial_local_share e"
    "w_free_pool w' = w_free_pool w" "w_lease_residual w' = w_lease_residual w" "w_consumed w' = w_consumed w"
    "w_transferred_in w' = w_transferred_in w" "w_transferred_out w' = w_transferred_out w"
    and h: "map (\<lambda>l. (l_lease_id l, l_residual l)) (db_leases db') = map (\<lambda>l. (l_lease_id l, l_residual l)) (db_leases db)"
    using assms(1) e e' by (auto simp: same_books_def view_def)
  have "\<forall>l\<in>set (db_leases db). wf_vec (e_dimension_count e) (l_residual l)"
    using assms(2) e by (auto simp: wf_struct_def)
  then have "\<forall>v\<in>l_residual ` set (db_leases db'). wf_vec (e_dimension_count e) v"
    by (simp add: holdings_cong(4) [OF h])
  then show ?thesis
    using assms(2) v holdings_cong(1,2) [OF h] by (auto simp: wf_struct_def e e')
qed

named_theorems books_intros "the books do not change"

lemma clock_books [books_intros]: "clock_is_safe sv e b db = Inr (db', u) \<Longrightarrow> same_books s db \<Longrightarrow> same_books s db'"
  by (auto simp: same_books_def view_def clock_is_safe_def update_warden_state_def Let_def res_simps
      split: if_splits option.splits)

lemma audit_books [books_intros]: "append_audit sv e t et ei a d db = Inr db' \<Longrightarrow> same_books s db \<Longrightarrow> same_books s db'"
  by (auto simp: same_books_def view_def append_audit_def insert_audit_def insert_outbox_def Let_def res_simps
      split: prod.splits)

lemma remember_books [books_intros]:
  "remember_response sc rid fp resp now code db = Inr db' \<Longrightarrow> same_books s db \<Longrightarrow> same_books s db'"
  by (auto simp: same_books_def view_def remember_response_def insert_idempotency_def res_simps)

lemma receipt_books [books_intros]: "insert_receipt x db = Inr db' \<Longrightarrow> same_books s db \<Longrightarrow> same_books s db'"
  by (auto simp: same_books_def view_def insert_receipt_def Let_def res_simps)

lemma map_tupdate_same:
  "(\<And>r. key r = k \<Longrightarrow> g (f r) = g r) \<Longrightarrow> map g (tupdate key k f t) = map g t"
  by (auto simp: tupdate_def)

lemma update_lease_books [books_intros]:
  "update_lease lease_id f db = Inr db' \<Longrightarrow> (\<And>r. l_lease_id (f r) = l_lease_id r \<and> l_residual (f r) = l_residual r) \<Longrightarrow>
    same_books s db \<Longrightarrow> same_books s db'"
  by (auto simp: same_books_def view_def update_lease_def res_simps map_tupdate_same split: option.splits)

lemma actionable_books [books_intros]: "require_actionable sv e l db = Inr db' \<Longrightarrow> same_books s db \<Longrightarrow> same_books s db'"
  by (auto simp: require_actionable_def res_simps split: prod.splits intro: clock_books)

lemma neutral_books [books_intros]:
  "insert_revocation v db = Inr db' \<Longrightarrow> same_books s db \<Longrightarrow> same_books s db'"
  "update_revocation v db = Inr db' \<Longrightarrow> same_books s db \<Longrightarrow> same_books s db'"
  "open_out_stream target epoch now db = Inr (db', os) \<Longrightarrow> same_books s db \<Longrightarrow> same_books s db'"
  "update_out_stream target g db = Inr db' \<Longrightarrow> same_books s db \<Longrightarrow> same_books s db'"
  "insert_out_transfer t db = Inr db' \<Longrightarrow> same_books s db \<Longrightarrow> same_books s db'"
  "update_out_transfer k h db = Inr db' \<Longrightarrow> same_books s db \<Longrightarrow> same_books s db'"
  "same_books s db \<Longrightarrow> same_books s (prune_outgoing_transfer_prefix target n db)"
  "open_in_stream source epoch now db = Inr (db', z) \<Longrightarrow> same_books s db \<Longrightarrow> same_books s db'"
  "update_in_stream source q db = Inr db' \<Longrightarrow> same_books s db \<Longrightarrow> same_books s db'"
  "insert_in_gap source n db = Inr db' \<Longrightarrow> same_books s db \<Longrightarrow> same_books s db'"
  "advance_inbound_gap_prefix source n db = Inr (db', m) \<Longrightarrow> same_books s db \<Longrightarrow> same_books s db'"
  "insert_in_ack y db = Inr db' \<Longrightarrow> same_books s db \<Longrightarrow> same_books s db'"
  "same_books s db \<Longrightarrow> same_books s (prune_inbound_ack_prefix source n db)"
  "insert_remote_child c db = Inr db' \<Longrightarrow> same_books s db \<Longrightarrow> same_books s db'"
  "update_remote_children sel u db = Inr (db', n') \<Longrightarrow> same_books s db \<Longrightarrow> same_books s db'"
  "update_runtime_control s' db = Inr db' \<Longrightarrow> same_books s db \<Longrightarrow> same_books s db'"
  "insert_policy p db = Inr db' \<Longrightarrow> same_books s db \<Longrightarrow> same_books s db'"
  by (auto simp: same_books_def view_def insert_revocation_def update_revocation_def open_out_stream_def
      update_out_stream_def insert_out_transfer_def update_out_transfer_def prune_outgoing_transfer_prefix_def
      open_in_stream_def update_in_stream_def insert_in_gap_def advance_inbound_gap_prefix_def insert_in_ack_def
      prune_inbound_ack_prefix_def insert_remote_child_def update_remote_children_def update_runtime_control_def
      insert_policy_def Let_def res_simps split: option.splits if_splits)

lemma peer_books: "same_books s db \<Longrightarrow> same_books s (db\<lparr>db_peer_delivery := pd\<rparr>)"
  "same_books s db \<Longrightarrow> same_books s (db\<lparr>db_peer_counters := pc\<rparr>)"
  by (auto simp: same_books_def view_def)

lemma supersede_books: "supersede_pending rk tw ky now db = Inr db' \<Longrightarrow> same_books s db \<Longrightarrow> same_books s db'"
  by (auto simp: supersede_pending_def Let_def split: if_splits intro: peer_books)

lemma enqueue_books [books_intros]:
  "enqueue_peer_delivery rk rid tw ky sp pl now older db = Inr db' \<Longrightarrow> same_books s db \<Longrightarrow> same_books s db'"
  by (auto simp: enqueue_peer_delivery_def Let_def res_simps split: if_splits intro: peer_books supersede_books)

lemma same_books_foldM:
  assumes "foldM f a xs = Inr b" "\<And>x c d. x \<in> set xs \<Longrightarrow> f c x = Inr d \<Longrightarrow> same_books c d" "same_books s a"
  shows "same_books s b"
  using assms(1,3) by (rule foldM_invariant) (use assms(2) same_books_trans in blast)

section \<open>The statements that move rights\<close>

text \<open>
  An UPDATE of warden_state sets the accounts pool, consumed and out, and the
  inflow; an INSERT of a lease opens its account; an UPDATE of a residual sets
  the account of its lease, and the trigger keeps the total.
\<close>

lemma state_books:
  assumes "wf_struct db" "update_warden_state f db = Inr db'" "\<And>w. w_lease_residual (f w) = w_lease_residual w"
  obtains w where "db_warden_state db = Some w" "db_warden_state db' = Some (f w)" "wf_struct db'"
    "books db' = \<lparr>bal = (balance db)(Pool := amount (w_free_pool (f w)), Consumed := amount (w_consumed (f w)),
        Out := amount (w_transferred_out (f w))),
      inflow = (\<lambda>i. share db i + amount (w_transferred_in (f w)) i)\<rparr>"
proof -
  from assms(1) obtain e w where e: "db_envelope db = Some e" "db_warden_state db = Some w"
    by (auto simp: wf_struct_def)
  then have db': "db' = db\<lparr>db_warden_state := Some (f w)\<rparr>" and c: "warden_state_checks db (f w)"
    using assms(2) by (auto simp: update_warden_state_def Let_def res_simps)
  have "wf_struct db'"
    using assms(1,3) c e unfolding db' by (auto simp: wf_struct_def warden_state_checks_def env_dim_def)
  moreover have "balance db' = (balance db)(Pool := amount (w_free_pool (f w)), Consumed := amount (w_consumed (f w)),
        Out := amount (w_transferred_out (f w)))"
  proof
    fix a
    show "balance db' a = ((balance db)(Pool := amount (w_free_pool (f w)), Consumed := amount (w_consumed (f w)),
        Out := amount (w_transferred_out (f w)))) a"
      by (cases a) (auto simp: db' held_def)
  qed
  ultimately show thesis
    using e by (intro that [of w]) (auto simp: db' books_def share_def held_def fun_eq_iff)
qed

lemma balances_eqI:
  "B Pool = C Pool \<Longrightarrow> B Consumed = C Consumed \<Longrightarrow> B Out = C Out \<Longrightarrow> (\<And>k. B (Lease k) = C (Lease k)) \<Longrightarrow> B = C"
  by (rule ext) (metis account.exhaust)

lemma held_Some: "db_warden_state db = Some w \<Longrightarrow> held f db = amount (f w)"
  by (simp add: held_def fun_eq_iff)

lemma pool_books:
  assumes "wf_struct db" "update_warden_state (\<lambda>w. w\<lparr>w_free_pool := v, w_revision := w_revision w + 1, w_updated_at_ns := t\<rparr>) db = Inr db'"
  shows "wf_struct db' \<and> books db' = (books db)\<lparr>bal := (balance db)(Pool := amount v)\<rparr>"
  by (rule state_books [OF assms]) (auto simp: books_def held_Some intro!: balances_eqI)

lemma consumed_books:
  assumes "wf_struct db" "update_warden_state (\<lambda>w. w\<lparr>w_consumed := v, w_revision := w_revision w + 1, w_updated_at_ns := t\<rparr>) db = Inr db'"
  shows "wf_struct db' \<and> books db' = (books db)\<lparr>bal := (balance db)(Consumed := amount v)\<rparr>"
  by (rule state_books [OF assms]) (auto simp: books_def held_Some intro!: balances_eqI)

lemma pool_out_books:
  assumes "wf_struct db" "update_warden_state (\<lambda>w. w\<lparr>w_free_pool := u, w_transferred_out := v, w_revision := w_revision w + 1, w_updated_at_ns := t\<rparr>) db = Inr db'"
  shows "wf_struct db' \<and> books db' = (books db)\<lparr>bal := (balance db)(Pool := amount u, Out := amount v)\<rparr>"
  by (rule state_books [OF assms]) (auto simp: books_def held_Some intro!: balances_eqI)

lemma out_books:
  assumes "wf_struct db" "update_warden_state (\<lambda>w. w\<lparr>w_transferred_out := v, w_revision := w_revision w + 1, w_updated_at_ns := t\<rparr>) db = Inr db'"
  shows "wf_struct db' \<and> books db' = (books db)\<lparr>bal := (balance db)(Out := amount v)\<rparr>"
  by (rule state_books [OF assms]) (auto simp: books_def held_Some intro!: balances_eqI)

lemma pool_in_books:
  assumes "wf_struct db" "update_warden_state (\<lambda>w. w\<lparr>w_free_pool := u, w_transferred_in := v, w_revision := w_revision w + 1, w_updated_at_ns := t\<rparr>) db = Inr db'"
  shows "wf_struct db' \<and> books db' = (books db)\<lparr>bal := (balance db)(Pool := amount u), inflow := (\<lambda>i. share db i + amount v i)\<rparr>"
  by (rule state_books [OF assms]) (auto simp: books_def held_Some intro!: balances_eqI)

lemma sqlite_add_iff: "sqlite_vector_add u v = Some w \<longleftrightarrow> add u v = Inr w \<and> ok (pack w)"
  by (cases "add u v") (auto simp: sqlite_vector_add_def rbind_Inr_iff rbind_Inl_iff ok_iff split: sum.splits)

lemma sqlite_subtract_iff: "sqlite_vector_subtract u v = Some w \<longleftrightarrow> subtract u v = Inr w \<and> ok (pack w)"
  by (cases "subtract u v") (auto simp: sqlite_vector_subtract_def rbind_Inr_iff rbind_Inl_iff ok_iff split: sum.splits)

lemma packed_iff [res_simps]: "packed v = Inr w \<longleftrightarrow> w = v \<and> ok (pack v)"
  by (cases "pack v") (auto simp: packed_def)

lemma lease_row_books:
  assumes "wf_struct db" "insert_lease_row r db = Inr db'"
  shows "wf_struct db' \<and> balance db (Lease (l_lease_id r)) = (\<lambda>_. 0)
    \<and> books db' = (books db)\<lparr>bal := (balance db)(Lease (l_lease_id r) := amount (l_residual r))\<rparr>"
proof -
  from assms(1) obtain e w where e: "db_envelope db = Some e" "db_warden_state db = Some w"
    by (auto simp: wf_struct_def)
  from assms(2) have c: "length (l_residual r) = e_dimension_count e" "wf_vec (length (l_residual r)) (l_residual r)"
    and n: "tfind l_lease_id (l_lease_id r) (db_leases db) = None"
    by (auto simp: insert_lease_row_def res_simps leases_vectors_insert_def lease_checks_def env_dim_def e)
  from assms(2) e obtain v where v: "add (w_lease_residual w) (l_residual r) = Inr v"
    and db': "db' = db\<lparr>db_leases := db_leases db @ [r], db_warden_state := Some (w\<lparr>w_lease_residual := v\<rparr>)\<rparr>"
    and k: "warden_state_checks (db\<lparr>db_leases := db_leases db @ [r]\<rparr>) (w\<lparr>w_lease_residual := v\<rparr>)"
    by (auto simp: insert_lease_row_def res_simps leases_residual_total_insert_def update_warden_state_def Let_def
        sqlite_add_iff split: option.splits)
  have t: "tkeys l_lease_id (db_leases db @ [r])"
    using assms(1) n by (auto simp: wf_struct_def tkeys_def tfind_None_iff)
  have wf: "wf_struct db'"
    using assms(1) k c t v unfolding db'
    by (auto simp: wf_struct_def e warden_state_checks_def env_dim_def lease_total_def amount_add)
  have "balance db' = (balance db)(Lease (l_lease_id r) := amount (l_residual r))"
    using n by (intro balances_eqI)
      (auto simp: db' held_def e lease_balance_def tfind_append tfind_singleton fun_eq_iff split: option.splits)
  moreover have "balance db (Lease (l_lease_id r)) = (\<lambda>_. 0)"
    by (simp add: lease_balance_def n fun_eq_iff)
  ultimately show ?thesis
    using wf by (auto simp: books_def db' share_def held_def e)
qed

lemma insert_lease_books:
  assumes "wf_struct db" "insert_lease g res st status sq now pw db = Inr db'"
  shows "wf_struct db' \<and> books db' = (books db)\<lparr>bal := deposit (Lease (g_lease_id g)) res (balance db)\<rparr>"
proof -
  from assms(2) obtain r where r: "insert_lease_row r db = Inr db'" and i: "l_lease_id r = g_lease_id g" "l_residual r = res"
    by (auto simp: insert_lease_def res_simps)
  have "balance db (Lease (g_lease_id g)) i + amount res i = amount res i" for i
    using lease_row_books [OF assms(1) r] i by simp
  then show ?thesis
    using lease_row_books [OF assms(1) r] i by (simp add: deposit_def fun_eq_iff)
qed

lemma lease_total_tupdate:
  assumes "tkeys l_lease_id ls" "tfind l_lease_id k ls = Some r"
  shows "lease_total (tupdate l_lease_id k f ls) i = lease_total ls i - amount (l_residual r) i + amount (l_residual (f r)) i"
  using sum_list_tupdate [OF assms, of "\<lambda>l. amount (l_residual l) i"] by (simp add: lease_total_def)

lemma residual_books:
  assumes "wf_struct db" "update_lease_residual k f db = Inr db'" "tfind l_lease_id k (db_leases db) = Some r"
    and id: "\<And>x. l_lease_id (f x) = l_lease_id x"
  shows "wf_struct db' \<and> books db' = (books db)\<lparr>bal := (balance db)(Lease k := amount (l_residual (f r)))\<rparr>"
proof -
  from assms(1) obtain e w where e: "db_envelope db = Some e" "db_warden_state db = Some w"
    by (auto simp: wf_struct_def)
  let ?ls = "tupdate l_lease_id k f (db_leases db)"
  from assms(2,3) e obtain u v where u: "subtract (w_lease_residual w) (l_residual r) = Inr u"
    and v: "add u (l_residual (f r)) = Inr v"
    and db': "db' = db\<lparr>db_leases := ?ls, db_warden_state := Some (w\<lparr>w_lease_residual := v\<rparr>)\<rparr>"
    and c: "warden_state_checks (db\<lparr>db_leases := ?ls\<rparr>) (w\<lparr>w_lease_residual := v\<rparr>)"
    and n: "wf_vec (e_dimension_count e) (l_residual (f r))"
    by (auto simp: update_lease_residual_def res_simps leases_residual_total_update_def update_warden_state_def Let_def
        sqlite_add_iff sqlite_subtract_iff lease_checks_def env_dim_def split: option.splits)
  have t: "tkeys l_lease_id (db_leases db)" using assms(1) by (auto simp: wf_struct_def)
  have only: "x = r" if "x \<in> set (db_leases db)" "l_lease_id x = k" for x
    using tfind_unique [OF t that(1)] that(2) assms(3) by simp
  have res: "\<forall>l\<in>set ?ls. wf_vec (e_dimension_count e) (l_residual l)"
    using assms(1) n only by (auto simp: set_tupdate wf_struct_def e)
  have "amount v i = lease_total ?ls i" for i
    using assms(1) by (auto simp: wf_struct_def e lease_total_tupdate [OF t assms(3)] amount_add [OF v] amount_subtract [OF u])
  then have wf: "wf_struct db'"
    using assms(1) c res table.keys_update [of l_lease_id _ f, OF t id] unfolding db' by (auto simp: wf_struct_def e warden_state_checks_def env_dim_def)
  have "balance db' = (balance db)(Lease k := amount (l_residual (f r)))"
    by (intro balances_eqI) (auto simp: db' held_def e lease_balance_def tfind_tupdate [of l_lease_id f, OF id] assms(3) fun_eq_iff)
  then show ?thesis
    using wf by (auto simp: books_def db' share_def held_def e)
qed

text \<open>The lease account debited and credited, in the form the operations use it.\<close>

lemma lease_debit_books:
  assumes "wf_struct db" "update_lease_residual k f db = Inr db'" "tfind l_lease_id k (db_leases db) = Some r"
    "\<And>x. l_lease_id (f x) = l_lease_id x" "subtract (l_residual r) v = Inr (l_residual (f r))"
  shows "wf_struct db' \<and> books db' = (books db)\<lparr>bal := withdraw (Lease k) v (balance db)\<rparr>"
  using residual_books [OF assms(1-4)]
  by (auto simp: withdraw_def fun_eq_iff amount_subtract [OF assms(5)] lease_balance_def assms(3))

end
