(* ===== verification/Ledger_Ops.thy ===== *)
theory Ledger_Ops
  imports Ledger
begin

text \<open>
  Every operation of WardenService as postings on the abstract ledger: the
  refinement of the double-entry specification by the service, and from it that
  no operation can make the commit-time conservation check fail.
\<close>

section \<open>The contract of a ledger transaction\<close>

definition posts :: "db \<Rightarrow> posting list \<Rightarrow> db \<Rightarrow> bool" where
  "posts db ps db' = (wf_struct db' \<and> books db' = fold post ps (books db))"

fun is_move :: "posting \<Rightarrow> bool" where
  "is_move (Move a b v) = True"
| "is_move (Credit a v) = False"

lemma post_inflow: "is_move p \<Longrightarrow> inflow (post p L) = inflow L"
  by (cases p) auto

lemma fold_post_conserved: "conserved L \<Longrightarrow> conserved (fold post ps L)"
  by (induction ps arbitrary: L) (auto intro: post_conserved)

lemma fold_post_inflow: "list_all is_move ps \<Longrightarrow> inflow (fold post ps L) = inflow L"
  by (induction ps arbitrary: L) (auto simp: post_inflow)

text \<open>
  A transaction body that posts \<open>entries\<close>; \<open>internal_tx\<close> is one that only
  moves rights between the accounts of the warden.
\<close>

locale ledger_tx =
  fixes run :: "db \<Rightarrow> (db \<times> 'a) res"
    and entries :: "db \<Rightarrow> 'a \<Rightarrow> posting list"
  assumes run_posts: "wf_struct db \<Longrightarrow> run db = Inr (db', x) \<Longrightarrow> posts db (entries db x) db'"
begin

lemma run_conserves: "wf_struct db \<Longrightarrow> conserved (books db) \<Longrightarrow> run db = Inr (db', x) \<Longrightarrow> wf_struct db' \<and> conserved (books db')"
  using run_posts [of db db' x] by (auto simp: posts_def fold_post_conserved)

end

locale internal_tx = ledger_tx +
  assumes run_moves: "list_all is_move (entries db x)"
begin

lemma run_ok:
  assumes "ledger_ok db" "run db = Inr (db', x)"
  shows "ledger_ok db'"
proof -
  have b: "wf_struct db" "conserved (books db)" "\<forall>i. inflow (books db) i \<le> MAX_RESOURCE"
    using assms(1) by (auto simp: ledger_ok_iff balanced_def simp del: books_sel)
  have "inflow (books db') = inflow (books db)"
    using run_posts [OF b(1) assms(2)] fold_post_inflow [OF run_moves] by (simp add: posts_def del: books_sel)
  then show ?thesis
    using run_conserves [OF b(1,2) assms(2)] b(3) by (simp add: ledger_ok_iff balanced_def del: books_sel)
qed

end

lemma ledger_ok_commit: "ledger_ok db \<Longrightarrow> assert_local_conservation False db = Inr ()"
  unfolding ledger_ok_def assert_local_conservation_def Let_def
  by (auto simp: res_simps split: option.splits if_splits)

text \<open>The two ways of chaining: statements that leave the books alone, and postings.\<close>

lemma posts_same: "same_books db db' \<Longrightarrow> wf_struct db \<Longrightarrow> posts db [] db'"
  by (simp add: posts_def same_books_books same_books_wf)

lemma posts_before: "same_books s db \<Longrightarrow> posts db ps db' \<Longrightarrow> posts s ps db'"
  by (simp add: posts_def same_books_books)

lemma posts_after: "posts s ps db \<Longrightarrow> same_books db db' \<Longrightarrow> posts s ps db'"
  by (auto simp: posts_def same_books_books same_books_wf)

lemma degraded_posts:
  assumes "write_or_degraded c m body db = Inr (db', x)" "wf_struct db"
    "c \<Longrightarrow> body db = Inr (db', x) \<Longrightarrow> posts db ps db'"
    "\<not> c \<Longrightarrow> m = Inr x \<Longrightarrow> ps = []"
  shows "posts db ps db'"
  using assms by (auto simp: write_or_degraded_def res_simps posts_same split: if_splits)

text \<open>A request identifier that has no recorded response yet.\<close>

definition fresh_request :: "db \<Rightarrow> string \<Rightarrow> bool" where
  "fresh_request db request_id = (tfind i_request_id request_id (db_idempotency db) = None)"

lemma idempotent_None: "idempotent_response db sc rid fp = Inr None \<Longrightarrow> fresh_request db rid"
  by (auto simp: idempotent_response_def fresh_request_def split: option.splits if_splits)

lemma idempotent_Some: "idempotent_response db sc rid fp = Inr (Some r) \<Longrightarrow> \<not> fresh_request db rid"
  by (auto simp: idempotent_response_def fresh_request_def split: option.splits if_splits)

lemma degraded_not_fresh:
  "degraded_idempotent_response db t e sc rid fp = Inr r \<Longrightarrow> \<not> fresh_request db rid"
  "degraded_lease_idempotent_response db t e lid act scopes b sc rid fp = Inr r \<Longrightarrow> \<not> fresh_request db rid"
  by (auto simp: degraded_idempotent_response_def degraded_lease_idempotent_response_def Let_def res_simps
      split: sum.splits dest: idempotent_Some)

lemma clock_idempotency: "clock_is_safe sv e b db = Inr (db', u) \<Longrightarrow> db_idempotency db' = db_idempotency db"
  by (auto simp: clock_is_safe_def update_warden_state_def Let_def res_simps split: if_splits option.splits)

section \<open>Deposits and withdrawals\<close>

lemma books_balance: "books db' = (books db)\<lparr>bal := B\<rparr> \<Longrightarrow> balance db' = B"
  by (drule arg_cong [where f = bal]) simp

lemma set_withdraw:
  assumes "subtract u v = Inr r" "B a = amount u"
  shows "B(a := amount r) = withdraw a v B"
  by (simp add: withdraw_def assms(2), rule arg_cong [where f = "\<lambda>z. B(a := z)"], rule ext, simp add: amount_subtract [OF assms(1)])

lemma set_deposit:
  assumes "add u v = Inr r" "B a = amount u"
  shows "B(a := amount r) = deposit a v B"
  by (simp add: deposit_def assms(2), rule arg_cong [where f = "\<lambda>z. B(a := z)"], rule ext, simp add: amount_add [OF assms(1)])

lemma deposit_other [simp]: "b \<noteq> a \<Longrightarrow> deposit a v B b = B b"
  by (simp add: deposit_def)

lemma withdraw_other [simp]: "b \<noteq> a \<Longrightarrow> withdraw a v B b = B b"
  by (simp add: withdraw_def)

lemma withdraw_deposit: "withdraw a v (deposit b u B) = deposit b u (withdraw a v B)"
  by (auto simp: withdraw_def deposit_def fun_eq_iff)

lemma posts_move:
  "wf_struct db' \<Longrightarrow> books db' = (books db)\<lparr>bal := deposit b v (withdraw a v (balance db))\<rparr> \<Longrightarrow> posts db [Move a b v] db'"
  by (simp add: posts_def)

section \<open>issue_root\<close>

lemma issue_root_effect_posts:
  assumes "wf_struct db" "issue_root_effect sv rid q en p (w_free_pool w) ex db = Inr (db', g)" "db_warden_state db = Some w"
  shows "posts db [Move Pool (Lease (g_lease_id g)) (g_allocation g)] db'"
proof -
  from assms(2) obtain lid lin st db1 free db2 where
    g: "new_grant sv (e_tenant_id en) (e_envelope_id en) (e_config_epoch en) lid lin None (rq_subject_id q)
      (rq_allocation q) (rq_capabilities q) p [] 0 (sv_now_ns sv) ex = Inr g"
    and 1: "insert_lease g (rq_allocation q) st ACTIVE 0 (sv_now_ns sv) None db = Inr db1"
    and f: "subtract (w_free_pool w) (rq_allocation q) = Inr free"
    and 2: "update_warden_state (\<lambda>w. w\<lparr>w_free_pool := free, w_revision := w_revision w + 1,
      w_updated_at_ns := sv_now_ns sv\<rparr>) db1 = Inr db2"
    and n: "same_books db2 db'"
    by (clarsimp simp: issue_root_effect_def res_simps) (rule that, assumption+, (erule books_intros | rule same_books_refl)+)
  note b1 = insert_lease_books [OF assms(1) 1]
  note b2 = pool_books [OF conjunct1 [OF b1] 2]
  have "balance db1 Pool = amount (w_free_pool w)"
    using books_balance [OF conjunct2 [OF b1]] by (simp add: held_Some [OF assms(3)])
  from set_withdraw [OF f, of "balance db1", OF this]
  have "books db2 = (books db)\<lparr>bal := withdraw Pool (rq_allocation q) (balance db1)\<rparr>"
    using b1 b2 by simp
  then have "posts db [Move Pool (Lease (g_lease_id g)) (rq_allocation q)] db2"
    using b2 books_balance [OF conjunct2 [OF b1]] by (simp add: posts_move withdraw_deposit)
  then show ?thesis using n new_grant_fields [OF g] by (simp add: posts_after)
qed

text \<open>
  The frame of an operation with a request identifier: the clock, the lookup of a
  recorded response, and then the effect or nothing.
\<close>

lemma retry_posts:
  assumes "clock_is_safe sv en True db = Inr (db0, u)" "idempotent_response db0 sc rid fp = Inr prior" "wf_struct db"
    "prior = None \<Longrightarrow> posts db0 ps db'" "\<And>r. prior = Some r \<Longrightarrow> same_books db0 db'"
  shows "posts db (if fresh_request db rid then ps else []) db'"
proof -
  have s: "same_books db db0" using assms(1) by (rule clock_books) simp
  have f: "fresh_request db0 rid = fresh_request db rid"
    using clock_idempotency [OF assms(1)] by (simp add: fresh_request_def)
  show ?thesis
  proof (cases prior)
    case None
    then show ?thesis using assms(2,4) f idempotent_None posts_before [OF s] by auto
  next
    case (Some r)
    then show ?thesis
      using assms(2,3,5) f idempotent_Some posts_same same_books_trans [OF s] by auto
  qed
qed

lemma clock_wf: "clock_is_safe sv en b db = Inr (db0, u) \<Longrightarrow> wf_struct db \<Longrightarrow> wf_struct db0"
  using same_books_wf clock_books [OF _ same_books_refl] by blast

definition issue_root_entries :: "string \<Rightarrow> db \<Rightarrow> LeaseGrant \<Rightarrow> posting list" where
  "issue_root_entries rid db g =
    (if fresh_request db rid then [Move Pool (Lease (g_lease_id g)) (g_allocation g)] else [])"

lemma issue_root_body_posts:
  assumes "wf_struct db" "issue_root_body sv rid t e q db = Inr (db', g)"
  shows "posts db (issue_root_entries rid db g) db'"
proof -
  from assms(2) obtain en db0 u prior where c: "clock_is_safe sv en True db = Inr (db0, u)"
    and p: "idempotent_response db0 ''issue_root'' rid (rq_fingerprint q) = Inr prior"
    and r: "(case prior of Some response \<Rightarrow> rbind (LeaseGrant_from_dict response) (\<lambda>g. Inr (db0, g))
      | None \<Rightarrow> rbind (issue_root_guards sv q u db0) (\<lambda>(policy, free_pool, ex).
        issue_root_effect sv rid q en policy free_pool ex db0)) = Inr (db', g)"
    by (auto simp: issue_root_body_def res_simps)
  show ?thesis unfolding issue_root_entries_def
  proof (rule retry_posts [OF c p assms(1)])
    assume "prior = None"
    then obtain w pol ex where "db_warden_state db0 = Some w"
      "issue_root_effect sv rid q en pol (w_free_pool w) ex db0 = Inr (db', g)"
      using r by (auto simp: issue_root_guards_def Let_def res_simps)
    then show "posts db0 [Move Pool (Lease (g_lease_id g)) (g_allocation g)] db'"
      using issue_root_effect_posts [OF clock_wf [OF c assms(1)]] by auto
  qed (use r in \<open>auto simp: res_simps\<close>)
qed

lemma issue_root_posts:
  assumes "wf_struct db" "issue_root sv rid ident t e subj alloc caps pd ttl lin db = Inr (db', g)"
  shows "posts db (issue_root_entries rid db g) db'"
  using assms(2) unfolding issue_root_def rbind_Inr_iff
  by (elim exE conjE degraded_posts [OF _ assms(1)])
    (auto simp: res_simps issue_root_entries_def dest: degraded_not_fresh issue_root_body_posts [OF assms(1)])

section \<open>spawn and authorize\<close>

text \<open>A lease read before statements that leave the books alone still has its residual.\<close>

lemma same_books_lease:
  fixes db :: db
  assumes "same_books s db" "tfind l_lease_id k (db_leases s) = Some r"
  obtains r' where "tfind l_lease_id k (db_leases db) = Some r'" "l_residual r' = l_residual r"
proof -
  have "map_option l_residual (tfind l_lease_id k ls) = map_option l_residual (tfind l_lease_id k ms)"
    if "map (\<lambda>l. (l_lease_id l, l_residual l)) ls = map (\<lambda>l. (l_lease_id l, l_residual l)) ms" for ls ms :: "lease_row list"
    using that by (induction ls ms rule: list_induct2') (auto simp: tfind_def)
  then have "map_option l_residual (tfind l_lease_id k (db_leases db)) = Some (l_residual r)"
    using assms by (simp add: same_books_def view_def)
  then show thesis using that by auto
qed

lemma debit_after:
  assumes "wf_struct s" "same_books s db" "tfind l_lease_id k (db_leases s) = Some r"
    "update_lease_residual k f db = Inr db'" "\<And>x. l_lease_id (f x) = l_lease_id x"
    "subtract (l_residual r) v = Inr res" "\<And>x. l_residual (f x) = res"
  shows "wf_struct db' \<and> books db' = (books s)\<lparr>bal := withdraw (Lease k) v (balance s)\<rparr>"
proof -
  obtain r' where r': "tfind l_lease_id k (db_leases db) = Some r'" "l_residual r' = l_residual r"
    using same_books_lease [OF assms(2,3)] .
  have "balance db = balance s"
    using same_books_books [OF assms(2)] by (metis books_sel(1))
  then show ?thesis
    using lease_debit_books [OF same_books_wf [OF assms(2,1)] assms(4) r'(1) assms(5), of v] r'(2) assms(6,7)
      same_books_books [OF assms(2)] by simp
qed

definition spawn_entries :: "string \<Rightarrow> string \<Rightarrow> db \<Rightarrow> LeaseGrant \<Rightarrow> posting list" where
  "spawn_entries rid pid db g =
    (if fresh_request db rid then [Move (Lease pid) (Lease (g_lease_id g)) (g_allocation g)] else [])"

lemma spawn_effect_posts:
  assumes "wf_struct s" "same_books s db" "load_lease s (sq_parent_id q) = Inr parent"
    "spawn_effect sv rid q en parent p ex db = Inr (db', g)"
  shows "posts s [Move (Lease (sq_parent_id q)) (Lease (g_lease_id g)) (g_allocation g)] db'"
proof -
  from assms(4) obtain lid st res db1 db2 where
    g: "new_grant sv (e_tenant_id en) (e_envelope_id en) (e_config_epoch en) lid (l_lineage_id parent)
      (Some (sq_parent_id q)) (sq_subject_id q) (sq_allocation q) (sq_capabilities q) p
      (l_ancestor_path parent @ [sq_parent_id q]) (l_branch_epoch parent) (sv_now_ns sv) ex = Inr g"
    and r: "subtract (l_residual parent) (sq_allocation q) = Inr res"
    and 1: "update_lease_residual (sq_parent_id q) (\<lambda>r. r\<lparr>l_residual := res,
      l_sequence := l_sequence r + 1, l_updated_at_ns := sv_now_ns sv\<rparr>) db = Inr db1"
    and 2: "insert_lease g (sq_allocation q) st ACTIVE 0 (sv_now_ns sv) None db1 = Inr db2"
    and n: "same_books db2 db'"
    by (clarsimp simp: spawn_effect_def res_simps) (rule that, assumption+, (erule books_intros | rule same_books_refl)+)
  have b1: "wf_struct db1 \<and> books db1 = (books s)\<lparr>bal := withdraw (Lease (sq_parent_id q)) (sq_allocation q) (balance s)\<rparr>"
    using assms(3) by (intro debit_after [OF assms(1,2) _ 1 _ r]) (auto simp: load_lease_def res_simps)
  then have "posts s [Move (Lease (sq_parent_id q)) (Lease (g_lease_id g)) (sq_allocation q)] db2"
    using insert_lease_books [OF conjunct1 [OF b1] 2] books_balance [OF conjunct2 [OF b1]] by (simp add: posts_move)
  then show ?thesis using n new_grant_fields [OF g] by (simp add: posts_after)
qed

lemma spawn_guards_books [books_intros]:
  "spawn_guards sv q e parent db = Inr (db', x) \<Longrightarrow> same_books s db \<Longrightarrow> same_books s db'"
  apply (clarsimp simp: spawn_guards_def Let_def res_simps split: prod.splits)
  by ((erule books_intros | assumption)+)

lemma spawn_body_posts:
  assumes "wf_struct db" "spawn_body sv rid q db = Inr (db', g)"
  shows "posts db (spawn_entries rid (sq_parent_id q) db g) db'"
proof -
  from assms(2) obtain en db0 u parent prior where c: "clock_is_safe sv en True db = Inr (db0, u)"
    and l: "load_lease db0 (sq_parent_id q) = Inr parent"
    and p: "idempotent_response db0 (''spawn:'' @ sq_parent_id q) rid (sq_fingerprint q) = Inr prior"
    and r: "(case prior of Some response \<Rightarrow> rbind (LeaseGrant_from_dict response) (\<lambda>g. Inr (db0, g))
      | None \<Rightarrow> rbind (spawn_guards sv q en parent db0) (\<lambda>(db1, policy, ex).
        spawn_effect sv rid q en parent policy ex db1)) = Inr (db', g)"
    by (auto simp: spawn_body_def res_simps)
  show ?thesis unfolding spawn_entries_def
  proof (rule retry_posts [OF c p assms(1)])
    assume "prior = None"
    then obtain db1 pol ex where "spawn_guards sv q en parent db0 = Inr (db1, pol, ex)"
      "spawn_effect sv rid q en parent pol ex db1 = Inr (db', g)"
      using r by (auto simp: res_simps)
    then show "posts db0 [Move (Lease (sq_parent_id q)) (Lease (g_lease_id g)) (g_allocation g)] db'"
      using spawn_effect_posts [OF clock_wf [OF c assms(1)] _ l] spawn_guards_books by (metis same_books_refl)
  qed (use r in \<open>auto simp: res_simps\<close>)
qed

lemma spawn_request_parent: "spawn_request_of sv rid ident pid subj alloc caps ttl pd es db = Inr q \<Longrightarrow> sq_parent_id q = pid"
  by (auto simp: spawn_request_of_def res_simps)

lemma spawn_posts:
  assumes "wf_struct db" "spawn sv rid ident pid subj alloc caps ttl pd es db = Inr (db', g)"
  shows "posts db (spawn_entries rid pid db g) db'"
  using assms(2) unfolding spawn_def rbind_Inr_iff
  by (elim exE conjE degraded_posts [OF _ assms(1)])
    (auto simp: res_simps spawn_entries_def dest!: spawn_request_parent dest: degraded_not_fresh spawn_body_posts [OF assms(1)])

definition authorize_entries :: "string \<Rightarrow> string \<Rightarrow> db \<Rightarrow> Receipt \<Rightarrow> posting list" where
  "authorize_entries rid lid db r =
    (if fresh_request db rid then [Move (Lease lid) Consumed (r_cost r)] else [])"

lemma authorize_effect_posts:
  assumes "wf_struct s" "same_books s db" "load_lease s (aq_lease_id q) = Inr lease"
    "authorize_effect sv rid q en lease z db = Inr (db', r)"
  shows "posts s [Move (Lease (aq_lease_id q)) Consumed (r_cost r)] db'"
proof -
  from assms(4) obtain w res con db1 db2 where w: "db_warden_state db = Some w"
    and rc: "authorize_receipt sv rid q en lease z = Inr r"
    and d: "subtract (l_residual lease) (az_cost z) = Inr res"
    and 1: "update_lease_residual (aq_lease_id q) (\<lambda>r. r\<lparr>l_residual := res, l_state := az_target_state z,
      l_sequence := l_sequence lease + 1, l_updated_at_ns := sv_now_ns sv\<rparr>) db = Inr db1"
    and a: "add (w_consumed w) (az_cost z) = Inr con"
    and 2: "update_warden_state (\<lambda>w. w\<lparr>w_consumed := con, w_revision := w_revision w + 1,
      w_updated_at_ns := sv_now_ns sv\<rparr>) db1 = Inr db2"
    and n: "same_books db2 db'"
    by (clarsimp simp: authorize_effect_def res_simps) (rule that, assumption+, (erule books_intros | rule same_books_refl)+)
  have b1: "wf_struct db1 \<and> books db1 = (books s)\<lparr>bal := withdraw (Lease (aq_lease_id q)) (az_cost z) (balance s)\<rparr>"
    using assms(3) by (intro debit_after [OF assms(1,2) _ 1 _ d]) (auto simp: load_lease_def res_simps)
  have "balance s Consumed = amount (w_consumed w)"
    using same_books_books [OF assms(2)] held_Some [OF w] by (metis balance.simps(3) books_sel(1))
  then have "(balance db1)(Consumed := amount con) = deposit Consumed (az_cost z) (balance db1)"
    using books_balance [OF conjunct2 [OF b1]] by (intro set_deposit [OF a]) simp
  then have "posts s [Move (Lease (aq_lease_id q)) Consumed (az_cost z)] db2"
    using consumed_books [OF conjunct1 [OF b1] 2] b1 books_balance [OF conjunct2 [OF b1]] by (simp add: posts_move)
  then show ?thesis using n authorize_receipt_fields [OF rc] by (simp add: posts_after)
qed

lemma authorize_guards_books [books_intros]:
  "authorize_guards sv q e lease db = Inr (db', x) \<Longrightarrow> same_books s db \<Longrightarrow> same_books s db'"
  apply (clarsimp simp: authorize_guards_def Let_def res_simps split: prod.splits)
  by ((erule books_intros | assumption)+)

lemma authorize_body_posts:
  assumes "wf_struct db" "authorize_body sv rid q db = Inr (db', r)"
  shows "posts db (authorize_entries rid (aq_lease_id q) db r) db'"
proof -
  from assms(2) obtain en db0 u lease prior where c: "clock_is_safe sv en True db = Inr (db0, u)"
    and l: "load_lease db0 (aq_lease_id q) = Inr lease"
    and p: "idempotent_response db0 (''authorize:'' @ aq_lease_id q) rid (aq_fingerprint q) = Inr prior"
    and r: "(case prior of Some response \<Rightarrow> rbind (Receipt_from_dict response) (\<lambda>r. Inr (db0, r))
      | None \<Rightarrow> rbind (authorize_guards sv q en lease db0) (\<lambda>(db1, z).
        authorize_effect sv rid q en lease z db1)) = Inr (db', r)"
    by (auto simp: authorize_body_def res_simps)
  show ?thesis unfolding authorize_entries_def
  proof (rule retry_posts [OF c p assms(1)])
    assume "prior = None"
    then obtain db1 z where "authorize_guards sv q en lease db0 = Inr (db1, z)"
      "authorize_effect sv rid q en lease z db1 = Inr (db', r)"
      using r by (auto simp: res_simps)
    then show "posts db0 [Move (Lease (aq_lease_id q)) Consumed (r_cost r)] db'"
      using authorize_effect_posts [OF clock_wf [OF c assms(1)] _ l] authorize_guards_books by (metis same_books_refl)
  qed (use r in \<open>auto simp: res_simps\<close>)
qed

lemma authorize_request_lease: "authorize_request_of sv rid ident lid tr aud nonce ev est esq db = Inr q \<Longrightarrow> aq_lease_id q = lid"
  by (auto simp: authorize_request_of_def res_simps)

lemma authorize_posts:
  assumes "wf_struct db" "authorize sv rid ident lid tr aud nonce ev est esq db = Inr (db', r)"
  shows "posts db (authorize_entries rid lid db r) db'"
  using assms(2) unfolding authorize_def rbind_Inr_iff
  by (elim exE conjE degraded_posts [OF _ assms(1)])
    (auto simp: res_simps authorize_entries_def dest!: authorize_request_lease dest: degraded_not_fresh authorize_body_posts [OF assms(1)])

section \<open>renew, quiesce, resume and close\<close>

lemma degraded_books:
  "write_or_degraded c m body db = Inr (db', x) \<Longrightarrow> (body db = Inr (db', x) \<Longrightarrow> same_books db db') \<Longrightarrow> same_books db db'"
  by (auto simp: write_or_degraded_def res_simps split: if_splits)

lemma resign_books [books_intros]: "resign_lease sv e t l db = Inr db' \<Longrightarrow> same_books s db \<Longrightarrow> same_books s db'"
  apply (clarsimp simp: resign_lease_def res_simps)
  by ((erule books_intros | (simp; fail))+)

lemma renew_cascade_books [books_intros]:
  "foldM (\<lambda>d i. rbind (load_lease d i) (\<lambda>l. resign_lease sv e t l d)) db ids = Inr db' \<Longrightarrow> same_books s db \<Longrightarrow> same_books s db'"
  by (erule same_books_foldM) (auto simp: res_simps intro: resign_books)

lemma renew_guards_books [books_intros]:
  "renew_guards sv q e l db = Inr (db', x) \<Longrightarrow> same_books s db \<Longrightarrow> same_books s db'"
  apply (clarsimp simp: renew_guards_def Let_def res_simps split: prod.splits)
  by ((erule books_intros | assumption)+)

lemma renew_effect_books [books_intros]:
  "renew_effect sv rid q e l t ids db = Inr (db', x) \<Longrightarrow> same_books s db \<Longrightarrow> same_books s db'"
  apply (clarsimp simp: renew_effect_def res_simps)
  by ((erule books_intros | assumption)+)

lemma renew_books: "renew sv rid ident lid ttl es cas db = Inr (db', x) \<Longrightarrow> same_books db db'"
  apply (clarsimp simp: renew_def res_simps elim!: degraded_books)
  apply (auto simp: renew_body_def Let_def res_simps split: prod.splits option.split_asm)
  by ((erule books_intros | rule same_books_refl)+)

lemma terminate_books [books_intros]:
  "terminate_remote_child sv e lid act t db = Inr db' \<Longrightarrow> same_books s db \<Longrightarrow> same_books s db'"
  apply (auto simp: terminate_remote_child_def res_simps split: prod.splits if_split_asm)
  by ((erule books_intros | assumption)+)

lemma terminate_all_books [books_intros]:
  "foldM (\<lambda>d t. terminate_remote_child sv e lid act t d) db ts = Inr db' \<Longrightarrow> same_books s db \<Longrightarrow> same_books s db'"
  by (erule same_books_foldM) (auto intro: terminate_books)

lemma no_live_books [books_intros]:
  "require_no_live_descendants sv e lid act ts db = Inr db' \<Longrightarrow> same_books s db \<Longrightarrow> same_books s db'"
  apply (clarsimp simp: require_no_live_descendants_def Let_def res_simps split: prod.splits)
  by ((erule books_intros | assumption)+)

lemma lifecycle_decide_books [books_intros]:
  "lifecycle_decide op sv q e l ts db = Inr (db', x) \<Longrightarrow> same_books s db \<Longrightarrow> same_books s db'"
  apply (auto simp: lifecycle_decide_def res_simps split: prod.splits lifecycle_op.splits if_split_asm)
  by ((erule books_intros | assumption)+)

text \<open>Setting a residual to zero withdraws all of it, and to itself nothing.\<close>

lemma clear_after:
  assumes "wf_struct s" "same_books s db" "tfind l_lease_id k (db_leases s) = Some r"
    "update_lease_residual k f db = Inr db'" "\<And>x. l_lease_id (f x) = l_lease_id x" "\<And>x. l_residual (f x) = v"
  shows "wf_struct db' \<and> books db' = (books s)\<lparr>bal := (balance s)(Lease k := amount v)\<rparr>"
proof -
  obtain r' where r': "tfind l_lease_id k (db_leases db) = Some r'" "l_residual r' = l_residual r"
    using same_books_lease [OF assms(2,3)] .
  have "balance db = balance s"
    using same_books_books [OF assms(2)] by (metis books_sel(1))
  then show ?thesis
    using residual_books [OF same_books_wf [OF assms(2,1)] assms(4) r'(1) assms(5)] assms(6)
      same_books_books [OF assms(2)] by simp
qed

lemma set_zero_withdraw:
  assumes "B a = amount u" "\<And>i. amount z i = 0"
  shows "B(a := amount z) = withdraw a u B"
  using assms by (simp add: withdraw_def fun_eq_iff)

lemma deposit_zero: "\<not> nonzero v \<Longrightarrow> deposit a v B = B"
proof -
  assume "\<not> nonzero v"
  then have "amount v i = 0" for i by (auto simp: nonzero_def list_ex_iff amount_def)
  then show ?thesis by (simp add: deposit_def fun_eq_iff)
qed

lemma lease_balance_Some: "tfind l_lease_id k (db_leases db) = Some r \<Longrightarrow> balance db (Lease k) = amount (l_residual r)"
  by (simp add: lease_balance_def fun_eq_iff)

lemma posts_refl_balance: "wf_struct db' \<Longrightarrow> books db' = (books db)\<lparr>bal := balance db\<rparr> \<Longrightarrow> posts db [] db'"
  by (simp add: posts_def books_def)

lemma lifecycle_mutate_posts:
  assumes "wf_struct s" "same_books s db" "tfind l_lease_id (cq_lease_id q) (db_leases s) = Some lease"
    "lifecycle_mutate op sv q en lease st db = Inr db'"
  shows "posts s (if op = Close then [Move (Lease (cq_lease_id q)) Pool (l_residual lease)] else []) db'"
proof -
  let ?k = "cq_lease_id q"
  from assms(4) obtain zeros db1 db2 where z: "zero (int (length (l_residual lease))) = Inr zeros"
    and 1: "update_lease_residual ?k (\<lambda>r. r\<lparr>l_residual := (if op = Close then zeros else l_residual lease),
      l_status := st, l_sequence := l_sequence r + 1, l_updated_at_ns := sv_now_ns sv\<rparr>) db = Inr db1"
    and 2: "(if op = Close \<and> nonzero (if op = Close then l_residual lease else zeros)
      then rbind (of_option StorageError (db_warden_state db1)) (\<lambda>w.
        rbind (rbind (add (w_free_pool w) (if op = Close then l_residual lease else zeros)) packed) (\<lambda>free'.
        update_warden_state (\<lambda>w. w\<lparr>w_free_pool := free', w_revision := w_revision w + 1,
          w_updated_at_ns := sv_now_ns sv\<rparr>) db1)) else Inr db1) = Inr db2"
    and n: "same_books db2 db'"
    unfolding lifecycle_mutate_def Let_def rbind_Inr_iff packed_iff
    by (elim exE conjE) (rule that, assumption, simp, assumption, erule audit_books, simp)
  note b1 = clear_after [OF assms(1,2,3) 1]
  show ?thesis
  proof (cases "op = Close")
    case True
    have "(balance s)(Lease ?k := amount zeros) = withdraw (Lease ?k) (l_residual lease) (balance s)"
      using assms(3) amount_zero [OF z] by (intro set_zero_withdraw lease_balance_Some)
    then have c1: "wf_struct db1" "books db1 = (books s)\<lparr>bal := withdraw (Lease ?k) (l_residual lease) (balance s)\<rparr>"
      using b1 True by simp_all
    have "posts s [Move (Lease ?k) Pool (l_residual lease)] db2"
    proof (cases "nonzero (l_residual lease)")
      case False
      then show ?thesis using 2 c1 True by (simp add: posts_move deposit_zero)
    next
      case nz: True
      from 2 True nz obtain w free where w: "db_warden_state db1 = Some w" and a: "add (w_free_pool w) (l_residual lease) = Inr free"
        and u: "update_warden_state (\<lambda>w. w\<lparr>w_free_pool := free, w_revision := w_revision w + 1,
          w_updated_at_ns := sv_now_ns sv\<rparr>) db1 = Inr db2"
        by (auto simp: res_simps)
      have "(balance db1)(Pool := amount free) = deposit Pool (l_residual lease) (balance db1)"
        by (intro set_deposit [OF a]) (simp add: held_Some [OF w])
      then show ?thesis
        using pool_books [OF c1(1) u] c1 books_balance [OF c1(2)] by (simp add: posts_move)
    qed
    then show ?thesis using n True by (simp add: posts_after)
  next
    case False
    have "(balance s)(Lease ?k := amount (l_residual lease)) = balance s"
      using lease_balance_Some [OF assms(3)] by (metis fun_upd_triv)
    then have "posts s [] db1" using b1 False by (simp add: posts_refl_balance)
    then show ?thesis using n 2 False by (simp add: posts_after)
  qed
qed

definition lifecycle_entries :: "lifecycle_op \<Rightarrow> string \<Rightarrow> string \<Rightarrow> db \<Rightarrow> LeaseSnapshot \<Rightarrow> posting list" where
  "lifecycle_entries op rid lid db x =
    (if fresh_request db rid then
       (case tfind l_lease_id lid (db_leases db) of None \<Rightarrow> []
        | Some l \<Rightarrow> if op = Close \<and> \<not> List.member [CLOSED, EXPIRED] (l_status l) then [Move (Lease lid) Pool (l_residual l)] else [])
     else [])"

lemma lifecycle_fresh_posts:
  assumes "wf_struct db" "clock_is_safe sv en True db = Inr (db0, u)"
    "tfind l_lease_id (cq_lease_id q) (db_leases db0) = Some lease"
    "lifecycle_decide op sv q en lease ts db0 = Inr (db1, d)"
    "(case d of None \<Rightarrow> Inr db1 | Some st \<Rightarrow> lifecycle_mutate op sv q en lease st db1) = Inr db2"
  shows "posts db0 (if op = Close \<and> \<not> List.member [CLOSED, EXPIRED] (l_status lease)
    then [Move (Lease (cq_lease_id q)) Pool (l_residual lease)] else []) db2"
proof -
  note wf = clock_wf [OF assms(2,1)]
  have s: "same_books db0 db1" using assms(4) by (rule lifecycle_decide_books) simp
  have k: "op = Close \<Longrightarrow> (d = None) = List.member [CLOSED, EXPIRED] (l_status lease)"
    using assms(4) by (auto simp: lifecycle_decide_def res_simps split: if_split_asm)
  then show ?thesis
    using assms(5) posts_same [OF s wf] lifecycle_mutate_posts [OF wf s assms(3), of op sv en _ db2]
    by (cases d; cases "op = Close") auto
qed

lemma lifecycle_body_posts:
  assumes "wf_struct db" "lifecycle_body op sv rid q ts db = Inr (db', x)"
  shows "posts db (lifecycle_entries op rid (cq_lease_id q) db x) db'"
  using assms(2)
proof (cases rule: lifecycle_body_cases)
  case (retry en u r)
  then show ?thesis
    using retry_posts [OF retry assms(1), of "[]" db'] idempotent_Some [OF retry(2)] clock_idempotency [OF retry(1)]
    by (auto simp: lifecycle_entries_def fresh_request_def)
next
  case (fresh en db0 u lease db1 d db2 snap)
  from retry_posts [OF fresh(1,3) assms(1)
      posts_after [OF lifecycle_fresh_posts [OF assms(1) fresh(1,2,4,5)] remember_books [OF fresh(6) same_books_refl]]]
  show ?thesis using fresh(2) clock_leases [OF fresh(1)] by (auto simp: lifecycle_entries_def split: if_splits)
qed

lemma lifecycle_request_lease: "lifecycle_request_of op sv rid ident lid es db = Inr q \<Longrightarrow> cq_lease_id q = lid"
  by (auto simp: lifecycle_request_of_def res_simps)

lemma lifecycle_posts:
  assumes "wf_struct db" "lifecycle op sv rid ident lid es db = Inr (db', x)"
  shows "posts db (lifecycle_entries op rid lid db x) db'"
  using assms(2) unfolding lifecycle_def rbind_Inr_iff
  by (elim exE conjE degraded_posts [OF _ assms(1)])
    (auto simp: rbind_Inr_iff lifecycle_entries_def dest!: lifecycle_request_lease dest: degraded_not_fresh lifecycle_body_posts [OF assms(1)])

section \<open>reclaim_expired\<close>

definition returns :: "lease_row list \<Rightarrow> posting list" where
  "returns ls = map (\<lambda>l. Move (Lease (l_lease_id l)) Pool (l_residual l)) ls"

definition cleared :: "lease_row list \<Rightarrow> balances \<Rightarrow> balances" where
  "cleared ls B = fold (\<lambda>l. withdraw (Lease (l_lease_id l)) (l_residual l)) ls B"

lemma deposit_amount_eq: "(\<And>i. amount u i = amount v i) \<Longrightarrow> deposit a u B = deposit a v B"
  by (simp add: deposit_def)

lemma cleared_Cons: "cleared (l # ls) B = cleared ls (withdraw (Lease (l_lease_id l)) (l_residual l) B)"
  by (simp add: cleared_def)

lemma cleared_pool: "cleared ls B Pool = B Pool"
  by (induction ls arbitrary: B) (simp_all add: cleared_def)

text \<open>The returns one after the other, or all withdrawals and then one deposit of their sum.\<close>

lemma fold_returns:
  "fold post (returns ls) L = L\<lparr>bal := (cleared ls (bal L))(Pool := (\<lambda>i. bal L Pool i + lease_total ls i))\<rparr>"
proof (induction ls arbitrary: L)
  case Nil
  then show ?case by (simp add: returns_def cleared_def lease_total_def)
next
  case (Cons l ls)
  have "cleared ls (deposit Pool v B) = (cleared ls B)(Pool := (\<lambda>i. B Pool i + amount v i))" for v B
  proof (induction ls arbitrary: B)
    case Nil
    then show ?case by (simp add: cleared_def deposit_def)
  next
    case (Cons m ms)
    then show ?case by (auto simp: cleared_Cons withdraw_deposit fun_eq_iff)
  qed
  then show ?case
    using Cons [of "post (Move (Lease (l_lease_id l)) Pool (l_residual l)) L"]
    by (simp add: returns_def cleared_Cons lease_total_def) (simp add: deposit_def fun_eq_iff)
qed

lemma reclaim_loop_books:
  assumes "foldM (reclaim_one sv zeros) (db, v) ls = Inr (db', v')" "wf_struct db" "\<And>i. amount zeros i = 0"
    "\<forall>l\<in>set ls. \<exists>r. tfind l_lease_id (l_lease_id l) (db_leases db) = Some r \<and> l_residual r = l_residual l"
    "distinct (map l_lease_id ls)"
  shows "wf_struct db' \<and> books db' = (books db)\<lparr>bal := cleared ls (balance db)\<rparr>
    \<and> (\<forall>i. amount v' i = amount v i + lease_total ls i)"
  using assms
proof (induction ls arbitrary: db v)
  case Nil
  then show ?case by (simp add: cleared_def lease_total_def books_def)
next
  case (Cons l ls)
  from Cons.prems(1) obtain db1 v1 where a: "add v (l_residual l) = Inr v1"
    and u: "update_lease_residual (l_lease_id l) (\<lambda>r. r\<lparr>l_residual := zeros, l_status := EXPIRED,
      l_sequence := l_sequence r + 1, l_updated_at_ns := sv_now_ns sv\<rparr>) db = Inr db1"
    and f: "foldM (reclaim_one sv zeros) (db1, v1) ls = Inr (db', v')"
    by (auto simp: reclaim_one_def res_simps)
  obtain r where r: "tfind l_lease_id (l_lease_id l) (db_leases db) = Some r" "l_residual r = l_residual l"
    using Cons.prems(4) by auto
  have "(balance db)(Lease (l_lease_id l) := amount zeros) = withdraw (Lease (l_lease_id l)) (l_residual l) (balance db)"
    using lease_balance_Some [OF r(1)] r(2) Cons.prems(3) by (intro set_zero_withdraw) simp_all
  then have b: "wf_struct db1" "books db1 = (books db)\<lparr>bal := withdraw (Lease (l_lease_id l)) (l_residual l) (balance db)\<rparr>"
    using residual_books [OF Cons.prems(2) u r(1)] by simp_all
  have db1: "db_leases db1 = tupdate l_lease_id (l_lease_id l) (\<lambda>r. r\<lparr>l_residual := zeros, l_status := EXPIRED,
      l_sequence := l_sequence r + 1, l_updated_at_ns := sv_now_ns sv\<rparr>) (db_leases db)"
    using u r(1) by (auto simp: update_lease_residual_def leases_residual_total_update_def update_warden_state_def Let_def
        res_simps split: option.splits)
  have "\<forall>m\<in>set ls. \<exists>r. tfind l_lease_id (l_lease_id m) (db_leases db1) = Some r \<and> l_residual r = l_residual m"
  proof
    fix m
    assume m: "m \<in> set ls"
    then have "l_lease_id m \<noteq> l_lease_id l" using Cons.prems(5) by (metis distinct.simps(2) image_eqI list.set_map list.simps(9))
    then have "tfind l_lease_id (l_lease_id m) (db_leases db1) = tfind l_lease_id (l_lease_id m) (db_leases db)"
      unfolding db1 by (subst tfind_tupdate) simp_all
    then show "\<exists>r. tfind l_lease_id (l_lease_id m) (db_leases db1) = Some r \<and> l_residual r = l_residual m"
      using Cons.prems(4) m by simp
  qed
  from Cons.IH [OF f b(1) Cons.prems(3) this] Cons.prems(5) show ?case
    using b(2) books_balance [OF b(2)] by (simp add: cleared_Cons lease_total_def amount_add [OF a])
qed

lemma reclaim_candidates_rows: "set (reclaim_candidates sv e u db) \<subseteq> set (db_leases db)"
  by (auto simp: reclaim_candidates_def Let_def dest: in_set_takeD)

lemma reclaim_candidates_distinct:
  "tkeys l_lease_id (db_leases db) \<Longrightarrow> distinct (map l_lease_id (reclaim_candidates sv e u db))"
  unfolding reclaim_candidates_def Let_def tkeys_def
  by (auto simp: take_map [symmetric] intro!: distinct_take)
    (metis distinct_map_filter distinct_map distinct_sort set_sort)

definition reclaim_entries :: "svc \<Rightarrow> db \<Rightarrow> vec \<Rightarrow> posting list" where
  "reclaim_entries sv db v =
    (case db_envelope db of None \<Rightarrow> [] | Some e \<Rightarrow> returns (reclaim_candidates sv e (sv_uncertainty_ns sv) db))"

lemma reclaim_body_posts:
  assumes "wf_struct db" "reclaim_body sv ident t eid db = Inr (db', v)"
  shows "posts db (reclaim_entries sv db v) db'"
proof -
  from assms(2) obtain en db0 u zeros db1 v1 where en: "db_envelope db = Some en"
    and c: "clock_is_safe sv en True db = Inr (db0, u)" and z: "zero (int (e_dimension_count en)) = Inr zeros"
    and f1: "foldM (reclaim_one sv zeros) (db0, zeros) (reclaim_candidates sv en u db0) = Inr (db1, v1)"
    and r: "v = v1 \<and> (reclaim_candidates sv en u db0 = [] \<and> db' = db1 \<or> reclaim_candidates sv en u db0 \<noteq> [] \<and>
      (\<exists>w free db2. db_warden_state db1 = Some w \<and> add (w_free_pool w) v1 = Inr free
        \<and> update_warden_state (\<lambda>w. w\<lparr>w_free_pool := free, w_revision := w_revision w + 1,
          w_updated_at_ns := sv_now_ns sv\<rparr>) db1 = Inr db2 \<and> same_books db2 db'))"
    unfolding reclaim_body_def singleton_envelope_def Let_def
    apply (clarsimp simp: rbind_Inr_iff of_option_Inr_iff guard_Inr_iff simp del: foldM.simps)
    apply (rule that, assumption+)
    by (auto simp: res_simps simp del: foldM.simps split: if_split_asm intro: audit_books [OF _ same_books_refl])
  have f: "foldM (reclaim_one sv zeros) (db0, zeros) (reclaim_candidates sv en u db0) = Inr (db1, v)"
    using f1 r by simp
  let ?ls = "reclaim_candidates sv en u db0"
  have wf: "wf_struct db0" by (rule clock_wf [OF c assms(1)])
  then have t: "tkeys l_lease_id (db_leases db0)" by (auto simp: wf_struct_def)
  have e: "?ls = reclaim_candidates sv en (sv_uncertainty_ns sv) db"
    by (simp add: reclaim_candidates_def reclaimable_def [abs_def] Let_def clock_leases [OF c] clock_receipts [OF c]
        clock_uncertainty [OF c])
  have "\<forall>l\<in>set ?ls. \<exists>r. tfind l_lease_id (l_lease_id l) (db_leases db0) = Some r \<and> l_residual r = l_residual l"
    using reclaim_candidates_rows tfind_unique [OF t] by blast
  from reclaim_loop_books [OF f wf amount_zero [OF z] this reclaim_candidates_distinct [OF t]]
  have b: "wf_struct db1" "books db1 = (books db0)\<lparr>bal := cleared ?ls (balance db0)\<rparr>" "\<And>i. amount v i = lease_total ?ls i"
    using amount_zero [OF z] by auto
  have "posts db0 (returns ?ls) db'"
  proof (cases "?ls = []")
    case True
    then show ?thesis using r b(1,2) by (simp add: returns_def cleared_def posts_refl_balance)
  next
    case False
    with r obtain w free db2 where w: "db_warden_state db1 = Some w" and a: "add (w_free_pool w) v = Inr free"
      and 2: "update_warden_state (\<lambda>w. w\<lparr>w_free_pool := free, w_revision := w_revision w + 1,
        w_updated_at_ns := sv_now_ns sv\<rparr>) db1 = Inr db2" and n: "same_books db2 db'"
      by auto
    have "amount free = (\<lambda>i. balance db0 Pool i + lease_total ?ls i)"
    proof
      fix i
      show "amount free i = balance db0 Pool i + lease_total ?ls i"
        using amount_add [OF a, of i] b(3) held_Some [OF w, of w_free_pool] books_balance [OF b(2)]
        by (metis balance.simps(1) cleared_pool)
    qed
    then have "books db2 = fold post (returns ?ls) (books db0)"
      using pool_books [OF b(1) 2] b(2) books_balance [OF b(2)] by (simp add: fold_returns)
    then show ?thesis using pool_books [OF b(1) 2] n by (auto simp: posts_def same_books_wf same_books_books)
  qed
  then show ?thesis
    using posts_before [OF clock_books [OF c same_books_refl]] by (simp add: reclaim_entries_def en e)
qed

lemma reclaim_posts:
  assumes "wf_struct db" "reclaim_expired sv ident t eid db = Inr (db', v)"
  shows "posts db (reclaim_entries sv db v) db'"
  using assms(2) unfolding reclaim_expired_def
  by (elim degraded_posts [OF _ assms(1)]) (auto dest: reclaim_body_posts [OF assms(1)])

end
