(* ===== verification/Ledger_Transfers.thy ===== *)
theory Ledger_Transfers
  imports Ledger_Ops
begin

text \<open>
  The transfer, revocation and administration operations as postings on the
  abstract ledger, and the interpretation of the ledger contracts on every
  operation of the service.
\<close>

section \<open>Operations that leave the books alone\<close>

lemma materialize_books [books_intros]:
  "materialize_revoked_branch lin br now db = Inr (db', x) \<Longrightarrow> same_books s db \<Longrightarrow> same_books s db'"
proof -
  assume "materialize_revoked_branch lin br now db = Inr (db', x)" "same_books s db"
  then obtain ids where "foldM (\<lambda>d lease_id. update_lease lease_id (\<lambda>r.
         if List.member live_statuses (l_status r)
         then r\<lparr>l_status := REVOKED, l_sequence := l_sequence r + 1, l_updated_at_ns := now\<rparr> else r) d)
       db ids = Inr db'" and r: "same_books s db"
    by (auto simp: materialize_revoked_branch_def Let_def res_simps)
  from this(1) show ?thesis
    by (rule same_books_foldM) (auto intro: r update_lease_books)
qed

lemma rematerialize_books [books_intros]:
  "rematerialize sv e lin br act d db = Inr db' \<Longrightarrow> same_books s db \<Longrightarrow> same_books s db'"
  apply (auto simp: rematerialize_def res_simps split: prod.splits if_split_asm)
  by ((erule books_intros | assumption)+)

lemma store_revocation_books [books_intros]:
  "store_revocation v now ex db = Inr db' \<Longrightarrow> same_books s db \<Longrightarrow> same_books s db'"
  apply (auto simp: store_revocation_def Let_def res_simps split: if_split_asm)
  by ((erule books_intros | assumption)+)

lemma enqueue_revocation_books [books_intros]:
  "enqueue_revocation sv v db = Inr db' \<Longrightarrow> same_books s db \<Longrightarrow> same_books s db'"
  apply (auto simp: enqueue_revocation_def res_simps split: option.splits)
  by (erule same_books_foldM) (auto intro: enqueue_books)

lemma revoke_branch_books: "revoke_branch sv rid ident lid rs ep db = Inr (db', v) \<Longrightarrow> same_books db db'"
  apply (clarsimp simp: revoke_branch_def res_simps elim!: degraded_books)
  apply (auto simp: revoke_branch_body_def revoke_branch_effect_def Let_def res_simps split: prod.splits option.split_asm)
  by ((erule books_intros | rule same_books_refl)+)

lemma ingest_books: "ingest_revocation sv ident v db = Inr (db', x) \<Longrightarrow> same_books db db'"
  apply (clarsimp simp: ingest_revocation_def res_simps elim!: degraded_books split: prod.splits)
  apply (auto simp: ingest_body_def Let_def res_simps split: prod.splits if_split_asm)
  by ((erule books_intros | rule same_books_refl)+)

lemma finalize_child_books [books_intros]:
  "finalize_child sv act e a r db = Inr db' \<Longrightarrow> same_books s db \<Longrightarrow> same_books s db'"
  apply (auto simp: finalize_child_def res_simps split: prod.splits option.split_asm if_split_asm)
  by ((erule books_intros | assumption)+)

lemma finalize_again_books [books_intros]:
  "finalize_again sv act e a pl r w db = Inr (db', x) \<Longrightarrow> same_books s db \<Longrightarrow> same_books s db'"
  apply (auto simp: finalize_again_def Let_def res_simps split: if_split_asm)
  by ((erule books_intros | assumption)+)

lemma finalize_prepared_books [books_intros]:
  "finalize_prepared sv act e a r w db = Inr (db', x) \<Longrightarrow> same_books s db \<Longrightarrow> same_books s db'"
  apply (clarsimp simp: finalize_prepared_def Let_def res_simps)
  by ((erule books_intros | assumption)+)

lemma finalize_books: "finalize_transfer sv ident a db = Inr (db', x) \<Longrightarrow> same_books db db'"
  apply (clarsimp simp: finalize_transfer_def res_simps elim!: degraded_books split: prod.splits)
  apply (auto simp: finalize_body_def res_simps split: prod.splits if_split_asm)
  by ((erule books_intros | rule same_books_refl)+)

lemma checkpoint_effect_books [books_intros]:
  "checkpoint_effect sv act e tw n db = Inr (db', x) \<Longrightarrow> same_books s db \<Longrightarrow> same_books s db'"
  apply (cases "sv_allowed_peer_wardens sv"; clarsimp simp: checkpoint_effect_def Let_def res_simps split: prod.splits)
  by ((assumption | rule neutral_books(7) | erule books_intros)+)

lemma create_checkpoint_books: "create_transfer_checkpoint sv ident tw n db = Inr (db', x) \<Longrightarrow> same_books db db'"
  apply (clarsimp simp: create_transfer_checkpoint_def res_simps elim!: degraded_books split: prod.splits)
  apply (clarsimp simp: create_checkpoint_body_def Let_def res_simps split: prod.splits)
  apply (split if_split_asm; clarsimp simp: res_simps)
  by ((rule neutral_books(7) | erule books_intros | rule same_books_refl)+)

lemma ingest_checkpoint_books: "ingest_transfer_checkpoint sv ident wire db = Inr (db', x) \<Longrightarrow> same_books db db'"
  apply (clarsimp simp: ingest_transfer_checkpoint_def res_simps elim!: degraded_books split: prod.splits)
  apply (auto simp: ingest_checkpoint_body_def Let_def res_simps split: prod.splits if_split_asm list.splits)
  by ((erule books_intros | rule same_books_refl | rule neutral_books(13))+)

lemma set_runtime_mode_books: "set_runtime_mode sv rid ident mode reason db = Inr (db', x) \<Longrightarrow> same_books db db'"
  apply (clarsimp simp: set_runtime_mode_def res_simps elim!: degraded_books)
  apply (auto simp: runtime_mode_body_def change_runtime_mode_def res_simps split: prod.splits option.split_asm if_split_asm)
  by ((erule books_intros | rule same_books_refl)+)

lemma register_store_books [books_intros]:
  "register_store sv act e pl pv pid md pd db = Inr (db', x) \<Longrightarrow> same_books s db \<Longrightarrow> same_books s db'"
  apply (auto simp: register_store_def Let_def res_simps split: option.split_asm)
  by ((erule books_intros | assumption)+)

lemma register_policy_books: "register_policy sv p ident db = Inr (db', x) \<Longrightarrow> same_books db db'"
  apply (clarsimp simp: register_policy_def Let_def res_simps elim!: degraded_books)
  apply (clarsimp simp: register_body_def res_simps split: prod.splits)
  by ((erule books_intros | rule same_books_refl)+)

section \<open>Rights that leave the warden\<close>

lemma emit_books [books_intros]: "emit_voucher sv en v c db = Inr (db', d) \<Longrightarrow> same_books s db \<Longrightarrow> same_books s db'"
  apply (auto simp: emit_voucher_def res_simps split: if_split_asm)
  by ((erule books_intros | assumption)+)

lemma voucher_init_fields:
  assumes "TransferVoucher_post_init v = Inr w"
  shows "v_amount w = v_amount v \<and> v_sequence w = v_sequence v \<and> v_target_warden w = v_target_warden v
    \<and> v_source_warden w = v_source_warden v \<and> v_kind w = v_kind v \<and> v_transfer_id w = v_transfer_id v"
proof -
  from assms obtain b k q where b: "voucher_base_checks v = Inr b"
    and k: "voucher_kind_checks (JStr (v_kind v)) (lease_request_json (v_lease_request v)) = Inr (k, q)"
    and w: "w = b\<lparr>v_kind := k, v_lease_request := q\<rparr>"
    by (auto simp: TransferVoucher_post_init_def rbind_Inr_iff)
  have "k = v_kind v" using k by (auto simp: voucher_kind_checks_def rbind_Inr_iff guard_Inr_iff split: if_split_asm)
  then show ?thesis using voucher_base_checks_id(1) [OF b] w by simp
qed

lemma make_voucher_fields:
  assumes "make_voucher sv e tid target p sq rights kind lr = Inr v"
  shows "v_amount v = rights \<and> v_sequence v = sq \<and> v_target_warden v = target \<and> v_source_warden v = sv_warden_id sv
    \<and> v_kind v = kind \<and> v_transfer_id v = tid"
  using assms by (auto simp: make_voucher_def rbind_Inr_iff dest!: voucher_init_fields)

text \<open>A state row read before statements that leave the books alone still has its vectors.\<close>

lemma same_books_held:
  assumes "same_books s db" "db_warden_state s = Some w"
  shows "balance db Pool = amount (w_free_pool w)" "balance db Consumed = amount (w_consumed w)"
    "balance db Out = amount (w_transferred_out w)"
  using same_books_books [OF assms(1)] held_Some [OF assms(2)] by (metis balance.simps books_sel(1))+

definition prepare_entries :: "string \<Rightarrow> db \<Rightarrow> TransferVoucher \<Rightarrow> posting list" where
  "prepare_entries rid db v = (if fresh_request db rid then [Move Pool Out (v_amount v)] else [])"

lemma prepare_effect_posts:
  assumes "wf_struct db" "prepare_effect sv rid q en p db = Inr (db', v)"
  shows "posts db [Move Pool Out (v_amount v)] db'"
proof -
  from assms(2) obtain w db1 st tid db2 dg free out db3 pe where w: "db_warden_state db = Some w"
    and m: "make_voucher sv en tid (tq_target q) p (os_next_sequence st) (tq_amount q) TRANSFER_KIND_POOL None = Inr v"
    and o: "open_out_stream (tq_target q) (e_config_epoch en) (sv_now_ns sv) db = Inr (db1, st)"
    and em: "emit_voucher sv pe v None db1 = Inr (db2, dg)"
    and f: "subtract (w_free_pool w) (tq_amount q) = Inr free"
    and x: "add (w_transferred_out w) (tq_amount q) = Inr out"
    and u: "update_warden_state (\<lambda>w. w\<lparr>w_free_pool := free, w_transferred_out := out,
      w_revision := w_revision w + 1, w_updated_at_ns := sv_now_ns sv\<rparr>) db2 = Inr db3"
    and n: "same_books db3 db'"
    unfolding prepare_effect_def
    by (clarsimp simp: rbind_Inr_iff guard_Inr_iff of_option_Inr_iff packed_iff)
      (rule that, assumption+, (erule books_intros | rule same_books_refl)+)
  have s: "same_books db db2" by (rule emit_books [OF em neutral_books(3) [OF o same_books_refl]])
  note h = same_books_held [OF s w]
  let ?B = "withdraw Pool (tq_amount q) (balance db2)"
  have "(balance db2)(Pool := amount free, Out := amount out) = deposit Out (tq_amount q) ?B"
    using set_withdraw [OF f, of "balance db2" Pool] set_deposit [OF x, of ?B Out] h by simp
  then have "posts db2 [Move Pool Out (tq_amount q)] db3"
    using pool_out_books [OF same_books_wf [OF s assms(1)] u] by (simp add: posts_move)
  then show ?thesis using posts_before [OF s] posts_after n make_voucher_fields [OF m] by metis
qed

lemma prepare_body_posts:
  assumes "wf_struct db" "prepare_body sv rid t eid q db = Inr (db', v)"
  shows "posts db (prepare_entries rid db v) db'"
proof -
  from assms(2) obtain en db0 u p prior where c: "clock_is_safe sv en True db = Inr (db0, u)"
    and p: "idempotent_response db0 (''prepare_transfer:'' @ tq_target q) rid (tq_fingerprint q) = Inr prior"
    and r: "(case prior of Some response \<Rightarrow> rbind (TransferVoucher_from_dict response) (\<lambda>v. Inr (db0, v))
      | None \<Rightarrow> rbind (require_runtime_active db0) (\<lambda>_. rbind (require_target_current sv (tq_target q)) (\<lambda>_.
        prepare_effect sv rid q en p db0))) = Inr (db', v)"
    by (auto simp: prepare_body_def rbind_Inr_iff)
  show ?thesis unfolding prepare_entries_def
  proof (rule retry_posts [OF c p assms(1)])
    assume "prior = None"
    then show "posts db0 [Move Pool Out (v_amount v)] db'"
      using r prepare_effect_posts [OF clock_wf [OF c assms(1)]] by (auto simp: rbind_Inr_iff)
  qed (use r in \<open>auto simp: res_simps\<close>)
qed

lemma prepare_posts:
  assumes "wf_struct db" "prepare_transfer sv rid ident t eid tw am pd db = Inr (db', v)"
  shows "posts db (prepare_entries rid db v) db'"
  using assms(2) unfolding prepare_transfer_def rbind_Inr_iff
  by (elim exE conjE degraded_posts [OF _ assms(1)])
    (auto simp: res_simps prepare_entries_def dest: degraded_not_fresh prepare_body_posts [OF assms(1)])

definition spawn_remote_entries :: "string \<Rightarrow> string \<Rightarrow> db \<Rightarrow> TransferVoucher \<Rightarrow> posting list" where
  "spawn_remote_entries rid pid db v = (if fresh_request db rid then [Move (Lease pid) Out (v_amount v)] else [])"

lemma remote_debit_posts:
  assumes "wf_struct s" "same_books s db" "load_lease s (mq_parent_id q) = Inr parent" "balance s Out = amount out"
    "spawn_remote_debit sv q parent out c v ex db = Inr db'"
  shows "posts s [Move (Lease (mq_parent_id q)) Out (mq_allocation q)] db'"
proof -
  from assms(5) obtain res db1 out' db2 where d: "subtract (l_residual parent) (mq_allocation q) = Inr res"
    and 1: "update_lease_residual (mq_parent_id q) (\<lambda>r. r\<lparr>l_residual := res,
      l_sequence := l_sequence r + 1, l_updated_at_ns := sv_now_ns sv\<rparr>) db = Inr db1"
    and a: "add out (mq_allocation q) = Inr out'"
    and 2: "update_warden_state (\<lambda>w. w\<lparr>w_transferred_out := out', w_revision := w_revision w + 1,
      w_updated_at_ns := sv_now_ns sv\<rparr>) db1 = Inr db2"
    and n: "same_books db2 db'"
    by (clarsimp simp: spawn_remote_debit_def res_simps) (rule that, assumption+, (erule books_intros | rule same_books_refl)+)
  have b1: "wf_struct db1 \<and> books db1 = (books s)\<lparr>bal := withdraw (Lease (mq_parent_id q)) (mq_allocation q) (balance s)\<rparr>"
    using assms(3) by (intro debit_after [OF assms(1,2) _ 1 _ d]) (auto simp: load_lease_def res_simps)
  have "(balance db1)(Out := amount out') = deposit Out (mq_allocation q) (balance db1)"
    using books_balance [OF conjunct2 [OF b1]] assms(4) by (intro set_deposit [OF a]) simp
  then have "posts s [Move (Lease (mq_parent_id q)) Out (mq_allocation q)] db2"
    using out_books [OF conjunct1 [OF b1] 2] b1 books_balance [OF conjunct2 [OF b1]] by (simp add: posts_move)
  then show ?thesis using n by (rule posts_after)
qed

lemma spawn_remote_guards_books [books_intros]:
  "spawn_remote_guards sv q e u parent db = Inr (db', x) \<Longrightarrow> same_books s db \<Longrightarrow> same_books s db'"
  apply (clarsimp simp: spawn_remote_guards_def Let_def res_simps)
  by ((erule books_intros | assumption)+)

lemma spawn_remote_effect_posts:
  assumes "wf_struct s" "same_books s db" "load_lease s (mq_parent_id q) = Inr parent"
    "spawn_remote_effect sv rid q en parent p ex db = Inr (db', v)"
  shows "posts s [Move (Lease (mq_parent_id q)) Out (v_amount v)] db'"
proof -
  from assms(4) obtain w db1 st cid tid db2 dg db3 where w: "db_warden_state db = Some w"
    and o: "open_out_stream (mq_target q) (e_config_epoch en) (sv_now_ns sv) db = Inr (db1, st)"
    and m: "make_voucher sv en tid (mq_target q) p (os_next_sequence st) (mq_allocation q) TRANSFER_KIND_LEASE
      (Some (remote_lease_request q parent cid ex)) = Inr v"
    and em: "emit_voucher sv True v (Some cid) db1 = Inr (db2, dg)"
    and d: "spawn_remote_debit sv q parent (w_transferred_out w) cid v ex db2 = Inr db3"
    and n: "same_books db3 db'"
    unfolding spawn_remote_effect_def
    by (clarsimp simp: rbind_Inr_iff of_option_Inr_iff)
      (rule that, assumption+, (erule books_intros | rule same_books_refl)+)
  have s: "same_books s db2" by (rule emit_books [OF em neutral_books(3) [OF o assms(2)]])
  have "balance s Out = amount (w_transferred_out w)"
    using same_books_books [OF assms(2)] held_Some [OF w] by (metis balance.simps(4) books_sel(1))
  from remote_debit_posts [OF assms(1) s assms(3) this d] show ?thesis
    using n make_voucher_fields [OF m] posts_after by metis
qed

lemma spawn_remote_body_posts:
  assumes "wf_struct db" "spawn_remote_body sv rid q db = Inr (db', v)"
  shows "posts db (spawn_remote_entries rid (mq_parent_id q) db v) db'"
proof -
  from assms(2) obtain en db0 u parent prior where c: "clock_is_safe sv en True db = Inr (db0, u)"
    and l: "load_lease db0 (mq_parent_id q) = Inr parent"
    and p: "idempotent_response db0 (''spawn_remote:'' @ mq_parent_id q) rid (mq_fingerprint q) = Inr prior"
    and r: "(case prior of Some response \<Rightarrow> rbind (TransferVoucher_from_dict response) (\<lambda>v. Inr (db0, v))
      | None \<Rightarrow> rbind (spawn_remote_guards sv q en u parent db0) (\<lambda>(db1, policy, ex).
        spawn_remote_effect sv rid q en parent policy ex db1)) = Inr (db', v)"
    by (auto simp: spawn_remote_body_def rbind_Inr_iff guard_Inr_iff)
  show ?thesis unfolding spawn_remote_entries_def
  proof (rule retry_posts [OF c p assms(1)])
    assume "prior = None"
    then obtain db1 pol ex where "spawn_remote_guards sv q en u parent db0 = Inr (db1, pol, ex)"
      "spawn_remote_effect sv rid q en parent pol ex db1 = Inr (db', v)"
      using r by (auto simp: rbind_Inr_iff)
    then show "posts db0 [Move (Lease (mq_parent_id q)) Out (v_amount v)] db'"
      using spawn_remote_effect_posts [OF clock_wf [OF c assms(1)] _ l] spawn_remote_guards_books by (metis same_books_refl)
  qed (use r in \<open>auto simp: res_simps\<close>)
qed

lemma spawn_remote_request_parent:
  "spawn_remote_request_of sv rid ident pid tw subj alloc caps ttl es db = Inr q \<Longrightarrow> mq_parent_id q = pid"
  by (auto simp: spawn_remote_request_of_def res_simps)

lemma spawn_remote_posts:
  assumes "wf_struct db" "spawn_remote sv rid ident pid tw subj alloc caps ttl es db = Inr (db', v)"
  shows "posts db (spawn_remote_entries rid pid db v) db'"
  using assms(2) unfolding spawn_remote_def rbind_Inr_iff
  by (elim exE conjE degraded_posts [OF _ assms(1)])
    (auto simp: rbind_Inr_iff spawn_remote_entries_def dest!: spawn_remote_request_parent
      dest: degraded_not_fresh spawn_remote_body_posts [OF assms(1)])

section \<open>Rights that enter the warden\<close>

lemma posts_credit:
  "wf_struct db' \<Longrightarrow> books db' = (books db)\<lparr>bal := deposit a v (balance db), inflow := (\<lambda>i. inflow (books db) i + amount v i)\<rparr> \<Longrightarrow>
    posts db [Credit a v] db'"
  by (simp add: posts_def)

lemma accept_duplicate_books [books_intros]:
  "accept_duplicate sv act e v dg x db = Inr (db', a) \<Longrightarrow> same_books s db \<Longrightarrow> same_books s db'"
  apply (auto simp: accept_duplicate_def Let_def res_simps split: prod.splits if_split_asm)
  by ((erule books_intros | assumption)+)

lemma accept_position_books [books_intros]:
  "accept_position sv e v db = Inr (db', x) \<Longrightarrow> same_books s db \<Longrightarrow> same_books s db'"
  apply (auto simp: accept_position_def Let_def res_simps split: prod.splits if_split_asm)
  by ((erule books_intros | assumption)+)

text \<open>The admission opens the account of an issued child; the credit then pays for it.\<close>

lemma admit_books:
  assumes "wf_struct db" "admit_remote_child sv e v p am u db = Inr (db', c, out, issued)"
  shows "wf_struct db' \<and> books db' = (books db)\<lparr>bal := (if issued then deposit (Lease c) am (balance db) else balance db)\<rparr>
    \<and> issued = (out = CHILD_OUTCOME_ISSUED)"
proof (cases issued)
  case True
  with assms(2) obtain g st lin par sub caps path ep ex where
    "new_grant sv (v_tenant_id v) (v_envelope_id v) (e_config_epoch e) c lin par sub am caps p path ep (sv_now_ns sv) ex = Inr g"
    "insert_lease g am st ACTIVE 0 (sv_now_ns sv) (Some (v_source_warden v)) db = Inr db'" "out = CHILD_OUTCOME_ISSUED"
    by (auto simp: admit_remote_child_def Let_def rbind_Inr_iff guard_Inr_iff split: option.split_asm if_split_asm)
  then show ?thesis
    using True insert_lease_books [OF assms(1)] new_grant_fields by auto
next
  case False
  with assms(2) have "db' = db" "out = CHILD_OUTCOME_FENCED"
    by (auto simp: admit_remote_child_def Let_def rbind_Inr_iff guard_Inr_iff split: option.split_asm if_split_asm)
  then show ?thesis
    using assms(1) False by (simp add: books_def CHILD_OUTCOME_FENCED_def CHILD_OUTCOME_ISSUED_def)
qed

lemma accept_credit_books:
  assumes "wf_struct db" "accept_credit sv issued am db = Inr db'"
  shows "wf_struct db' \<and> books db' = (books db)\<lparr>bal := (if issued then balance db else deposit Pool am (balance db)),
    inflow := (\<lambda>i. inflow (books db) i + amount am i)\<rparr>"
proof -
  from assms(2) obtain w pool inn where w: "db_warden_state db = Some w"
    and p: "(if issued then Inr (w_free_pool w) else add (w_free_pool w) am) = Inr pool"
    and i: "add (w_transferred_in w) am = Inr inn"
    and u: "update_warden_state (\<lambda>w. w\<lparr>w_free_pool := pool, w_transferred_in := inn,
      w_revision := w_revision w + 1, w_updated_at_ns := sv_now_ns sv\<rparr>) db = Inr db'"
    by (auto simp: accept_credit_def rbind_Inr_iff of_option_Inr_iff packed_iff)
  have b: "balance db Pool = amount (w_free_pool w)" using held_Some [OF w] by simp
  have "(balance db)(Pool := amount pool) = (if issued then balance db else deposit Pool am (balance db))"
    using p b set_deposit [of "w_free_pool w" am pool "balance db" Pool] by (auto split: if_splits)
  moreover have "(\<lambda>i. share db i + amount inn i) = (\<lambda>i. inflow (books db) i + amount am i)"
    using held_Some [OF w, of w_transferred_in] by (simp add: amount_add [OF i] fun_eq_iff)
  ultimately show ?thesis using pool_in_books [OF assms(1) u] by simp
qed

definition credited_account :: "TransferAck \<Rightarrow> account" where
  "credited_account a =
    (if a_child_outcome a = Some CHILD_OUTCOME_ISSUED then Lease (the (a_child_lease_id a)) else Pool)"

lemma ack_init_fields:
  assumes "TransferAck_post_init a = Inr b"
  shows "a_child_lease_id b = a_child_lease_id a \<and> a_child_outcome b = a_child_outcome a \<and> a_sequence b = a_sequence a
    \<and> a_source_warden b = a_source_warden a \<and> a_voucher_digest b = a_voucher_digest a \<and> a_transfer_id b = a_transfer_id a
    \<and> a_contiguous_watermark b = a_contiguous_watermark a"
proof -
  from assms obtain c out where b: "b = a\<lparr>a_child_lease_id := c, a_child_outcome := out\<rparr>"
    and k: "ack_child_checks (jopt (a_child_lease_id a)) (jopt (a_child_outcome a)) = Inr (c, out)"
    by (auto simp: TransferAck_post_init_def ack_base_checks_def rbind_Inr_iff)
  have "c = a_child_lease_id a \<and> out = a_child_outcome a"
    using k by (cases "a_child_lease_id a"; cases "a_child_outcome a")
      (auto simp: ack_child_checks_def rbind_Inr_iff guard_Inr_iff require_identifier_def require_identifier_max_def jopt_def split: if_split_asm)
  then show ?thesis using b by simp
qed

lemma make_ack_fields:
  assumes "make_ack sv v dg n c out = Inr a"
  shows "a_child_lease_id a = c \<and> a_child_outcome a = out \<and> a_sequence a = v_sequence v
    \<and> a_source_warden a = v_source_warden v \<and> a_voucher_digest a = dg \<and> a_transfer_id a = v_transfer_id v
    \<and> a_contiguous_watermark a = n"
  using assms by (auto simp: make_ack_def rbind_Inr_iff dest!: ack_init_fields)

lemma optional_audit_books:
  "(case c of None \<Rightarrow> Inr db | Some k \<Rightarrow> append_audit sv e (t k) et (f k) act (d k) db) = Inr db' \<Longrightarrow> same_books s db \<Longrightarrow> same_books s db'"
  by (auto split: option.split_asm intro: audit_books)

lemma accept_new_posts:
  assumes "wf_struct db" "accept_new sv act e v dg p am u db = Inr (db', a)"
  shows "posts db [Credit (credited_account a) am] db'"
proof -
  from assms(2) obtain db1 nc hi db2 c out issued db3 where
    1: "accept_position sv e v db = Inr (db1, nc, hi)"
    and 2: "(if is_lease v then rbind (admit_remote_child sv e v p am u db1) (\<lambda>(d, c, out, issued).
        Inr (d, Some c, Some out, issued)) else Inr (db1, None, None, False)) = Inr (db2, c, out, issued)"
    and k: "make_ack sv v dg nc c out = Inr a"
    and 3: "accept_credit sv issued am db2 = Inr db3"
    and n: "same_books db3 db'"
    unfolding accept_new_def
    by (clarsimp simp: rbind_Inr_iff) (rule that, assumption+, (erule books_intros optional_audit_books | rule same_books_refl)+)
  note s = accept_position_books [OF 1 same_books_refl]
  have wf1: "wf_struct db1" by (rule same_books_wf [OF s assms(1)])
  have b2: "wf_struct db2 \<and> books db2 = (books db1)\<lparr>bal := (if issued then deposit (credited_account a) am (balance db1) else balance db1)\<rparr>
    \<and> credited_account a = (if issued then credited_account a else Pool)"
  proof (cases "is_lease v")
    case True
    with 2 obtain c' out' where "admit_remote_child sv e v p am u db1 = Inr (db2, c', out', issued)" "c = Some c'" "out = Some out'"
      by (auto simp: rbind_Inr_iff)
    then show ?thesis using admit_books [OF wf1] make_ack_fields [OF k] by (auto simp: credited_account_def)
  next
    case False
    then show ?thesis using 2 wf1 make_ack_fields [OF k] by (auto simp: credited_account_def books_def)
  qed
  note b3 = accept_credit_books [OF conjunct1 [OF b2] 3]
  have "balance db2 = (if issued then deposit (credited_account a) am (balance db1) else balance db1)"
    using b2 books_balance by blast
  then have "posts db1 [Credit (credited_account a) am] db3"
    using b2 b3 by (cases issued) (auto intro!: posts_credit simp del: books_sel)
  then show ?thesis using posts_before [OF s] posts_after [OF _ n] by blast
qed

definition accept_entries :: "TransferVoucher \<Rightarrow> db \<Rightarrow> TransferAck \<Rightarrow> posting list" where
  "accept_entries v db a =
    (if tfind ia_key (v_source_warden v, v_sequence v) (db_in_acks db) = None
     then [Credit (credited_account a) (v_amount v)] else [])"

lemma clock_in_acks: "clock_is_safe sv e b db = Inr (db', u) \<Longrightarrow> db_in_acks db' = db_in_acks db"
  by (auto simp: clock_is_safe_def update_warden_state_def Let_def res_simps split: if_splits option.splits)

lemma accept_body_posts:
  assumes "wf_struct db" "accept_body sv it act v db = Inr (db', a)"
  shows "posts db (accept_entries v db a) db'"
proof -
  from assms(2) obtain en db0 u p dg where c: "clock_is_safe sv en True db = Inr (db0, u)"
    and r: "(case tfind ia_key (v_source_warden v, v_sequence v) (db_in_acks db0) of
      Some existing \<Rightarrow> accept_duplicate sv act en v dg existing db0
    | None \<Rightarrow> accept_new sv act en v dg p (v_amount v) u db0) = Inr (db', a)"
    by (auto simp: accept_body_def rbind_Inr_iff guard_Inr_iff vector_def split: if_split_asm)
  note s = clock_books [OF c same_books_refl]
  show ?thesis
  proof (cases "tfind ia_key (v_source_warden v, v_sequence v) (db_in_acks db0)")
    case None
    then show ?thesis
      using r accept_new_posts [OF clock_wf [OF c assms(1)]] posts_before [OF s] by (auto simp: accept_entries_def clock_in_acks [OF c])
  next
    case (Some x)
    then have "same_books db db'" using r accept_duplicate_books [OF _ s] by auto
    then show ?thesis using Some posts_same [OF _ assms(1)] by (simp add: accept_entries_def clock_in_acks [OF c])
  qed
qed

lemma accept_posts:
  assumes "wf_struct db" "accept_transfer sv ident v db = Inr (db', a)"
  shows "posts db (accept_entries v db a) db'"
  using assms(2) unfolding accept_transfer_def
  by (auto simp: rbind_Inr_iff guard_Inr_iff intro: degraded_posts [OF _ assms(1)] dest: accept_body_posts [OF assms(1)])

section \<open>Genesis\<close>

lemma create_envelope_ok:
  assumes "create_envelope sv ident c db = Inr (db', x)" "db_envelope db = None" "db_leases db = []"
  shows "ledger_ok db'"
proof -
  from assms obtain b share act where
    body: "create_envelope_body sv act c b share db = Inr (db', x)" and sh: "wf_vec (length b) share"
    by (auto simp: create_envelope_def envelope_config_checks_def write_or_degraded_def res_simps split: if_split_asm)
  from body assms(2) obtain e zeros db1 db2 where e: "insert_envelope e db = Inr db1"
    and ev: "e_dimension_count e = length b" "e_initial_local_share e = share"
    and z: "zero (int (length b)) = Inr zeros"
    and w: "insert_warden_state \<lparr>w_free_pool = share, w_lease_residual = zeros, w_consumed = zeros, w_transferred_in = zeros,
      w_transferred_out = zeros, w_clock_floor_ns = Some (sv_now_ns sv), w_revision = 0, w_updated_at_ns = sv_now_ns sv\<rparr> db1 = Inr db2"
    and n: "same_books db2 db'"
    by (clarsimp simp: create_envelope_body_def Let_def rbind_Inr_iff)
      (rule that, assumption, simp, simp, assumption+, erule audit_books, rule same_books_refl)
  have wf: "wf_struct db2" and l: "db_leases db2 = []"
    and h: "\<And>i. held w_free_pool db2 i = Ledger.share db2 i" "\<And>i. held w_consumed db2 i = 0"
      "\<And>i. held w_transferred_in db2 i = 0" "\<And>i. held w_transferred_out db2 i = 0" "\<And>i. Ledger.share db2 i = amount share i"
    using e w ev sh assms(3) amount_zero [OF z]
    by (auto simp: insert_envelope_def insert_warden_state_def wf_struct_def warden_state_checks_def env_dim_def tkeys_def
        lease_total_def held_def share_def split: if_split_asm)
  have "conserved (books db2)"
    using l h(1-4) by (subst conserved_books) (simp_all add: tkeys_def lease_total_def)
  then have "balanced db2"
    using wf h(3,5) amount_bounds(2) [OF sh] by (simp add: balanced_def)
  then show ?thesis
    using same_books_wf [OF n] same_books_books [OF n] by (simp add: ledger_ok_iff balanced_def del: books_sel)
qed

section \<open>The contracts on the operations of the service\<close>

interpretation issue_root_tx: internal_tx "issue_root sv rid ident t e subj alloc caps pd ttl lin" "issue_root_entries rid"
  for sv rid ident t e subj alloc caps pd ttl lin
  by unfold_locales (rule issue_root_posts, assumption+, simp add: issue_root_entries_def)

interpretation spawn_tx: internal_tx "spawn sv rid ident pid subj alloc caps ttl pd es" "spawn_entries rid pid"
  for sv rid ident pid subj alloc caps ttl pd es
  by unfold_locales (rule spawn_posts, assumption+, simp add: spawn_entries_def)

interpretation authorize_tx: internal_tx "authorize sv rid ident lid tr aud nonce ev est esq" "authorize_entries rid lid"
  for sv rid ident lid tr aud nonce ev est esq
  by unfold_locales (rule authorize_posts, assumption+, simp add: authorize_entries_def)

interpretation lifecycle_tx: internal_tx "lifecycle op sv rid ident lid es" "lifecycle_entries op rid lid"
  for op sv rid ident lid es
  by unfold_locales (rule lifecycle_posts, assumption+, simp add: lifecycle_entries_def split: option.splits)

interpretation reclaim_tx: internal_tx "reclaim_expired sv ident t e" "reclaim_entries sv"
  for sv ident t e
  by unfold_locales (rule reclaim_posts, assumption+, auto simp: reclaim_entries_def returns_def list_all_iff split: option.splits)

interpretation prepare_tx: internal_tx "prepare_transfer sv rid ident t e tw am pd" "prepare_entries rid"
  for sv rid ident t e tw am pd
  by unfold_locales (rule prepare_posts, assumption+, simp add: prepare_entries_def)

interpretation spawn_remote_tx: internal_tx "spawn_remote sv rid ident pid tw subj alloc caps ttl es" "spawn_remote_entries rid pid"
  for sv rid ident pid tw subj alloc caps ttl es
  by unfold_locales (rule spawn_remote_posts, assumption+, simp add: spawn_remote_entries_def)

interpretation accept_tx: ledger_tx "accept_transfer sv ident v" "accept_entries v"
  for sv ident v
  by unfold_locales (rule accept_posts)

lemma neutral_tx: "(\<And>db db' x. run db = Inr (db', x) \<Longrightarrow> same_books db db') \<Longrightarrow> internal_tx run (\<lambda>_ _. [])"
  by unfold_locales (auto intro: posts_same)

interpretation renew_tx: internal_tx "renew sv rid ident lid ttl es cas" "\<lambda>_ _. []"
  for sv rid ident lid ttl es cas
  by (rule neutral_tx) (rule renew_books)

interpretation revoke_tx: internal_tx "revoke_branch sv rid ident lid rs ep" "\<lambda>_ _. []"
  for sv rid ident lid rs ep
  by (rule neutral_tx) (rule revoke_branch_books)

interpretation ingest_tx: internal_tx "ingest_revocation sv ident v" "\<lambda>_ _. []"
  for sv ident v
  by (rule neutral_tx) (rule ingest_books)

interpretation finalize_tx: internal_tx "finalize_transfer sv ident a" "\<lambda>_ _. []"
  for sv ident a
  by (rule neutral_tx) (rule finalize_books)

interpretation create_checkpoint_tx: internal_tx "create_transfer_checkpoint sv ident tw n" "\<lambda>_ _. []"
  for sv ident tw n
  by (rule neutral_tx) (rule create_checkpoint_books)

interpretation ingest_checkpoint_tx: internal_tx "ingest_transfer_checkpoint sv ident wire" "\<lambda>_ _. []"
  for sv ident wire
  by (rule neutral_tx) (rule ingest_checkpoint_books)

interpretation runtime_mode_tx: internal_tx "set_runtime_mode sv rid ident mode reason" "\<lambda>_ _. []"
  for sv rid ident mode reason
  by (rule neutral_tx) (rule set_runtime_mode_books)

interpretation register_policy_tx: internal_tx "register_policy sv p ident" "\<lambda>_ _. []"
  for sv p ident
  by (rule neutral_tx) (rule register_policy_books)

end
