(* ===== verification/Invariants.thy ===== *)
theory Invariants
  imports Statements
begin

text \<open>
  What every execution of statements keeps, because of the constraints and the
  triggers of the schema: the audit log is a growing hash chain, the clock floor
  never falls, recorded responses and receipts stay, leases keep their signed
  identity and their sequence numbers only grow, and a revocation is never
  withdrawn.
\<close>

section \<open>Relations between databases\<close>

text \<open>A property of a statement that composes holds of an execution.\<close>

lemma runs_relation:
  assumes "runs ks sv db db'" "\<And>a b. stmt ks sv a b \<Longrightarrow> R a b" "\<And>a. R a a" "\<And>a b c. R a b \<Longrightarrow> R b c \<Longrightarrow> R a c"
  shows "R db db'"
  using assms(1) by (induction rule: runs_induct) (use assms(2-4) in blast)+

lemma runs_invariant:
  assumes "runs ks sv db db'" "\<And>a b. stmt ks sv a b \<Longrightarrow> P a \<Longrightarrow> P b" "P db"
  shows "P db'"
  using assms(1,3) by (induction rule: runs_induct) (use assms(2) in blast)+

lemmas prunes = prune_outgoing_transfer_prefix_def prune_inbound_ack_prefix_def Let_def

lemma stmt_envelope: "stmt ks sv db db' \<Longrightarrow> db_envelope db' = db_envelope db \<and> db_warden_id db' = db_warden_id db"
  by (induction rule: stmt.induct) (auto dest!: frames simp: prunes)

lemma stmt_audit: "stmt ks sv db db' \<Longrightarrow> db_audit db' = db_audit db \<or> (\<exists>a. insert_audit (sv_sha256 sv) a db = Inr db')"
  by (induction rule: stmt.induct) (auto dest: frames simp: prunes)

lemma stmt_idempotency:
  "stmt ks sv db db' \<Longrightarrow> db_idempotency db' = db_idempotency db \<or> (\<exists>i. insert_idempotency i db = Inr db')"
  by (induction rule: stmt.induct) (auto dest: frames simp: prunes)

lemma stmt_receipts:
  "stmt ks sv db db' \<Longrightarrow> db_receipts db' = db_receipts db \<or>
    (\<exists>x. insert_receipt x db = Inr db' \<and> \<not> nonce_used db (r_executor_audience (rr_receipt x)) (r_nonce (rr_receipt x)))"
  by (induction rule: stmt.induct) (auto dest: frames simp: prunes)

lemma stmt_revocations:
  "stmt ks sv db db' \<Longrightarrow> db_revocations db' = db_revocations db \<or>
    (\<exists>v. insert_revocation v db = Inr db') \<or> (\<exists>v. update_revocation v db = Inr db')"
  by (induction rule: stmt.induct) (auto dest: frames simp: prunes)

section \<open>The audit log\<close>

fun audit_chain :: "(byte list \<Rightarrow> byte list) \<Rightarrow> int \<Rightarrow> byte list \<Rightarrow> audit_row list \<Rightarrow> bool" where
  "audit_chain h n prev [] = True"
| "audit_chain h n prev (r # rs) =
    (au_sequence r = n \<and> au_previous_hash r = prev
     \<and> au_event_hash r = audit_event_hash h prev n (au_event_type r) (au_entity_type r) (au_entity_id r) (au_payload r)
         (au_created_at_ns r)
     \<and> audit_chain h (n + 1) (au_event_hash r) rs)"

definition audit_ok :: "(byte list \<Rightarrow> byte list) \<Rightarrow> db \<Rightarrow> bool" where
  "audit_ok h db = audit_chain h 0 zero_hash (db_audit db)"

lemma audit_chain_snoc:
  "audit_chain h n prev (rs @ [r]) \<longleftrightarrow> audit_chain h n prev rs
    \<and> audit_chain h (n + int (length rs)) (if rs = [] then prev else au_event_hash (last rs)) [r]"
  by (induction rs arbitrary: n prev) (auto simp: algebra_simps)

lemma audit_chain_last: "audit_chain h n prev rs \<Longrightarrow> rs \<noteq> [] \<Longrightarrow> au_sequence (last rs) = n + int (length rs) - 1"
  by (induction rs arbitrary: n prev) auto

lemma insert_audit_ok:
  assumes "audit_ok h db" "insert_audit h a db = Inr db'"
  shows "audit_ok h db'"
proof -
  have db': "db_audit db' = db_audit db @ [a]" using assms(2) by (auto dest!: audit_frame)
  show ?thesis
    using assms audit_chain_last [of h 0 zero_hash "db_audit db"] unfolding audit_ok_def db' audit_chain_snoc
    by (auto simp: insert_audit_def audit_head_def res_simps add.commute split: list.splits prod.splits)
qed

text \<open>The database grows: nothing recorded is changed or lost.\<close>

definition audit_grows :: "db \<Rightarrow> db \<Rightarrow> bool" where
  "audit_grows db db' = (\<exists>rows. db_audit db' = db_audit db @ rows)"

definition responses_grow :: "db \<Rightarrow> db \<Rightarrow> bool" where
  "responses_grow db db' = (\<exists>rows. db_idempotency db' = db_idempotency db @ rows)"

definition receipts_grow :: "db \<Rightarrow> db \<Rightarrow> bool" where
  "receipts_grow db db' = (\<exists>rows. db_receipts db' = db_receipts db @ rows)"

lemma runs_audit_ok: "runs ks sv db db' \<Longrightarrow> audit_ok (sv_sha256 sv) db \<Longrightarrow> audit_ok (sv_sha256 sv) db'"
  by (erule runs_invariant) (metis stmt_audit insert_audit_ok audit_ok_def)

lemma stmt_grow:
  assumes "stmt ks sv db db'"
  shows "audit_grows db db' \<and> responses_grow db db' \<and> receipts_grow db db'"
  using stmt_audit [OF assms] stmt_idempotency [OF assms] stmt_receipts [OF assms]
  by (auto simp: audit_grows_def responses_grow_def receipts_grow_def dest: frames)

lemma runs_grow: "runs ks sv db db' \<Longrightarrow> audit_grows db db' \<and> responses_grow db db' \<and> receipts_grow db db'"
  by (erule runs_relation) (auto dest: stmt_grow simp: audit_grows_def responses_grow_def receipts_grow_def)

lemma runs_envelope: "runs ks sv db db' \<Longrightarrow> db_envelope db' = db_envelope db \<and> db_warden_id db' = db_warden_id db"
  by (erule runs_relation) (auto dest: stmt_envelope)

section \<open>The clock floor\<close>

definition floor_of :: "db \<Rightarrow> int option" where
  "floor_of db = (case db_warden_state db of None \<Rightarrow> None | Some w \<Rightarrow> w_clock_floor_ns w)"

lemma state_floor: "update_warden_state f db = Inr db' \<Longrightarrow> clock_floor_monotonic (floor_of db) (floor_of db')"
  by (auto simp: update_warden_state_def floor_of_def Let_def res_simps clock_floor_monotonic_def split: option.split_asm option.split)

lemma total_floor:
  "leases_residual_total_insert r db = Inr db' \<Longrightarrow> clock_floor_monotonic (floor_of db) (floor_of db')"
  "leases_residual_total_update u v db = Inr db' \<Longrightarrow> clock_floor_monotonic (floor_of db) (floor_of db')"
  by (auto simp: leases_residual_total_insert_def leases_residual_total_update_def floor_of_def clock_floor_monotonic_def
      dest: state_floor split: option.split_asm option.split)

lemma clock_floor_refl [simp]: "clock_floor_monotonic a a"
  by (auto simp: clock_floor_monotonic_def split: option.splits)

lemma stmt_floor: "stmt ks sv db db' \<Longrightarrow> clock_floor_monotonic (floor_of db) (floor_of db')"
proof (induction rule: stmt.induct)
  case (state f db db')
  then show ?case by (simp add: state_floor)
next
  case (lease_insert r db db')
  then show ?case by (auto simp: insert_lease_row_def res_simps floor_of_def dest!: total_floor(1))
next
  case (lease_residual k f db db')
  then show ?case
    by (auto simp: update_lease_residual_def res_simps floor_of_def dest!: total_floor(2) split: option.split_asm)
qed (auto dest!: frames simp: prunes floor_of_def)

lemma runs_floor: "runs ks sv db db' \<Longrightarrow> clock_floor_monotonic (floor_of db) (floor_of db')"
  by (erule runs_relation) (auto dest: stmt_floor simp: clock_floor_monotonic_def split: option.split_asm option.split)

section \<open>Receipts\<close>

text \<open>
  No two receipts share an identifier, a position in their lease, or an audience
  and nonce; and for one lease and audience a later receipt does not expire
  earlier.
\<close>

definition receipt_order :: "Receipt \<Rightarrow> Receipt \<Rightarrow> bool" where
  "receipt_order x y =
    (r_lease_id x = r_lease_id y \<and> r_executor_audience x = r_executor_audience y
     \<and> r_resulting_sequence x < r_resulting_sequence y \<longrightarrow> r_expires_at_ns x \<le> r_expires_at_ns y)"

definition receipts_ok :: "db \<Rightarrow> bool" where
  "receipts_ok db =
    (let rs = map rr_receipt (db_receipts db) in
     distinct (map r_receipt_id rs)
     \<and> distinct (map (\<lambda>r. (r_lease_id r, r_resulting_sequence r)) rs)
     \<and> distinct (map (\<lambda>r. (r_executor_audience r, r_nonce r)) rs)
     \<and> list_all (\<lambda>x. list_all (receipt_order x) rs) rs)"

lemma insert_receipt_facts:
  assumes "insert_receipt x db = Inr db'"
  shows "tfind (\<lambda>y. r_receipt_id (rr_receipt y)) (r_receipt_id (rr_receipt x)) (db_receipts db) = None"
    "\<not> list_ex (\<lambda>y. r_lease_id (rr_receipt y) = r_lease_id (rr_receipt x)
      \<and> r_resulting_sequence (rr_receipt y) = r_resulting_sequence (rr_receipt x)) (db_receipts db)"
    "receipts_expiry_monotonic db (rr_receipt x)"
  using assms by (simp_all add: insert_receipt_def Let_def res_simps)

lemma receipts_ok_insert:
  assumes "receipts_ok db" "insert_receipt x db = Inr db'"
    "\<not> nonce_used db (r_executor_audience (rr_receipt x)) (r_nonce (rr_receipt x))"
  shows "receipts_ok db'"
proof -
  define n where "n = rr_receipt x"
  define rs where "rs = map rr_receipt (db_receipts db)"
  have db': "map rr_receipt (db_receipts db') = rs @ [n]"
    using receipt_frame [OF assms(2)] by (simp add: rs_def n_def)
  have old: "distinct (map r_receipt_id rs)" "distinct (map (\<lambda>r. (r_lease_id r, r_resulting_sequence r)) rs)"
    "distinct (map (\<lambda>r. (r_executor_audience r, r_nonce r)) rs)" "list_all (\<lambda>x. list_all (receipt_order x) rs) rs"
    using assms(1) by (simp_all add: receipts_ok_def Let_def rs_def)
  have i: "r_receipt_id n \<notin> r_receipt_id ` set rs"
    using insert_receipt_facts(1) [OF assms(2)] unfolding tfind_None_iff by (simp add: rs_def n_def image_image)
  have s: "(r_lease_id n, r_resulting_sequence n) \<notin> (\<lambda>r. (r_lease_id r, r_resulting_sequence r)) ` set rs"
    using insert_receipt_facts(2) [OF assms(2)] by (auto simp: rs_def n_def list_ex_iff)
  have u: "(r_executor_audience n, r_nonce n) \<notin> (\<lambda>r. (r_executor_audience r, r_nonce r)) ` set rs"
    using assms(3) by (auto simp: nonce_used_def rs_def n_def list_ex_iff)
  have m: "receipts_expiry_monotonic db n"
    using insert_receipt_facts(3) [OF assms(2)] by (simp add: n_def)
  have o: "list_all (\<lambda>y. receipt_order y n) rs" "list_all (receipt_order n) rs"
    using m by (auto simp: receipts_expiry_monotonic_def Let_def list_ex_iff list_all_iff receipt_order_def rs_def not_less)
  show ?thesis
    unfolding receipts_ok_def db' Let_def using old i s u o by (simp add: list_all_iff receipt_order_def [of n n])
qed

lemma stmt_receipts_ok: "stmt ks sv db db' \<Longrightarrow> receipts_ok db \<Longrightarrow> receipts_ok db'"
  using stmt_receipts [of ks sv db db'] receipts_ok_insert [of db _ db'] by (auto simp: receipts_ok_def)

lemma runs_receipts_ok: "runs ks sv db db' \<Longrightarrow> receipts_ok db \<Longrightarrow> receipts_ok db'"
  by (erule runs_invariant) (rule stmt_receipts_ok)

section \<open>Revocations\<close>

definition revocations_kept :: "db \<Rightarrow> db \<Rightarrow> bool" where
  "revocations_kept db db' =
    (\<forall>k v. tfind rev_key k (db_revocations db) = Some v \<longrightarrow>
      (\<exists>v'. tfind rev_key k (db_revocations db') = Some v' \<and> b_epoch (v_rev v) \<le> b_epoch (v_rev v')))"

lemma tfind_const_update:
  "tfind key k (tupdate key (key v) (\<lambda>_. v) t) = (if k = key v then map_option (\<lambda>_. v) (tfind key k t) else tfind key k t)"
  by (induction t) (auto simp: tfind_def tupdate_def)

lemma stmt_revocations_kept:
  assumes "stmt ks sv db db'"
  shows "revocations_kept db db'"
  using stmt_revocations [OF assms]
proof (elim disjE exE)
  fix v
  assume "insert_revocation v db = Inr db'"
  then show ?thesis by (auto simp: revocations_kept_def tfind_append dest!: revocation_frame(1))
next
  fix v
  assume u: "update_revocation v db = Inr db'"
  then have "b_epoch (v_rev old) \<le> b_epoch (v_rev v)" if "tfind rev_key (rev_key v) (db_revocations db) = Some old" for old
    using that by (auto simp: update_revocation_def res_simps)
  then show ?thesis
    using revocation_frame(2) [OF u] by (auto simp: revocations_kept_def tfind_const_update)
qed (auto simp: revocations_kept_def)

lemma revocations_kept_trans:
  assumes "revocations_kept a b" "revocations_kept b c"
  shows "revocations_kept a c"
  unfolding revocations_kept_def
proof (intro allI impI)
  fix k v
  assume "tfind rev_key k (db_revocations a) = Some v"
  with assms(1) obtain v' where "tfind rev_key k (db_revocations b) = Some v'" "b_epoch (v_rev v) \<le> b_epoch (v_rev v')"
    unfolding revocations_kept_def by blast
  with assms(2) show "\<exists>v'. tfind rev_key k (db_revocations c) = Some v' \<and> b_epoch (v_rev v) \<le> b_epoch (v_rev v')"
    unfolding revocations_kept_def by (meson order_trans)
qed

lemma runs_revocations_kept: "runs ks sv db db' \<Longrightarrow> revocations_kept db db'"
  by (erule runs_relation) (auto intro: stmt_revocations_kept revocations_kept_trans, simp add: revocations_kept_def)

lemma path_revoked_iff:
  "path_revoked db lin path \<longleftrightarrow> (\<exists>b\<in>set path. tfind rev_key (lin, b) (db_revocations db) \<noteq> None)"
  by (auto simp: path_revoked_def list_ex_iff tfind_None_iff rev_key_def image_iff)

lemma path_revoked_kept: "revocations_kept db db' \<Longrightarrow> path_revoked db lin path \<Longrightarrow> path_revoked db' lin path"
  unfolding path_revoked_iff revocations_kept_def by (metis not_None_eq option.distinct(1))

section \<open>Leases\<close>

text \<open>
  A lease stays, keeps its signed identity, and every change of its residual
  raises its sequence number.
\<close>

definition lease_step :: "lease_row \<Rightarrow> lease_row \<Rightarrow> bool" where
  "lease_step r r' =
    (lease_identity r' = lease_identity r \<and> l_sequence r \<le> l_sequence r'
     \<and> (l_residual r' \<noteq> l_residual r \<longrightarrow> l_sequence r < l_sequence r'))"

definition leases_kept :: "db \<Rightarrow> db \<Rightarrow> bool" where
  "leases_kept db db' =
    (\<forall>k r. tfind l_lease_id k (db_leases db) = Some r \<longrightarrow>
      (\<exists>r'. tfind l_lease_id k (db_leases db') = Some r' \<and> lease_step r r'))"

lemma lease_step_refl: "lease_step r r"
  by (simp add: lease_step_def)

lemma lease_step_trans: "lease_step a b \<Longrightarrow> lease_step b c \<Longrightarrow> lease_step a c"
  by (auto simp: lease_step_def)

lemma leases_kept_refl: "leases_kept db db"
  by (auto simp: leases_kept_def intro: lease_step_refl)

lemma leases_kept_trans: "leases_kept a b \<Longrightarrow> leases_kept b c \<Longrightarrow> leases_kept a c"
  unfolding leases_kept_def by (meson lease_step_trans)

lemma lease_identity_id: "lease_identity r' = lease_identity r \<Longrightarrow> l_lease_id r' = l_lease_id r"
  by (simp add: lease_identity_def)

lemma leases_kept_tupdate:
  fixes f :: "lease_row \<Rightarrow> lease_row"
  assumes "db_leases db' = tupdate l_lease_id k f (db_leases db)" "\<And>r. lease_identity (f r) = lease_identity r"
    "\<And>r. tfind l_lease_id k (db_leases db) = Some r \<Longrightarrow> lease_step r (f r)"
  shows "leases_kept db db'"
  unfolding leases_kept_def assms(1)
  by (auto simp: tfind_tupdate [of l_lease_id f, OF lease_identity_id [OF assms(2)]] intro: assms(3) lease_step_refl)

text \<open>The four ways in which a statement changes the leases table.\<close>

lemma stmt_leases:
  assumes "stmt ks sv db db'"
  obtains "db_leases db' = db_leases db"
  | (insert) r where "db_leases db' = db_leases db @ [r]" "tfind l_lease_id (l_lease_id r) (db_leases db) = None"
      "\<And>p. l_parent_id r = Some p \<Longrightarrow> \<exists>pr. tfind l_lease_id p (db_leases db) = Some pr \<and> attenuates r pr"
  | (update) k f where "db_leases db' = tupdate l_lease_id k f (db_leases db)" "\<And>r. lease_identity (f r) = lease_identity r"
      "\<And>r. tfind l_lease_id k (db_leases db) = Some r \<Longrightarrow> lease_step r (f r) \<and> same_term r (f r)"
  | (resign) k f where "db_leases db' = tupdate l_lease_id k f (db_leases db)" "\<And>r. lease_identity (f r) = lease_identity r"
      "\<And>r. lease_step r (f r)" "Resign \<in> ks"
  using assms
proof (cases rule: stmt.cases)
  case (lease_insert r)
  then show ?thesis using insert [of r] by (auto dest!: lease_row_frame)
next
  case (lease_update k f)
  then show ?thesis using update [of k f] by (auto simp: lease_step_def dest!: update_lease_frame)
next
  case (lease_resign k f)
  then show ?thesis using resign [of k f] by (auto simp: lease_step_def dest!: update_lease_frame)
next
  case (lease_residual k f)
  then show ?thesis using update [of k f] by (force simp: lease_step_def dest!: residual_frame)
qed (use that(1) in \<open>auto dest!: frames simp: prunes\<close>)

lemma stmt_leases_kept: "stmt ks sv db db' \<Longrightarrow> leases_kept db db'"
proof (erule stmt_leases)
  fix r
  assume "db_leases db' = db_leases db @ [r]"
  then show ?thesis by (auto simp: leases_kept_def tfind_append intro: lease_step_refl)
next
  assume "db_leases db' = db_leases db"
  then show ?thesis by (simp add: leases_kept_def lease_step_refl)
qed (auto intro: leases_kept_tupdate)

lemma runs_leases_kept: "runs ks sv db db' \<Longrightarrow> leases_kept db db'"
  by (erule runs_relation) (auto intro: stmt_leases_kept leases_kept_refl leases_kept_trans)

text \<open>The tree of leases: unique identifiers, and every child attenuates its parent.\<close>

definition nested :: "db \<Rightarrow> bool" where
  "nested db =
    (tkeys l_lease_id (db_leases db) \<and> (\<forall>c\<in>set (db_leases db). \<forall>p. l_parent_id c = Some p \<longrightarrow>
      (\<exists>pr. tfind l_lease_id p (db_leases db) = Some pr \<and> attenuates c pr)))"

lemma attenuates_cong:
  assumes "attenuates c p" "lease_identity c' = lease_identity c" "lease_identity p' = lease_identity p"
    "same_term c c'" "same_term p p'"
  shows "attenuates c' p'"
  using assms by (auto simp: attenuates_def lease_identity_def same_term_def)

lemma nested_update:
  assumes "nested db" "db_leases db' = tupdate l_lease_id k f (db_leases db)" "\<And>r. lease_identity (f r) = lease_identity r"
    "\<And>r. tfind l_lease_id k (db_leases db) = Some r \<Longrightarrow> same_term r (f r)"
  shows "nested db'"
proof -
  let ?g = "\<lambda>r. if l_lease_id r = k then f r else r"
  have t: "tkeys l_lease_id (db_leases db)" using assms(1) by (simp add: nested_def)
  have id: "l_lease_id (f r) = l_lease_id r" for r using assms(3) by (rule lease_identity_id)
  have st: "same_term r (?g r) \<and> lease_identity (?g r) = lease_identity r" if "r \<in> set (db_leases db)" for r
    using assms(3,4) tfind_unique [OF t that] by (auto simp: same_term_def)
  have "\<exists>pr. tfind l_lease_id p (db_leases db') = Some pr \<and> attenuates (?g c) pr"
    if c: "c \<in> set (db_leases db)" "l_parent_id c = Some p" for c p
  proof -
    obtain pr where pr: "tfind l_lease_id p (db_leases db) = Some pr" "attenuates c pr"
      using assms(1) c by (auto simp: nested_def)
    then have "pr \<in> set (db_leases db)" "l_lease_id pr = p" using tfind_Some_iff by metis+
    moreover have "tfind l_lease_id p (db_leases db') = Some (?g pr)"
      using pr(1) \<open>l_lease_id pr = p\<close> unfolding assms(2) by (auto simp: tfind_tupdate [of l_lease_id f, OF id])
    ultimately show ?thesis using attenuates_cong [OF pr(2)] st c(1) by blast
  qed
  moreover have "l_parent_id (?g c) = l_parent_id c" for c
    using assms(3) [of c] by (simp add: lease_identity_def)
  ultimately show ?thesis
    using table.keys_update [of l_lease_id _ f, OF t id] unfolding nested_def
    by (auto simp: assms(2) set_tupdate)
qed

lemma nested_insert:
  assumes "nested db" "db_leases db' = db_leases db @ [r]" "tfind l_lease_id (l_lease_id r) (db_leases db) = None"
    "\<And>p. l_parent_id r = Some p \<Longrightarrow> \<exists>pr. tfind l_lease_id p (db_leases db) = Some pr \<and> attenuates r pr"
  shows "nested db'"
  using assms by (fastforce simp: nested_def tkeys_def tfind_append tfind_None_iff)

lemma runs_nested: "runs ks sv db db' \<Longrightarrow> Resign \<notin> ks \<Longrightarrow> nested db \<Longrightarrow> nested db'"
proof (erule runs_invariant)
  assume k: "Resign \<notin> ks"
  show "nested b" if s: "stmt ks sv a b" and n: "nested a" for a b
    using s
  proof (cases rule: stmt_leases)
    case 1
    then show ?thesis using n by (simp add: nested_def)
  next
    case (insert r)
    show ?thesis by (rule nested_insert [OF n insert])
  next
    case (update k f)
    then show ?thesis using nested_update [OF n update(1,2)] by blast
  qed (use k in simp)
qed

lemma nested_parents: "nested db \<Longrightarrow> parents_exist db"
  by (auto simp: nested_def parents_exist_def list_all_iff split: option.splits)

end
