(* ===== verification/Lineage.thy ===== *)
theory Lineage
  imports Invariants
begin

text \<open>
  The tree of leases under renew, which signs leases again with a new expiry: the
  renewed lease stays within its parent's term and the cascade shortens every
  open descendant that would outlive it, so a child never outlives its parent.
\<close>

lemma tfind_map: "(\<And>r. key (g r) = key r) \<Longrightarrow> tfind key k (map g t) = map_option g (tfind key k t)"
  by (induction t) (auto simp: tfind_def)

section \<open>Leases signed again\<close>

definition reissued :: "string set \<Rightarrow> int \<Rightarrow> db \<Rightarrow> db \<Rightarrow> bool" where
  "reissued S t db db' =
    (\<exists>g. db_leases db' = map g (db_leases db) \<and> (\<forall>r. lease_identity (g r) = lease_identity r \<and> l_status (g r) = l_status r
      \<and> l_expires_at_ns (g r) = (if l_lease_id r \<in> S then t else l_expires_at_ns r)))"

lemma reissued_none: "db_leases db' = db_leases db \<Longrightarrow> reissued {} t db db'"
  unfolding reissued_def by (rule exI [of _ "\<lambda>r. r"]) simp

lemma reissued_trans:
  assumes "reissued S t a b" "reissued T t b c"
  shows "reissued (S \<union> T) t a c"
proof -
  from assms obtain g h where g: "db_leases b = map g (db_leases a)" "\<And>r. lease_identity (g r) = lease_identity r
      \<and> l_status (g r) = l_status r \<and> l_expires_at_ns (g r) = (if l_lease_id r \<in> S then t else l_expires_at_ns r)"
    and h: "db_leases c = map h (db_leases b)" "\<And>r. lease_identity (h r) = lease_identity r
      \<and> l_status (h r) = l_status r \<and> l_expires_at_ns (h r) = (if l_lease_id r \<in> T then t else l_expires_at_ns r)"
    unfolding reissued_def by blast
  show ?thesis unfolding reissued_def
    by (rule exI [of _ "h \<circ> g"]) (use g h lease_identity_id in \<open>auto simp: lease_identity_id [OF conjunct1 [OF g(2)]]\<close>)
qed

lemma reissued_update:
  fixes f :: "lease_row \<Rightarrow> lease_row"
  assumes "db_leases db' = tupdate l_lease_id k f (db_leases db)"
    "\<And>r. lease_identity (f r) = lease_identity r \<and> l_status (f r) = l_status r \<and> l_expires_at_ns (f r) = t"
  shows "reissued {k} t db db'"
  unfolding reissued_def assms(1) tupdate_def
  by (rule exI [of _ "\<lambda>r. if l_lease_id r = k then f r else r"]) (simp add: assms(2))

lemma resign_reissued: "resign_lease sv e t l db = Inr db' \<Longrightarrow> reissued {l_lease_id l} t db db'"
  unfolding resign_lease_def rbind_Inr_iff
  by (elim exE conjE, drule update_lease_frame) (erule ssubst, rule reissued_update, simp, simp add: lease_identity_def)

lemma cascade_reissued:
  "foldM (\<lambda>d i. rbind (load_lease d i) (\<lambda>l. resign_lease sv e t l d)) db ids = Inr db' \<Longrightarrow> reissued (set ids) t db db'"
proof (induction ids arbitrary: db)
  case Nil
  then show ?case by (simp add: reissued_none)
next
  case (Cons i ids)
  then obtain l d where "load_lease db i = Inr l" "resign_lease sv e t l db = Inr d"
    and f: "foldM (\<lambda>d i. rbind (load_lease d i) (\<lambda>l. resign_lease sv e t l d)) d ids = Inr db'"
    by (auto simp: res_simps)
  then have "reissued {i} t db d"
    using resign_reissued tfind_Some_iff by (fastforce simp: load_lease_def res_simps)
  then show ?case using reissued_trans Cons.IH [OF f] by fastforce
qed

section \<open>The guards of renew\<close>

lemma longer_descendants_iff:
  assumes "length (longer_descendants db lid t) \<le> MAX_ATOMIC_CASCADE_DESCENDANTS"
  shows "k \<in> set (longer_descendants db lid t) \<longleftrightarrow> (\<exists>c\<in>set (db_leases db). l_lease_id c = k
    \<and> open_status (l_status c) \<and> t < l_expires_at_ns c \<and> lid \<in> set (l_ancestor_path c))"
proof -
  let ?xs = "sort (map l_lease_id (filter (\<lambda>c. List.member [PROVISIONED, ACTIVE, QUIESCENT, REVOKED] (l_status c)
      \<and> l_expires_at_ns c > t \<and> List.member (l_ancestor_path c) lid) (db_leases db)))"
  have "longer_descendants db lid t = ?xs"
    using assms by (simp add: longer_descendants_def min_def split: if_split_asm)
  then show ?thesis by (auto simp: open_status_def)
qed

lemma renew_guards_facts:
  assumes "renew_guards sv q e l db = Inr (db', t, ids)"
  shows "db_leases db' = db_leases db" "ids = longer_descendants db' (nq_lease_id q) t"
    "length ids \<le> MAX_ATOMIC_CASCADE_DESCENDANTS" "t = sv_now_ns sv + nq_ttl q" "renew_parent_ok db' l t = Inr ()"
    "ids = [] \<or> nq_cascade q"
  using assms by (auto simp: renew_guards_def Let_def res_simps dest: clock_leases)

text \<open>The new terms of the renewed lease and its descendants keep the tree nested.\<close>

lemma reissued_nested:
  assumes n: "nested db" and r: "reissued (insert lid (set ids)) t db db'"
    and ids: "\<And>k. k \<in> set ids \<longleftrightarrow> (\<exists>c\<in>set (db_leases db). l_lease_id c = k
      \<and> open_status (l_status c) \<and> t < l_expires_at_ns c \<and> lid \<in> set (l_ancestor_path c))"
    and par: "\<And>l p pr. tfind l_lease_id lid (db_leases db) = Some l \<Longrightarrow> l_parent_id l = Some p \<Longrightarrow>
      tfind l_lease_id p (db_leases db) = Some pr \<Longrightarrow> t \<le> l_expires_at_ns pr"
  shows "nested db'"
proof -
  from r obtain g where db': "db_leases db' = map g (db_leases db)"
    and g: "\<And>r. lease_identity (g r) = lease_identity r" "\<And>r. l_status (g r) = l_status r"
      "\<And>r. l_expires_at_ns (g r) = (if l_lease_id r \<in> insert lid (set ids) then t else l_expires_at_ns r)"
    unfolding reissued_def by blast
  have t: "tkeys l_lease_id (db_leases db)" using n by (simp add: nested_def)
  have gid: "l_lease_id (g r) = l_lease_id r" for r using g(1) by (rule lease_identity_id)
  have find: "tfind l_lease_id k (db_leases db') = map_option g (tfind l_lease_id k (db_leases db))" for k
    unfolding db' using tfind_map [of l_lease_id g, OF gid] .
  have child: "attenuates (g c) (g pr)" if c: "c \<in> set (db_leases db)" "l_parent_id c = Some (l_lease_id pr)"
    and p: "tfind l_lease_id (l_lease_id pr) (db_leases db) = Some pr" and a: "attenuates c pr" for c pr
  proof -
    have path: "l_ancestor_path c = l_ancestor_path pr @ [l_lease_id pr]" using a by (simp add: attenuates_def)
    have "l_expires_at_ns (g c) \<le> l_expires_at_ns (g pr)" if o: "open_status (l_status c)"
    proof -
      have le: "l_expires_at_ns c \<le> l_expires_at_ns pr" using a o by (simp add: attenuates_def)
      consider "l_lease_id pr \<in> insert lid (set ids)" | "l_lease_id pr \<notin> insert lid (set ids)" by blast
      then show ?thesis
      proof cases
        case 1
        then have "lid \<in> set (l_ancestor_path c)"
        proof (cases "l_lease_id pr = lid")
          case False
          with 1 obtain x where "x \<in> set (db_leases db)" "l_lease_id x = l_lease_id pr" "lid \<in> set (l_ancestor_path x)"
            using ids by auto
          moreover from this p have "x = pr" using tfind_unique [OF t] by fastforce
          ultimately show ?thesis by (simp add: path)
        qed (simp add: path)
        then have "l_lease_id c \<in> set ids \<or> l_expires_at_ns c \<le> t" using ids c(1) o by force
        then show ?thesis using 1 by (auto simp: g(3))
      next
        case 2
        have "t \<le> l_expires_at_ns pr" if "l_lease_id c = lid"
          using par [OF _ c(2) p] tfind_unique [OF t c(1)] that by simp
        moreover have "t < l_expires_at_ns pr" if "l_lease_id c \<in> set ids"
        proof -
          from that ids obtain x where "x \<in> set (db_leases db)" "l_lease_id x = l_lease_id c" "t < l_expires_at_ns x" by auto
          then have "x = c" using tfind_unique [OF t] c(1) by (metis option.inject)
          then show ?thesis using le \<open>t < l_expires_at_ns x\<close> by simp
        qed
        ultimately show ?thesis using 2 le by (auto simp: g(3))
      qed
    qed
    then show ?thesis using a g(1) [of c] g(1) [of pr] g(2) by (auto simp: attenuates_def lease_identity_def)
  qed
  have gp: "l_parent_id (g c) = l_parent_id c" for c using g(1) [of c] by (simp add: lease_identity_def)
  have "\<exists>pr. tfind l_lease_id p (db_leases db') = Some pr \<and> attenuates (g c) pr"
    if c: "c \<in> set (db_leases db)" "l_parent_id c = Some p" for c p
  proof -
    from n c obtain pr where pr: "tfind l_lease_id p (db_leases db) = Some pr" "attenuates c pr" by (auto simp: nested_def)
    then have "l_lease_id pr = p" using tfind_Some_iff by metis
    then show ?thesis using child [OF c(1), of pr] c(2) pr by (simp add: find)
  qed
  moreover have "tkeys l_lease_id (db_leases db')" using t by (simp add: db' tkeys_def o_def gid)
  ultimately show ?thesis unfolding nested_def by (simp add: db' gp)
qed

section \<open>renew\<close>

lemma audit_leases: "append_audit sv e t et ei a d db = Inr db' \<Longrightarrow> db_leases db' = db_leases db"
  by (auto simp: append_audit_def Let_def res_simps dest!: frames split: prod.splits)

lemma remember_leases: "remember_response sc rid fp resp now code db = Inr db' \<Longrightarrow> db_leases db' = db_leases db"
  by (auto simp: remember_response_def res_simps dest!: frames)

lemma renew_effect_reissued:
  assumes "renew_effect sv rid q e l t ids db = Inr (db', s)" "l_lease_id l = nq_lease_id q"
  shows "reissued (insert (nq_lease_id q) (set ids)) t db db'"
proof -
  from assms(1) obtain db1 db2 where 1: "foldM (\<lambda>d i. rbind (load_lease d i) (\<lambda>l. resign_lease sv e t l d)) db ids = Inr db1"
    and 2: "resign_lease sv e t l db1 = Inr db2" and 3: "db_leases db' = db_leases db2"
    by (clarsimp simp: renew_effect_def res_simps) (rule that, assumption+, simp add: audit_leases remember_leases)
  have "reissued (set ids \<union> {nq_lease_id q}) t db db2"
    using reissued_trans [OF cascade_reissued [OF 1] resign_reissued [OF 2]] assms(2) by simp
  then show ?thesis using 3 by (simp add: reissued_def)
qed

text \<open>What a renewal that is not a retry has checked and done.\<close>

lemma renew_cases:
  assumes "renew sv rid ident lid ttl es cas db = Inr (db', x)"
  obtains (retry) "db_leases db' = db_leases db"
  | (fresh) l t ids where "tfind l_lease_id lid (db_leases db) = Some l" "t = sv_now_ns sv + ttl"
      "length (longer_descendants db lid t) \<le> MAX_ATOMIC_CASCADE_DESCENDANTS" "ids = longer_descendants db lid t"
      "\<And>p pr. l_parent_id l = Some p \<Longrightarrow> tfind l_lease_id p (db_leases db) = Some pr \<Longrightarrow> t \<le> l_expires_at_ns pr"
      "reissued (insert lid (set ids)) t db db'" "ids = [] \<or> cas"
proof -
  from assms obtain q m where q: "renew_request_of sv rid ident lid ttl es cas db = Inr q"
    and w: "write_or_degraded (sv_capacity sv) m (renew_body sv rid q) db = Inr (db', x)"
    unfolding renew_def rbind_Inr_iff by (elim exE conjE) (rule that)
  have qf: "nq_lease_id q = lid" "nq_ttl q = ttl" "nq_cascade q = cas"
    using q by (auto simp: renew_request_of_def positive_ttl_def res_simps)
  from w consider "db' = db" | "renew_body sv rid q db = Inr (db', x)"
    unfolding write_or_degraded_def by (auto simp: res_simps split: if_split_asm)
  then show thesis
  proof cases
    case 2
    then obtain e db0 u l prior where c: "clock_is_safe sv e True db = Inr (db0, u)" and l: "load_lease db0 lid = Inr l"
      and r: "(case prior of Some response \<Rightarrow> rbind (LeaseSnapshot_from_dict response) (\<lambda>s. Inr (db0, s))
        | None \<Rightarrow> rbind (renew_guards sv q e l db0) (\<lambda>(db1, t, ids). renew_effect sv rid q e l t ids db1)) = Inr (db', x)"
      unfolding renew_body_def Let_def by (auto simp: rbind_Inr_iff guard_Inr_iff qf)
    show thesis
    proof (cases prior)
      case None
      with r obtain db1 t ids where g: "renew_guards sv q e l db0 = Inr (db1, t, ids)"
        and ef: "renew_effect sv rid q e l t ids db1 = Inr (db', x)" by (auto simp: res_simps)
      note f = renew_guards_facts [OF g]
      have leases: "db_leases db1 = db_leases db" using f(1) clock_leases [OF c] by simp
      have f1: "tfind l_lease_id lid (db_leases db) = Some l"
        using l clock_leases [OF c] by (simp add: load_lease_def res_simps)
      have "longer_descendants db1 lid t = longer_descendants db lid t" by (simp add: longer_descendants_def leases)
      moreover have "reissued (insert lid (set ids)) t db db'"
        using renew_effect_reissued [OF ef] tfind_Some_iff [OF f1] leases by (simp add: qf reissued_def)
      moreover have "t \<le> l_expires_at_ns pr" if "l_parent_id l = Some p" "tfind l_lease_id p (db_leases db) = Some pr" for p pr
        using f(5) that by (simp add: renew_parent_ok_def load_lease_def leases res_simps)
      ultimately show thesis using fresh [OF f1] f by (simp add: qf)
    next
      case (Some y)
      then show thesis using r retry clock_leases [OF c] by (auto simp: res_simps)
    qed
  qed (use retry in simp)
qed

lemma renew_nested:
  assumes "renew sv rid ident lid ttl es cas db = Inr (db', x)" "nested db"
  shows "nested db'"
  using assms(1)
proof (cases rule: renew_cases)
  case retry
  then show ?thesis using assms(2) by (simp add: nested_def)
next
  case (fresh l t ids)
  show ?thesis
    by (rule reissued_nested [OF assms(2) fresh(6)])
      (use fresh(1,4,5) longer_descendants_iff [OF fresh(3)] in \<open>simp_all\<close>)
qed

end
