(* ===== verification/Service.thy ===== *)
theory Service
  imports Ledger_Transfers Lineage
begin

text \<open>
  The warden as a transition system: one constructor per state-changing method of
  WardenService, each run in a write transaction that commits or leaves the
  database as it was, and the databases that are reachable from a freshly
  migrated one by any sequence of calls, with any clock, key and identifier
  draws.
\<close>

section \<open>Operations\<close>

text \<open>The database that the migrations of schema.py leave, bound to a warden and its key.\<close>

definition empty_db :: "string \<Rightarrow> string \<Rightarrow> byte list \<Rightarrow> db" where
  "empty_db warden_id key_id key_sha256 =
    \<lparr>db_warden_id = warden_id, db_signing_key_id = key_id, db_signing_public_key_sha256 = key_sha256,
     db_envelope = None, db_warden_state = None,
     db_runtime = \<lparr>rs_mode = RM_ACTIVE, rs_generation = 0, rs_reason = ''schema initialization'',
       rs_changed_at_ns = 0, rs_changed_by = ''lets-migration''\<rparr>,
     db_policies = [], db_leases = [], db_idempotency = [], db_receipts = [], db_revocations = [],
     db_out_streams = [], db_out_transfers = [], db_in_streams = [], db_in_gaps = [], db_in_acks = [],
     db_audit = [], db_outbox = [], db_peer_delivery = [], db_peer_counters = [], db_remote_children = []\<rparr>"

datatype operation =
    CreateEnvelope IdentityContext envelope_config
  | RegisterPolicy wire_dict "IdentityContext option"
  | SetRuntimeMode string IdentityContext string string
  | IssueRoot string IdentityContext string string string vec "string list" string int "string option"
  | Spawn string IdentityContext string string vec "string list" int "string option" "int option"
  | Authorize string IdentityContext string string string string "wire_dict option" "string option" "int option"
  | Renew string IdentityContext string int "int option" bool
  | Lifecycle lifecycle_op string IdentityContext string "int option"
  | ReclaimExpired IdentityContext "string option" "string option"
  | RevokeBranch string IdentityContext string string "int option"
  | IngestRevocation IdentityContext BranchRevocation
  | PrepareTransfer string IdentityContext string string string vec "string option"
  | SpawnRemote string IdentityContext string string string vec "string list" int "int option"
  | AcceptTransfer IdentityContext TransferVoucher
  | FinalizeTransfer IdentityContext TransferAck
  | CreateCheckpoint IdentityContext string "int option"
  | IngestCheckpoint IdentityContext wire_dict

text \<open>The database that a transaction body leaves, without its answer.\<close>

definition db_of :: "(db \<times> 'a) res \<Rightarrow> (db \<times> unit) res" where
  "db_of m = rbind m (\<lambda>(db, _). Inr (db, ()))"

lemma db_of_Inr_iff [res_simps]: "db_of m = Inr (db, u) \<longleftrightarrow> (\<exists>x. m = Inr (db, x))"
  by (cases m) (auto simp: db_of_def)

fun run_op :: "svc \<Rightarrow> operation \<Rightarrow> unit tx" where
  "run_op sv (CreateEnvelope i c) db = db_of (create_envelope sv i c db)"
| "run_op sv (RegisterPolicy p i) db = db_of (register_policy sv p i db)"
| "run_op sv (SetRuntimeMode rid i m r) db = db_of (set_runtime_mode sv rid i m r db)"
| "run_op sv (IssueRoot rid i t e s a c pd ttl lin) db = db_of (issue_root sv rid i t e s a c pd ttl lin db)"
| "run_op sv (Spawn rid i p s a c ttl pd es) db = db_of (spawn sv rid i p s a c ttl pd es db)"
| "run_op sv (Authorize rid i l tr aud n ev st es) db = db_of (authorize sv rid i l tr aud n ev st es db)"
| "run_op sv (Renew rid i l ttl es cas) db = db_of (renew sv rid i l ttl es cas db)"
| "run_op sv (Lifecycle lop rid i l es) db = db_of (lifecycle lop sv rid i l es db)"
| "run_op sv (ReclaimExpired i t e) db = db_of (reclaim_expired sv i t e db)"
| "run_op sv (RevokeBranch rid i l r ep) db = db_of (revoke_branch sv rid i l r ep db)"
| "run_op sv (IngestRevocation i v) db = db_of (ingest_revocation sv i v db)"
| "run_op sv (PrepareTransfer rid i t e w a pd) db = db_of (prepare_transfer sv rid i t e w a pd db)"
| "run_op sv (SpawnRemote rid i p w s a c ttl es) db = db_of (spawn_remote sv rid i p w s a c ttl es db)"
| "run_op sv (AcceptTransfer i v) db = db_of (accept_transfer sv i v db)"
| "run_op sv (FinalizeTransfer i a) db = db_of (finalize_transfer sv i a db)"
| "run_op sv (CreateCheckpoint i w n) db = db_of (create_transfer_checkpoint sv i w n db)"
| "run_op sv (IngestCheckpoint i w) db = db_of (ingest_transfer_checkpoint sv i w db)"

text \<open>A call: the body in a write transaction, and what the caller sees of it.\<close>

definition perform :: "svc \<Rightarrow> operation \<Rightarrow> db \<Rightarrow> db" where
  "perform sv op db = fst (write_tx (run_op sv op) db)"

definition answer :: "svc \<Rightarrow> operation \<Rightarrow> db \<Rightarrow> unit res" where
  "answer sv op db = snd (write_tx (run_op sv op) db)"

lemma perform_cases:
  obtains (rollback) "perform sv op db = db" "\<not> ok (answer sv op db)"
  | (commit) "run_op sv op db = Inr (perform sv op db, ())" "commit (perform sv op db) = Inr ()" "ok (answer sv op db)"
  unfolding perform_def answer_def write_tx_def
  by (cases "run_op sv op db"; cases "commit (fst (projr (run_op sv op db)))") (auto split: prod.splits)

text \<open>
  The databases of a warden whose records are hashed with \<open>h\<close>.  Between two
  calls everything else of the service may change.
\<close>

inductive reachable :: "(byte list \<Rightarrow> byte list) \<Rightarrow> db \<Rightarrow> bool" for h where
  migrated: "reachable h (empty_db warden_id key_id key_sha256)"
| call: "reachable h db \<Longrightarrow> sv_sha256 sv = h \<Longrightarrow> reachable h (perform sv op db)"

section \<open>Operations as executions\<close>

lemma run_op_runs:
  assumes "run_op sv op db = Inr (db', u)" "\<And>i c. op \<noteq> CreateEnvelope i c"
  shows "runs UNIV sv db db'"
  using assms by (cases op) (auto simp: res_simps intro: issue_root_runs spawn_runs authorize_runs renew_runs lifecycle_runs
      reclaim_runs revoke_branch_runs ingest_runs prepare_runs spawn_remote_runs accept_runs finalize_runs
      create_checkpoint_runs ingest_checkpoint_runs set_runtime_mode_runs register_policy_runs)

lemma run_op_nested:
  assumes "run_op sv op db = Inr (db', u)" "\<And>i c. op \<noteq> CreateEnvelope i c" "nested db"
  shows "nested db'"
proof (cases "\<exists>rid i l ttl es cas. op = Renew rid i l ttl es cas")
  case True
  then show ?thesis using assms by (auto simp: res_simps intro: renew_nested)
next
  case False
  then have "runs {Inbound, Outbound} sv db db'"
    using assms by (cases op) (auto simp: res_simps intro: issue_root_runs spawn_runs authorize_runs lifecycle_runs
      reclaim_runs revoke_branch_runs ingest_runs prepare_runs spawn_remote_runs accept_runs finalize_runs
      create_checkpoint_runs ingest_checkpoint_runs set_runtime_mode_runs register_policy_runs)
  then show ?thesis by (rule runs_nested) (simp_all add: assms(3))
qed

section \<open>Operations on the ledger\<close>

lemma run_op_ledger_ok:
  assumes "run_op sv op db = Inr (db', u)" "\<And>i c. op \<noteq> CreateEnvelope i c" "\<And>i v. op \<noteq> AcceptTransfer i v" "ledger_ok db"
  shows "ledger_ok db'"
  using assms by (cases op) (auto simp: res_simps intro: issue_root_tx.run_ok spawn_tx.run_ok authorize_tx.run_ok
      renew_tx.run_ok lifecycle_tx.run_ok reclaim_tx.run_ok revoke_tx.run_ok ingest_tx.run_ok prepare_tx.run_ok
      spawn_remote_tx.run_ok finalize_tx.run_ok create_checkpoint_tx.run_ok ingest_checkpoint_tx.run_ok
      runtime_mode_tx.run_ok register_policy_tx.run_ok)

text \<open>
  accept_transfer is the one operation that adds rights, so the sums may leave
  the 64-bit range; then the commit check rejects the transaction.
\<close>

lemma conservation_fits:
  assumes "wf_struct db" "conserved (books db)" "assert_local_conservation False db = Inr ()"
  shows "ledger_ok db"
proof -
  obtain e w where e: "db_envelope db = Some e" and w: "db_warden_state db = Some w"
    and wf: "wf_vec (e_dimension_count e) (e_initial_local_share e)" "wf_vec (e_dimension_count e) (w_transferred_in w)"
    using assms(1) by (auto simp: wf_struct_def)
  from assms(3) obtain av where av: "add (e_initial_local_share e) (w_transferred_in w) = Inr av"
    unfolding assert_local_conservation_def e w Let_def by (auto simp: res_simps)
  have "share db i + held w_transferred_in db i \<le> MAX_RESOURCE" for i
    using amount_add [OF av, of i] amount_bounds(2) [OF wf_vec_add [OF av wf], of i]
    by (simp add: share_def held_def e w)
  then show ?thesis using assms(1,2) by (simp add: ledger_ok_iff balanced_def)
qed

lemma ledger_ok_books: "ledger_ok db \<Longrightarrow> wf_struct db \<and> conserved (books db)"
  by (simp add: ledger_ok_iff balanced_def del: books_sel)

lemma ledger_ok_nested_commit: "ledger_ok db \<Longrightarrow> nested db \<Longrightarrow> commit db = Inr ()"
  by (simp add: commit_def ledger_ok_commit nested_parents)

lemma commit_conservation: "commit db = Inr () \<Longrightarrow> assert_local_conservation False db = Inr ()"
  by (auto simp: commit_def split: sum.splits if_splits)

text \<open>Every operation but create_envelope needs the envelope.\<close>

lemma degraded_or_body: "write_or_degraded c m body db = Inr y \<Longrightarrow> (\<exists>x. m = Inr x) \<or> body db = Inr y"
  by (auto simp: write_or_degraded_def res_simps split: if_splits)

lemma run_op_envelope:
  assumes "run_op sv op db = Inr (db', u)" "\<And>i c. op \<noteq> CreateEnvelope i c"
  shows "db_envelope db \<noteq> None"
proof
  assume n: "db_envelope db = None"
  then have m: "store_metadata db = Inl StorageError" and s: "singleton_envelope db = Inl NotFoundError"
    and e: "\<And>t e. envelope_of db t e = Inl NotFoundError"
    by (simp_all add: store_metadata_def singleton_envelope_def envelope_of_def)
  have d: "\<And>t e sc rid fp. degraded_idempotent_response db t e sc rid fp = Inl CapacityError"
    by (simp add: degraded_idempotent_response_def e)
  show False
  proof (cases op)
    case (IngestCheckpoint i w)
    then show False using assms(1)
      by (auto simp: ingest_transfer_checkpoint_def ingest_checkpoint_body_def e res_simps split: list.splits dest!: degraded_or_body)
  qed (use assms n in \<open>auto simp: issue_root_def spawn_def authorize_def renew_def lifecycle_def reclaim_expired_def
      reclaim_body_def revoke_branch_def ingest_revocation_def ingest_body_def prepare_transfer_def prepare_body_def
      spawn_remote_def accept_transfer_def accept_body_def finalize_transfer_def finalize_body_def
      create_transfer_checkpoint_def create_checkpoint_body_def set_runtime_mode_def runtime_mode_body_def
      register_policy_def register_body_def issue_root_body_def m s e d rbind_Inr_iff guard_Inr_iff db_of_Inr_iff Let_def
      dest!: degraded_or_body split: prod.splits\<close>)
qed

section \<open>create_envelope\<close>

text \<open>It either finds its envelope and touches the clock, or writes the first rows.\<close>

lemma create_envelope_cases:
  assumes "create_envelope sv i c db = Inr (db', x)"
  obtains (again) e u where "db_envelope db = Some e" "clock_is_safe sv e True db = Inr (db', u)"
  | (fresh) e w e' t et ei a d db2 where "db_envelope db = None" "db_warden_state db = None"
      "db2 = db\<lparr>db_envelope := Some e, db_warden_state := Some w\<rparr>"
      "append_audit sv e' t et ei a d db2 = Inr db'"
proof -
  from assms obtain a b s where body: "create_envelope_body sv a c b s db = Inr (db', x)"
    by (auto simp: create_envelope_def write_or_degraded_def res_simps split: if_split_asm)
  show thesis
  proof (cases "db_envelope db")
    case None
    from body None obtain e w db1 db2 e' where "insert_envelope e db = Inr db1" "insert_warden_state w db1 = Inr db2"
      and a: "\<exists>t et ei d. append_audit sv e' t et ei a d db2 = Inr db'"
      by (clarsimp simp: create_envelope_body_def Let_def rbind_Inr_iff) (rule that, assumption, assumption, blast)
    then have "db2 = db\<lparr>db_envelope := Some e, db_warden_state := Some w\<rparr>" "db_warden_state db = None"
      by (auto simp: insert_envelope_def insert_warden_state_def split: if_split_asm option.split_asm)
    with a fresh None show thesis by blast
  next
    case (Some e)
    with body again show thesis by (auto simp: create_envelope_body_def Let_def res_simps)
  qed
qed

section \<open>What a call keeps\<close>

text \<open>A call runs statements, on the database or on the one with the envelope it creates.\<close>

lemma perform_steps:
  obtains (run) "runs UNIV sv db (perform sv op db)"
  | (genesis) e w where "db_envelope db = None" "db_warden_state db = None"
      "runs UNIV sv (db\<lparr>db_envelope := Some e, db_warden_state := Some w\<rparr>) (perform sv op db)"
proof (cases rule: perform_cases [of sv op db])
  case rollback
  then show thesis using run by (simp add: runs_refl)
next
  case c: commit
  show thesis
  proof (cases "\<exists>i c. op = CreateEnvelope i c")
    case True
    then obtain i cf x where "create_envelope sv i cf db = Inr (perform sv op db, x)" using c(1) by (auto simp: res_simps)
    then show thesis
    proof (cases rule: create_envelope_cases)
      case (again e u)
      then show thesis using run by (auto intro: clock_runs runs_refl)
    next
      case (fresh e w e' t et ei a d db2)
      then show thesis using genesis [where e = e and w = w] by (auto intro: audit_runs runs_refl)
    qed
  next
    case False
    then show thesis using run run_op_runs [OF c(1)] by blast
  qed
qed

lemma perform_relation:
  assumes "\<And>a b. runs UNIV sv a b \<Longrightarrow> R a b" "\<And>e w. db_warden_state db = None \<Longrightarrow> R db (db\<lparr>db_envelope := Some e, db_warden_state := Some w\<rparr>)"
    "\<And>a b c. R a b \<Longrightarrow> R b c \<Longrightarrow> R a c"
  shows "R db (perform sv op db)"
  by (cases rule: perform_steps [of sv db op]) (use assms in blast)+

lemma perform_grow:
  "audit_grows db (perform sv op db) \<and> responses_grow db (perform sv op db) \<and> receipts_grow db (perform sv op db)"
  by (rule perform_relation) (auto dest: runs_grow simp: audit_grows_def responses_grow_def receipts_grow_def)

lemma perform_leases_kept: "leases_kept db (perform sv op db)"
  by (rule perform_relation) (blast intro: runs_leases_kept leases_kept_trans, simp add: leases_kept_def lease_step_refl,
      blast intro: leases_kept_trans)

lemma perform_revocations_kept: "revocations_kept db (perform sv op db)"
  by (rule perform_relation) (blast intro: runs_revocations_kept, simp add: revocations_kept_def,
      blast intro: revocations_kept_trans)

lemma perform_floor: "clock_floor_monotonic (floor_of db) (floor_of (perform sv op db))"
  by (rule perform_relation) (auto dest: runs_floor simp: clock_floor_monotonic_def floor_of_def split: option.split_asm option.split)

lemma perform_nested: "nested db \<Longrightarrow> nested (perform sv op db)"
proof (cases rule: perform_cases [of sv op db])
  case c: commit
  assume n: "nested db"
  show ?thesis
  proof (cases "\<exists>i c. op = CreateEnvelope i c")
    case True
    then obtain i cf x where "create_envelope sv i cf db = Inr (perform sv op db, x)" using c(1) by (auto simp: res_simps)
    then show ?thesis
      using n by (cases rule: create_envelope_cases) (auto simp: nested_def dest!: clock_leases audit_leases)
  next
    case False
    then show ?thesis using run_op_nested [OF c(1)] n by blast
  qed
qed simp

text \<open>The invariant of the warden's database.\<close>

definition warden_ok :: "(byte list \<Rightarrow> byte list) \<Rightarrow> db \<Rightarrow> bool" where
  "warden_ok h db =
    ((case db_envelope db of None \<Rightarrow> db_leases db = [] | Some _ \<Rightarrow> ledger_ok db)
     \<and> nested db \<and> audit_ok h db \<and> receipts_ok db)"

lemma perform_envelope: "db_envelope db = Some e \<Longrightarrow> db_envelope (perform sv op db) = Some e"
  by (cases rule: perform_steps [of sv db op]) (auto dest: runs_envelope)

lemma perform_ledger_ok:
  assumes "ledger_ok db"
  shows "ledger_ok (perform sv op db)"
proof (cases rule: perform_cases [of sv op db])
  case c: commit
  consider (create) i cf where "op = CreateEnvelope i cf" | (accept) i v where "op = AcceptTransfer i v"
    | (other) "\<And>i cf. op \<noteq> CreateEnvelope i cf" "\<And>i v. op \<noteq> AcceptTransfer i v" by blast
  then show ?thesis
  proof cases
    case create
    then obtain x where "create_envelope sv i cf db = Inr (perform sv op db, x)" using c(1) by (auto simp: res_simps)
    then show ?thesis
    proof (cases rule: create_envelope_cases)
      case (again e u)
      then have "same_books db (perform sv op db)" by (auto intro: clock_books)
      then show ?thesis using assms same_books_wf same_books_books by (simp add: ledger_ok_iff balanced_def del: books_sel)
    next
      case (fresh e w e' t et ei a d db2)
      then show ?thesis using assms by (simp add: ledger_ok_def)
    qed
  next
    case accept
    then obtain x where "accept_transfer sv i v db = Inr (perform sv op db, x)" using c(1) by (auto simp: res_simps)
    then show ?thesis
      using accept_tx.run_conserves conservation_fits commit_conservation [OF c(2)] ledger_ok_books [OF assms] by blast
  next
    case other
    then show ?thesis using run_op_ledger_ok [OF c(1)] assms by blast
  qed
qed (simp add: assms)

lemma genesis_ledger_ok:
  assumes "db_envelope db = None" "db_leases db = []" "db_envelope (perform sv op db) \<noteq> None"
  shows "ledger_ok (perform sv op db)"
proof (cases rule: perform_cases [of sv op db])
  case c: commit
  then obtain i cf where "op = CreateEnvelope i cf" using run_op_envelope [OF c(1)] assms(1) by blast
  then obtain x where "create_envelope sv i cf db = Inr (perform sv op db, x)" using c(1) by (auto simp: res_simps)
  then show ?thesis using assms by (auto intro: create_envelope_ok)
qed (use assms in simp)

lemma genesis_leases:
  assumes "db_envelope db = None" "db_envelope (perform sv op db) = None"
  shows "perform sv op db = db"
proof (cases rule: perform_cases [of sv op db])
  case c: commit
  then obtain i cf where "op = CreateEnvelope i cf" using run_op_envelope [OF c(1)] assms(1) by blast
  then obtain x where "create_envelope sv i cf db = Inr (perform sv op db, x)" using c(1) by (auto simp: res_simps)
  then show ?thesis
  proof (cases rule: create_envelope_cases)
    case (fresh e w e' t et ei a d db2)
    then have "runs UNIV sv db2 (perform sv op db)" by (auto intro: audit_runs runs_refl)
    then show ?thesis using fresh(3) assms(2) by (auto dest: runs_envelope)
  qed (use assms in simp)
qed simp

lemma perform_warden_ok:
  assumes "warden_ok h db" "sv_sha256 sv = h"
  shows "warden_ok h (perform sv op db)"
proof -
  have "audit_ok h (perform sv op db)" "receipts_ok (perform sv op db)"
    using assms by (cases rule: perform_steps [of sv db op];
        force simp: warden_ok_def audit_ok_def receipts_ok_def dest: runs_audit_ok runs_receipts_ok)+
  moreover have "nested (perform sv op db)" using assms perform_nested by (auto simp: warden_ok_def)
  moreover have "case db_envelope (perform sv op db) of None \<Rightarrow> db_leases (perform sv op db) = [] | Some _ \<Rightarrow> ledger_ok (perform sv op db)"
    using assms(1) perform_ledger_ok genesis_ledger_ok [of db sv op] genesis_leases [of db sv op] perform_envelope [of db _ sv op]
    by (auto simp: warden_ok_def split: option.splits)
  ultimately show ?thesis by (simp add: warden_ok_def)
qed

lemma reachable_warden_ok: "reachable h db \<Longrightarrow> warden_ok h db"
proof (induction rule: reachable.induct)
  case (migrated w k p)
  show ?case by (simp add: warden_ok_def empty_db_def nested_def tkeys_def audit_ok_def receipts_ok_def)
qed (simp add: perform_warden_ok)

end
