(* ===== verification/Authority.thy ===== *)
theory Authority
  imports Service
begin

text \<open>
  What a receipt of authorize says about the lease it was drawn on, what happens
  when a request is sent again, and what stops authority: revocation of a
  branch, draining, a clock that went back, and a store without capacity.
\<close>

section \<open>The clock touches its floor only\<close>

lemma clock_frame: "clock_is_safe sv e b db = Inr (db', u) \<Longrightarrow> \<exists>w. db' = db\<lparr>db_warden_state := w\<rparr>"
  by (auto simp: clock_is_safe_def Let_def res_simps dest!: state_frame split: if_splits intro: exI [of _ "db_warden_state db"])

lemma clock_reads:
  assumes "clock_is_safe sv e b db = Inr (db', u)"
  shows "db_leases db' = db_leases db" "db_receipts db' = db_receipts db" "db_revocations db' = db_revocations db"
    "db_policies db' = db_policies db" "db_idempotency db' = db_idempotency db" "db_runtime db' = db_runtime db"
    "db_envelope db' = db_envelope db" "lease_revoked db' = lease_revoked db" "policy_of db' = policy_of db"
    "nonce_used db' = nonce_used db" "fresh_request db' = fresh_request db"
  using clock_frame [OF assms] by (auto simp: fun_eq_iff lease_revoked_def path_revoked_def policy_of_def nonce_used_def fresh_request_def)

lemma actionable_reads:
  assumes "require_actionable sv e l db = Inr db'"
  shows "\<exists>u. clock_is_safe sv e True db = Inr (db', u)" "l_status l = ACTIVE"
    "sv_now_ns sv + sv_uncertainty_ns sv < l_expires_at_ns l" "\<not> lease_revoked db l"
proof -
  from assms obtain u where c: "clock_is_safe sv e True db = Inr (db', u)"
    by (auto simp: require_actionable_def res_simps)
  then show "\<exists>u. clock_is_safe sv e True db = Inr (db', u)" by blast
  show "l_status l = ACTIVE" "sv_now_ns sv + sv_uncertainty_ns sv < l_expires_at_ns l" "\<not> lease_revoked db l"
    using actionable_facts [OF assms] clock_reads(8) [OF c] by simp_all
qed

lemma runtime_active_mode: "require_runtime_active db = Inr u \<Longrightarrow> rs_mode (db_runtime db) = RM_ACTIVE"
  by (auto simp: require_runtime_active_def runtime_status_row_def RuntimeStatus_post_init_def res_simps)

section \<open>authorize\<close>

text \<open>A request that has no recorded response passes the guards and has the effect.\<close>

lemma authorize_cases:
  assumes "authorize sv rid ident lid tr aud nonce ev est esq db = Inr (db', r)" "fresh_request db rid"
  obtains q e db0 u lease db1 z where
    "authorize_request_of sv rid ident lid tr aud nonce ev est esq db = Inr q" "db_envelope db = Some e"
    "clock_is_safe sv e True db = Inr (db0, u)" "tfind l_lease_id lid (db_leases db) = Some lease"
    "aq_actor q = l_subject_id lease \<or> has_scope (aq_scopes q) SUBJECT_LIFECYCLE_SCOPES"
    "authorize_guards sv q e lease db0 = Inr (db1, z)" "authorize_effect sv rid q e lease z db1 = Inr (db', r)"
proof -
  from assms(1) obtain q m where q: "authorize_request_of sv rid ident lid tr aud nonce ev est esq db = Inr q"
    and w: "write_or_degraded (sv_capacity sv) m (authorize_body sv rid q) db = Inr (db', r)"
    and m: "m = Inr r \<Longrightarrow> \<not> fresh_request db rid"
    unfolding authorize_def rbind_Inr_iff
    by (elim exE conjE) (rule that, assumption, assumption, auto simp: rbind_Inr_iff dest: degraded_not_fresh)
  then have "authorize_body sv rid q db = Inr (db', r)"
    using assms(2) by (auto simp: write_or_degraded_def rbind_Inr_iff split: if_split_asm)
  then obtain e db0 u lease prior where e: "db_envelope db = Some e" and c: "clock_is_safe sv e True db = Inr (db0, u)"
    and l: "tfind l_lease_id (aq_lease_id q) (db_leases db0) = Some lease"
    and a: "aq_actor q = l_subject_id lease \<or> has_scope (aq_scopes q) SUBJECT_LIFECYCLE_SCOPES"
    and p: "idempotent_response db0 (''authorize:'' @ aq_lease_id q) rid (aq_fingerprint q) = Inr prior"
    and b: "(case prior of Some response \<Rightarrow> rbind (Receipt_from_dict response) (\<lambda>r. Inr (db0, r))
      | None \<Rightarrow> rbind (authorize_guards sv q e lease db0) (\<lambda>(db1, z). authorize_effect sv rid q e lease z db1)) = Inr (db', r)"
    by (auto simp: authorize_body_def singleton_envelope_def load_lease_def rbind_Inr_iff guard_Inr_iff of_option_Inr_iff)
  have "prior = None" using p assms(2) clock_reads(11) [OF c] by (cases prior) (auto dest: idempotent_Some)
  then show thesis
    using that [OF q e c _ a] b l authorize_request_lease [OF q] clock_reads(1) [OF c] by (auto simp: rbind_Inr_iff)
qed

lemma authorize_request_fields:
  "authorize_request_of sv rid ident lid tr aud nonce ev est esq db = Inr q \<Longrightarrow>
    aq_lease_id q = lid \<and> aq_transition q = tr \<and> aq_audience q = aud \<and> aq_nonce q = nonce \<and> aq_evidence q = ev
    \<and> aq_expected_state q = est \<and> aq_expected_sequence q = esq"
  by (auto simp: authorize_request_of_def rbind_Inr_iff guard_Inr_iff)

text \<open>The guards: the lease, its policy's rule for the transition, the evidence and the cost.\<close>

definition rule_grants :: "svc \<Rightarrow> db \<Rightarrow> envelope_row \<Rightarrow> lease_row \<Rightarrow> string \<Rightarrow> string \<Rightarrow> wire_dict option
    \<Rightarrow> string \<Rightarrow> vec \<Rightarrow> bool" where
  "rule_grants sv db e lease transition audience evidence target cost =
    (\<exists>policy rule capability. policy_of db (l_policy_digest lease) = Inr policy
      \<and> p_machine_digest policy = l_machine_digest lease
      \<and> transition_of (p_payload policy) (l_state lease) transition (e_dimension_count e) = Inr (rule, cost)
      \<and> jget_null ''capability'' rule = JStr capability \<and> capability \<in> set (l_capabilities lease)
      \<and> audience_allowed rule audience = Inr ()
      \<and> sv_evidence sv (jget_null ''evidence'' rule) evidence (sv_now_ns sv) (l_subject_id lease) audience = Inr True
      \<and> as_str (jget_alt ''target'' ''target_state'' rule) = Inr target)"

lemma authorize_guards_cases:
  assumes "authorize_guards sv q e lease db = Inr (db', z)"
  obtains db1 u where "require_actionable sv e lease db = Inr db1" "clock_is_safe sv e True db1 = Inr (db', u)"
    "require_runtime_active db = Inr ()"
    "\<not> nonce_used db1 (aq_audience q) (aq_nonce q)"
    "rule_grants sv db1 e lease (aq_transition q) (aq_audience q) (aq_evidence q) (az_target_state z) (az_cost z)"
    "less_than_or_equal (az_cost z) (l_residual lease) = Inr True"
    "az_expires_at z = min (sv_now_ns sv + e_receipt_ttl_ns e) (l_expires_at_ns lease)"
    "sv_now_ns sv + sv_uncertainty_ns sv < az_expires_at z"
proof -
  from assms obtain db1 u policy rule cost cap target where a: "require_actionable sv e lease db = Inr db1"
    and c: "clock_is_safe sv e True db1 = Inr (db', u)" and r: "require_runtime_active db = Inr ()"
    and n: "\<not> list_ex (\<lambda>x. r_executor_audience (rr_receipt x) = aq_audience q \<and> r_nonce (rr_receipt x) = aq_nonce q) (db_receipts db1)"
    and g: "policy_of db1 (l_policy_digest lease) = Inr policy" "p_machine_digest policy = l_machine_digest lease"
      "transition_of (p_payload policy) (l_state lease) (aq_transition q) (e_dimension_count e) = Inr (rule, cost)"
      "jget_null ''capability'' rule = JStr cap" "List.member (l_capabilities lease) cap"
      "audience_allowed rule (aq_audience q) = Inr ()"
      "sv_evidence sv (jget_null ''evidence'' rule) (aq_evidence q) (sv_now_ns sv) (l_subject_id lease) (aq_audience q) = Inr True"
      "as_str (jget_alt ''target'' ''target_state'' rule) = Inr target"
    and k: "less_than_or_equal cost (l_residual lease) = Inr True"
    and x: "sv_now_ns sv + u < min (sv_now_ns sv + e_receipt_ttl_ns e) (l_expires_at_ns lease)"
    and z: "z = \<lparr>az_policy = policy, az_cost = cost, az_target_state = target,
      az_expires_at = min (sv_now_ns sv + e_receipt_ttl_ns e) (l_expires_at_ns lease)\<rparr>"
    unfolding authorize_guards_def Let_def
    by (auto simp: rbind_Inr_iff guard_Inr_iff json_case_Inr_iff map_err_Inr_iff of_option_Inr_iff not_le)
  show thesis
  proof (rule that [OF a c r])
    show "rule_grants sv db1 e lease (aq_transition q) (aq_audience q) (aq_evidence q) (az_target_state z) (az_cost z)"
      using g by (auto simp: rule_grants_def z)
  qed (use n k x clock_uncertainty [OF c] in \<open>simp_all add: nonce_used_def z\<close>)
qed

lemma append_audit_frame: "append_audit sv e t et ei a d db = Inr db' \<Longrightarrow> \<exists>au ob. db' = db\<lparr>db_audit := au, db_outbox := ob\<rparr>"
  by (auto simp: append_audit_def Let_def res_simps dest!: frames split: prod.splits)

lemma rule_grants_cong: "policy_of db' = policy_of db \<Longrightarrow> rule_grants sv db' = rule_grants sv db"
  by (simp add: rule_grants_def fun_eq_iff)

text \<open>The effect: one lease pays and moves, one receipt and one response are recorded.\<close>

lemma authorize_effect_writes:
  assumes "authorize_effect sv rid q e lease z db = Inr (db', r)"
  obtains res sig where "subtract (l_residual lease) (az_cost z) = Inr res" "authorize_receipt sv rid q e lease z = Inr r"
    "db_leases db' = tupdate l_lease_id (aq_lease_id q) (\<lambda>l. l\<lparr>l_residual := res, l_state := az_target_state z,
      l_sequence := l_sequence lease + 1, l_updated_at_ns := sv_now_ns sv\<rparr>) (db_leases db)"
    "db_receipts db' = db_receipts db @ [\<lparr>rr_receipt = r, rr_signature = sig\<rparr>]"
    "db_idempotency db' = db_idempotency db @ [\<lparr>i_scope = ''authorize:'' @ aq_lease_id q, i_request_id = rid,
      i_fingerprint = aq_fingerprint q, i_response = Receipt_to_dict r, i_status_code = 200, i_created_at_ns = sv_now_ns sv\<rparr>]"
proof -
  from assms obtain res con db1 db2 db3 db4 sg where s: "subtract (l_residual lease) (az_cost z) = Inr res"
    and rc: "authorize_receipt sv rid q e lease z = Inr r"
    and 1: "update_lease_residual (aq_lease_id q) (\<lambda>l. l\<lparr>l_residual := res, l_state := az_target_state z,
      l_sequence := l_sequence lease + 1, l_updated_at_ns := sv_now_ns sv\<rparr>) db = Inr db1"
    and 2: "update_warden_state (\<lambda>w. w\<lparr>w_consumed := con, w_revision := w_revision w + 1,
      w_updated_at_ns := sv_now_ns sv\<rparr>) db1 = Inr db2"
    and 3: "insert_receipt \<lparr>rr_receipt = r, rr_signature = sg\<rparr> db2 = Inr db3"
    and 4: "\<exists>t et ei a d. append_audit sv e t et ei a d db3 = Inr db4"
    and 5: "insert_idempotency \<lparr>i_scope = ''authorize:'' @ aq_lease_id q, i_request_id = rid,
      i_fingerprint = aq_fingerprint q, i_response = Receipt_to_dict r, i_status_code = 200, i_created_at_ns = sv_now_ns sv\<rparr> db4 = Inr db'"
    unfolding authorize_effect_def remember_response_def
    by (clarsimp simp: rbind_Inr_iff packed_iff of_option_Inr_iff simp del: append_Cons) (rule that, assumption+, blast, assumption)
  have a: "db_leases db4 = db_leases db3 \<and> db_receipts db4 = db_receipts db3 \<and> db_idempotency db4 = db_idempotency db3"
    using 4 append_audit_frame by fastforce
  show thesis
    by (rule that [OF s rc, of sg])
      (use residual_leases [OF 1] residual_frame [OF 1] state_frame [OF 2] receipt_frame [OF 3] a idempotency_frame [OF 5] in auto)
qed

definition authorized_lease :: "svc \<Rightarrow> Receipt \<Rightarrow> vec \<Rightarrow> lease_row \<Rightarrow> lease_row" where
  "authorized_lease sv r residual lease =
    lease\<lparr>l_residual := residual, l_state := r_target_state r, l_sequence := l_sequence lease + 1,
      l_updated_at_ns := sv_now_ns sv\<rparr>"

lemma authorize_spec:
  assumes "authorize sv rid ident lid tr aud nonce ev est esq db = Inr (db', r)" "fresh_request db rid"
  obtains e lease where "db_envelope db = Some e" "tfind l_lease_id lid (db_leases db) = Some lease"
    "l_status lease = ACTIVE" "sv_now_ns sv + sv_uncertainty_ns sv < l_expires_at_ns lease" "\<not> lease_revoked db lease"
    "rs_mode (db_runtime db) = RM_ACTIVE" "\<not> nonce_used db aud nonce"
    "rule_grants sv db e lease tr aud ev (r_target_state r) (r_cost r)" "less_than_or_equal (r_cost r) (l_residual lease) = Inr True"
    "r_source_state r = l_state lease" "r_resulting_sequence r = l_sequence lease + 1" "r_lease_id r = lid"
    "r_executor_audience r = aud" "r_nonce r = nonce" "r_transition r = tr"
    "sv_now_ns sv + sv_uncertainty_ns sv < r_expires_at_ns r" "r_expires_at_ns r \<le> l_expires_at_ns lease"
    "\<exists>res. subtract (l_residual lease) (r_cost r) = Inr res
      \<and> tfind l_lease_id lid (db_leases db') = Some (authorized_lease sv r res lease)"
    "\<forall>k. k \<noteq> lid \<longrightarrow> tfind l_lease_id k (db_leases db') = tfind l_lease_id k (db_leases db)"
    "\<exists>sig. db_receipts db' = db_receipts db @ [\<lparr>rr_receipt = r, rr_signature = sig\<rparr>]"
proof -
  from assms obtain q e db0 u lease db1 z where q: "authorize_request_of sv rid ident lid tr aud nonce ev est esq db = Inr q"
    and e: "db_envelope db = Some e" and c: "clock_is_safe sv e True db = Inr (db0, u)"
    and l: "tfind l_lease_id lid (db_leases db) = Some lease"
    and g: "authorize_guards sv q e lease db0 = Inr (db1, z)" and x: "authorize_effect sv rid q e lease z db1 = Inr (db', r)"
    by (rule authorize_cases)
  note qf = authorize_request_fields [OF q]
  from g obtain d u' where a: "require_actionable sv e lease db0 = Inr d" and c': "clock_is_safe sv e True d = Inr (db1, u')"
    and ra: "require_runtime_active db0 = Inr ()" and n: "\<not> nonce_used d (aq_audience q) (aq_nonce q)"
    and rg: "rule_grants sv d e lease (aq_transition q) (aq_audience q) (aq_evidence q) (az_target_state z) (az_cost z)"
    and k: "less_than_or_equal (az_cost z) (l_residual lease) = Inr True"
    and ex: "az_expires_at z = min (sv_now_ns sv + e_receipt_ttl_ns e) (l_expires_at_ns lease)"
    and in_time: "sv_now_ns sv + sv_uncertainty_ns sv < az_expires_at z" by (rule authorize_guards_cases)
  note ar = actionable_reads [OF a]
  obtain u'' where c'': "clock_is_safe sv e True db0 = Inr (d, u'')" using ar(1) by blast
  note same = clock_reads [OF c] clock_reads [OF c''] clock_reads [OF c']
  from x obtain res sig where s: "subtract (l_residual lease) (az_cost z) = Inr res" and rc: "authorize_receipt sv rid q e lease z = Inr r"
    and ls: "db_leases db' = tupdate l_lease_id (aq_lease_id q) (\<lambda>l. l\<lparr>l_residual := res, l_state := az_target_state z,
      l_sequence := l_sequence lease + 1, l_updated_at_ns := sv_now_ns sv\<rparr>) (db_leases db1)"
    and rs: "db_receipts db' = db_receipts db1 @ [\<lparr>rr_receipt = r, rr_signature = sig\<rparr>]" by (rule authorize_effect_writes)
  note f = authorize_receipt_fields [OF rc]
  let ?g = "\<lambda>l :: lease_row. l\<lparr>l_residual := res, l_state := az_target_state z, l_sequence := l_sequence lease + 1, l_updated_at_ns := sv_now_ns sv\<rparr>"
  have t: "tfind l_lease_id k (db_leases db') = (if k = lid then map_option ?g (tfind l_lease_id k (db_leases db)) else tfind l_lease_id k (db_leases db))" for k
    unfolding ls using tfind_tupdate [of l_lease_id ?g k "aq_lease_id q" "db_leases db1"] same qf by simp
  have d: "\<not> lease_revoked db lease" "rs_mode (db_runtime db) = RM_ACTIVE" "\<not> nonce_used db aud nonce"
    "rule_grants sv db e lease tr aud ev (r_target_state r) (r_cost r)"
    using ar(4) runtime_active_mode [OF ra] n rg rule_grants_cong [of d db sv] same(6,8,9,10,20,21) qf f by simp_all
  show thesis
    by (rule that [OF e l ar(2,3) d]) (use k ex in_time s t l f qf rs same(2,13,24) in \<open>simp_all add: authorized_lease_def\<close>)
qed

lemma authorize_nonce: "authorize sv rid ident lid tr aud nonce ev est esq db = Inr (db', r) \<Longrightarrow> fresh_request db rid \<Longrightarrow>
    \<not> nonce_used db aud nonce \<and> nonce_used db' aud nonce"
  by (erule (1) authorize_spec) (auto simp: nonce_used_def)

section \<open>Later databases\<close>

definition later :: "db \<Rightarrow> db \<Rightarrow> bool" where
  "later = (\<lambda>a b. \<exists>sv op. b = perform sv op a)\<^sup>*\<^sup>*"

lemma later_relation:
  assumes "later a b" "\<And>sv op db. R db (perform sv op db)" "\<And>x. R x x" "\<And>x y z. R x y \<Longrightarrow> R y z \<Longrightarrow> R x z"
  shows "R a b"
  using assms(1) unfolding later_def by (induction rule: rtranclp_induct) (use assms(2-4) in blast)+

lemma later_grow: "later a b \<Longrightarrow> audit_grows a b \<and> responses_grow a b \<and> receipts_grow a b"
  by (erule later_relation) (simp_all add: perform_grow, auto simp: audit_grows_def responses_grow_def receipts_grow_def)

lemma later_leases_kept: "later a b \<Longrightarrow> leases_kept a b"
  by (erule later_relation) (auto simp: perform_leases_kept leases_kept_refl intro: leases_kept_trans)

lemma later_revocations_kept: "later a b \<Longrightarrow> revocations_kept a b"
  by (erule later_relation) (auto simp: perform_revocations_kept intro: revocations_kept_trans, auto simp: revocations_kept_def)

lemma later_envelope: "later a b \<Longrightarrow> db_envelope a = Some e \<Longrightarrow> db_envelope b = Some e"
  unfolding later_def by (induction rule: rtranclp_induct) (auto simp: perform_envelope)

lemma later_nonce: "later a b \<Longrightarrow> nonce_used a aud nonce \<Longrightarrow> nonce_used b aud nonce"
  using later_grow [of a b] by (auto simp: receipts_grow_def nonce_used_def)

text \<open>A response that has been recorded is found again.\<close>

lemma tfind_Cons: "tfind key k (r # t) = (if key r = k then Some r else tfind key k t)"
  by (simp add: tfind_def)

lemma response_found:
  assumes "fresh_request db rid" "db_idempotency db' = db_idempotency db @ [row]" "i_request_id row = rid" "responses_grow db' db2"
  shows "idempotent_response db2 (i_scope row) rid (i_fingerprint row) = Inr (Some (i_response row))"
  using assms by (auto simp: responses_grow_def idempotent_response_def fresh_request_def tfind_append tfind_Cons)

section \<open>The same request again\<close>

lemma Receipt_post_init_id:
  assumes "Receipt_post_init x = Inr r"
  shows "Receipt_post_init r = Inr r"
proof -
  have "r = x" using assms by (auto simp: Receipt_post_init_def vector_def res_simps split: if_split_asm)
  then show ?thesis using assms by simp
qed

lemma authorize_remembers:
  assumes "authorize sv rid ident lid tr aud nonce ev est esq db = Inr (db', r)" "fresh_request db rid" "later db' db2"
  obtains q e lease where "authorize_request_of sv rid ident lid tr aud nonce ev est esq db = Inr q" "db_envelope db = Some e"
    "db_envelope db2 = Some e" "tfind l_lease_id lid (db_leases db2) = Some lease" "aq_lease_id q = lid"
    "aq_actor q = l_subject_id lease \<or> has_scope (aq_scopes q) SUBJECT_LIFECYCLE_SCOPES"
    "idempotent_response db2 (''authorize:'' @ lid) rid (aq_fingerprint q) = Inr (Some (Receipt_to_dict r))"
    "Receipt_from_dict (Receipt_to_dict r) = Inr r"
proof -
  from assms(1,2) obtain q e db0 u lease db1 z where q: "authorize_request_of sv rid ident lid tr aud nonce ev est esq db = Inr q"
    and e: "db_envelope db = Some e" and c: "clock_is_safe sv e True db = Inr (db0, u)"
    and l: "tfind l_lease_id lid (db_leases db) = Some lease"
    and a: "aq_actor q = l_subject_id lease \<or> has_scope (aq_scopes q) SUBJECT_LIFECYCLE_SCOPES"
    and g: "authorize_guards sv q e lease db0 = Inr (db1, z)" and x: "authorize_effect sv rid q e lease z db1 = Inr (db', r)"
    by (rule authorize_cases)
  have qf: "aq_lease_id q = lid" using authorize_request_fields [OF q] by simp
  have run: "runs {} sv db db'" using assms(1) by (rule authorize_runs)
  have e': "db_envelope db2 = Some e" using later_envelope [OF assms(3)] runs_envelope [OF run] e by simp
  have "leases_kept db db2" using runs_leases_kept [OF run] later_leases_kept [OF assms(3)] by (rule leases_kept_trans)
  then obtain lease2 where l2: "tfind l_lease_id lid (db_leases db2) = Some lease2" "lease_identity lease2 = lease_identity lease"
    using l by (auto simp: leases_kept_def lease_step_def)
  from x obtain res sig where rc: "authorize_receipt sv rid q e lease z = Inr r"
    and id: "db_idempotency db' = db_idempotency db1 @ [\<lparr>i_scope = ''authorize:'' @ aq_lease_id q, i_request_id = rid,
      i_fingerprint = aq_fingerprint q, i_response = Receipt_to_dict r, i_status_code = 200, i_created_at_ns = sv_now_ns sv\<rparr>]"
    by (rule authorize_effect_writes)
  have "db_idempotency db1 = db_idempotency db"
  proof -
    from g obtain d v where "require_actionable sv e lease db0 = Inr d" "clock_is_safe sv e True d = Inr (db1, v)"
      by (rule authorize_guards_cases)
    then show ?thesis using clock_reads(5) [OF c] clock_reads(5) actionable_reads(1) by metis
  qed
  then have "idempotent_response db2 (''authorize:'' @ lid) rid (aq_fingerprint q) = Inr (Some (Receipt_to_dict r))"
    using response_found [OF assms(2), of db' _ db2] id later_grow [OF assms(3)] qf by fastforce
  moreover have "Receipt_from_dict (Receipt_to_dict r) = Inr r"
    using rc Receipt_from_to_dict [of r r] by (auto simp: authorize_receipt_def rbind_Inr_iff dest: Receipt_post_init_id)
  moreover have "l_subject_id lease2 = l_subject_id lease" using l2(2) by (simp add: lease_identity_def)
  ultimately show thesis using that [OF q e e' l2(1) qf] a by simp
qed

text \<open>The request does not depend on the state of the database, and on the service by its hash only.\<close>

lemma authorize_request_cong:
  assumes "sv_sha256 sv' = sv_sha256 sv" "db_envelope db' = db_envelope db"
  shows "authorize_request_of sv' rid ident lid tr aud nonce ev est esq db' = authorize_request_of sv rid ident lid tr aud nonce ev est esq db"
proof -
  have f: "fingerprint sv' = fingerprint sv" by (simp add: fun_eq_iff fingerprint_def assms(1))
  show ?thesis unfolding authorize_request_of_def store_metadata_def assms f ..
qed

lemma authorize_again:
  assumes "authorize sv rid ident lid tr aud nonce ev est esq db = Inr (db', r)" "fresh_request db rid" "later db' db2"
    "sv_sha256 sv' = sv_sha256 sv" "db_envelope db = Some e"
  shows "authorize sv' rid ident lid tr aud nonce ev est esq db2 =
    (if sv_capacity sv' then rbind (clock_is_safe sv' e True db2) (\<lambda>(db3, _). Inr (db3, r)) else Inr (db2, r))"
proof -
  from assms(1-3) obtain q e' lease where q: "authorize_request_of sv rid ident lid tr aud nonce ev est esq db = Inr q"
    and e: "db_envelope db = Some e'" "db_envelope db2 = Some e'" and l: "tfind l_lease_id lid (db_leases db2) = Some lease"
    and qf: "aq_lease_id q = lid" and a: "aq_actor q = l_subject_id lease \<or> has_scope (aq_scopes q) SUBJECT_LIFECYCLE_SCOPES"
    and p: "idempotent_response db2 (''authorize:'' @ lid) rid (aq_fingerprint q) = Inr (Some (Receipt_to_dict r))"
    and rt: "Receipt_from_dict (Receipt_to_dict r) = Inr r"
    by (rule authorize_remembers)
  have ee: "e' = e" using e assms(5) by simp
  have q': "authorize_request_of sv' rid ident lid tr aud nonce ev est esq db2 = Inr q"
    using authorize_request_cong [OF assms(4), of db2 db] q e by simp
  have "degraded_lease_idempotent_response db2 (e_tenant_id e) (e_envelope_id e) lid (aq_actor q) (aq_scopes q) False
      (''authorize:'' @ lid) rid (aq_fingerprint q) = Inr (Receipt_to_dict r)"
    using a by (auto simp: degraded_lease_idempotent_response_def envelope_of_def e ee load_lease_def l p Let_def simp del: append_Cons)
  moreover have "authorize_body sv' rid q db2 = rbind (clock_is_safe sv' e True db2) (\<lambda>(db3, _). Inr (db3, r))"
  proof (cases "clock_is_safe sv' e True db2")
    case (Inr x)
    then obtain db3 u where c: "clock_is_safe sv' e True db2 = Inr (db3, u)" by (cases x) auto
    have "idempotent_response db3 = idempotent_response db2"
      by (simp add: fun_eq_iff idempotent_response_def clock_reads(5) [OF c])
    then show ?thesis
      using a by (auto simp: authorize_body_def singleton_envelope_def e ee c load_lease_def clock_reads(1) [OF c] l qf p rt simp del: append_Cons)
  qed (simp add: authorize_body_def singleton_envelope_def e ee)
  ultimately show ?thesis
    unfolding authorize_def by (simp add: q' store_metadata_def e ee write_or_degraded_def rt del: append_Cons)
qed

section \<open>Revoked branches\<close>

lemma lease_revoked_later:
  assumes "lease_revoked db l" "revocations_kept db db'" "lease_identity l' = lease_identity l"
  shows "lease_revoked db' l'"
  using path_revoked_kept [OF assms(2)] assms(1,3) by (simp add: lease_revoked_def lease_identity_def)

text \<open>A fresh request to spawn on a lease is turned down when its branch is revoked.\<close>

lemma spawn_blocked:
  assumes "spawn sv rid ident lid subj alloc caps ttl pd es db = Inr (db', g)" "fresh_request db rid"
    "tfind l_lease_id lid (db_leases db) = Some l"
  shows "\<not> lease_revoked db l \<and> rs_mode (db_runtime db) = RM_ACTIVE"
proof -
  from assms(1) obtain q m where q: "sq_parent_id q = lid"
    and w: "write_or_degraded (sv_capacity sv) m (spawn_body sv rid q) db = Inr (db', g)" and m: "m = Inr g \<Longrightarrow> \<not> fresh_request db rid"
    unfolding spawn_def rbind_Inr_iff
    by (elim exE conjE) (rule that, erule spawn_request_parent, assumption, auto simp: rbind_Inr_iff dest: degraded_not_fresh)
  then have "spawn_body sv rid q db = Inr (db', g)"
    using assms(2) by (auto simp: write_or_degraded_def rbind_Inr_iff split: if_split_asm)
  then obtain e db0 u parent prior where c: "clock_is_safe sv e True db = Inr (db0, u)"
    and l: "tfind l_lease_id lid (db_leases db0) = Some parent"
    and p: "idempotent_response db0 (''spawn:'' @ sq_parent_id q) rid (sq_fingerprint q) = Inr prior"
    and b: "(case prior of Some response \<Rightarrow> rbind (LeaseGrant_from_dict response) (\<lambda>g. Inr (db0, g))
      | None \<Rightarrow> rbind (spawn_guards sv q e parent db0) (\<lambda>(db1, policy, ex). spawn_effect sv rid q e parent policy ex db1)) = Inr (db', g)"
    by (auto simp: spawn_body_def load_lease_def rbind_Inr_iff guard_Inr_iff of_option_Inr_iff q)
  have "prior = None" using p assms(2) clock_reads(11) [OF c] by (cases prior) (auto dest: idempotent_Some)
  then obtain d where "require_actionable sv e parent db0 = Inr d" "require_runtime_active db0 = Inr ()"
    using b by (auto simp: rbind_Inr_iff spawn_guards_def Let_def)
  then show ?thesis
    using actionable_reads(4) runtime_active_mode clock_reads(1,6,8) [OF c] l assms(3) by fastforce
qed

lemma spawn_remote_blocked:
  assumes "spawn_remote sv rid ident lid tw subj alloc caps ttl es db = Inr (db', v)" "fresh_request db rid"
    "tfind l_lease_id lid (db_leases db) = Some l"
  shows "\<not> lease_revoked db l \<and> rs_mode (db_runtime db) = RM_ACTIVE"
proof -
  from assms(1) obtain q m where q: "mq_parent_id q = lid"
    and w: "write_or_degraded (sv_capacity sv) m (spawn_remote_body sv rid q) db = Inr (db', v)" and m: "m = Inr v \<Longrightarrow> \<not> fresh_request db rid"
    unfolding spawn_remote_def rbind_Inr_iff
    by (elim exE conjE) (rule that, erule spawn_remote_request_parent, assumption, auto simp: rbind_Inr_iff dest: degraded_not_fresh)
  then have "spawn_remote_body sv rid q db = Inr (db', v)"
    using assms(2) by (auto simp: write_or_degraded_def rbind_Inr_iff split: if_split_asm)
  then obtain e db0 u parent prior where c: "clock_is_safe sv e True db = Inr (db0, u)"
    and l: "tfind l_lease_id lid (db_leases db0) = Some parent"
    and p: "idempotent_response db0 (''spawn_remote:'' @ mq_parent_id q) rid (mq_fingerprint q) = Inr prior"
    and b: "(case prior of Some response \<Rightarrow> rbind (TransferVoucher_from_dict response) (\<lambda>v. Inr (db0, v))
      | None \<Rightarrow> rbind (spawn_remote_guards sv q e u parent db0) (\<lambda>(db1, policy, ex).
          spawn_remote_effect sv rid q e parent policy ex db1)) = Inr (db', v)"
    by (auto simp: spawn_remote_body_def load_lease_def rbind_Inr_iff guard_Inr_iff of_option_Inr_iff q)
  have "prior = None" using p assms(2) clock_reads(11) [OF c] by (cases prior) (auto dest: idempotent_Some)
  then obtain d where "require_actionable sv e parent db0 = Inr d" "require_runtime_active db0 = Inr ()"
    using b by (auto simp: rbind_Inr_iff spawn_remote_guards_def Let_def)
  then show ?thesis
    using actionable_reads(4) runtime_active_mode clock_reads(1,6,8) [OF c] l assms(3) by fastforce
qed

lemma authorize_blocked:
  assumes "authorize sv rid ident lid tr aud nonce ev est esq db = Inr (db', r)" "fresh_request db rid"
    "tfind l_lease_id lid (db_leases db) = Some l"
  shows "\<not> lease_revoked db l \<and> rs_mode (db_runtime db) = RM_ACTIVE"
  using assms(1,2) by (rule authorize_spec) (use assms(3) in simp)

text \<open>revoke_branch and ingest_revocation record the revocation they return.\<close>

definition revoked_at :: "db \<Rightarrow> string \<Rightarrow> string \<Rightarrow> int option" where
  "revoked_at db lineage branch = branch_epoch_of db lineage branch"

lemma revoked_at_lease:
  assumes "revoked_at db lin b = Some n" "l_lineage_id l = lin" "b \<in> set (l_ancestor_path l @ [l_lease_id l])"
  shows "lease_revoked db l"
  unfolding lease_revoked_def path_revoked_iff assms(2)
  using assms(1,3) by (auto simp: revoked_at_def branch_epoch_of_def)

lemma store_revocation_epoch:
  assumes "store_revocation v now (branch_epoch_of db (b_lineage_id v) (b_branch_lease_id v) \<noteq> None) db = Inr db'"
  shows "branch_epoch_of db' (b_lineage_id v) (b_branch_lease_id v) = Some (b_epoch v)"
proof -
  from assms obtain sig where s: "(if branch_epoch_of db (b_lineage_id v) (b_branch_lease_id v) \<noteq> None
      then update_revocation \<lparr>v_rev = v, v_rev_observed_at_ns = now, v_rev_signature = sig\<rparr> db
      else insert_revocation \<lparr>v_rev = v, v_rev_observed_at_ns = now, v_rev_signature = sig\<rparr> db) = Inr db'"
    by (auto simp: store_revocation_def Let_def rbind_Inr_iff)
  define row where "row = \<lparr>v_rev = v, v_rev_observed_at_ns = now, v_rev_signature = sig\<rparr>"
  have key: "rev_key row = (b_lineage_id v, b_branch_lease_id v)" "v_rev row = v" by (simp_all add: row_def rev_key_def)
  show ?thesis
  proof (cases "tfind rev_key (rev_key row) (db_revocations db)")
    case None
    then have "insert_revocation row db = Inr db'" using s by (simp add: branch_epoch_of_def row_def rev_key_def)
    then show ?thesis
      using None by (auto simp: branch_epoch_of_def tfind_append tfind_singleton key dest!: revocation_frame(1))
  next
    case (Some old)
    then have "update_revocation row db = Inr db'" using s by (simp add: branch_epoch_of_def row_def rev_key_def)
    then have "db_revocations db' = tupdate rev_key (rev_key row) (\<lambda>_. row) (db_revocations db)"
      using Some by (auto simp: update_revocation_def split: if_split_asm)
    then show ?thesis using Some tfind_const_update [of rev_key "rev_key row" row "db_revocations db"] by (simp add: branch_epoch_of_def key)
  qed
qed

lemma branch_epoch_cong: "db_revocations db' = db_revocations db \<Longrightarrow> branch_epoch_of db' = branch_epoch_of db"
  by (simp add: fun_eq_iff branch_epoch_of_def)

lemma audit_revocations: "append_audit sv e t et ei a d db = Inr db' \<Longrightarrow> db_revocations db' = db_revocations db"
  using append_audit_frame by fastforce

lemma materialize_revocations: "materialize_revoked_branch lin br now db = Inr (db', x) \<Longrightarrow> db_revocations db' = db_revocations db"
proof -
  assume "materialize_revoked_branch lin br now db = Inr (db', x)"
  then obtain ids where f: "foldM (\<lambda>d lease_id. update_lease lease_id (\<lambda>r.
         if List.member live_statuses (l_status r)
         then r\<lparr>l_status := REVOKED, l_sequence := l_sequence r + 1, l_updated_at_ns := now\<rparr> else r) d)
       db ids = Inr db'"
    by (auto simp: materialize_revoked_branch_def Let_def res_simps)
  show ?thesis by (rule foldM_invariant [OF f]) (auto dest!: update_lease_frame)
qed

lemma supersede_revocations: "supersede_pending rk tw ky now db = Inr db' \<Longrightarrow> db_revocations db' = db_revocations db"
  by (auto simp: supersede_pending_def Let_def split: if_split_asm)

lemma enqueue_revocations:
  "enqueue_revocation sv v db = Inr db' \<Longrightarrow> db_revocations db' = db_revocations db"
proof (cases "sv_allowed_peer_wardens sv")
  case (Some ps)
  assume "enqueue_revocation sv v db = Inr db'"
  with Some obtain k1 k2 where f: "foldM (\<lambda>d target. enqueue_peer_delivery ''revocation'' k1 target k2
           (b_epoch v) (BranchRevocation_to_dict v) (sv_now_ns sv) True d) db (frozenset ps) = Inr db'"
    by (auto simp: enqueue_revocation_def rbind_Inr_iff)
  show ?thesis
    by (rule foldM_invariant [OF f])
      (auto simp: enqueue_peer_delivery_def rbind_Inr_iff Let_def guard_Inr_iff dest!: supersede_revocations split: if_split_asm)
qed (simp add: enqueue_revocation_def)

lemma remember_revocations: "remember_response sc rid fp resp now code db = Inr db' \<Longrightarrow> db_revocations db' = db_revocations db"
  by (auto simp: remember_response_def res_simps dest!: frames)

lemma revocation_init_fields:
  "BranchRevocation_post_init b = Inr v \<Longrightarrow> b_branch_lease_id v = b_branch_lease_id b \<and> b_lineage_id v = b_lineage_id b \<and> b_epoch v = b_epoch b"
  by (auto simp: BranchRevocation_post_init_def res_simps)

lemma revoke_record_fields:
  "revoke_record sv e lid lin n rs = Inr v \<Longrightarrow> b_branch_lease_id v = lid \<and> b_lineage_id v = lin \<and> b_epoch v = n"
  by (auto simp: revoke_record_def rbind_Inr_iff dest!: revocation_init_fields)

lemma revoke_effect_epoch:
  assumes "revoke_branch_effect sv rid q e lin (branch_epoch_of db lin (vq_lease_id q)) db = Inr (db', v)"
  shows "branch_epoch_of db' lin (vq_lease_id q) = Some (b_epoch v)" "b_branch_lease_id v = vq_lease_id q" "b_lineage_id v = lin"
    "b_epoch v = (case branch_epoch_of db lin (vq_lease_id q) of None \<Rightarrow> 0 | Some n \<Rightarrow> n) + 1"
proof -
  from assms obtain db1 where r: "revoke_record sv e (vq_lease_id q) lin
      ((case branch_epoch_of db lin (vq_lease_id q) of None \<Rightarrow> 0 | Some n \<Rightarrow> n) + 1) (vq_reason q) = Inr v"
    and s: "store_revocation v (sv_now_ns sv) (branch_epoch_of db lin (vq_lease_id q) \<noteq> None) db = Inr db1"
    and n: "db_revocations db' = db_revocations db1"
    unfolding revoke_branch_effect_def Let_def
    by (clarsimp simp: rbind_Inr_iff guard_Inr_iff simp del: append_Cons not_None_eq)
      (rule that, assumption+, simp add: remember_revocations audit_revocations materialize_revocations enqueue_revocations)
  note f = revoke_record_fields [OF r]
  then show "b_branch_lease_id v = vq_lease_id q" "b_lineage_id v = lin"
    "b_epoch v = (case branch_epoch_of db lin (vq_lease_id q) of None \<Rightarrow> 0 | Some n \<Rightarrow> n) + 1" by simp_all
  have "branch_epoch_of db1 (b_lineage_id v) (b_branch_lease_id v) = Some (b_epoch v)"
    using store_revocation_epoch [of v "sv_now_ns sv" db db1] s f by simp
  then show "branch_epoch_of db' lin (vq_lease_id q) = Some (b_epoch v)"
    using branch_epoch_cong [OF n] f by simp
qed

lemma revoke_request_lease: "revoke_request_of sv rid ident lid rs ep db = Inr q \<Longrightarrow> vq_lease_id q = lid"
  by (auto simp: revoke_request_of_def rbind_Inr_iff guard_Inr_iff)

lemma revoke_branch_epoch:
  assumes "revoke_branch sv rid ident lid rs ep db = Inr (db', v)" "fresh_request db rid"
  obtains l where "tfind l_lease_id lid (db_leases db) = Some l" "b_branch_lease_id v = lid" "b_lineage_id v = l_lineage_id l"
    "branch_epoch_of db' (l_lineage_id l) lid = Some (b_epoch v)"
    "b_epoch v = (case branch_epoch_of db (l_lineage_id l) lid of None \<Rightarrow> 0 | Some n \<Rightarrow> n) + 1"
proof -
  from assms(1) obtain q m where q: "vq_lease_id q = lid"
    and w: "write_or_degraded (sv_recovery_capacity sv) m (revoke_branch_body sv rid q) db = Inr (db', v)" and m: "m = Inr v \<Longrightarrow> \<not> fresh_request db rid"
    unfolding revoke_branch_def rbind_Inr_iff
    by (elim exE conjE) (rule that, erule revoke_request_lease, assumption, auto simp: rbind_Inr_iff dest: degraded_not_fresh)
  then have "revoke_branch_body sv rid q db = Inr (db', v)"
    using assms(2) by (auto simp: write_or_degraded_def rbind_Inr_iff split: if_split_asm)
  then obtain e db0 u l prior where c: "clock_is_safe sv e True db = Inr (db0, u)"
    and l: "tfind l_lease_id lid (db_leases db0) = Some l"
    and p: "idempotent_response db0 (''revoke:'' @ lid) rid (vq_fingerprint q) = Inr prior"
    and b: "prior = None \<Longrightarrow> revoke_branch_effect sv rid q e (l_lineage_id l) (branch_epoch_of db0 (l_lineage_id l) lid) db0 = Inr (db', v)"
    by (clarsimp simp: revoke_branch_body_def load_lease_def rbind_Inr_iff of_option_Inr_iff Let_def q simp del: append_Cons)
      (rule that, assumption+, simp)
  have "prior = None" using p assms(2) clock_reads(11) [OF c] by (cases prior) (auto dest: idempotent_Some)
  note f = revoke_effect_epoch [OF b [OF this, folded q]]
  show thesis
    by (rule that) (use l f q clock_reads(1) [OF c] branch_epoch_cong [OF clock_reads(3) [OF c]] in simp_all)
qed

section \<open>Draining, capacity and the clock\<close>

text \<open>An operation without capacity changes nothing.\<close>

lemma no_capacity_run:
  assumes "\<not> sv_capacity sv" "\<not> sv_recovery_capacity sv" "run_op sv op db = Inr (db', u)"
  shows "db' = db"
  using assms by (cases op) (auto simp: issue_root_def spawn_def authorize_def renew_def lifecycle_def reclaim_expired_def
      revoke_branch_def ingest_revocation_def prepare_transfer_def spawn_remote_def accept_transfer_def finalize_transfer_def
      create_transfer_checkpoint_def ingest_transfer_checkpoint_def set_runtime_mode_def create_envelope_def
      register_policy_def Let_def write_or_degraded_def rbind_Inr_iff guard_Inr_iff db_of_Inr_iff split: if_split_asm)

lemma no_capacity_perform:
  assumes "\<not> sv_capacity sv" "\<not> sv_recovery_capacity sv"
  shows "perform sv op db = db"
  by (cases rule: perform_cases [of sv op db]) (use no_capacity_run [OF assms] in auto)

text \<open>A clock that is behind its floor by more than its uncertainty stops every operation.\<close>

definition clock_behind :: "svc \<Rightarrow> db \<Rightarrow> bool" where
  "clock_behind sv db = (case floor_of db of None \<Rightarrow> False | Some f \<Rightarrow> sv_now_ns sv + sv_uncertainty_ns sv < f)"

lemma clock_behind_unsafe: "clock_behind sv db \<Longrightarrow> clock_is_safe sv e b db \<noteq> Inr y"
  by (auto simp: clock_behind_def floor_of_def clock_is_safe_def Let_def split: option.split_asm if_split_asm)

lemma clock_behind_create:
  assumes "clock_behind sv db" "create_envelope sv i c db = Inr (db', x)"
  shows False
  using assms(2)
proof (cases rule: create_envelope_cases)
  case (again e u)
  then show False using clock_behind_unsafe [OF assms(1)] by blast
next
  case (fresh e w e' t et ei a d db2)
  then show False using assms(1) by (simp add: clock_behind_def floor_of_def)
qed

lemma clock_behind_run:
  assumes "clock_behind sv db" "run_op sv op db = Inr (db', u)"
  shows "db' = db \<and> \<not> (sv_capacity sv \<and> sv_recovery_capacity sv)"
proof -
  have c: "(clock_is_safe sv e b db = Inr y) = False" for e b y using clock_behind_unsafe [OF assms(1)] by blast
  show ?thesis
  proof (cases op)
    case (CreateEnvelope i cf)
    then show ?thesis using assms(2) by (auto simp: db_of_Inr_iff dest: clock_behind_create [OF assms(1)])
  next
    case (IngestCheckpoint i w)
    then show ?thesis
      using assms(2) by (auto simp: ingest_transfer_checkpoint_def ingest_checkpoint_body_def write_or_degraded_def
          rbind_Inr_iff guard_Inr_iff db_of_Inr_iff c split: if_split_asm list.splits)
  qed (use assms(2) in \<open>auto simp: issue_root_def issue_root_body_def spawn_def spawn_body_def authorize_def authorize_body_def
      renew_def renew_body_def lifecycle_def lifecycle_body_def reclaim_expired_def reclaim_body_def
      revoke_branch_def revoke_branch_body_def ingest_revocation_def ingest_body_def prepare_transfer_def prepare_body_def
      spawn_remote_def spawn_remote_body_def accept_transfer_def accept_body_def finalize_transfer_def finalize_body_def
      create_transfer_checkpoint_def create_checkpoint_body_def set_runtime_mode_def runtime_mode_body_def
      register_policy_def register_body_def Let_def write_or_degraded_def rbind_Inr_iff guard_Inr_iff db_of_Inr_iff c
      split: if_split_asm\<close>)
qed

lemma clock_behind_perform:
  assumes "clock_behind sv db"
  shows "perform sv op db = db \<and> (sv_capacity sv \<and> sv_recovery_capacity sv \<longrightarrow> \<not> ok (answer sv op db))"
proof (cases rule: perform_cases [of sv op db])
  case rollback
  then show ?thesis by simp
next
  case commit
  then show ?thesis using clock_behind_run [OF assms commit(1)] by simp
qed

end
