(* ===== verification/Draining.thy ===== *)
theory Draining
  imports Authority
begin

text \<open>
  The operations that give out rights while the runtime is draining, and what
  set_runtime_mode does when it is asked again without capacity.
\<close>

section \<open>A draining warden gives out no rights\<close>

lemma issue_root_blocked:
  assumes "issue_root sv rid ident t e subj alloc caps pd ttl lin db = Inr (db', g)" "fresh_request db rid"
  shows "rs_mode (db_runtime db) = RM_ACTIVE"
proof -
  from assms(1) obtain q m where w: "write_or_degraded (sv_capacity sv) m (issue_root_body sv rid t e q) db = Inr (db', g)"
    and m: "m = Inr g \<Longrightarrow> \<not> fresh_request db rid"
    unfolding issue_root_def rbind_Inr_iff
    by (elim exE conjE) (rule that, assumption, auto simp: rbind_Inr_iff dest: degraded_not_fresh)
  then have "issue_root_body sv rid t e q db = Inr (db', g)"
    using assms(2) by (auto simp: write_or_degraded_def rbind_Inr_iff split: if_split_asm)
  then obtain en db0 u prior where c: "clock_is_safe sv en True db = Inr (db0, u)"
    and p: "idempotent_response db0 ''issue_root'' rid (rq_fingerprint q) = Inr prior"
    and b: "(case prior of Some response \<Rightarrow> rbind (LeaseGrant_from_dict response) (\<lambda>g. Inr (db0, g))
      | None \<Rightarrow> rbind (issue_root_guards sv q u db0) (\<lambda>(policy, free_pool, expires_at_ns).
          issue_root_effect sv rid q en policy free_pool expires_at_ns db0)) = Inr (db', g)"
    by (auto simp: issue_root_body_def rbind_Inr_iff)
  have "prior = None" using p assms(2) clock_reads(11) [OF c] by (cases prior) (auto dest: idempotent_Some)
  then have "require_runtime_active db0 = Inr ()" using b by (auto simp: rbind_Inr_iff issue_root_guards_def)
  then show ?thesis using runtime_active_mode clock_reads(6) [OF c] by fastforce
qed

lemma prepare_blocked:
  assumes "prepare_transfer sv rid ident t e tw am pd db = Inr (db', v)" "fresh_request db rid"
  shows "rs_mode (db_runtime db) = RM_ACTIVE"
proof -
  from assms(1) obtain q m where w: "write_or_degraded (sv_capacity sv) m (prepare_body sv rid t e q) db = Inr (db', v)"
    and m: "m = Inr v \<Longrightarrow> \<not> fresh_request db rid"
    unfolding prepare_transfer_def rbind_Inr_iff
    by (elim exE conjE) (rule that, assumption, auto simp: rbind_Inr_iff dest: degraded_not_fresh)
  then have "prepare_body sv rid t e q db = Inr (db', v)"
    using assms(2) by (auto simp: write_or_degraded_def rbind_Inr_iff split: if_split_asm)
  then obtain en db0 u policy prior where c: "clock_is_safe sv en True db = Inr (db0, u)"
    and p: "idempotent_response db0 (''prepare_transfer:'' @ tq_target q) rid (tq_fingerprint q) = Inr prior"
    and b: "(case prior of Some response \<Rightarrow> rbind (TransferVoucher_from_dict response) (\<lambda>v. Inr (db0, v))
      | None \<Rightarrow> rbind (require_runtime_active db0) (\<lambda>_. rbind (require_target_current sv (tq_target q)) (\<lambda>_.
          prepare_effect sv rid q en policy db0))) = Inr (db', v)"
    by (auto simp: prepare_body_def rbind_Inr_iff simp del: append_Cons)
  have "prior = None" using p assms(2) clock_reads(11) [OF c] by (cases prior) (auto dest: idempotent_Some)
  then have "require_runtime_active db0 = Inr ()" using b by (auto simp: rbind_Inr_iff)
  then show ?thesis using runtime_active_mode clock_reads(6) [OF c] by fastforce
qed

lemma write_or_degraded_cases:
  "write_or_degraded c m body db = Inr (db', x) \<Longrightarrow> m = Inr x \<or> body db = Inr (db', x)"
  by (auto simp: write_or_degraded_def rbind_Inr_iff split: if_split_asm)

lemma degraded_lease_found:
  "degraded_lease_idempotent_response db t e lid act scopes b sc rid fp = Inr r \<Longrightarrow> \<exists>l. tfind l_lease_id lid (db_leases db) = Some l"
  by (auto simp: degraded_lease_idempotent_response_def load_lease_def rbind_Inr_iff of_option_Inr_iff split: sum.splits)

lemma spawn_active:
  assumes "spawn sv rid ident lid subj alloc caps ttl pd es db = Inr (db', g)" "fresh_request db rid"
  shows "rs_mode (db_runtime db) = RM_ACTIVE"
proof -
  from assms(1) obtain q and meta :: envelope_row where q: "sq_parent_id q = lid"
    and w: "write_or_degraded (sv_capacity sv)
      (rbind (degraded_lease_idempotent_response db (e_tenant_id meta) (e_envelope_id meta) lid (sq_actor q) (sq_scopes q) False
        (''spawn:'' @ lid) rid (sq_fingerprint q)) LeaseGrant_from_dict) (spawn_body sv rid q) db = Inr (db', g)"
    unfolding spawn_def rbind_Inr_iff by (elim exE conjE) (rule that, erule spawn_request_parent, assumption)
  have "\<exists>l. tfind l_lease_id lid (db_leases db) = Some l"
    using write_or_degraded_cases [OF w]
    by (auto simp: rbind_Inr_iff spawn_body_def load_lease_def of_option_Inr_iff q clock_reads(1) dest: degraded_lease_found)
  then show ?thesis using spawn_blocked [OF assms] by blast
qed

lemma spawn_remote_active:
  assumes "spawn_remote sv rid ident lid tw subj alloc caps ttl es db = Inr (db', v)" "fresh_request db rid"
  shows "rs_mode (db_runtime db) = RM_ACTIVE"
proof -
  from assms(1) obtain q and meta :: envelope_row where q: "mq_parent_id q = lid"
    and w: "write_or_degraded (sv_capacity sv)
      (rbind (degraded_lease_idempotent_response db (e_tenant_id meta) (e_envelope_id meta) lid (mq_actor q) (mq_scopes q) False
        (''spawn_remote:'' @ lid) rid (mq_fingerprint q)) TransferVoucher_from_dict) (spawn_remote_body sv rid q) db = Inr (db', v)"
    unfolding spawn_remote_def rbind_Inr_iff by (elim exE conjE) (rule that, erule spawn_remote_request_parent, assumption)
  have "\<exists>l. tfind l_lease_id lid (db_leases db) = Some l"
    using write_or_degraded_cases [OF w]
    by (auto simp: rbind_Inr_iff spawn_remote_body_def load_lease_def of_option_Inr_iff q clock_reads(1) dest: degraded_lease_found)
  then show ?thesis using spawn_remote_blocked [OF assms] by blast
qed

lemma authorize_active:
  assumes "authorize sv rid ident lid tr aud nonce ev est esq db = Inr (db', r)" "fresh_request db rid"
  shows "rs_mode (db_runtime db) = RM_ACTIVE"
  using assms by (rule authorize_spec)

section \<open>The runtime mode, asked for again without capacity\<close>

text \<open>
  set_runtime_mode records its response under the scope set_runtime_mode but looks
  it up under runtime-mode when the store has no capacity.
\<close>

lemma remember_scope:
  assumes "remember_response sc rid fp resp now code db = Inr db'"
  obtains row where "tfind i_request_id rid (db_idempotency db') = Some row" "i_scope row = sc"
  using assms
  by (auto simp: remember_response_def rbind_Inr_iff tfind_append tfind_Cons intro: that dest!: idempotency_frame)

lemma runtime_mode_body_scope:
  assumes "runtime_mode_body sv rid a md reason fp db = Inr (db', s)" "fresh_request db rid"
  obtains row where "tfind i_request_id rid (db_idempotency db') = Some row" "i_scope row = ''set_runtime_mode''"
proof -
  from assms(1) obtain e db0 u prior where c: "clock_is_safe sv e True db = Inr (db0, u)"
    and p: "idempotent_response db0 ''set_runtime_mode'' rid fp = Inr prior"
    and b: "(case prior of Some response \<Rightarrow> rbind (RuntimeStatus_from_dict response) (\<lambda>s. Inr (db0, s))
      | None \<Rightarrow> rbind (change_runtime_mode sv a e md reason db0) (\<lambda>(db1, updated).
          rbind (remember_response ''set_runtime_mode'' rid fp (RuntimeStatus_to_dict updated) (sv_now_ns sv) 200 db1) (\<lambda>db2.
          Inr (db2, updated)))) = Inr (db', s)"
    by (auto simp: runtime_mode_body_def rbind_Inr_iff)
  have "prior = None" using p assms(2) clock_reads(11) [OF c] by (cases prior) (auto dest: idempotent_Some)
  then obtain db1 up where "remember_response ''set_runtime_mode'' rid fp (RuntimeStatus_to_dict up) (sv_now_ns sv) 200 db1 = Inr db'"
    using b by (auto simp: rbind_Inr_iff)
  then show thesis by (rule remember_scope) (rule that)
qed

lemma runtime_mode_conflict:
  assumes "set_runtime_mode sv rid ident mode reason db = Inr (db', s)" "fresh_request db rid"
    "\<not> sv_capacity sv'" "\<not> sv_recovery_capacity sv'" "sv_sha256 sv' = sv_sha256 sv"
  shows "set_runtime_mode sv' rid ident mode reason db' = Inl ConflictError"
proof -
  have f: "fingerprint sv' = fingerprint sv" by (simp add: fun_eq_iff fingerprint_def assms(5))
  have e: "db_envelope db' = db_envelope db"
    using runs_envelope [OF set_runtime_mode_runs [OF assms(1)]] by simp
  from assms(1) obtain x md meta act fp where a: "require_identifier rid = Inr x" "map_err (\<lambda>_. ValidationError) (as_mode (JStr mode)) = Inr md"
      "1 \<le> length reason \<and> length reason \<le> 2000" "db_envelope db = Some meta" "require_admin ident (e_tenant_id meta) = Inr act"
      "fingerprint sv ''set_runtime_mode'' [(''actor'', JStr act), (''mode'', JStr (mode_value md)), (''reason'', JStr reason)] = Inr fp"
    and w: "write_or_degraded (if md = RM_DRAINING then sv_recovery_capacity sv else sv_capacity sv)
      (rbind (degraded_idempotent_response db (e_tenant_id meta) (e_envelope_id meta) ''runtime-mode'' rid fp) RuntimeStatus_from_dict)
      (runtime_mode_body sv rid act md reason fp) db = Inr (db', s)"
    by (auto simp: set_runtime_mode_def store_metadata_def rbind_Inr_iff guard_Inr_iff of_option_Inr_iff split: if_split_asm)
  have "runtime_mode_body sv rid act md reason fp db = Inr (db', s)"
    using w assms(2) by (auto simp: write_or_degraded_def rbind_Inr_iff dest: degraded_not_fresh split: if_split_asm)
  then obtain row where r: "tfind i_request_id rid (db_idempotency db') = Some row" "i_scope row = ''set_runtime_mode''"
    using assms(2) by (rule runtime_mode_body_scope)
  then have d: "degraded_idempotent_response db' (e_tenant_id meta) (e_envelope_id meta) ''runtime-mode'' rid fp = Inl ConflictError"
    using a(4) e by (simp add: degraded_idempotent_response_def envelope_of_def idempotent_response_def)
  show ?thesis
    using a e assms(3,4) d by (simp add: set_runtime_mode_def store_metadata_def write_or_degraded_def f)
qed

end
