(* ===== verification/Inbound.thy ===== *)
theory Inbound
  imports Service
begin

text \<open>
  The receiving side of a transfer stream: which sequence numbers of a source
  have been accepted, how the contiguous watermark and the recorded gaps
  represent them, and that accept_transfer takes every voucher exactly once,
  also after its acknowledgement has been compacted away.
\<close>

section \<open>The accepted sequence numbers\<close>

definition contiguous :: "db \<Rightarrow> string \<Rightarrow> int" where
  "contiguous db source =
    (case tfind is_source_warden source (db_in_streams db) of None \<Rightarrow> 0 | Some s \<Rightarrow> is_contiguous_through s)"

definition accepted :: "db \<Rightarrow> string \<Rightarrow> int \<Rightarrow> bool" where
  "accepted db source n = (0 < n \<and> (n \<le> contiguous db source \<or> (source, n) \<in> set (db_in_gaps db)))"

definition acknowledged :: "db \<Rightarrow> string \<Rightarrow> int \<Rightarrow> bool" where
  "acknowledged db source n = (tfind ia_key (source, n) (db_in_acks db) \<noteq> None)"

text \<open>Gaps lie above the watermark, keep their acknowledgement, and what is acknowledged is accepted.\<close>

definition compacted_ok :: "db \<Rightarrow> bool" where
  "compacted_ok db =
    (tkeys is_source_warden (db_in_streams db)
     \<and> (\<forall>s\<in>set (db_in_streams db). is_compacted_through s \<le> is_contiguous_through s))"

definition inbound_ok :: "db \<Rightarrow> bool" where
  "inbound_ok db =
    ((\<forall>s n. (s, n) \<in> set (db_in_gaps db) \<longrightarrow> contiguous db s < n \<and> acknowledged db s n)
     \<and> (\<forall>s n. acknowledged db s n \<longrightarrow> accepted db s n)
     \<and> compacted_ok db)"

definition same_inbound :: "db \<Rightarrow> db \<Rightarrow> bool" where
  "same_inbound db db' =
    (db_in_streams db' = db_in_streams db \<and> db_in_gaps db' = db_in_gaps db \<and> db_in_acks db' = db_in_acks db)"

lemma same_inbound_accepted: "same_inbound db db' \<Longrightarrow> accepted db' = accepted db"
  by (simp add: fun_eq_iff same_inbound_def accepted_def contiguous_def)

lemma same_inbound_ok: "same_inbound db db' \<Longrightarrow> inbound_ok db \<Longrightarrow> inbound_ok db'"
  by (simp add: same_inbound_def inbound_ok_def accepted_def contiguous_def acknowledged_def compacted_ok_def)

lemma stmt_inbound: "stmt ks sv db db' \<Longrightarrow> Inbound \<notin> ks \<Longrightarrow> same_inbound db db'"
  by (induction rule: stmt.induct) (auto dest!: frames simp: same_inbound_def prune_outgoing_transfer_prefix_def Let_def)

lemma runs_inbound: "runs ks sv db db' \<Longrightarrow> Inbound \<notin> ks \<Longrightarrow> same_inbound db db'"
  by (erule runs_relation) (auto dest: stmt_inbound simp: same_inbound_def)

section \<open>The watermark\<close>

text \<open>The loop of \<open>_advance_inbound_gap_prefix\<close> walks consecutive numbers only.\<close>

lemma advance_prefix_range: "w \<le> advance_prefix w rows \<and> {w <.. advance_prefix w rows} \<subseteq> set rows"
proof (induction rows arbitrary: w)
  case (Cons s rows)
  have "{w <.. advance_prefix (w + 1) rows} \<subseteq> insert (w + 1) {w + 1 <.. advance_prefix (w + 1) rows}" by auto
  then show ?case using Cons.IH [of "w + 1"] by auto
qed simp

text \<open>It stops at the first number that is missing, or at the end of the batch.\<close>

lemma advance_prefix_stops:
  assumes "sorted rows" "distinct rows" "\<forall>r\<in>set rows. w < r"
  shows "advance_prefix w rows + 1 \<notin> set rows"
  using assms
proof (induction rows arbitrary: w)
  case (Cons s rows)
  show ?case
  proof (cases "s = w + 1")
    case True
    then have "advance_prefix s rows + 1 \<notin> set rows" using Cons.IH [of s] Cons.prems by (auto simp: order.strict_iff_order)
    moreover have "s \<le> advance_prefix s rows" using advance_prefix_range by blast
    ultimately show ?thesis using True by auto
  next
    case False
    then have "w + 1 < s" using Cons.prems(3) by auto
    then show ?thesis using False Cons.prems(1) by auto
  qed
qed simp

lemma advance_cases:
  assumes "advance_inbound_gap_prefix s w db = Inr (db', m)"
  shows "db' = db \<and> m = w
    \<or> db' = db\<lparr>db_in_gaps := filter (\<lambda>g. \<not> (fst g = s \<and> w < snd g \<and> snd g \<le> m)) (db_in_gaps db)\<rparr>"
  using assms unfolding advance_inbound_gap_prefix_def Let_def by (simp split: if_split_asm) (elim conjE, simp)

lemma advance_gaps:
  assumes "advance_inbound_gap_prefix s w db = Inr (db', m)"
  shows "w \<le> m" "db' = db\<lparr>db_in_gaps := db_in_gaps db'\<rparr>"
    "set (db_in_gaps db') = {g \<in> set (db_in_gaps db). \<not> (fst g = s \<and> w < snd g \<and> snd g \<le> m)}"
    "\<And>n. w < n \<Longrightarrow> n \<le> m \<Longrightarrow> (s, n) \<in> set (db_in_gaps db)"
proof -
  define rows where "rows = take MAINTENANCE_ROW_BATCH (sort (map snd (filter (\<lambda>g. fst g = s \<and> snd g > w) (db_in_gaps db))))"
  have m: "m = advance_prefix w rows"
    using assms by (auto simp: advance_inbound_gap_prefix_def Let_def rows_def split: if_split_asm)
  have sub: "set rows \<subseteq> {n. (s, n) \<in> set (db_in_gaps db)}"
    using set_take_subset [of MAINTENANCE_ROW_BATCH "sort (map snd (filter (\<lambda>g. fst g = s \<and> snd g > w) (db_in_gaps db)))"]
    by (auto simp: rows_def)
  show "w \<le> m" using advance_prefix_range m by simp
  show "\<And>n. w < n \<Longrightarrow> n \<le> m \<Longrightarrow> (s, n) \<in> set (db_in_gaps db)"
    using advance_prefix_range [of w rows] sub m by auto
  show "db' = db\<lparr>db_in_gaps := db_in_gaps db'\<rparr>"
    "set (db_in_gaps db') = {g \<in> set (db_in_gaps db). \<not> (fst g = s \<and> w < snd g \<and> snd g \<le> m)}"
    using advance_cases [OF assms] by auto
qed

section \<open>Accepting numbers of one source\<close>

text \<open>
  The watermark of a source moves to \<open>m\<close> and the numbers \<open>N\<close> are new: the
  gaps up to the watermark go, the others stay.
\<close>

definition accepts :: "string \<Rightarrow> int set \<Rightarrow> int \<Rightarrow> db \<Rightarrow> db \<Rightarrow> bool" where
  "accepts s N m db db' =
    ((\<forall>t. contiguous db' t = (if t = s then m else contiguous db t)) \<and> contiguous db s \<le> m
      \<and> (\<forall>x. contiguous db s < x \<longrightarrow> x \<le> m \<longrightarrow> (s, x) \<in> set (db_in_gaps db) \<or> x \<in> N)
      \<and> (\<forall>t x. (t, x) \<in> set (db_in_gaps db') \<longleftrightarrow> ((t, x) \<in> set (db_in_gaps db) \<or> t = s \<and> x \<in> N) \<and> \<not> (t = s \<and> x \<le> m))
      \<and> (\<forall>t x. acknowledged db' t x \<longleftrightarrow> acknowledged db t x \<or> t = s \<and> x \<in> N)
      \<and> (\<forall>x\<in>N. 0 < x \<and> contiguous db s < x)
      \<and> compacted_ok db')"

lemma accepts_facts:
  assumes "accepts s N m db db'"
  shows "contiguous db' t = (if t = s then m else contiguous db t)" "contiguous db s \<le> m"
    "contiguous db s < x \<Longrightarrow> x \<le> m \<Longrightarrow> (s, x) \<in> set (db_in_gaps db) \<or> x \<in> N"
    "(t, x) \<in> set (db_in_gaps db') \<longleftrightarrow> ((t, x) \<in> set (db_in_gaps db) \<or> t = s \<and> x \<in> N) \<and> \<not> (t = s \<and> x \<le> m)"
    "acknowledged db' t x \<longleftrightarrow> acknowledged db t x \<or> t = s \<and> x \<in> N"
    "x \<in> N \<Longrightarrow> 0 < x" "compacted_ok db'"
  using assms unfolding accepts_def by (elim conjE; blast)+

lemma accepts_accepted:
  assumes "accepts s N m db db'"
  shows "accepted db' t x \<longleftrightarrow> accepted db t x \<or> t = s \<and> x \<in> N"
  unfolding accepted_def accepts_facts(1,4) [OF assms]
  using accepts_facts(2) [OF assms] accepts_facts(3,6) [OF assms, of x] by (cases "t = s"; cases "contiguous db s < x") auto

lemma accepts_ok:
  assumes "accepts s N m db db'" "inbound_ok db"
  shows "inbound_ok db'"
proof -
  have "contiguous db' t < x \<and> acknowledged db' t x" if "(t, x) \<in> set (db_in_gaps db')" for t x
    using that assms(2) by (auto simp: accepts_facts(1,4,5) [OF assms(1)] inbound_ok_def)
  moreover have "accepted db' t x" if "acknowledged db' t x" for t x
    using that assms(2) accepts_accepted [OF assms(1), of t x] by (auto simp: accepts_facts(5) [OF assms(1)] inbound_ok_def)
  ultimately show ?thesis using accepts_facts(7) [OF assms(1)] by (simp add: inbound_ok_def)
qed

lemma accepts_cong:
  assumes "accepts s N m db db'" "same_inbound db0 db" "same_inbound db' db1"
  shows "accepts s N m db0 db1"
proof -
  have "contiguous db = contiguous db0" "acknowledged db = acknowledged db0" "db_in_gaps db = db_in_gaps db0"
    "contiguous db1 = contiguous db'" "acknowledged db1 = acknowledged db'" "db_in_gaps db1 = db_in_gaps db'"
    "compacted_ok db1 = compacted_ok db'"
    using assms(2,3) by (simp_all add: fun_eq_iff same_inbound_def contiguous_def acknowledged_def compacted_ok_def)
  then show ?thesis using assms(1) unfolding accepts_def by simp
qed

lemma update_in_stream_contiguous:
  assumes "update_in_stream s f db = Inr db'" "tfind is_source_warden s (db_in_streams db) = Some r"
    "\<And>r. is_source_warden (f r) = is_source_warden r"
  shows "contiguous db' t = (if t = s then is_contiguous_through (f r) else contiguous db t)"
    "db' = db\<lparr>db_in_streams := tupdate is_source_warden s f (db_in_streams db)\<rparr>" "in_stream_checks (f r)"
  using assms by (auto simp: update_in_stream_def contiguous_def tfind_tupdate [of is_source_warden f, OF assms(3)] split: if_split_asm)

lemma compacted_update:
  assumes "update_in_stream s f db = Inr db'" "compacted_ok db" "\<And>r. is_source_warden (f r) = is_source_warden r"
  shows "compacted_ok db'"
proof (cases "tfind is_source_warden s (db_in_streams db)")
  case None
  then show ?thesis using assms by (simp add: update_in_stream_def)
next
  case (Some r)
  have "x = r" if "x \<in> set (db_in_streams db)" "is_source_warden x = s" for x
    using that assms(2) Some tfind_unique [of is_source_warden "db_in_streams db" x] by (auto simp: compacted_ok_def)
  then show ?thesis
    using assms(2) update_in_stream_contiguous(2,3) [OF assms(1) Some assms(3)] table.keys_update [of is_source_warden _ f, OF _ assms(3)]
    by (auto simp: compacted_ok_def set_tupdate in_stream_checks_def)
qed

lemma open_in_stream_facts:
  assumes "open_in_stream s e now db = Inr (db', r)" "compacted_ok db"
  shows "tfind is_source_warden s (db_in_streams db') = Some r" "is_contiguous_through r = contiguous db s"
    "contiguous db' t = contiguous db t" "compacted_ok db'" "db_in_gaps db' = db_in_gaps db" "db_in_acks db' = db_in_acks db"
proof -
  show "tfind is_source_warden s (db_in_streams db') = Some r" "is_contiguous_through r = contiguous db s"
    "contiguous db' t = contiguous db t"
    using assms(1) by (auto simp: open_in_stream_def contiguous_def Let_def res_simps tfind_append tfind_singleton
        split: option.split_asm option.split if_split_asm)
  show "compacted_ok db'"
    using assms by (auto simp: open_in_stream_def compacted_ok_def tkeys_def tfind_None_iff Let_def res_simps
        split: option.split_asm if_split_asm)
  show "db_in_gaps db' = db_in_gaps db" "db_in_acks db' = db_in_acks db"
    using assms(1) by (auto dest!: in_stream_frame(1))
qed

section \<open>accept_transfer\<close>

text \<open>The voucher arrives again: nothing is accepted, the watermark may catch up.\<close>

lemma duplicate_accepts:
  assumes "accept_duplicate sv act e v dg x db = Inr (db', a)" "inbound_ok db"
  shows "\<exists>m. accepts (v_source_warden v) {} m db db'"
proof -
  let ?s = "v_source_warden v"
  from assms(1) obtain r db1 m where r: "tfind is_source_warden ?s (db_in_streams db) = Some r"
    and g: "advance_inbound_gap_prefix ?s (is_contiguous_through r) db = Inr (db1, m)"
    and n: "(m > is_contiguous_through r \<and> (\<exists>db2. update_in_stream ?s (\<lambda>z. z\<lparr>is_contiguous_through := m,
        is_updated_at_ns := sv_now_ns sv\<rparr>) db1 = Inr db2 \<and> same_inbound db2 db')) \<or> (\<not> m > is_contiguous_through r \<and> db' = db1)"
    by (auto simp: accept_duplicate_def Let_def res_simps intro!: runs_inbound [where ks = "{}"]
        split: option.split_asm if_split_asm dest!: audit_runs [OF _ runs_refl, where ks = "{}"])
  have c: "contiguous db ?s = is_contiguous_through r" using r by (simp add: contiguous_def)
  note f = advance_gaps [OF g]
  have db1: "db_in_streams db1 = db_in_streams db" "db_in_acks db1 = db_in_acks db"
    by (subst f(2), simp)+
  have ok: "compacted_ok db" and gap: "\<And>t x. (t, x) \<in> set (db_in_gaps db) \<Longrightarrow> contiguous db t < x"
    using assms(2) by (auto simp: inbound_ok_def)
  have gaps: "(t, x) \<in> set (db_in_gaps db1) \<longleftrightarrow> (t, x) \<in> set (db_in_gaps db) \<and> \<not> (t = ?s \<and> x \<le> m)" for t x
    using f(3) gap [of t x] c by auto
  have "accepts ?s {} m db db2" if u: "update_in_stream ?s (\<lambda>z. z\<lparr>is_contiguous_through := m, is_updated_at_ns := sv_now_ns sv\<rparr>) db1 = Inr db2" for db2
  proof -
    note w = update_in_stream_contiguous [OF u, unfolded db1(1), OF r]
    have "contiguous db1 t = contiguous db t" for t by (simp add: contiguous_def db1)
    moreover have "compacted_ok db2" using compacted_update [OF u] ok by (simp add: compacted_ok_def db1)
    moreover have "db_in_gaps db2 = db_in_gaps db1" "db_in_acks db2 = db_in_acks db" using w(2) db1(2) by simp_all
    ultimately show ?thesis unfolding accepts_def
      using w(1) f(1,4) c gaps by (auto simp: acknowledged_def)
  qed
  moreover have "accepts ?s {} m db db1" if "m = is_contiguous_through r"
    unfolding accepts_def using gaps f(4) ok that
    by (auto simp: acknowledged_def compacted_ok_def db1 r contiguous_def)
  ultimately show ?thesis
    using n f(1) accepts_cong [of ?s "{}" m db _ db db'] by (force simp: same_inbound_def)
qed

text \<open>A new voucher: its number is above the watermark and becomes accepted.\<close>

lemma position_facts:
  assumes "accept_position sv e v db = Inr (db1, m, h)" "inbound_ok db" "\<not> acknowledged db (v_source_warden v) (v_sequence v)"
  shows "contiguous db (v_source_warden v) < v_sequence v" "contiguous db (v_source_warden v) \<le> m"
    "\<And>t. contiguous db1 t = contiguous db t" "\<exists>r. tfind is_source_warden (v_source_warden v) (db_in_streams db1) = Some r"
    "\<And>x. contiguous db (v_source_warden v) < x \<Longrightarrow> x \<le> m \<Longrightarrow> (v_source_warden v, x) \<in> set (db_in_gaps db) \<or> x = v_sequence v"
    "\<And>t x. (t, x) \<in> set (db_in_gaps db1) \<longleftrightarrow> ((t, x) \<in> set (db_in_gaps db) \<or> t = v_source_warden v \<and> x = v_sequence v)
      \<and> \<not> (t = v_source_warden v \<and> x \<le> m)"
    "db_in_acks db1 = db_in_acks db" "compacted_ok db1"
proof -
  let ?s = "v_source_warden v" and ?n = "v_sequence v"
  from assms(1) obtain d r where o: "open_in_stream ?s (v_config_epoch v) (sv_now_ns sv) db = Inr (d, r)"
    and n: "is_contiguous_through r < ?n"
    and p: "(if ?n > is_contiguous_through r + 1
       then rbind (insert_in_gap ?s ?n d) (\<lambda>db2. Inr (db2, is_contiguous_through r))
       else advance_inbound_gap_prefix ?s ?n d) = Inr (db1, m)"
    by (auto simp: accept_position_def Let_def res_simps)
  have ok: "compacted_ok db" and gap: "\<And>t x. (t, x) \<in> set (db_in_gaps db) \<Longrightarrow> contiguous db t < x \<and> acknowledged db t x"
    using assms(2) by (auto simp: inbound_ok_def)
  note f = open_in_stream_facts [OF o ok]
  have fresh: "(?s, ?n) \<notin> set (db_in_gaps db)" using gap assms(3) by blast
  have c: "contiguous db ?s = is_contiguous_through r" using f(2) by simp
  show "contiguous db ?s < ?n" using n c by simp
  have "contiguous db ?s \<le> m \<and> (\<forall>x. contiguous db ?s < x \<longrightarrow> x \<le> m \<longrightarrow> (?s, x) \<in> set (db_in_gaps db) \<or> x = ?n)
    \<and> (\<forall>t x. (t, x) \<in> set (db_in_gaps db1) \<longleftrightarrow> ((t, x) \<in> set (db_in_gaps db) \<or> t = ?s \<and> x = ?n) \<and> \<not> (t = ?s \<and> x \<le> m))
    \<and> db_in_streams db1 = db_in_streams d \<and> db_in_acks db1 = db_in_acks d"
  proof (cases "?n > is_contiguous_through r + 1")
    case True
    then have "db1 = d\<lparr>db_in_gaps := db_in_gaps d @ [(?s, ?n)]\<rparr>" "m = is_contiguous_through r"
      using p by (auto simp: insert_in_gap_def res_simps)
    then show ?thesis using n gap c by (auto simp: f(5) dest: gap)
  next
    case False
    then have nn: "?n = is_contiguous_through r + 1" and a: "advance_inbound_gap_prefix ?s ?n d = Inr (db1, m)"
      using n p by auto
    note g = advance_gaps [OF a]
    have "db_in_streams db1 = db_in_streams d" "db_in_acks db1 = db_in_acks d" by (subst g(2), simp)+
    moreover have "(?s, x) \<in> set (db_in_gaps db) \<or> x = ?n" if "contiguous db ?s < x" "x \<le> m" for x
      using g(4) [of x] that c nn f(5) by force
    moreover have "(t, x) \<in> set (db_in_gaps db1) \<longleftrightarrow> ((t, x) \<in> set (db_in_gaps db) \<or> t = ?s \<and> x = ?n) \<and> \<not> (t = ?s \<and> x \<le> m)" for t x
    proof -
      have "(t, x) \<in> set (db_in_gaps db1) \<longleftrightarrow> (t, x) \<in> set (db_in_gaps db) \<and> \<not> (t = ?s \<and> ?n < x \<and> x \<le> m)"
        unfolding g(3) f(5) by simp
      moreover have "?n < x" if "(?s, x) \<in> set (db_in_gaps db)"
        using gap [OF that] fresh that c nn by (cases "x = ?n") auto
      ultimately show ?thesis using g(1) by (cases "t = ?s") auto
    qed
    ultimately show ?thesis using g(1) c nn by simp
  qed
  then show "contiguous db ?s \<le> m" "\<And>x. contiguous db ?s < x \<Longrightarrow> x \<le> m \<Longrightarrow> (?s, x) \<in> set (db_in_gaps db) \<or> x = ?n"
    "\<And>t x. (t, x) \<in> set (db_in_gaps db1) \<longleftrightarrow> ((t, x) \<in> set (db_in_gaps db) \<or> t = ?s \<and> x = ?n) \<and> \<not> (t = ?s \<and> x \<le> m)"
    "\<And>t. contiguous db1 t = contiguous db t" "\<exists>r. tfind is_source_warden ?s (db_in_streams db1) = Some r"
    "db_in_acks db1 = db_in_acks db" "compacted_ok db1"
    using f by (auto simp: contiguous_def compacted_ok_def)
qed

lemma accept_new_cases:
  assumes "accept_new sv act e v dg p am u db = Inr (db', a)"
  obtains db1 m h db2 db5 sg db6 where "accept_position sv e v db = Inr (db1, m, h)" "same_inbound db1 db2"
    "update_in_stream (v_source_warden v) (\<lambda>z. z\<lparr>is_contiguous_through := m, is_highest_seen := h,
      is_updated_at_ns := sv_now_ns sv\<rparr>) db2 = Inr db5"
    "insert_in_ack \<lparr>ia_ack = a, ia_signature = sg\<rparr> db5 = Inr db6" "same_inbound db6 db'"
    "a_source_warden a = v_source_warden v" "a_sequence a = v_sequence v"
proof -
  from assms obtain db1 m h d c out iss db3 db4 db5 sg db6 where p: "accept_position sv e v db = Inr (db1, m, h)"
    and ad: "(if is_lease v then rbind (admit_remote_child sv e v p am u db1) (\<lambda>(d, c, out, issued). Inr (d, Some c, Some out, issued))
      else Inr (db1, None, None, False)) = Inr (d, c, out, iss)"
    and k: "make_ack sv v dg m c out = Inr a" and cr: "accept_credit sv iss am d = Inr db3"
    and o: "(case c of None \<Rightarrow> Inr db3 | Some ci \<Rightarrow> append_audit sv e (if iss then ''lease.remote-child-issued'' else ''lease.remote-child-fenced'')
          (Some ''lease'') (Some ci) act
          [(''source_warden'', JStr (v_source_warden v)), (''transfer_id'', JStr (v_transfer_id v)),
           (''sequence'', JInt (v_sequence v)), (''allocation'', jvec am), (''child_outcome'', jopt out),
           (''parent_id'', jopt (map_option lr_parent_id (v_lease_request v)))] db3) = Inr db4"
    and up: "update_in_stream (v_source_warden v) (\<lambda>z. z\<lparr>is_contiguous_through := m, is_highest_seen := h,
      is_updated_at_ns := sv_now_ns sv\<rparr>) db4 = Inr db5"
    and i: "insert_in_ack \<lparr>ia_ack = a, ia_signature = sg\<rparr> db5 = Inr db6"
    and n: "runs {} sv db6 db'"
    by (clarsimp simp: accept_new_def rbind_Inr_iff) (rule that, assumption+, erule audit_runs, rule runs_refl)
  have "runs {} sv db1 d" using ad by (auto simp: rbind_Inr_iff runs_refl split: if_split_asm intro: admit_runs)
  then have "runs {} sv db1 db3" by (rule accept_credit_runs [OF cr])
  then have "runs {} sv db1 db4" using o by (auto split: option.split_asm intro: audit_runs)
  then show thesis using that [OF p _ up i] runs_inbound [OF n] make_ack_fields [OF k] runs_inbound by blast
qed

lemma new_accepts:
  assumes "accept_new sv act e v dg p am u db = Inr (db', a)" "inbound_ok db" "\<not> acknowledged db (v_source_warden v) (v_sequence v)"
  shows "\<exists>m. accepts (v_source_warden v) {v_sequence v} m db db'"
proof -
  let ?s = "v_source_warden v" and ?n = "v_sequence v"
  from assms(1) obtain db1 m h db2 db5 sg db6 where p: "accept_position sv e v db = Inr (db1, m, h)"
    and s1: "same_inbound db1 db2"
    and up: "update_in_stream ?s (\<lambda>z. z\<lparr>is_contiguous_through := m, is_highest_seen := h, is_updated_at_ns := sv_now_ns sv\<rparr>) db2 = Inr db5"
    and i: "insert_in_ack \<lparr>ia_ack = a, ia_signature = sg\<rparr> db5 = Inr db6" and s2: "same_inbound db6 db'"
    and k: "a_source_warden a = ?s" "a_sequence a = ?n"
    by (rule accept_new_cases)
  note f = position_facts [OF p assms(2,3)]
  obtain r where r: "tfind is_source_warden ?s (db_in_streams db2) = Some r" using f(4) s1 by (auto simp: same_inbound_def)
  note w = update_in_stream_contiguous [OF up r]
  have ks: "db_in_streams db2 = db_in_streams db1" "db_in_gaps db2 = db_in_gaps db1" "db_in_acks db2 = db_in_acks db1"
    using s1 by (simp_all add: same_inbound_def)
  have d6: "db_in_streams db6 = db_in_streams db5" "db_in_gaps db6 = db_in_gaps db1"
    "db_in_acks db6 = db_in_acks db @ [\<lparr>ia_ack = a, ia_signature = sg\<rparr>]" and pos: "0 < ?n"
    using i w(2) f(7) ks k by (auto simp: insert_in_ack_def Let_def res_simps)
  have "contiguous db6 t = (if t = ?s then m else contiguous db t)" for t
    using w(1) [of t] f(3) [of t] by (simp add: contiguous_def d6 ks)
  moreover have "acknowledged db6 t x \<longleftrightarrow> acknowledged db t x \<or> t = ?s \<and> x = ?n" for t x
    by (auto simp: acknowledged_def d6(3) tfind_append tfind_singleton ia_key_def k split: option.splits)
  moreover have "compacted_ok db6" using compacted_update [OF up] f(8) by (simp add: compacted_ok_def d6 ks)
  ultimately have "accepts ?s {?n} m db db6"
    unfolding accepts_def using f(1,2,5,6) d6(2) pos by simp
  then show ?thesis using accepts_cong [OF _ _ s2, of ?s "{?n}" m db db] by (auto simp: same_inbound_def)
qed

lemma clock_inbound: "clock_is_safe sv e b db = Inr (db', u) \<Longrightarrow> same_inbound db db'"
  using runs_inbound [OF clock_runs [OF _ runs_refl], of sv e b db db' u "{}"] by simp

lemma audit_inbound: "append_audit sv e t et ei a d db = Inr db' \<Longrightarrow> same_inbound db db'"
  using runs_inbound [OF audit_runs [OF _ runs_refl], of sv e t et ei a d db db' "{}"] by simp

lemma accept_accepts:
  assumes "accept_transfer sv ident v db = Inr (db', a)" "inbound_ok db"
  shows "\<exists>m. accepts (v_source_warden v) (if acknowledged db (v_source_warden v) (v_sequence v) then {} else {v_sequence v}) m db db'"
proof -
  from assms(1) obtain act it where b: "accept_body sv it act v db = Inr (db', a)"
    unfolding accept_transfer_def write_or_degraded_def by (auto simp: rbind_Inr_iff guard_Inr_iff split: if_split_asm)
  then obtain en db0 u p dg where c: "clock_is_safe sv en True db = Inr (db0, u)"
    and r: "(case tfind ia_key (v_source_warden v, v_sequence v) (db_in_acks db0) of
      Some existing \<Rightarrow> accept_duplicate sv act en v dg existing db0
    | None \<Rightarrow> accept_new sv act en v dg p (v_amount v) u db0) = Inr (db', a)"
    by (auto simp: accept_body_def rbind_Inr_iff guard_Inr_iff vector_def split: if_split_asm)
  note s = clock_inbound [OF c]
  note ok = same_inbound_ok [OF s assms(2)]
  have ak: "db_in_acks db0 = db_in_acks db" using s by (simp add: same_inbound_def)
  then have k: "acknowledged db0 = acknowledged db" by (simp add: fun_eq_iff acknowledged_def)
  show ?thesis
  proof (cases "tfind ia_key (v_source_warden v, v_sequence v) (db_in_acks db0)")
    case None
    then have n: "\<not> acknowledged db (v_source_warden v) (v_sequence v)" using ak by (simp add: acknowledged_def)
    have "accept_new sv act en v dg p (v_amount v) u db0 = Inr (db', a)" using r None by simp
    from new_accepts [OF this ok] n obtain m where "accepts (v_source_warden v) {v_sequence v} m db0 db'" by (auto simp: k)
    from accepts_cong [OF this s] n show ?thesis by (auto simp: same_inbound_def)
  next
    case (Some x)
    then have y: "acknowledged db (v_source_warden v) (v_sequence v)" using ak by (simp add: acknowledged_def)
    have "accept_duplicate sv act en v dg x db0 = Inr (db', a)" using r Some by simp
    from duplicate_accepts [OF this ok] obtain m where "accepts (v_source_warden v) {} m db0 db'" by blast
    from accepts_cong [OF this s] y show ?thesis by (auto simp: same_inbound_def)
  qed
qed

text \<open>A voucher that is accepted without error has been accepted before just if it is acknowledged.\<close>

lemma accepted_iff_acknowledged:
  assumes "accept_transfer sv ident v db = Inr (db', a)" "inbound_ok db"
  shows "accepted db (v_source_warden v) (v_sequence v) \<longleftrightarrow> acknowledged db (v_source_warden v) (v_sequence v)"
proof -
  let ?s = "v_source_warden v" and ?n = "v_sequence v"
  have "\<not> accepted db ?s ?n" if k: "\<not> acknowledged db ?s ?n"
  proof -
    have "contiguous db ?s < ?n" using accept_accepts [OF assms] k by (auto simp: accepts_def)
    moreover have "(?s, ?n) \<notin> set (db_in_gaps db)" using assms(2) k by (auto simp: inbound_ok_def)
    ultimately show ?thesis by (simp add: accepted_def)
  qed
  then show ?thesis using assms(2) by (auto simp: inbound_ok_def)
qed

section \<open>ingest_transfer_checkpoint\<close>

lemma acknowledged_iff: "acknowledged db t x \<longleftrightarrow> (t, x) \<in> ia_key ` set (db_in_acks db)"
  using tfind_None_iff [of ia_key "(t, x)" "db_in_acks db"] by (simp add: acknowledged_def)

lemma prune_acks:
  "acknowledged (prune_inbound_ack_prefix s n db) t x \<Longrightarrow> acknowledged db t x"
  "acknowledged db t x \<Longrightarrow> t = s \<longrightarrow> n < x \<Longrightarrow> acknowledged (prune_inbound_ack_prefix s n db) t x"
proof -
  define vs where "vs = take MAINTENANCE_ROW_BATCH (sort (map (a_sequence \<circ> ia_ack)
    (filter (\<lambda>r. a_source_warden (ia_ack r) = s \<and> a_sequence (ia_ack r) \<le> n) (db_in_acks db))))"
  have p: "db_in_acks (prune_inbound_ack_prefix s n db)
      = filter (\<lambda>r. \<not> (a_source_warden (ia_ack r) = s \<and> List.member vs (a_sequence (ia_ack r)))) (db_in_acks db)"
    unfolding prune_inbound_ack_prefix_def vs_def Let_def by simp
  have v: "y \<le> n" if "y \<in> set vs" for y
    using that set_take_subset unfolding vs_def by fastforce
  show "acknowledged (prune_inbound_ack_prefix s n db) t x \<Longrightarrow> acknowledged db t x"
    unfolding acknowledged_iff p by auto
  show "acknowledged (prune_inbound_ack_prefix s n db) t x" if "acknowledged db t x" "t = s \<longrightarrow> n < x"
    using that v [of x] unfolding acknowledged_iff p by (force simp: ia_key_def image_iff)
qed

lemma prune_inbound_ok:
  assumes "inbound_ok db" "n \<le> contiguous db s"
  shows "inbound_ok (prune_inbound_ack_prefix s n db)" "accepted (prune_inbound_ack_prefix s n db) = accepted db"
proof -
  let ?d = "prune_inbound_ack_prefix s n db"
  have g: "db_in_gaps ?d = db_in_gaps db" "db_in_streams ?d = db_in_streams db" by (simp_all add: prunes)
  then show a: "accepted ?d = accepted db" by (simp add: fun_eq_iff accepted_def contiguous_def)
  have c: "contiguous ?d = contiguous db" by (simp add: fun_eq_iff contiguous_def g)
  have "contiguous ?d t < x \<and> acknowledged ?d t x" if "(t, x) \<in> set (db_in_gaps db)" for t x
  proof -
    have "contiguous db t < x" "acknowledged db t x" using that assms(1) by (simp_all add: inbound_ok_def)
    then show ?thesis using prune_acks(2) [of db t x s n] assms(2) by (cases "t = s") (simp_all add: c)
  qed
  moreover have "accepted ?d t x" if "acknowledged ?d t x" for t x
    using prune_acks(1) [OF that] assms(1) a by (simp add: inbound_ok_def)
  moreover have "compacted_ok ?d" using assms(1) by (simp add: inbound_ok_def compacted_ok_def g)
  ultimately show "inbound_ok ?d" unfolding inbound_ok_def g by blast
qed

lemma compact_inbound_ok:
  assumes "update_in_stream s (\<lambda>r. r\<lparr>is_compacted_through := n, is_checkpoint_payload := p, is_updated_at_ns := now\<rparr>) db = Inr db'"
    "inbound_ok db"
  shows "inbound_ok db'" "accepted db' = accepted db" "contiguous db' = contiguous db"
proof -
  show c: "contiguous db' = contiguous db"
  proof (cases "tfind is_source_warden s (db_in_streams db)")
    case None
    then show ?thesis using assms(1) by (simp add: update_in_stream_def)
  next
    case (Some r)
    show ?thesis
      using update_in_stream_contiguous(1) [OF assms(1) Some] Some by (simp add: fun_eq_iff contiguous_def [of db])
  qed
  have e: "db_in_gaps db' = db_in_gaps db" "db_in_acks db' = db_in_acks db" using assms(1) by (auto dest!: in_stream_frame(2))
  show a: "accepted db' = accepted db" by (simp add: fun_eq_iff accepted_def c e)
  show "inbound_ok db'"
    using assms(2) compacted_update [OF assms(1)] unfolding inbound_ok_def a c by (simp add: acknowledged_def e)
qed

lemma ingest_checkpoint_inbound:
  assumes "ingest_transfer_checkpoint sv ident wire db = Inr (db', x)" "inbound_ok db"
  shows "inbound_ok db' \<and> accepted db' = accepted db"
proof -
  from assms(1) obtain it act ts ns where "ingest_checkpoint_body sv it act ts ns wire db = Inr (db', x)"
    unfolding ingest_transfer_checkpoint_def write_or_degraded_def by (auto simp: rbind_Inr_iff guard_Inr_iff split: if_split_asm)
  then obtain e db0 u s r n pl act' where c: "clock_is_safe sv e True db = Inr (db0, u)"
    and r: "tfind is_source_warden s (db_in_streams db0) = Some r" "n \<le> is_contiguous_through r"
    and f: "(if n = is_compacted_through r then
           (case is_checkpoint_payload r of
              None \<Rightarrow> Inl ConflictError
            | Some existing \<Rightarrow> rbind (canonical_json (JObj existing)) (\<lambda>existing_payload.
                if existing_payload \<noteq> pl then Inl ConflictError
                else Inr (prune_inbound_ack_prefix s n db0, wire)))
         else rbind (update_in_stream s (\<lambda>s. s\<lparr>is_compacted_through := n,
           is_checkpoint_payload := Some wire, is_updated_at_ns := sv_now_ns sv\<rparr>) db0) (\<lambda>db1.
         rbind (append_audit sv e ''transfer.checkpoint-ingested'' (Some ''warden'') (Some s)
           act' [(''through_sequence'', JInt n)] (prune_inbound_ack_prefix s n db1)) (\<lambda>db2.
         Inr (db2, wire)))) = Inr (db', x)"
    by (auto simp: ingest_checkpoint_body_def rbind_Inr_iff guard_Inr_iff of_option_Inr_iff not_less split: list.split_asm)
  have d: "db' = prune_inbound_ack_prefix s n db0
      \<or> (\<exists>db1. update_in_stream s (\<lambda>r. r\<lparr>is_compacted_through := n, is_checkpoint_payload := Some wire,
            is_updated_at_ns := sv_now_ns sv\<rparr>) db0 = Inr db1 \<and> same_inbound (prune_inbound_ack_prefix s n db1) db')"
    using f by (auto simp: rbind_Inr_iff guard_Inr_iff split: if_split_asm option.split_asm
        dest!: audit_inbound)
  note s0 = clock_inbound [OF c]
  note ok = same_inbound_ok [OF s0 assms(2)]
  have n: "n \<le> contiguous db0 s" using r by (simp add: contiguous_def)
  from d show ?thesis
  proof (elim disjE exE conjE)
    assume "db' = prune_inbound_ack_prefix s n db0"
    then show ?thesis using prune_inbound_ok [OF ok n] same_inbound_accepted [OF s0] by simp
  next
    fix db1
    assume u: "update_in_stream s (\<lambda>r. r\<lparr>is_compacted_through := n, is_checkpoint_payload := Some wire,
        is_updated_at_ns := sv_now_ns sv\<rparr>) db0 = Inr db1" and s1: "same_inbound (prune_inbound_ack_prefix s n db1) db'"
    note k = compact_inbound_ok [OF u ok]
    show ?thesis
      using prune_inbound_ok [OF k(1), of n s] same_inbound_ok [OF s1] same_inbound_accepted [OF s1]
        same_inbound_accepted [OF s0] k(2,3) n by simp
  qed
qed

section \<open>Calls\<close>

lemma run_op_inbound:
  assumes "run_op sv op db = Inr (db', u)" "\<And>i c. op \<noteq> CreateEnvelope i c" "\<And>i v. op \<noteq> AcceptTransfer i v"
    "\<And>i w. op \<noteq> IngestCheckpoint i w"
  shows "same_inbound db db'"
proof -
  have "runs {Resign, Outbound} sv db db'"
    using assms by (cases op) (auto simp: res_simps intro: issue_root_runs spawn_runs authorize_runs renew_runs lifecycle_runs
      reclaim_runs revoke_branch_runs ingest_runs prepare_runs spawn_remote_runs finalize_runs
      create_checkpoint_runs set_runtime_mode_runs register_policy_runs)
  then show ?thesis by (rule runs_inbound) simp
qed

lemma perform_inbound:
  assumes "inbound_ok db"
  shows "inbound_ok (perform sv op db) \<and> (\<forall>s n. accepted db s n \<longrightarrow> accepted (perform sv op db) s n)"
proof (cases rule: perform_cases [of sv op db])
  case c: commit
  consider (create) i cf where "op = CreateEnvelope i cf" | (accept) i v where "op = AcceptTransfer i v"
    | (ingest) i w where "op = IngestCheckpoint i w"
    | (other) "\<And>i cf. op \<noteq> CreateEnvelope i cf" "\<And>i v. op \<noteq> AcceptTransfer i v" "\<And>i w. op \<noteq> IngestCheckpoint i w" by blast
  then show ?thesis
  proof cases
    case create
    then obtain x where "create_envelope sv i cf db = Inr (perform sv op db, x)" using c(1) by (auto simp: res_simps)
    then have "same_inbound db (perform sv op db)"
    proof (cases rule: create_envelope_cases)
      case (again e u)
      then show ?thesis by (simp add: clock_inbound)
    next
      case (fresh e w e' t et ei a d db2)
      then have "same_inbound db2 (perform sv op db)" by (simp add: audit_inbound)
      then show ?thesis using fresh(3) by (simp add: same_inbound_def)
    qed
    then show ?thesis using assms same_inbound_ok same_inbound_accepted by metis
  next
    case accept
    then obtain x where a: "accept_transfer sv i v db = Inr (perform sv op db, x)" using c(1) by (auto simp: res_simps)
    show ?thesis using accept_accepts [OF a assms] accepts_ok [OF _ assms] accepts_accepted by blast
  next
    case ingest
    then obtain x where "ingest_transfer_checkpoint sv i w db = Inr (perform sv op db, x)" using c(1) by (auto simp: res_simps)
    then show ?thesis using ingest_checkpoint_inbound assms by metis
  next
    case other
    then show ?thesis using run_op_inbound [OF c(1)] same_inbound_ok [OF _ assms] same_inbound_accepted by metis
  qed
qed (simp add: assms)

lemma reachable_inbound_ok: "reachable h db \<Longrightarrow> inbound_ok db"
proof (induction rule: reachable.induct)
  case (migrated w k p)
  show ?case by (simp add: inbound_ok_def empty_db_def acknowledged_def tfind_def compacted_ok_def tkeys_def)
qed (simp add: perform_inbound)

end
