(* ===== verification/Outbound.thy ===== *)
theory Outbound
  imports Service
begin

text \<open>
  The sending side of a transfer stream: sequence numbers are given out one
  after the other and never twice, and a voucher stays in the database, for
  another delivery, until its acknowledgement has been recorded.
\<close>

section \<open>Streams and vouchers\<close>

definition out_stream :: "db \<Rightarrow> string \<Rightarrow> out_stream_row option" where
  "out_stream db target = tfind os_target_warden target (db_out_streams db)"

definition next_seq :: "db \<Rightarrow> string \<Rightarrow> int" where
  "next_seq db target = (case out_stream db target of None \<Rightarrow> 1 | Some s \<Rightarrow> os_next_sequence s)"

abbreviation target_of :: "out_transfer_row \<Rightarrow> string" where
  "target_of r \<equiv> v_target_warden (ot_voucher r)"

abbreviation seq_of :: "out_transfer_row \<Rightarrow> int" where
  "seq_of r \<equiv> v_sequence (ot_voucher r)"

text \<open>A stored voucher has a number below the next one, and is finalized if it is in the compacted prefix.\<close>

definition placed :: "out_stream_row \<Rightarrow> out_transfer_row \<Rightarrow> bool" where
  "placed s r = (seq_of r < os_next_sequence s \<and> (seq_of r \<le> os_compacted_through s \<longrightarrow> finalized_status (ot_status r)))"

definition outbound_ok :: "db \<Rightarrow> bool" where
  "outbound_ok db =
    (tkeys os_target_warden (db_out_streams db) \<and> (\<forall>s\<in>set (db_out_streams db). out_stream_checks s)
     \<and> (\<forall>r\<in>set (db_out_transfers db). \<exists>s. out_stream db (target_of r) = Some s \<and> placed s r))"

text \<open>From one database to the next: numbers only grow, and a voucher without acknowledgement stays.\<close>

definition outbound_kept :: "db \<Rightarrow> db \<Rightarrow> bool" where
  "outbound_kept db db' =
    ((\<forall>t. next_seq db t \<le> next_seq db' t)
     \<and> (\<forall>r\<in>set (db_out_transfers db). \<not> finalized_status (ot_status r) \<longrightarrow>
          (\<exists>r'\<in>set (db_out_transfers db'). ot_voucher r' = ot_voucher r)))"

definition same_outbound :: "db \<Rightarrow> db \<Rightarrow> bool" where
  "same_outbound db db' = (db_out_streams db' = db_out_streams db \<and> db_out_transfers db' = db_out_transfers db)"

lemma same_outbound_ok: "same_outbound db db' \<Longrightarrow> outbound_ok db \<Longrightarrow> outbound_ok db'"
  by (simp add: same_outbound_def outbound_ok_def out_stream_def)

lemma same_outbound_next: "same_outbound db db' \<Longrightarrow> next_seq db' = next_seq db"
  by (simp add: same_outbound_def next_seq_def out_stream_def fun_eq_iff)

lemma same_outbound_kept:
  assumes "same_outbound db db'"
  shows "outbound_kept db db'"
  unfolding outbound_kept_def same_outbound_next [OF assms] using assms by (auto simp: same_outbound_def)

lemma outbound_kept_cong:
  assumes "same_outbound a b" "outbound_kept b c" "same_outbound c d"
  shows "outbound_kept a d"
  using assms unfolding outbound_kept_def same_outbound_next [OF assms(1)] same_outbound_next [OF assms(3)]
  by (simp add: same_outbound_def)

lemma same_outbound_trans: "same_outbound a b \<Longrightarrow> same_outbound b c \<Longrightarrow> same_outbound a c"
  by (simp add: same_outbound_def)

lemma stmt_outbound: "stmt ks sv db db' \<Longrightarrow> Outbound \<notin> ks \<Longrightarrow> same_outbound db db'"
  by (induction rule: stmt.induct) (auto dest!: frames simp: same_outbound_def prune_inbound_ack_prefix_def Let_def)

lemma runs_outbound: "runs ks sv db db' \<Longrightarrow> Outbound \<notin> ks \<Longrightarrow> same_outbound db db'"
  by (erule runs_relation) (auto dest: stmt_outbound simp: same_outbound_def)

lemma runs_none_outbound: "runs {} sv db db' \<Longrightarrow> same_outbound db db'"
  by (erule runs_outbound) simp

lemma clock_outbound: "clock_is_safe sv e b db = Inr (db', u) \<Longrightarrow> same_outbound db db'"
  by (rule runs_none_outbound) (erule clock_runs, rule runs_refl)

lemma audit_outbound: "append_audit sv e t et ei a d db = Inr db' \<Longrightarrow> same_outbound db db'"
  by (rule runs_none_outbound) (erule audit_runs, rule runs_refl)

section \<open>Stream rows\<close>

lemma open_out_stream_facts:
  assumes "open_out_stream t e now db = Inr (db', s)" "outbound_ok db"
  shows "out_stream db' t = Some s" "os_next_sequence s = next_seq db t" "next_seq db' = next_seq db"
    "db_out_transfers db' = db_out_transfers db" "outbound_ok db'"
proof -
  show f: "out_stream db' t = Some s" "os_next_sequence s = next_seq db t" "next_seq db' = next_seq db"
    "db_out_transfers db' = db_out_transfers db"
    using assms(1) by (auto simp: open_out_stream_def next_seq_def out_stream_def fun_eq_iff Let_def res_simps tfind_append tfind_singleton
        split: option.split_asm option.split if_split_asm)
  have "\<And>x y. out_stream db x = Some y \<Longrightarrow> out_stream db' x = Some y"
    and "tkeys os_target_warden (db_out_streams db') \<and> (\<forall>s\<in>set (db_out_streams db'). out_stream_checks s)"
    using assms by (auto simp: open_out_stream_def outbound_ok_def out_stream_def tkeys_def tfind_None_iff tfind_append Let_def res_simps
        split: option.split_asm if_split_asm)
  then show "outbound_ok db'" using assms(2) f(4) unfolding outbound_ok_def by metis
qed

lemma update_out_stream_facts:
  assumes "update_out_stream t f db = Inr db'" "out_stream db t = Some s" "\<And>r. os_target_warden (f r) = os_target_warden r"
  shows "out_stream db' x = (if x = t then Some (f s) else out_stream db x)" "out_stream_checks (f s)"
    "db' = db\<lparr>db_out_streams := tupdate os_target_warden t f (db_out_streams db)\<rparr>"
  using assms by (auto simp: update_out_stream_def out_stream_def tfind_tupdate [of os_target_warden f, OF assms(3)] split: if_split_asm)

lemma stream_rows_update:
  assumes "outbound_ok db" "out_stream db t = Some s" "out_stream_checks (f s)" "\<And>r. os_target_warden (f r) = os_target_warden r"
  shows "tkeys os_target_warden (tupdate os_target_warden t f (db_out_streams db))
    \<and> (\<forall>s\<in>set (tupdate os_target_warden t f (db_out_streams db)). out_stream_checks s)"
proof -
  have k: "tkeys os_target_warden (db_out_streams db)" using assms(1) by (simp add: outbound_ok_def)
  have "x = s" if "x \<in> set (db_out_streams db)" "os_target_warden x = t" for x
    using that assms(2) tfind_unique [OF k] by (auto simp: out_stream_def)
  then show ?thesis
    using assms(1,3) table.keys_update [of os_target_warden _ f, OF k assms(4)] by (auto simp: outbound_ok_def set_tupdate)
qed

text \<open>An update of a stream that keeps its numbers, and compacts finalized vouchers only.\<close>

lemma stream_update_ok:
  assumes "outbound_ok db" "out_stream db t = Some s" "update_out_stream t f db = Inr db'"
    "\<And>r. os_target_warden (f r) = os_target_warden r" "os_next_sequence (f s) = os_next_sequence s"
    "\<And>r. r \<in> set (db_out_transfers db) \<Longrightarrow> target_of r = t \<Longrightarrow> seq_of r \<le> os_compacted_through (f s) \<Longrightarrow> finalized_status (ot_status r)"
  shows "outbound_ok db'" "next_seq db' = next_seq db" "db_out_transfers db' = db_out_transfers db"
proof -
  note u = update_out_stream_facts [OF assms(3,2,4)]
  show t: "db_out_transfers db' = db_out_transfers db" using u(3) by simp
  show "next_seq db' = next_seq db" using assms(2,5) by (simp add: fun_eq_iff next_seq_def u(1))
  have "\<exists>s. out_stream db' (target_of r) = Some s \<and> placed s r" if "r \<in> set (db_out_transfers db)" for r
    using that assms(1,2,5,6) by (fastforce simp: outbound_ok_def u(1) placed_def)
  then show "outbound_ok db'"
    using stream_rows_update [OF assms(1,2) u(2) assms(4)] u(3) t by (simp add: outbound_ok_def)
qed

section \<open>Sending\<close>

text \<open>A voucher takes the next number of its stream and is stored.\<close>

definition sends :: "TransferVoucher \<Rightarrow> db \<Rightarrow> db \<Rightarrow> bool" where
  "sends v db db' =
    (v_sequence v = next_seq db (v_target_warden v)
     \<and> next_seq db' = (next_seq db)(v_target_warden v := v_sequence v + 1)
     \<and> (\<exists>r. ot_voucher r = v \<and> ot_status r = TS_PREPARED \<and> db_out_transfers db' = db_out_transfers db @ [r]))"

lemma sends_kept: "sends v db db' \<Longrightarrow> outbound_kept db db'"
  by (auto simp: sends_def outbound_kept_def)

lemma emit_facts:
  assumes "emit_voucher sv en v c db = Inr (db', dg)"
  obtains r d where "ot_voucher r = v" "ot_status r = TS_PREPARED" "db_out_transfers d = db_out_transfers db @ [r]"
    "db_out_streams d = db_out_streams db" "update_out_stream (v_target_warden v) (\<lambda>s. s\<lparr>os_next_sequence := os_next_sequence s + 1,
      os_updated_at_ns := sv_now_ns sv\<rparr>) d = Inr db'"
proof -
  from assms obtain r d1 d where i: "insert_out_transfer r db = Inr d1" and r: "ot_voucher r = v" "ot_status r = TS_PREPARED"
    and e: "(if en then enqueue_peer_delivery ''transfer'' (v_transfer_id v)
        (v_target_warden v) (v_target_warden v) (v_sequence v) (TransferVoucher_to_dict v) (sv_now_ns sv) False d1
      else Inr d1) = Inr d"
    and u: "update_out_stream (v_target_warden v) (\<lambda>s. s\<lparr>os_next_sequence := os_next_sequence s + 1,
      os_updated_at_ns := sv_now_ns sv\<rparr>) d = Inr db'"
    unfolding emit_voucher_def rbind_Inr_iff guard_Inr_iff
    by (elim exE conjE) (rule that, assumption, simp, simp, assumption, simp)
  have "db_out_streams d1 = db_out_streams db \<and> db_out_transfers d1 = db_out_transfers db @ [r]"
    using i by (auto simp: insert_out_transfer_def res_simps)
  moreover have "same_outbound d1 d"
    using e by (auto simp: same_outbound_def split: if_split_asm intro!: runs_none_outbound [unfolded same_outbound_def]
        enqueue_runs [OF _ runs_refl])
  ultimately show thesis using that [OF r _ _ u] by (simp add: same_outbound_def)
qed

lemma emit_sends:
  assumes "open_out_stream (v_target_warden v) e now db = Inr (db1, s)" "emit_voucher sv en v c db1 = Inr (db', dg)"
    "v_sequence v = os_next_sequence s" "outbound_ok db"
  shows "sends v db db'" "outbound_ok db'"
proof -
  note o = open_out_stream_facts [OF assms(1,4)]
  from assms(2) obtain r d where r: "ot_voucher r = v" "ot_status r = TS_PREPARED"
    "db_out_transfers d = db_out_transfers db1 @ [r]" and st: "db_out_streams d = db_out_streams db1"
    and u: "update_out_stream (v_target_warden v) (\<lambda>s. s\<lparr>os_next_sequence := os_next_sequence s + 1,
      os_updated_at_ns := sv_now_ns sv\<rparr>) d = Inr db'" by (rule emit_facts)
  have same: "out_stream d x = out_stream db1 x" for x by (simp add: out_stream_def st)
  note f = update_out_stream_facts [OF u, unfolded same, OF o(1)]
  have ts: "db_out_transfers db' = db_out_transfers db @ [r]" using f(3) r(3) o(4) by simp
  moreover have nx: "next_seq db' = (next_seq db)(v_target_warden v := v_sequence v + 1)"
    using o(3) assms(3) by (simp add: fun_eq_iff next_seq_def f(1))
  ultimately show "sends v db db'" using r o(2) assms(3) by (auto simp: sends_def)
  have sc: "out_stream_checks s" using o(1,5) tfind_Some_iff by (fastforce simp: outbound_ok_def out_stream_def)
  have "\<exists>s'. out_stream db' (target_of x) = Some s' \<and> placed s' x" if x: "x \<in> set (db_out_transfers db) \<or> x = r" for x
  proof (cases "x \<in> set (db_out_transfers db)")
    case True
    then obtain y where "out_stream db1 (target_of x) = Some y" "placed y x" using o(4,5) by (auto simp: outbound_ok_def)
    then show ?thesis using o(1) by (auto simp: f(1) placed_def)
  next
    case False
    then show ?thesis using x r assms(3) sc by (auto simp: f(1) placed_def out_stream_checks_def)
  qed
  then show "outbound_ok db'"
    using stream_rows_update [OF o(5,1), of "\<lambda>s. s\<lparr>os_next_sequence := os_next_sequence s + 1, os_updated_at_ns := sv_now_ns sv\<rparr>"]
      f(2,3) ts st by (auto simp: outbound_ok_def)
qed

lemma sends_cong:
  assumes "same_outbound a b" "sends v b c" "same_outbound c d"
  shows "sends v a d"
  using assms(1-3) unfolding sends_def same_outbound_next [OF assms(1)] same_outbound_next [OF assms(3)]
  by (auto simp: same_outbound_def)

lemma prepare_effect_sends:
  assumes "prepare_effect sv rid q en p db = Inr (db', v)" "outbound_ok db"
  shows "sends v db db' \<and> outbound_ok db'"
proof -
  from assms(1) obtain db1 st tid db2 dg pe where
    m: "make_voucher sv en tid (tq_target q) p (os_next_sequence st) (tq_amount q) TRANSFER_KIND_POOL None = Inr v"
    and o: "open_out_stream (tq_target q) (e_config_epoch en) (sv_now_ns sv) db = Inr (db1, st)"
    and em: "emit_voucher sv pe v None db1 = Inr (db2, dg)" and n: "runs {} sv db2 db'"
    unfolding prepare_effect_def
    by (clarsimp simp: rbind_Inr_iff guard_Inr_iff)
      (rule that, assumption, simp, assumption, (rule runs_refl | erule runs_intros | (simp; fail))+)
  have "sends v db db2 \<and> outbound_ok db2"
    using emit_sends [OF _ em] o make_voucher_fields [OF m] assms(2) by simp
  then show ?thesis
    using same_outbound_ok [OF runs_none_outbound [OF n]] sends_cong [OF _ _ runs_none_outbound [OF n], of db db v] by (simp add: same_outbound_def)
qed

lemma spawn_remote_effect_sends:
  assumes "spawn_remote_effect sv rid q en parent p ex db = Inr (db', v)" "outbound_ok db"
  shows "sends v db db' \<and> outbound_ok db'"
proof -
  from assms(1) obtain db1 st cid tid db2 dg where
    o: "open_out_stream (mq_target q) (e_config_epoch en) (sv_now_ns sv) db = Inr (db1, st)"
    and m: "make_voucher sv en tid (mq_target q) p (os_next_sequence st) (mq_allocation q) TRANSFER_KIND_LEASE
      (Some (remote_lease_request q parent cid ex)) = Inr v"
    and em: "emit_voucher sv True v (Some cid) db1 = Inr (db2, dg)" and n: "runs {} sv db2 db'"
    unfolding spawn_remote_effect_def
    by (clarsimp simp: rbind_Inr_iff of_option_Inr_iff)
      (rule that, assumption+, (rule runs_refl | erule runs_intros | (simp; fail))+)
  have "sends v db db2 \<and> outbound_ok db2"
    using emit_sends [OF _ em] o make_voucher_fields [OF m] assms(2) by simp
  then show ?thesis
    using same_outbound_ok [OF runs_none_outbound [OF n]] sends_cong [OF _ _ runs_none_outbound [OF n], of db db v] by (simp add: same_outbound_def)
qed

definition sends_if :: "bool \<Rightarrow> TransferVoucher \<Rightarrow> db \<Rightarrow> db \<Rightarrow> bool" where
  "sends_if fresh v db db' = (outbound_ok db' \<and> (if fresh then sends v db db' else same_outbound db db'))"

text \<open>The shape of a body: the clock, the recorded response, and otherwise the effect.\<close>

lemma retry_sends:
  assumes "clock_is_safe sv en b db = Inr (db0, u)" "idempotent_response db0 sc rid fp = Inr prior" "outbound_ok db"
    "prior = None \<Longrightarrow> outbound_ok db0 \<Longrightarrow> sends v db0 db' \<and> outbound_ok db'" "\<And>r. prior = Some r \<Longrightarrow> db' = db0"
  shows "sends_if (fresh_request db rid) v db db'"
proof -
  note s = clock_outbound [OF assms(1)]
  note ok = same_outbound_ok [OF s assms(3)]
  have f: "fresh_request db rid = fresh_request db0 rid" using clock_idempotency [OF assms(1)] by (simp add: fresh_request_def)
  show ?thesis
  proof (cases prior)
    case None
    then have "fresh_request db rid" using f assms(2) by (auto dest: idempotent_None)
    then show ?thesis
      using assms(4) [OF None ok] sends_cong [OF s, of v db' db'] by (simp add: sends_if_def same_outbound_def)
  next
    case (Some r)
    then have "\<not> fresh_request db rid" using f assms(2) by (auto dest: idempotent_Some)
    then show ?thesis using assms(5) [OF Some] s ok by (simp add: sends_if_def)
  qed
qed

lemma degraded_sends:
  assumes "write_or_degraded c m body db = Inr (db', v)" "outbound_ok db" "m = Inr v \<Longrightarrow> \<not> fresh_request db rid"
    "body db = Inr (db', v) \<Longrightarrow> sends_if (fresh_request db rid) v db db'"
  shows "sends_if (fresh_request db rid) v db db'"
  using assms by (auto simp: write_or_degraded_def sends_if_def same_outbound_def rbind_Inr_iff split: if_split_asm)

lemma prepare_body_sends:
  assumes "prepare_body sv rid t eid q db = Inr (db', v)" "outbound_ok db"
  shows "sends_if (fresh_request db rid) v db db'"
proof -
  from assms(1) obtain en db0 u p prior where c: "clock_is_safe sv en True db = Inr (db0, u)"
    and p: "idempotent_response db0 (''prepare_transfer:'' @ tq_target q) rid (tq_fingerprint q) = Inr prior"
    and r: "(case prior of Some response \<Rightarrow> rbind (TransferVoucher_from_dict response) (\<lambda>v. Inr (db0, v))
      | None \<Rightarrow> rbind (require_runtime_active db0) (\<lambda>_. rbind (require_target_current sv (tq_target q)) (\<lambda>_.
        prepare_effect sv rid q en p db0))) = Inr (db', v)"
    by (auto simp: prepare_body_def rbind_Inr_iff)
  show ?thesis
    by (rule retry_sends [OF c p assms(2)]) (use r prepare_effect_sends in \<open>auto simp: rbind_Inr_iff\<close>)
qed

lemma prepare_sends:
  assumes "prepare_transfer sv rid ident t eid tw am pd db = Inr (db', v)" "outbound_ok db"
  shows "sends_if (fresh_request db rid) v db db'"
  using assms(1) unfolding prepare_transfer_def rbind_Inr_iff
  by (elim exE conjE degraded_sends [OF _ assms(2)]) (auto simp: rbind_Inr_iff dest: degraded_not_fresh prepare_body_sends [OF _ assms(2)])

lemma spawn_remote_body_sends:
  assumes "spawn_remote_body sv rid q db = Inr (db', v)" "outbound_ok db"
  shows "sends_if (fresh_request db rid) v db db'"
proof -
  from assms(1) obtain en db0 u parent prior where c: "clock_is_safe sv en True db = Inr (db0, u)"
    and p: "idempotent_response db0 (''spawn_remote:'' @ mq_parent_id q) rid (mq_fingerprint q) = Inr prior"
    and r: "(case prior of Some response \<Rightarrow> rbind (TransferVoucher_from_dict response) (\<lambda>v. Inr (db0, v))
      | None \<Rightarrow> rbind (spawn_remote_guards sv q en u parent db0) (\<lambda>(db1, policy, ex).
        spawn_remote_effect sv rid q en parent policy ex db1)) = Inr (db', v)"
    by (auto simp: spawn_remote_body_def rbind_Inr_iff guard_Inr_iff)
  show ?thesis
  proof (rule retry_sends [OF c p assms(2)])
    assume "prior = None" and ok: "outbound_ok db0"
    then obtain db1 pol ex where g: "spawn_remote_guards sv q en u parent db0 = Inr (db1, pol, ex)"
      and e: "spawn_remote_effect sv rid q en parent pol ex db1 = Inr (db', v)"
      using r by (auto simp: rbind_Inr_iff)
    have s: "same_outbound db0 db1"
      by (rule runs_none_outbound [where sv = sv]) (rule spawn_remote_guards_runs [OF g runs_refl])
    show "sends v db0 db' \<and> outbound_ok db'"
      using spawn_remote_effect_sends [OF e same_outbound_ok [OF s ok]] sends_cong [OF s, of v db' db'] by (simp add: same_outbound_def)
  qed (use r in \<open>auto simp: rbind_Inr_iff\<close>)
qed

lemma spawn_remote_sends:
  assumes "spawn_remote sv rid ident pid tw subj alloc caps ttl es db = Inr (db', v)" "outbound_ok db"
  shows "sends_if (fresh_request db rid) v db db'"
  using assms(1) unfolding spawn_remote_def rbind_Inr_iff
  by (elim exE conjE degraded_sends [OF _ assms(2)]) (auto simp: rbind_Inr_iff dest: degraded_not_fresh spawn_remote_body_sends [OF _ assms(2)])

section \<open>Finalization and checkpoints\<close>

lemma finalize_transfer_row:
  assumes "update_out_transfer k (\<lambda>r. r\<lparr>ot_status := TS_FINALIZED, ot_acknowledged_at_ns := t, ot_ack_payload := a\<rparr>) db = Inr db'"
    "outbound_ok db"
  shows "outbound_ok db' \<and> db_out_streams db' = db_out_streams db \<and> outbound_kept db db'"
proof -
  define f where "f = (\<lambda>r :: out_transfer_row. r\<lparr>ot_status := TS_FINALIZED, ot_acknowledged_at_ns := t, ot_ack_payload := a\<rparr>)"
  have f: "ot_voucher (f r) = ot_voucher r" "ot_status (f r) = TS_FINALIZED" for r by (simp_all add: f_def)
  have s: "db_out_streams db' = db_out_streams db" using assms(1) by (auto dest!: out_transfer_frame(2))
  then have n: "next_seq db' = next_seq db" "out_stream db' = out_stream db" by (simp_all add: fun_eq_iff next_seq_def out_stream_def)
  have rows: "db_out_transfers db' = db_out_transfers db \<or> db_out_transfers db' = tupdate ot_key k f (db_out_transfers db)"
    using assms(1) unfolding f_def [symmetric] by (auto simp: update_out_transfer_def split: option.split_asm if_split_asm)
  then have "\<exists>r\<in>set (db_out_transfers db). x = r \<or> x = f r" if "x \<in> set (db_out_transfers db')" for x
    using that rows by (auto simp: set_tupdate) blast+
  then have "\<exists>s. out_stream db' (target_of x) = Some s \<and> placed s x" if "x \<in> set (db_out_transfers db')" for x
    using that assms(2) unfolding outbound_ok_def n by (fastforce simp: placed_def finalized_status_def f)
  then have "outbound_ok db'" using assms(2) by (simp add: outbound_ok_def s)
  moreover have "\<exists>r'\<in>set (db_out_transfers db'). ot_voucher r' = ot_voucher r" if "r \<in> set (db_out_transfers db)" for r
    using rows
  proof
    let ?r = "if ot_key r = k then f r else r"
    assume "db_out_transfers db' = tupdate ot_key k f (db_out_transfers db)"
    then have "?r \<in> set (db_out_transfers db')" using that by (simp only: set_tupdate) blast
    moreover have "ot_voucher ?r = ot_voucher r" by (simp add: f)
    ultimately show ?thesis by blast
  qed (use that in auto)
  ultimately show ?thesis using s n by (simp add: outbound_kept_def)
qed

lemma compacted_final:
  assumes "outbound_ok db" "out_stream db t = Some s" "r \<in> set (db_out_transfers db)" "target_of r = t"
    "seq_of r \<le> os_compacted_through s"
  shows "finalized_status (ot_status r)"
  using assms by (auto simp: outbound_ok_def placed_def)

lemma finalize_outbound:
  assumes "finalize_transfer sv ident a db = Inr (db', x)" "outbound_ok db"
  shows "outbound_ok db' \<and> outbound_kept db db'"
proof -
  from assms(1) obtain act it where "finalize_body sv it act a db = Inr (db', x)"
    unfolding finalize_transfer_def write_or_degraded_def by (auto simp: rbind_Inr_iff guard_Inr_iff split: if_split_asm)
  then obtain e db0 u r st pl where c: "clock_is_safe sv e True db = Inr (db0, u)"
    and st: "out_stream db0 (a_target_warden a) = Some st"
    and f: "(if finalized_status (ot_status r) then finalize_again sv act e a pl r (os_acked_through st) db0
      else if ot_status r \<noteq> TS_PREPARED then Inl ConflictError
      else finalize_prepared sv act e a r (os_acked_through st) db0) = Inr (db', x)"
    unfolding out_stream_def by (auto simp: finalize_body_def rbind_Inr_iff guard_Inr_iff of_option_Inr_iff)
  have b: "finalize_again sv act e a pl r (os_acked_through st) db0 = Inr (db', x)
      \<or> finalize_prepared sv act e a r (os_acked_through st) db0 = Inr (db', x)"
    using f by (auto split: if_split_asm)
  note s = clock_outbound [OF c]
  note ok = same_outbound_ok [OF s assms(2)]
  let ?g = "\<lambda>n s. s\<lparr>os_acked_through := n, os_updated_at_ns := sv_now_ns sv\<rparr>"
  have acked: "outbound_ok db2 \<and> next_seq db2 = next_seq d \<and> db_out_transfers db2 = db_out_transfers d"
    if "outbound_ok d" "out_stream d (a_target_warden a) = Some st" "update_out_stream (a_target_warden a) (?g n) d = Inr db2" for n d db2
    using stream_update_ok [OF that] compacted_final [OF that(1,2)] by simp
  have "outbound_ok db' \<and> outbound_kept db0 db'"
    using b
  proof
    assume "finalize_again sv act e a pl r (os_acked_through st) db0 = Inr (db', x)"
    then consider "db' = db0" | n d where "update_out_stream (a_target_warden a) (?g n) db0 = Inr d" "same_outbound d db'"
      by (auto simp: finalize_again_def Let_def rbind_Inr_iff split: if_split_asm dest!: audit_outbound)
    then show ?thesis
    proof cases
      case (2 n d)
      then show ?thesis
        using acked [OF ok st 2(1)] same_outbound_ok [OF 2(2)] same_outbound_next [OF 2(2)] by (auto simp: outbound_kept_def same_outbound_def)
    qed (simp add: ok same_outbound_kept same_outbound_def)
  next
    assume "finalize_prepared sv act e a r (os_acked_through st) db0 = Inr (db', x)"
    then obtain db1 db2 n db3 where f: "finalize_child sv act e a r db0 = Inr db1"
      and 2: "update_out_transfer (a_target_warden a, a_sequence a) (\<lambda>r. r\<lparr>ot_status := TS_FINALIZED,
        ot_acknowledged_at_ns := Some (sv_now_ns sv), ot_ack_payload := Some a\<rparr>) db1 = Inr db2"
      and 3: "update_out_stream (a_target_warden a) (?g n) db2 = Inr db3" and 4: "same_outbound db3 db'"
      by (auto simp: finalize_prepared_def Let_def rbind_Inr_iff dest!: audit_outbound)
    have s1: "same_outbound db0 db1" by (rule runs_none_outbound [where sv = sv]) (rule finalize_child_runs [OF f runs_refl])
    note t = finalize_transfer_row [OF 2 same_outbound_ok [OF s1 ok]]
    have "out_stream db2 (a_target_warden a) = Some st"
      using t s1 st by (simp add: out_stream_def same_outbound_def)
    note k = acked [OF conjunct1 [OF t] this 3]
    have "outbound_kept db1 db3" using t k by (simp add: outbound_kept_def)
    then show ?thesis using k same_outbound_ok [OF 4] outbound_kept_cong [OF s1 _ 4] by blast
  qed
  then show ?thesis using outbound_kept_cong [OF s, of db' db'] by (simp add: same_outbound_def)
qed

text \<open>Deleting a prefix of finalized vouchers.\<close>

lemma prune_outbound:
  assumes "outbound_ok db" "\<And>r. r \<in> set (db_out_transfers db) \<Longrightarrow> target_of r = t \<Longrightarrow> seq_of r \<le> n \<Longrightarrow> finalized_status (ot_status r)"
  shows "outbound_ok (prune_outgoing_transfer_prefix t n db) \<and> outbound_kept db (prune_outgoing_transfer_prefix t n db)"
proof -
  let ?d = "prune_outgoing_transfer_prefix t n db"
  define vs where "vs = take MAINTENANCE_ROW_BATCH (sort (map (v_sequence \<circ> ot_voucher)
    (filter (\<lambda>r. target_of r = t \<and> seq_of r \<le> n) (db_out_transfers db))))"
  have d: "?d = db\<lparr>db_out_transfers := filter (\<lambda>r. \<not> (target_of r = t \<and> List.member vs (seq_of r))) (db_out_transfers db)\<rparr>"
    unfolding prune_outgoing_transfer_prefix_def vs_def Let_def by simp
  have "y \<le> n" if "y \<in> set vs" for y using that set_take_subset unfolding vs_def by fastforce
  then have "r \<in> set (db_out_transfers ?d)" if "r \<in> set (db_out_transfers db)" "\<not> finalized_status (ot_status r)" for r
    using that assms(2) unfolding d by auto
  moreover have "next_seq ?d = next_seq db" "out_stream ?d = out_stream db"
    by (simp_all add: fun_eq_iff next_seq_def out_stream_def d)
  ultimately show ?thesis using assms(1) by (auto simp: outbound_ok_def outbound_kept_def d)
qed

lemma checkpoint_effect_cases:
  assumes "checkpoint_effect sv act e tw m db = Inr (db', x)"
  obtains db1 db2 cp where
    "\<forall>r\<in>set (db_out_transfers db). target_of r = tw \<longrightarrow> seq_of r \<le> m \<longrightarrow> finalized_status (ot_status r)"
    "update_out_stream tw (\<lambda>s. s\<lparr>os_compacted_through := m, os_checkpoint_payload := Some cp, os_updated_at_ns := sv_now_ns sv\<rparr>) db = Inr db1"
    "same_outbound db1 db2" "same_outbound (prune_outgoing_transfer_prefix tw m db2) db'"
proof -
  have fin: "\<forall>r\<in>set (db_out_transfers db). target_of r = tw \<longrightarrow> seq_of r \<le> m \<longrightarrow> finalized_status (ot_status r)"
    using assms by (auto simp: checkpoint_effect_def Let_def guard_Inr_iff list_all_iff)
  show thesis
  proof (cases "sv_allowed_peer_wardens sv")
    case None
    with assms obtain db1 cp where "update_out_stream tw (\<lambda>s. s\<lparr>os_compacted_through := m, os_checkpoint_payload := Some cp,
        os_updated_at_ns := sv_now_ns sv\<rparr>) db = Inr db1" "same_outbound (prune_outgoing_transfer_prefix tw m db1) db'"
      by (clarsimp simp: checkpoint_effect_def Let_def rbind_Inr_iff guard_Inr_iff) (rule that, assumption, erule audit_outbound)
    then show thesis using that [OF fin, of cp db1 db1] by (simp add: same_outbound_def)
  next
    case (Some ps)
    with assms obtain db1 db2 cp k where 1: "update_out_stream tw (\<lambda>s. s\<lparr>os_compacted_through := m, os_checkpoint_payload := Some cp,
        os_updated_at_ns := sv_now_ns sv\<rparr>) db = Inr db1"
      and 2: "enqueue_peer_delivery ''checkpoint'' k tw tw m cp (sv_now_ns sv) True db1 = Inr db2"
      and 3: "same_outbound (prune_outgoing_transfer_prefix tw m db2) db'"
      by (clarsimp simp: checkpoint_effect_def Let_def rbind_Inr_iff guard_Inr_iff) (rule that, assumption, assumption, erule audit_outbound)
    show thesis
      by (rule that [OF fin 1 _ 3]) (simp_all add: runs_none_outbound [OF enqueue_runs [OF 2 runs_refl]])
  qed
qed

lemma create_checkpoint_outbound:
  assumes "create_transfer_checkpoint sv ident tw n db = Inr (db', x)" "outbound_ok db"
  shows "outbound_ok db' \<and> outbound_kept db db'"
proof -
  from assms(1) obtain act it where "create_checkpoint_body sv it act tw n db = Inr (db', x)"
    unfolding create_transfer_checkpoint_def write_or_degraded_def by (auto simp: rbind_Inr_iff guard_Inr_iff split: if_split_asm)
  then obtain e db0 u st m where c: "clock_is_safe sv e True db = Inr (db0, u)" and st: "out_stream db0 tw = Some st"
    and f: "(if m = os_compacted_through st then (case os_checkpoint_payload st of None \<Rightarrow> Inl StorageError
        | Some payload \<Rightarrow> Inr (prune_outgoing_transfer_prefix tw m db0, payload))
      else if m < os_compacted_through st then Inl ConflictError
      else checkpoint_effect sv act e tw m db0) = Inr (db', x)"
    unfolding out_stream_def by (auto simp: create_checkpoint_body_def Let_def rbind_Inr_iff guard_Inr_iff of_option_Inr_iff)
  have b: "m = os_compacted_through st \<and> db' = prune_outgoing_transfer_prefix tw m db0
      \<or> checkpoint_effect sv act e tw m db0 = Inr (db', x)"
    using f by (auto split: if_split_asm option.split_asm)
  note s = clock_outbound [OF c]
  note ok = same_outbound_ok [OF s assms(2)]
  have "outbound_ok db' \<and> outbound_kept db0 db'"
    using b
  proof (elim disjE conjE)
    assume "m = os_compacted_through st" "db' = prune_outgoing_transfer_prefix tw m db0"
    then show ?thesis using prune_outbound [OF ok, of tw m] compacted_final [OF ok st] by simp
  next
    assume "checkpoint_effect sv act e tw m db0 = Inr (db', x)"
    then obtain db1 db2 cp where
      fin: "\<forall>r\<in>set (db_out_transfers db0). target_of r = tw \<longrightarrow> seq_of r \<le> m \<longrightarrow> finalized_status (ot_status r)"
      and 1: "update_out_stream tw (\<lambda>s. s\<lparr>os_compacted_through := m, os_checkpoint_payload := Some cp, os_updated_at_ns := sv_now_ns sv\<rparr>) db0 = Inr db1"
      and 2: "same_outbound db1 db2" and 3: "same_outbound (prune_outgoing_transfer_prefix tw m db2) db'"
      by (rule checkpoint_effect_cases)
    note k = stream_update_ok [OF ok st 1]
    have k2: "outbound_ok db2" "next_seq db2 = next_seq db0" "db_out_transfers db2 = db_out_transfers db0"
      using k same_outbound_ok [OF 2] same_outbound_next [OF 2] 2 fin by (simp_all add: same_outbound_def)
    note p = prune_outbound [OF k2(1), of tw m]
    have "outbound_kept db0 (prune_outgoing_transfer_prefix tw m db2)" using p k2 fin by (simp add: outbound_kept_def)
    then show ?thesis using p k2(3) fin same_outbound_ok [OF 3] outbound_kept_cong [OF _ _ 3, of db0 db0] by (simp add: same_outbound_def)
  qed
  then show ?thesis using outbound_kept_cong [OF s, of db' db'] by (simp add: same_outbound_def)
qed

section \<open>Calls\<close>

lemma run_op_outbound:
  assumes "run_op sv op db = Inr (db', u)" "\<And>i c. op \<noteq> CreateEnvelope i c" "outbound_ok db"
  shows "outbound_ok db' \<and> outbound_kept db db'"
proof -
  have sent: "outbound_ok db' \<and> outbound_kept db db'" if "sends_if f v db db'" for f v
    using that sends_kept same_outbound_kept by (auto simp: sends_if_def split: if_split_asm)
  have quiet: "outbound_ok db' \<and> outbound_kept db db'" if "runs {Resign, Inbound} sv db db'"
    using runs_outbound [OF that] same_outbound_ok [OF _ assms(3)] same_outbound_kept by simp
  show ?thesis
  proof (cases op)
    case (PrepareTransfer rid i t e w a pd)
    then obtain v where "prepare_transfer sv rid i t e w a pd db = Inr (db', v)" using assms(1) by (auto simp: res_simps)
    from sent [OF prepare_sends [OF this assms(3)]] show ?thesis .
  next
    case (SpawnRemote rid i p w s a c ttl es)
    then obtain v where "spawn_remote sv rid i p w s a c ttl es db = Inr (db', v)" using assms(1) by (auto simp: res_simps)
    from sent [OF spawn_remote_sends [OF this assms(3)]] show ?thesis .
  next
    case FinalizeTransfer
    then show ?thesis using assms(1) finalize_outbound [OF _ assms(3)] by (auto simp: res_simps)
  next
    case CreateCheckpoint
    then show ?thesis using assms(1) create_checkpoint_outbound [OF _ assms(3)] by (auto simp: res_simps)
  qed (use assms in \<open>auto simp: res_simps intro!: quiet intro: issue_root_runs spawn_runs authorize_runs renew_runs lifecycle_runs
      reclaim_runs revoke_branch_runs ingest_runs accept_runs ingest_checkpoint_runs set_runtime_mode_runs register_policy_runs\<close>)
qed

lemma perform_outbound:
  assumes "outbound_ok db"
  shows "outbound_ok (perform sv op db) \<and> outbound_kept db (perform sv op db)"
proof (cases rule: perform_cases [of sv op db])
  case rollback
  then show ?thesis using assms same_outbound_kept [of db db] by (simp add: same_outbound_def)
next
  case c: commit
  show ?thesis
  proof (cases "\<exists>i cf. op = CreateEnvelope i cf")
    case True
    then obtain i cf x where "create_envelope sv i cf db = Inr (perform sv op db, x)" using c(1) by (auto simp: res_simps)
    then have "same_outbound db (perform sv op db)"
    proof (cases rule: create_envelope_cases)
      case (again e u)
      then show ?thesis by (simp add: clock_outbound)
    next
      case (fresh e w e' t et ei a d db2)
      then have "same_outbound db2 (perform sv op db)" by (simp add: audit_outbound)
      then show ?thesis using fresh(3) by (simp add: same_outbound_def)
    qed
    then show ?thesis using assms same_outbound_ok same_outbound_kept by metis
  next
    case False
    then show ?thesis using run_op_outbound [OF c(1) _ assms] by blast
  qed
qed

lemma reachable_outbound_ok: "reachable h db \<Longrightarrow> outbound_ok db"
proof (induction rule: reachable.induct)
  case (migrated w k p)
  show ?case by (simp add: outbound_ok_def empty_db_def tkeys_def)
qed (simp add: perform_outbound)

end
