(* ===== verification/Demo.thy ===== *)
theory Demo
  imports Draining Inbound Outbound
begin

text \<open>
  A concrete warden on which the hypotheses of the properties are met: a service
  whose signer returns one fixed byte and whose hash is constant, and a
  database with one envelope, one policy and one lease.  The calls of the
  witnesses are evaluated on it by rewriting.
\<close>

section \<open>Evaluation\<close>

lemma rbind_weak_cong: "m = m' \<Longrightarrow> rbind m f = rbind m' f"
  by simp

primrec json_ok :: "json \<Rightarrow> bool" where
  "json_ok JNull = True"
| "json_ok (JBool b) = True"
| "json_ok (JInt n) = (- (2 ^ 63) \<le> n \<and> n \<le> 2 ^ 63 - 1)"
| "json_ok (JStr s) = True"
| "json_ok (JArr xs) = list_all id (map json_ok xs)"
| "json_ok (JObj kvs) = list_all snd (map (map_prod id json_ok) kvs)"

lemma normalize_ok: "json_ok v \<Longrightarrow> normalize v = Inr v"
proof (induction v rule: normalize.induct)
  case (5 xs)
  then have "mapM normalize xs = Inr xs" by (induction xs) (auto simp: list_all_iff)
  then show ?case by simp
next
  case (6 kvs)
  then have "mapM (\<lambda>(k, v). rbind (normalize v) (\<lambda>w. Inr (k, w))) kvs = Inr kvs"
    by (induction kvs) (force simp: list_all_iff)+
  then show ?case by simp
qed auto

lemma canonical_json_eval: "json_ok v \<Longrightarrow> canonical_json v = Inr (utf8 (dumps v))"
  by (simp add: canonical_json_def normalize_ok)

lemma packed_eval: "wf_vec (length v) v \<Longrightarrow> length v \<le> 65535 \<Longrightarrow> packed v = Inr v"
  by (auto simp: packed_def pack_def wf_vec_def vector_def list_all_iff list_ex_iff)

lemma pack_eval: "wf_vec (length v) v \<Longrightarrow> length v \<le> 65535 \<Longrightarrow> rbind (pack v) (\<lambda>_. Inr v) = Inr v"
  using packed_eval by (simp add: packed_def)

section \<open>The service and its database\<close>

definition demo_sha :: "byte list \<Rightarrow> byte list" where
  "demo_sha bs = replicate 32 0"

definition demo_digest :: string where
  "demo_digest = ''sha256:'' @ replicate 64 (CHR ''0'')"

definition demo_sv :: svc where
  "demo_sv = \<lparr>sv_warden_id = ''w1'', sv_key_id = ''k1'', sv_public_key = [], sv_sign = (\<lambda>_. [1]),
     sv_verify = (\<lambda>_ _. True), sv_trust = Some (\<lambda>_ _ _ _. True), sv_trust_current = (\<lambda>_. Inr ()), sv_sha256 = demo_sha,
     sv_evidence = (\<lambda>_ _ _ _ _. Inr True), sv_signing_key_validity = None, sv_allowed_peer_wardens = None,
     sv_remote_lease_resolver = None, sv_capacity = True, sv_recovery_capacity = True,
     sv_now_ns = 100, sv_uncertainty_ns = 0, sv_uuid = (\<lambda>n. if n = 0 then ''a'' else ''b'')\<rparr>"

definition demo_policy :: wire_dict where
  "demo_policy = [(''policy_id'', JStr ''p''), (''max_lease_ttl_ns'', JInt 1000),
    (''machine'', JObj [(''initial_state'', JStr ''s0''), (''transitions'', JArr [JObj [(''name'', JStr ''go''),
       (''source'', JStr ''s0''), (''target'', JStr ''s1''), (''capability'', JStr ''c''), (''cost'', JArr [JInt 3])]])])]"

definition demo_lease :: lease_row where
  "demo_lease = \<lparr>l_lease_id = ''L'', l_lineage_id = ''N'', l_parent_id = None, l_subject_id = ''adm'', l_warden_id = ''w1'',
     l_allocation = [4], l_residual = [4], l_capabilities = [''c''], l_machine_digest = demo_digest, l_ancestor_path = [],
     l_branch_epoch = 0, l_config_epoch = 1, l_issued_at_ns = 2, l_expires_at_ns = 500, l_key_id = ''k1'', l_signature = [1],
     l_state = ''s0'', l_status = ACTIVE, l_sequence = 0, l_policy_version = ''v'', l_policy_digest = demo_digest,
     l_created_at_ns = 2, l_updated_at_ns = 2, l_parent_warden = None, l_remote_parent_id = None\<rparr>"

definition demo_db :: db where
  "demo_db = \<lparr>db_warden_id = ''w1'', db_signing_key_id = ''k1'', db_signing_public_key_sha256 = demo_sha [],
    db_envelope = Some \<lparr>e_tenant_id = ''t'', e_envelope_id = ''e'', e_config_epoch = 1, e_dimension_count = 1,
      e_dimension_metadata = JArr [], e_budget = [10], e_initial_local_share = [10], e_receipt_ttl_ns = 50,
      e_max_clock_uncertainty_ns = 0, e_transfer_gap_window = 4, e_config_json = [], e_created_at_ns = 1\<rparr>,
    db_warden_state = Some \<lparr>w_free_pool = [6], w_lease_residual = [4], w_consumed = [0], w_transferred_in = [0],
      w_transferred_out = [0], w_clock_floor_ns = Some 1, w_revision = 0, w_updated_at_ns = 1\<rparr>,
    db_runtime = \<lparr>rs_mode = RM_ACTIVE, rs_generation = 0, rs_reason = ''r'', rs_changed_at_ns = 0, rs_changed_by = ''m''\<rparr>,
    db_policies = [\<lparr>p_policy_version = ''v'', p_policy_digest = demo_digest, p_machine_digest = demo_digest,
      p_payload = demo_policy, p_active = True, p_created_at_ns = 1\<rparr>],
    db_leases = [demo_lease], db_idempotency = [], db_receipts = [], db_revocations = [], db_out_streams = [],
    db_out_transfers = [], db_in_streams = [], db_in_gaps = [], db_in_acks = [], db_audit = [], db_outbox = [],
    db_peer_delivery = [], db_peer_counters = [], db_remote_children = []\<rparr>"

definition demo_id :: IdentityContext where
  "demo_id = \<lparr>id_subject = ''adm'', id_tenant = ''t'', id_scopes = [''lets.admin''], id_method = ''m''\<rparr>"

lemma demo_facts:
  "require_digest demo_digest = Inr demo_digest" "length demo_digest = 71" "demo_digest \<noteq> []"
  "b64url_encode [1] = ''AQ''" "b64url_decode ''AQ'' = Inr [1]"
  "length (demo_sha bs) = 32" "length zero_hash = 32"
  by (simp_all add: demo_digest_def demo_sha_def zero_hash_def) code_simp+

lemma demo_canonical_digest: "json_ok v \<Longrightarrow> canonical_digest demo_sha v = Inr demo_digest"
proof -
  have "hexdigest (replicate 32 0) = replicate 64 (CHR ''0'')" by code_simp
  then show "json_ok v \<Longrightarrow> canonical_digest demo_sha v = Inr demo_digest"
    by (simp add: canonical_digest_def canonical_json_eval demo_sha_def demo_digest_def)
qed

lemma demo_hash_eq: "audit_event_hash demo_sha p s t et ei pl c = demo_sha []"
  by (simp add: audit_event_hash_def demo_sha_def Let_def)


text \<open>A voucher of another warden, the configuration of a new envelope, and a later clock reading.\<close>

definition demo_voucher :: TransferVoucher where
  "demo_voucher = \<lparr>v_tenant_id = ''t'', v_envelope_id = ''e'', v_config_epoch = 1, v_transfer_id = ''x1'', v_source_warden = ''w2'',
     v_target_warden = ''w1'', v_policy_id = ''p'', v_policy_version = ''v'', v_policy_digest = demo_digest, v_sequence = 1,
     v_amount = [2], v_issued_at_ns = 50, v_key_id = ''k2'', v_signature = JStr ''AQ'', v_kind = TRANSFER_KIND_POOL,
     v_lease_request = None\<rparr>"

definition demo_config :: envelope_config where
  "demo_config = \<lparr>c_tenant_id = ''t'', c_envelope_id = ''e'', c_config_epoch = 1, c_budget = [10], c_local_share = [10],
     c_receipt_ttl_ns = 50, c_max_clock_uncertainty_ns = 0, c_transfer_gap_window = 4, c_dimension_metadata = [], c_config = None\<rparr>"

definition demo_late :: svc where
  "demo_late = demo_sv\<lparr>sv_now_ns := 600\<rparr>"


definition demo_peer :: svc where
  "demo_peer = demo_sv\<lparr>sv_allowed_peer_wardens := Some [''w2'']\<rparr>"

end
