(* ===== verification/Demo_Runs.thy ===== *)
theory Demo_Runs
  imports Demo
begin

text \<open>
  Every operation that a witness needs, evaluated on the concrete warden: the call
  returns a value.
\<close>

named_theorems eval_simps "the definitions that evaluate a call on the concrete warden"

lemmas [eval_simps] =
  is_subclass_def tfind_def tinsert_def tupdate_def tdelete_def tkeys_def MAX_RESOURCE_def
  vector_def same_dimensions_def add_def subtract_def less_than_or_equal_def zero_def total_def
  cs_post_init_def available_total_def accounted_total_def healthy_def assert_healthy_def
  assert_nested_expiry_def clock_post_init_def advance_def wf_vec_def amount_def jlookup_def
  jget_def jget_null_def jopt_def jvec_def jstrs_def frozenset_def is_space_def py_strip_def
  require_identifier_max_def require_identifier_def new_id_def is_lower_hex_def is_alnum_def
  require_warden_id_def require_key_id_def MAX_LINEAGE_DEPTH_def positive_def vector_of_json_def
  strings_def strict_fields_def req_ids_def status_of_def IdentityContext_post_init_def
  LeaseGrant_post_init_def LeaseGrant_unsigned_payload_def LeaseGrant_to_dict_def
  LeaseGrant_fields_def str_field_def int_field_def LeaseGrant_from_dict_def
  LeaseSnapshot_post_init_def LeaseSnapshot_to_dict_def LeaseSnapshot_from_dict_def
  Receipt_post_init_def Receipt_unsigned_payload_def Receipt_to_dict_def Receipt_fields_def
  Receipt_from_dict_def LEASE_REQUEST_FIELDS_def LeaseRequest_to_dict_def validate_lease_request_def
  TRANSFER_KIND_POOL_def TRANSFER_KIND_LEASE_def CHILD_OUTCOME_ISSUED_def CHILD_OUTCOME_FENCED_def
  lease_request_json_def voucher_base_checks_def voucher_kind_checks_def
  TransferVoucher_post_init_def is_lease_def TransferVoucher_unsigned_payload_def
  TransferVoucher_to_dict_def TransferVoucher_fields_def TransferVoucher_from_dict_def
  ack_base_checks_def ack_child_checks_def TransferAck_post_init_def
  TransferAck_unsigned_payload_def TransferAck_to_dict_def TransferAck_fields_def
  TransferAck_from_dict_def BranchRevocation_post_init_def BranchRevocation_unsigned_payload_def
  BranchRevocation_to_dict_def BranchRevocation_fields_def BranchRevocation_from_dict_def
  RuntimeStatus_post_init_def RuntimeStatus_to_dict_def RuntimeStatus_from_dict_def
  InvariantSnapshot_post_init_def BOOLEAN_OPS_def COMPARISON_OPS_def PATH_OPS_def RESERVED_ROOTS_def
  MAX_EVIDENCE_DEPTH_def MAX_EVIDENCE_NODES_def MAX_EVIDENCE_VALUES_def MAX_MACHINE_TRANSITIONS_def
  MAX_POLICY_DIMENSIONS_def MAX_TRANSFER_GAP_WINDOW_def validate_path_def validate_literal_def
  present_fields_def reject_extras_def er_children_def validate_shape_def er_op_checks_def
  er_post_init_def EVIDENCE_FIELDS_def er_fields_def er_from_dict_def allow_if_def resolve_path_def
  same_json_def compare_values_def leaf_result_def evaluate_evidence_def text_ok_def opt_text_ok_def
  env_dim_def env_epoch_def sqlite_vector_add_def sqlite_vector_subtract_def warden_state_checks_def
  insert_warden_state_def clock_floor_monotonic_def update_warden_state_def lease_checks_def
  leases_vectors_insert_def leases_remote_parent_consistent_def leases_residual_total_insert_def
  leases_residual_total_update_def policy_exists_def insert_lease_row_def update_lease_def
  update_lease_residual_def insert_idempotency_def receipts_expiry_monotonic_def insert_receipt_def
  audit_head_def insert_audit_def insert_outbox_def ADMIN_SCOPES_def ROOT_ISSUER_SCOPES_def
  SUBJECT_LIFECYCLE_SCOPES_def MAINTENANCE_ROW_BATCH_def MAX_ATOMIC_CASCADE_DESCENDANTS_def
  live_statuses_def identity_fields_def bind_tenant_def has_scope_def bind_subject_def
  require_admin_def runtime_status_row_def require_runtime_active_def envelope_of_def
  singleton_envelope_def store_metadata_def verify_database_identity_def
  require_signing_key_current_def clock_is_safe_def sign_wire_def sign_record_def verify_message_def
  decode_signature_def verify_record_def verify_signed_def machine_of_def initial_state_of_def
  jget_alt_def transition_candidates_def transition_matches_def transition_of_def policy_of_def
  declared_capabilities_def policy_id_of_def fingerprint_def idempotent_response_def
  degraded_idempotent_response_def remember_response_def append_audit_def grant_from_row_def
  snapshot_from_row_def load_lease_def path_revoked_def lease_revoked_def
  degraded_lease_idempotent_response_def materialize_revoked_branch_def require_actionable_def
  positive_ttl_def new_grant_def insert_lease_def conservation_snapshot_def
  assert_local_conservation_def parents_exist_def commit_def write_tx_def write_or_degraded_def
  invariant_snapshot_row_def invariant_snapshot_def ready_def nonzero_def issue_root_request_def
  max_ttl_ok_def issue_root_guards_def issue_root_effect_def issue_root_body_def issue_root_def
  sequence_ok_def jopt_int_def spawn_request_of_def spawn_guards_def spawn_effect_def spawn_body_def
  spawn_def authorize_request_of_def audience_allowed_def evidence_error_def latest_receipt_def
  authorize_guards_def authorize_receipt_def authorize_effect_def authorize_body_def authorize_def
  renew_request_of_def longer_descendants_def renew_parent_ok_def renew_guards_def resign_lease_def
  renew_effect_def renew_body_def renew_def open_child_def TERMINAL_LEASE_STATUSES_def
  probe_remote_children_def remote_child_checks_def update_remote_children_def
  terminate_remote_child_def require_no_live_descendants_def lifecycle_request_of_def
  lifecycle_decide_def lifecycle_mutate_def lifecycle_body_def lifecycle_def quiesce_def resume_def
  close_def reclaimable_def reclaim_candidates_def reclaim_one_def reclaim_body_def
  reclaim_expired_def snapshot_def peer_lease_status_def rev_key_def revocation_checks_def
  insert_revocation_def update_revocation_def pd_key_def pc_key_def pending_in_stream_def
  supersede_pending_def peer_delivery_checks_def enqueue_peer_delivery_def revoke_request_of_def
  branch_epoch_of_def rematerialize_def revoke_record_def store_revocation_def
  enqueue_revocation_def revoke_branch_effect_def revoke_branch_body_def revoke_branch_def
  INGEST_SCOPES_def ingest_body_def ingest_revocation_def out_stream_checks_def
  update_out_stream_def open_out_stream_def ot_key_def out_transfer_checks_def
  insert_out_transfer_def make_voucher_def emit_voucher_def prepare_request_of_def select_policy_def
  require_target_current_def prepare_effect_def prepare_body_def prepare_transfer_def
  spawn_remote_request_of_def spawn_remote_guards_def insert_remote_child_def
  remote_lease_request_def spawn_remote_debit_def spawn_remote_effect_def spawn_remote_body_def
  spawn_remote_def in_stream_checks_def update_in_stream_def open_in_stream_def
  advance_inbound_gap_prefix_def ia_key_def insert_in_ack_def insert_in_gap_def
  admit_remote_child_def TRANSFER_PEER_SCOPES_def accept_duplicate_def accept_position_def
  make_ack_def accept_credit_def accept_new_def accept_body_def accept_transfer_def
  finalized_status_def advance_outgoing_finalized_prefix_def update_out_transfer_def
  finalize_again_def finalize_child_def finalize_prepared_def finalize_body_def
  finalize_transfer_def prune_outgoing_transfer_prefix_def prune_inbound_ack_prefix_def
  delivered_def checkpoint_effect_def create_checkpoint_body_def create_transfer_checkpoint_def
  CHECKPOINT_FIELDS_def checkpoint_string_def checkpoint_int_def ingest_checkpoint_body_def
  ingest_transfer_checkpoint_def runtime_status_def update_runtime_control_def
  change_runtime_mode_def runtime_mode_body_def set_runtime_mode_def envelope_config_checks_def
  configuration_of_def envelope_checks_def insert_envelope_def create_envelope_body_def
  create_envelope_def ALLOWED_POLICY_FIELDS_def jremove_def policy_payload_def digest_of_json_def
  policy_digests_def check_transition_def policy_content_checks_def insert_policy_def
  register_store_def register_body_def register_policy_def empty_db_def demo_facts
  demo_canonical_digest demo_hash_eq canonical_json_eval packed_eval pack_eval demo_sv_def
  demo_db_def demo_id_def demo_policy_def demo_lease_def demo_voucher_def demo_config_def
  demo_late_def demo_peer_def tfind_def tinsert_def tupdate_def tdelete_def wf_vec_def Let_def

lemma demo_create: "ok (create_envelope demo_sv demo_id demo_config (empty_db ''w1'' ''k1'' (demo_sha [])))"
  by (simp add: eval_simps cong: rbind_weak_cong)

lemma demo_issue_root: "ok (issue_root demo_sv ''r1'' demo_id ''t'' ''e'' ''adm'' [5] [''c''] demo_digest 20 None demo_db)"
  by (simp add: eval_simps cong: rbind_weak_cong)

lemma demo_spawn: "ok (spawn demo_sv ''r1'' demo_id ''L'' ''sub'' [2] [''c''] 20 None None demo_db)"
  by (simp add: eval_simps cong: rbind_weak_cong)

lemma demo_authorize: "ok (authorize demo_sv ''r1'' demo_id ''L'' ''go'' ''aud'' ''0123456789abcdef'' None None None demo_db)"
  by (simp add: eval_simps cong: rbind_weak_cong)

lemma demo_renew: "ok (renew demo_sv ''r1'' demo_id ''L'' 600 None False demo_db)"
  by (simp add: eval_simps cong: rbind_weak_cong)

lemma demo_close: "ok (lifecycle Close demo_sv ''r1'' demo_id ''L'' None demo_db)"
  by (simp add: eval_simps cong: rbind_weak_cong)

lemma demo_reclaim: "ok (reclaim_expired demo_late demo_id None None demo_db)"
  by (simp add: eval_simps cong: rbind_weak_cong)

lemma demo_revoke: "ok (revoke_branch demo_sv ''r1'' demo_id ''L'' ''why'' None demo_db)"
  by (simp add: eval_simps cong: rbind_weak_cong)

lemma demo_prepare: "ok (prepare_transfer demo_sv ''r1'' demo_id ''t'' ''e'' ''w2'' [2] None demo_db)"
  by (simp add: eval_simps cong: rbind_weak_cong)

lemma demo_spawn_remote: "ok (spawn_remote demo_peer ''r1'' demo_id ''L'' ''w2'' ''sub'' [2] [''c''] 50 None demo_db)"
  by (simp add: eval_simps cong: rbind_weak_cong)

lemma demo_accept: "ok (accept_transfer demo_sv demo_id demo_voucher demo_db)"
  by (simp add: eval_simps cong: rbind_weak_cong)

lemma demo_runtime_mode: "ok (set_runtime_mode demo_sv ''r1'' demo_id ''DRAINING'' ''why'' demo_db)"
  by (simp add: eval_simps cong: rbind_weak_cong)

end
