(* ===== verification/Delegation.thy ===== *)
theory Delegation
  imports Draining Inbound
begin

text \<open>What spawn delegates, the voucher that is taken once whatever happens in between, and the reach of a revocation.\<close>

section \<open>spawn\<close>

lemma spawn_cases:
  assumes "spawn sv rid ident lid subj alloc caps ttl pd es db = Inr (db', g)" "fresh_request db rid"
  obtains q e db0 u parent db1 policy ex where "spawn_request_of sv rid ident lid subj alloc caps ttl pd es db = Inr q"
    "db_envelope db = Some e" "clock_is_safe sv e True db = Inr (db0, u)" "tfind l_lease_id lid (db_leases db) = Some parent"
    "sq_actor q = l_subject_id parent \<or> has_scope (sq_scopes q) SUBJECT_LIFECYCLE_SCOPES"
    "spawn_guards sv q e parent db0 = Inr (db1, policy, ex)" "spawn_effect sv rid q e parent policy ex db1 = Inr (db', g)"
proof -
  from assms(1) obtain q m where q: "spawn_request_of sv rid ident lid subj alloc caps ttl pd es db = Inr q"
    and w: "write_or_degraded (sv_capacity sv) m (spawn_body sv rid q) db = Inr (db', g)" and m: "m = Inr g \<Longrightarrow> \<not> fresh_request db rid"
    unfolding spawn_def rbind_Inr_iff
    by (elim exE conjE) (rule that, assumption, assumption, auto simp: rbind_Inr_iff dest: degraded_not_fresh)
  have p: "sq_parent_id q = lid" using q by (rule spawn_request_parent)
  from w m assms(2) have "spawn_body sv rid q db = Inr (db', g)"
    by (auto simp: write_or_degraded_def rbind_Inr_iff split: if_split_asm)
  then obtain e db0 u parent prior where e: "db_envelope db = Some e" and c: "clock_is_safe sv e True db = Inr (db0, u)"
    and l: "tfind l_lease_id lid (db_leases db0) = Some parent"
    and a: "sq_actor q = l_subject_id parent \<or> has_scope (sq_scopes q) SUBJECT_LIFECYCLE_SCOPES"
    and i: "idempotent_response db0 (''spawn:'' @ sq_parent_id q) rid (sq_fingerprint q) = Inr prior"
    and b: "(case prior of Some response \<Rightarrow> rbind (LeaseGrant_from_dict response) (\<lambda>g. Inr (db0, g))
      | None \<Rightarrow> rbind (spawn_guards sv q e parent db0) (\<lambda>(db1, policy, ex). spawn_effect sv rid q e parent policy ex db1)) = Inr (db', g)"
    by (auto simp: spawn_body_def load_lease_def singleton_envelope_def rbind_Inr_iff guard_Inr_iff of_option_Inr_iff p)
  have "prior = None" using i assms(2) clock_reads(11) [OF c] by (cases prior) (auto dest: idempotent_Some)
  then show thesis using that [OF q e c _ a] b l clock_reads(1) [OF c] by (auto simp: rbind_Inr_iff)
qed

lemma mapM_identifier: "mapM require_identifier xs = Inr ys \<Longrightarrow> ys = xs"
  by (induction xs arbitrary: ys) (auto simp: res_simps)

lemma spawn_request_fields:
  assumes "spawn_request_of sv rid ident lid subj alloc caps ttl pd es db = Inr q"
  shows "sq_parent_id q = lid" "sq_subject_id q = subj" "sq_allocation q = alloc" "nonzero alloc" "set (sq_capabilities q) = set caps"
  using assms by (auto simp: spawn_request_of_def rbind_Inr_iff vector_Inr_iff split: if_split_asm dest!: mapM_identifier)

lemma spawn_guards_bounds:
  assumes "spawn_guards sv q e parent db = Inr (db', policy, ex)"
  shows "\<exists>d. require_actionable sv e parent db = Inr d \<and> (\<exists>u. clock_is_safe sv e True d = Inr (db', u))"
    "list_all (List.member (l_capabilities parent)) (sq_capabilities q)"
    "less_than_or_equal (sq_allocation q) (l_residual parent) = Inr True" "p_policy_digest policy = l_policy_digest parent"
    "ex \<le> l_expires_at_ns parent" "sv_now_ns sv + sv_uncertainty_ns sv < ex" "length (l_ancestor_path parent) < MAX_LINEAGE_DEPTH"
proof -
  from assms obtain d covered u where a: "require_actionable sv e parent db = Inr d"
    and g: "\<not> \<not> list_all (List.member (l_capabilities parent)) (sq_capabilities q)"
      "less_than_or_equal (sq_allocation q) (l_residual parent) = Inr True"
      "policy_of d (l_policy_digest parent) = Inr policy" "clock_is_safe sv e True d = Inr (db', u)"
      "ex = min (sv_now_ns sv + sq_ttl q) (l_expires_at_ns parent)" "sv_now_ns sv + u < ex" "length (l_ancestor_path parent) < MAX_LINEAGE_DEPTH"
    by (clarsimp simp: spawn_guards_def Let_def rbind_Inr_iff split: if_split_asm) (rule that, assumption, auto)
  have "u = sv_uncertainty_ns sv" using g(4) by (auto simp: clock_is_safe_def Let_def rbind_Inr_iff split: if_split_asm option.split_asm)
  moreover have "p_policy_digest policy = l_policy_digest parent"
    using g(3) by (auto simp: policy_of_def of_option_Inr_iff find_Some_iff)
  ultimately show "\<exists>d. require_actionable sv e parent db = Inr d \<and> (\<exists>u. clock_is_safe sv e True d = Inr (db', u))"
    "list_all (List.member (l_capabilities parent)) (sq_capabilities q)"
    "less_than_or_equal (sq_allocation q) (l_residual parent) = Inr True" "p_policy_digest policy = l_policy_digest parent"
    "ex \<le> l_expires_at_ns parent" "sv_now_ns sv + sv_uncertainty_ns sv < ex" "length (l_ancestor_path parent) < MAX_LINEAGE_DEPTH"
    using a g by auto
qed

lemma spawn_effect_grant:
  assumes "spawn_effect sv rid q e parent policy ex db = Inr (db', g)"
  shows "g_allocation g = sq_allocation q" "g_capabilities g = sq_capabilities q" "g_expires_at_ns g = ex"
    "g_lineage_id g = l_lineage_id parent" "g_parent_id g = Some (sq_parent_id q)" "g_subject_id g = sq_subject_id q"
    "g_ancestor_path g = l_ancestor_path parent @ [sq_parent_id q]" "g_policy_digest g = p_policy_digest policy"
    "g_branch_epoch g = l_branch_epoch parent"
  using assms by (auto simp: spawn_effect_def rbind_Inr_iff dest!: new_grant_fields)

lemma spawn_spec:
  assumes "spawn sv rid ident lid subj alloc caps ttl pd es db = Inr (db', g)" "fresh_request db rid"
  obtains parent where "tfind l_lease_id lid (db_leases db) = Some parent" "l_status parent = ACTIVE" "\<not> lease_revoked db parent"
    "g_allocation g = alloc" "nonzero alloc" "less_than_or_equal (g_allocation g) (l_residual parent) = Inr True"
    "set (g_capabilities g) = set caps" "set (g_capabilities g) \<subseteq> set (l_capabilities parent)"
    "g_expires_at_ns g \<le> l_expires_at_ns parent" "sv_now_ns sv + sv_uncertainty_ns sv < g_expires_at_ns g"
    "g_ancestor_path g = l_ancestor_path parent @ [lid]" "length (g_ancestor_path g) \<le> MAX_LINEAGE_DEPTH"
    "g_lineage_id g = l_lineage_id parent" "g_parent_id g = Some lid" "g_policy_digest g = l_policy_digest parent"
proof -
  from assms obtain q e db0 u parent db1 policy ex where q: "spawn_request_of sv rid ident lid subj alloc caps ttl pd es db = Inr q"
    and c: "clock_is_safe sv e True db = Inr (db0, u)" and l: "tfind l_lease_id lid (db_leases db) = Some parent"
    and g: "spawn_guards sv q e parent db0 = Inr (db1, policy, ex)" and x: "spawn_effect sv rid q e parent policy ex db1 = Inr (db', g)"
    by (rule spawn_cases)
  note f = spawn_request_fields [OF q] and gf = spawn_guards_bounds [OF g] and xf = spawn_effect_grant [OF x]
  obtain d where d: "require_actionable sv e parent db0 = Inr d" using gf(1) by blast
  show thesis
    by (rule that [OF l]) (use f gf xf actionable_reads [OF d] clock_reads(8) [OF c] in \<open>auto simp: list_all_iff\<close>)
qed


section \<open>A voucher is taken once\<close>

lemma later_inbound:
  assumes "later a b" "inbound_ok a"
  shows "inbound_ok b \<and> (\<forall>s n. accepted a s n \<longrightarrow> accepted b s n)"
proof -
  have "inbound_ok a \<longrightarrow> inbound_ok b \<and> (\<forall>s n. accepted a s n \<longrightarrow> accepted b s n)"
    using assms(1) by (rule later_relation) (use perform_inbound in blast)+
  then show ?thesis using assms(2) by blast
qed

lemma accept_effect:
  assumes "accept_transfer sv ident v db = Inr (db', a)" "inbound_ok db" "wf_struct db"
  shows "books db' = (if accepted db (v_source_warden v) (v_sequence v) then books db
      else post (Credit (credited_account a) (v_amount v)) (books db))"
    "accepted db' s n \<longleftrightarrow> accepted db s n \<or> s = v_source_warden v \<and> n = v_sequence v"
proof -
  have k: "accepted db (v_source_warden v) (v_sequence v) \<longleftrightarrow> acknowledged db (v_source_warden v) (v_sequence v)"
    using assms(1,2) by (rule accepted_iff_acknowledged)
  show "books db' = (if accepted db (v_source_warden v) (v_sequence v) then books db
      else post (Credit (credited_account a) (v_amount v)) (books db))"
    using accept_posts [OF assms(3,1)] unfolding k by (auto simp: posts_def accept_entries_def acknowledged_def)
  obtain m where m: "accepts (v_source_warden v) (if acknowledged db (v_source_warden v) (v_sequence v) then {} else {v_sequence v}) m db db'"
    using accept_accepts [OF assms(1,2)] by blast
  show "accepted db' s n \<longleftrightarrow> accepted db s n \<or> s = v_source_warden v \<and> n = v_sequence v"
    using accepts_accepted [OF m, of s n] k by (auto split: if_splits)
qed

lemma accept_replay:
  assumes "accept_transfer sv ident v db = Inr (db1, a)" "inbound_ok db" "wf_struct db" "later db1 db2" "wf_struct db2"
    "accept_transfer sv' ident' v' db2 = Inr (db3, a')" "v_source_warden v' = v_source_warden v" "v_sequence v' = v_sequence v"
  shows "books db3 = books db2"
proof -
  obtain m where "accepts (v_source_warden v) (if acknowledged db (v_source_warden v) (v_sequence v) then {} else {v_sequence v}) m db db1"
    using accept_accepts [OF assms(1,2)] by blast
  then have "inbound_ok db1" using assms(2) by (rule accepts_ok)
  moreover have "accepted db1 (v_source_warden v) (v_sequence v)" using accept_effect(2) [OF assms(1-3)] by simp
  ultimately have "inbound_ok db2" "accepted db2 (v_source_warden v) (v_sequence v)" using later_inbound [OF assms(4)] by blast+
  then show ?thesis using accept_effect(1) [OF assms(6) _ assms(5)] assms(7,8) by simp
qed

section \<open>The reach of a revocation\<close>

lemma revoked_branch_blocked:
  assumes "revoke_branch sv rid ident b rs ep db = Inr (db1, v)" "fresh_request db rid" "later db1 db2"
    "tfind l_lease_id k (db_leases db2) = Some l" "l_lineage_id l = b_lineage_id v" "b = k \<or> b \<in> set (l_ancestor_path l)"
  shows "lease_revoked db2 l"
proof -
  from assms(1,2) obtain r :: lease_row where r: "b_lineage_id v = l_lineage_id r" "branch_epoch_of db1 (l_lineage_id r) b = Some (b_epoch v)"
    by (rule revoke_branch_epoch) (rule that, assumption+)
  have "l_lease_id l = k" using tfind_Some_iff [OF assms(4)] by simp
  then have "lease_revoked db1 l"
    using revoked_at_lease [of db1 "l_lineage_id r" b "b_epoch v" l] r assms(5,6) by (auto simp: revoked_at_def)
  then show ?thesis using later_revocations_kept [OF assms(3)] by (rule lease_revoked_later) simp
qed

lemma revoked_lease_inert:
  assumes "lease_revoked db l" "tfind l_lease_id k (db_leases db) = Some l" "fresh_request db rid"
  shows "\<not> ok (authorize sv rid ident k tr aud nonce ev est esq db)"
    "\<not> ok (spawn sv rid ident k subj alloc caps ttl pd es db)"
    "\<not> ok (spawn_remote sv rid ident k tw subj alloc caps ttl es db)"
  using assms authorize_blocked spawn_blocked spawn_remote_blocked by (fastforce simp: ok_iff)+

end
