(* ===== verification/Evidence.thy ===== *)
theory Evidence
  imports Policy
begin

text \<open>
  Evidence rules: the bounds that _validate_shape enforces, the reading of the
  three-valued evaluation as two-valued logic over decided leaves, and the round
  trip of a validated rule through its wire form.
\<close>

section \<open>The shape of a rule\<close>

lemma er_depth_children: "er_depth r = Suc (foldr max (map er_depth (er_children r)) 0)"
proof -
  have f: "max (foldr max xs 0) n = foldr max xs (n :: nat)" for xs n
    by (induction xs) (auto simp: max.assoc)
  show ?thesis by (cases r) (simp add: er_children_def f split: option.splits)
qed

lemma foldr_max_le: "foldr max xs (0 :: nat) \<le> n \<longleftrightarrow> (\<forall>x\<in>set xs. x \<le> n)"
  by (induction xs) auto

lemma er_depth_le: "d + er_depth r \<le> Suc n \<longleftrightarrow> d \<le> n \<and> (\<forall>c\<in>set (er_children r). Suc d + er_depth c \<le> Suc n)"
proof -
  have "d + er_depth r \<le> Suc n \<longleftrightarrow> d \<le> n \<and> foldr max (map er_depth (er_children r)) 0 \<le> n - d"
    by (subst er_depth_children) auto
  also have "\<dots> \<longleftrightarrow> d \<le> n \<and> (\<forall>c\<in>set (er_children r). Suc d + er_depth c \<le> Suc n)"
    by (auto simp: foldr_max_le)
  finally show ?thesis .
qed

lemma shape_step:
  "(S \<longleftrightarrow> A \<and> (E \<or> n + 1 + N \<le> (M :: nat))) \<Longrightarrow> (A \<longleftrightarrow> B) \<Longrightarrow> (E \<Longrightarrow> N = 0) \<Longrightarrow> n + 1 \<le> M \<Longrightarrow> \<not> F \<Longrightarrow>
    (S \<longleftrightarrow> B \<and> (F \<or> n + Suc N \<le> M))"
  by auto

lemma shape_loop_iff:
  "shape_loop nodes stack = Inr () \<longleftrightarrow>
    (\<forall>(r, d)\<in>set stack. d + er_depth r \<le> Suc MAX_EVIDENCE_DEPTH)
    \<and> (stack = [] \<or> nodes + sum_list (map (er_nodes \<circ> fst) stack) \<le> MAX_EVIDENCE_NODES)"
proof (induction nodes stack rule: shape_loop.induct)
  case (1 nodes stack)
  show ?case
  proof (cases stack rule: rev_cases)
    case Nil
    then show ?thesis by (subst shape_loop.simps) simp
  next
    case (snoc rest x)
    obtain r d where x: "x = (r, d)" by (cases x)
    let ?st = "rest @ map (\<lambda>item. (item, d + 1)) (er_children r)"
    have step: "shape_loop nodes stack = (if d > MAX_EVIDENCE_DEPTH then Inl ValidationError
        else if nodes + 1 > MAX_EVIDENCE_NODES then Inl ValidationError else shape_loop (nodes + 1) ?st)"
      by (subst shape_loop.simps) (simp add: snoc x Let_def)
    have s: "sum_list (map (er_nodes \<circ> fst) stack) = Suc (sum_list (map (er_nodes \<circ> fst) ?st))"
      using er_nodes_children [of r] by (simp add: snoc x o_def)
    show ?thesis
    proof (cases "d \<le> MAX_EVIDENCE_DEPTH \<and> nodes + 1 \<le> MAX_EVIDENCE_NODES")
      case True
      have ih: "shape_loop (nodes + 1) ?st = Inr () \<longleftrightarrow>
          (\<forall>(r, d)\<in>set ?st. d + er_depth r \<le> Suc MAX_EVIDENCE_DEPTH)
          \<and> (?st = [] \<or> nodes + 1 + sum_list (map (er_nodes \<circ> fst) ?st) \<le> MAX_EVIDENCE_NODES)"
        using 1 [of "(r, d)" "rev rest" r d "nodes + 1"] True by (simp add: snoc x comp_def)
      have q: "(\<forall>(r, d)\<in>set ?st. d + er_depth r \<le> Suc MAX_EVIDENCE_DEPTH)
          \<longleftrightarrow> (\<forall>(r, d)\<in>set stack. d + er_depth r \<le> Suc MAX_EVIDENCE_DEPTH)"
        using True er_depth_le [of d r MAX_EVIDENCE_DEPTH] by (force simp: snoc x ball_Un)
      have e: "shape_loop nodes stack = shape_loop (nodes + 1) ?st" using True step by simp
      show ?thesis unfolding s e by (rule shape_step [OF ih q]) (use True snoc in auto)
    next
      case False
      then show ?thesis
        using s step er_depth_le [of d r MAX_EVIDENCE_DEPTH] by (auto simp: snoc x)
    qed
  qed
qed

lemma validate_shape_iff:
  "validate_shape r = Inr () \<longleftrightarrow> er_depth r \<le> MAX_EVIDENCE_DEPTH \<and> er_nodes r \<le> MAX_EVIDENCE_NODES"
  by (simp add: validate_shape_def shape_loop_iff)

section \<open>Two-valued reading\<close>

text \<open>A rule is decided when every leaf is, and then holds as the Boolean formula it spells.\<close>

primrec decided :: "EvidenceRule \<Rightarrow> (EvidenceRule \<Rightarrow> EvidenceResult) \<Rightarrow> bool" where
  "decided (EvidenceRule op path val vals rules rule obs age) =
    (let ds = map decided rules; d = map_option decided rule in
     (\<lambda>leaf. if List.member BOOLEAN_OPS op then list_all (\<lambda>f. f leaf) ds
       else if op = ''not'' then (case d of None \<Rightarrow> False | Some f \<Rightarrow> f leaf)
       else leaf (EvidenceRule op path val vals rules rule obs age) \<noteq> INVALID))"

primrec holds :: "EvidenceRule \<Rightarrow> (EvidenceRule \<Rightarrow> EvidenceResult) \<Rightarrow> bool" where
  "holds (EvidenceRule op path val vals rules rule obs age) =
    (let hs = map holds rules; h = map_option holds rule in
     (\<lambda>leaf. if op = ''all'' then list_all (\<lambda>f. f leaf) hs
       else if op = ''any'' then list_ex (\<lambda>f. f leaf) hs
       else if op = ''not'' then (case h of None \<Rightarrow> False | Some f \<Rightarrow> \<not> f leaf)
       else leaf (EvidenceRule op path val vals rules rule obs age) = ALLOW))"

definition leaf_value :: "wire_dict \<Rightarrow> int \<Rightarrow> string \<Rightarrow> string \<Rightarrow> EvidenceRule \<Rightarrow> EvidenceResult" where
  "leaf_value facts now_ns subject_id audience r =
    (case leaf_result r facts now_ns subject_id audience of Inl _ \<Rightarrow> INVALID | Inr v \<Rightarrow> v)"

definition verdict :: "EvidenceRule \<Rightarrow> (EvidenceRule \<Rightarrow> EvidenceResult) \<Rightarrow> EvidenceResult" where
  "verdict r leaf = (if \<not> decided r leaf then INVALID else if holds r leaf then ALLOW else DENY)"

lemma BOOLEAN_OPS_iff: "List.member BOOLEAN_OPS op \<longleftrightarrow> op = ''all'' \<or> op = ''any''"
  by (simp add: BOOLEAN_OPS_def)

lemma mapM_evidence:
  assumes "mapM (\<lambda>f. f fa n s a) (map evidence_result rules) = Inr vs"
    "\<And>r v. r \<in> set rules \<Longrightarrow> evidence_result r fa n s a = Inr v \<Longrightarrow> v = verdict r leaf"
  shows "vs = map (\<lambda>r. verdict r leaf) rules"
  using assms by (induction rules arbitrary: vs) (auto simp: res_simps)

lemma evidence_result_verdict:
  "evidence_result r fa n s a = Inr v \<Longrightarrow> v = verdict r (leaf_value fa n s a)"
proof (induction r arbitrary: v)
  case (EvidenceRule op path val vals rules rule obs age)
  let ?leaf = "leaf_value fa n s a"
  show ?case
  proof (cases "List.member BOOLEAN_OPS op")
    case True
    with EvidenceRule.prems obtain vs where vs: "mapM (\<lambda>f. f fa n s a) (map evidence_result rules) = Inr vs"
      and v: "v = (if List.member vs INVALID then INVALID else if op = ''all'' then allow_if (list_all (\<lambda>x. x = ALLOW) vs)
        else allow_if (list_ex (\<lambda>x. x = ALLOW) vs))"
      by (auto simp: Let_def res_simps)
    have "vs = map (\<lambda>r. verdict r ?leaf) rules" by (rule mapM_evidence [OF vs]) (rule EvidenceRule.IH(1))
    then have m: "List.member vs INVALID \<longleftrightarrow> \<not> list_all (\<lambda>r. decided r ?leaf) rules"
      and h: "list_all (\<lambda>r. decided r ?leaf) rules \<Longrightarrow> (x = ALLOW \<and> x \<in> set vs) = (x = ALLOW \<and> (\<exists>r\<in>set rules. holds r ?leaf))"
      and a: "list_all (\<lambda>r. decided r ?leaf) rules \<Longrightarrow> list_all (\<lambda>x. x = ALLOW) vs = list_all (\<lambda>r. holds r ?leaf) rules"
      for x
      by (auto simp: verdict_def list_all_iff split: if_splits)
    have "decided (EvidenceRule op path val vals rules rule obs age) ?leaf = list_all (\<lambda>r. decided r ?leaf) rules"
      using True by (simp add: Let_def list_all_iff)
    moreover have "holds (EvidenceRule op path val vals rules rule obs age) ?leaf =
        (if op = ''all'' then list_all (\<lambda>r. holds r ?leaf) rules else (\<exists>r\<in>set rules. holds r ?leaf))"
      using True by (auto simp: Let_def list_all_iff list_ex_iff BOOLEAN_OPS_def)
    ultimately show ?thesis
      using m a h [of ALLOW] unfolding v verdict_def by (simp add: allow_if_def list_ex_iff)
  next
    case nb: False
    show ?thesis
    proof (cases "op = ''not''")
      case True
      show ?thesis
      proof (cases rule)
        case None
        then show ?thesis using EvidenceRule.prems True by (simp add: verdict_def Let_def BOOLEAN_OPS_def)
      next
        case (Some x)
        then obtain w where w: "evidence_result x fa n s a = Inr w"
          and v: "v = (case w of INVALID \<Rightarrow> INVALID | ALLOW \<Rightarrow> DENY | DENY \<Rightarrow> ALLOW)"
          using EvidenceRule.prems True by (auto simp: Let_def BOOLEAN_OPS_def res_simps)
        have "w = verdict x ?leaf" using EvidenceRule.IH(2) [OF _ w] Some by simp
        then show ?thesis using True Some unfolding v by (simp add: verdict_def Let_def BOOLEAN_OPS_def)
      qed
    next
      case False
      then have "leaf_value fa n s a (EvidenceRule op path val vals rules rule obs age) = v"
        using EvidenceRule.prems nb by (auto simp: leaf_value_def Let_def)
      then show ?thesis
        using nb False by (cases v) (auto simp: verdict_def BOOLEAN_OPS_def Let_def)
    qed
  qed
qed

text \<open>Evidence is granted for a rule only if the rule parses, is decided and holds.\<close>

lemma evaluate_evidence_grants:
  assumes "evaluate_evidence rule ev n s a = Inr True" "rule \<noteq> JNull"
  obtains d r where "rule = JObj d" "er_from_dict d = Inr r"
    "decided r (leaf_value (case ev of None \<Rightarrow> [] | Some f \<Rightarrow> f) n s a)"
    "holds r (leaf_value (case ev of None \<Rightarrow> [] | Some f \<Rightarrow> f) n s a)"
proof -
  let ?f = "case ev of None \<Rightarrow> [] | Some f \<Rightarrow> f"
  from assms obtain d r where "rule = JObj d" "er_from_dict d = Inr r" "evidence_result r ?f n s a = Inr ALLOW"
    by (auto simp: evaluate_evidence_def Let_def res_simps split: json.splits sum.splits if_splits)
  then show thesis
    using that evidence_result_verdict [of r ?f n s a ALLOW] by (auto simp: verdict_def split: if_splits)
qed


section \<open>The wire form\<close>

text \<open>Every rule of the tree has passed its validation, as \<open>__post_init__\<close> makes sure.\<close>

primrec er_valid :: "EvidenceRule \<Rightarrow> bool" where
  "er_valid (EvidenceRule op path val vals rules rule obs age) =
    (er_post_init (EvidenceRule op path val vals rules rule obs age) = Inr (EvidenceRule op path val vals rules rule obs age)
     \<and> list_all id (map er_valid rules) \<and> (case map_option er_valid rule of None \<Rightarrow> True | Some b \<Rightarrow> b))"

lemma thread_rules:
  assumes "\<And>r c. r \<in> set rules \<Longrightarrow> c + er_nodes r \<le> m \<Longrightarrow> f (JObj (er_to_dict r)) c = Inr (r, c + er_nodes r)"
    "c + sum_list (map er_nodes rules) \<le> m"
  shows "thread f (map JObj (map er_to_dict rules)) c = Inr (rules, c + sum_list (map er_nodes rules))"
  using assms by (induction rules arbitrary: c) auto

lemma reject_extras_iff: "reject_extras r al = Inr () \<longleftrightarrow> set (present_fields r) \<subseteq> set al"
  by (auto simp: reject_extras_def list_all_iff)

lemma present_fields_iff:
  "''path'' \<in> set (present_fields r) \<longleftrightarrow> er_path r \<noteq> JNull" "''value'' \<in> set (present_fields r) \<longleftrightarrow> er_value r \<noteq> None"
  "''values'' \<in> set (present_fields r) \<longleftrightarrow> er_values r \<noteq> []" "''rules'' \<in> set (present_fields r) \<longleftrightarrow> er_rules r \<noteq> []"
  "''rule'' \<in> set (present_fields r) \<longleftrightarrow> er_rule r \<noteq> None"
  "''observed_at_path'' \<in> set (present_fields r) \<longleftrightarrow> er_observed_at_path r \<noteq> JNull"
  "''max_age_ns'' \<in> set (present_fields r) \<longleftrightarrow> er_max_age_ns r \<noteq> JNull"
  by (auto simp: present_fields_def)

text \<open>What a validated rule has, by its operation.\<close>

lemma er_op_cases:
  assumes "er_op_checks (EvidenceRule op path val vals rules rule obs age) = Inr ()"
  obtains (bool) "List.member BOOLEAN_OPS op" "path = JNull" "val = None" "vals = []" "rule = None" "obs = JNull" "age = JNull"
  | (neg) x where "op = ''not''" "path = JNull" "val = None" "vals = []" "rules = []" "rule = Some x" "obs = JNull" "age = JNull"
  | (path) "List.member PATH_OPS op" "vals = []" "rules = []" "rule = None" "obs = JNull" "age = JNull"
  | (member) "op = ''in''" "val = None" "rules = []" "rule = None" "obs = JNull" "age = JNull"
  | (fresh) "op = ''fresh''" "path = JNull" "val = None" "vals = []" "rules = []" "rule = None"
proof -
  let ?r = "EvidenceRule op path val vals rules rule obs age"
  have e: "reject_extras ?r al = Inr u \<Longrightarrow> f \<in> set (present_fields ?r) \<Longrightarrow> f \<in> set al" for al f u
    using reject_extras_iff [of ?r al] by auto
  note x = e [of _ _ "''path''", unfolded present_fields_iff] e [of _ _ "''value''", unfolded present_fields_iff]
    e [of _ _ "''values''", unfolded present_fields_iff] e [of _ _ "''rules''", unfolded present_fields_iff]
    e [of _ _ "''rule''", unfolded present_fields_iff] e [of _ _ "''observed_at_path''", unfolded present_fields_iff]
    e [of _ _ "''max_age_ns''", unfolded present_fields_iff]
  consider "List.member BOOLEAN_OPS op" "reject_extras ?r [''rules''] = Inr ()"
    | "op = ''not''" "rule \<noteq> None" "reject_extras ?r [''rule''] = Inr ()"
    | "List.member PATH_OPS op" "reject_extras ?r [''path'', ''value''] = Inr ()"
    | "op = ''in''" "reject_extras ?r [''path'', ''values''] = Inr ()"
    | "op = ''fresh''" "reject_extras ?r [''observed_at_path'', ''max_age_ns''] = Inr ()"
    using assms unfolding er_op_checks_def Let_def reject_extras_iff
    by (simp add: rbind_Inr_iff reject_extras_iff split: if_split_asm json.split_asm) blast+
  then show thesis
  proof cases
    case 1
    then show thesis using x [OF 1(2)] by (intro bool) (auto simp del: not_None_eq)
  next
    case 2
    then obtain n where "rule = Some n" by auto
    with 2 show thesis using x [OF 2(3)] by (intro neg) (auto simp del: not_None_eq)
  next
    case 3
    then show thesis using x [OF 3(2)] by (intro path) (auto simp del: not_None_eq)
  next
    case 4
    then show thesis using x [OF 4(2)] by (intro member) (auto simp del: not_None_eq)
  next
    case 5
    then show thesis using x [OF 5(2)] by (intro fresh) (auto simp del: not_None_eq)
  qed
qed


lemma er_from_to_json:
  "er_valid r \<Longrightarrow> er_depth r \<le> levels \<Longrightarrow> c + er_nodes r \<le> MAX_EVIDENCE_NODES \<Longrightarrow>
    er_from_json levels (JObj (er_to_dict r)) c = Inr (r, c + er_nodes r)"
proof (induction r arbitrary: levels c)
  case (EvidenceRule op path val vals rules rule obs age)
  let ?r = "EvidenceRule op path val vals rules rule obs age"
  from EvidenceRule.prems(2) obtain k where k: "levels = Suc k" by (cases levels) auto
  have post: "er_post_init ?r = Inr ?r" and cs: "\<And>x. x \<in> set rules \<Longrightarrow> er_valid x" "\<And>x. rule = Some x \<Longrightarrow> er_valid x"
    using EvidenceRule.prems(1) by (auto simp: list_all_iff)
  have chk: "er_op_checks ?r = Inr ()" using post by (auto simp: er_post_init_def rbind_Inr_iff)
  have dep: "x \<in> set (er_children ?r) \<Longrightarrow> er_depth x \<le> k" for x
    using EvidenceRule.prems(2) k er_depth_le [of 0 ?r k] by auto
  have nod: "er_nodes ?r = Suc (sum_list (map er_nodes (er_children ?r)))" by (rule er_nodes_children)
  have n: "\<not> c + 1 > MAX_EVIDENCE_NODES" using EvidenceRule.prems(3) nod by simp
  have step: "er_from_json levels (JObj (er_to_dict ?r)) c =
      er_fields (er_to_dict ?r) (thread (er_from_json k)) (er_from_json k) (c + 1)"
    using n by (simp add: k)
  from chk show ?case
  proof (cases rule: er_op_cases)
    case bool
    have "thread (er_from_json k) (map JObj (map er_to_dict rules)) (c + 1) = Inr (rules, c + 1 + sum_list (map er_nodes rules))"
      by (rule thread_rules [where m = MAX_EVIDENCE_NODES])
        (use EvidenceRule.IH(1) cs dep EvidenceRule.prems(3) bool in \<open>auto simp: er_children_def\<close>)
    then show ?thesis
      using bool post unfolding step by (simp add: er_fields_def wire_simps EVIDENCE_FIELDS_def)
  next
    case (neg x)
    have "er_from_json k (JObj (er_to_dict x)) (c + 1) = Inr (x, c + 1 + er_nodes x)"
      by (rule EvidenceRule.IH(2)) (use cs dep EvidenceRule.prems(3) neg in \<open>auto simp: er_children_def\<close>)
    then show ?thesis
      using neg post unfolding step by (simp add: er_fields_def wire_simps EVIDENCE_FIELDS_def BOOLEAN_OPS_def)
  next
    case path
    then have o: "\<not> List.member BOOLEAN_OPS op" "op \<noteq> ''not''" "op \<noteq> ''in''" "op \<noteq> ''fresh''"
      by (auto simp: BOOLEAN_OPS_def PATH_OPS_def COMPARISON_OPS_def)
    show ?thesis
      using post path(2-) o unfolding step by (cases val) (simp_all add: er_fields_def wire_simps EVIDENCE_FIELDS_def)
  next
    case member
    then show ?thesis
      using post unfolding step by (simp add: er_fields_def wire_simps EVIDENCE_FIELDS_def BOOLEAN_OPS_def)
  next
    case fresh
    then show ?thesis
      using post unfolding step by (simp add: er_fields_def wire_simps EVIDENCE_FIELDS_def BOOLEAN_OPS_def)
  qed
qed

lemma er_from_to_dict:
  assumes "er_valid r"
  shows "er_from_dict (er_to_dict r) = Inr r"
proof -
  have "er_post_init r = Inr r" using assms by (cases r) simp
  then have "validate_shape r = Inr ()" by (auto simp: er_post_init_def rbind_Inr_iff split: if_splits)
  then show ?thesis
    using er_from_to_json [OF assms, of MAX_EVIDENCE_DEPTH 0] by (simp add: er_from_dict_def validate_shape_iff)
qed

text \<open>A rule that was parsed is validated in every node, within the bounds.\<close>

lemma thread_valid:
  assumes "thread f xs c = Inr (ys, d)" "\<And>x c y d. f x c = Inr (y, d) \<Longrightarrow> P y"
  shows "list_all P ys"
  using assms(1) by (induction xs arbitrary: c ys d) (auto simp: rbind_Inr_iff split: prod.splits dest: assms(2))

lemma er_post_init_same: "er_post_init r = Inr s \<Longrightarrow> s = r"
  by (auto simp: er_post_init_def rbind_Inr_iff split: if_splits)

lemma er_from_json_valid: "er_from_json levels j c = Inr (r, d) \<Longrightarrow> er_valid r"
proof (induction levels arbitrary: j c r d)
  case (Suc k)
  then obtain dict where f: "er_fields dict (thread (er_from_json k)) (er_from_json k) (c + 1) = Inr (r, d)"
    by (auto split: if_splits json.splits)
  then have n: "\<not> list_ex (\<lambda>k. \<not> List.member EVIDENCE_FIELDS k) (map fst dict)" by (auto simp: er_fields_def)
  from f obtain op rules c2 nested c3 vals where
    rs: "(case jlookup ''rules'' dict of None \<Rightarrow> Inr ([], c + 1)
       | Some (JArr raw_rules) \<Rightarrow> thread (er_from_json k) raw_rules (c + 1) | Some _ \<Rightarrow> Inl ValidationError) = Inr (rules, c2)"
    and nt: "(if jget_null ''rule'' dict = JNull then Inr (None, c2)
       else rbind (er_from_json k (jget_null ''rule'' dict) c2) (\<lambda>(nested, c). Inr (Some nested, c))) = Inr (nested, c3)"
    and po: "er_post_init (EvidenceRule op (jget_null ''path'' dict) (jlookup ''value'' dict) vals rules nested
       (jget_null ''observed_at_path'' dict) (jget_null ''max_age_ns'' dict)) = Inr r"
    unfolding er_fields_def if_not_P [OF n] rbind_Inr_iff split_paired_Ex prod.case
    by (elim exE conjE) (rule that, assumption, assumption, simp)
  have "list_all er_valid rules"
    using rs by (auto split: option.splits json.splits intro: thread_valid Suc.IH)
  moreover have "case nested of None \<Rightarrow> True | Some x \<Rightarrow> er_valid x"
    using nt Suc.IH by (auto simp: rbind_Inr_iff split: if_splits option.splits)
  ultimately show ?case
    using po er_post_init_same [OF po] by (auto simp: list_all_iff split: option.splits)
qed simp

lemma er_from_dict_valid: "er_from_dict d = Inr r \<Longrightarrow> er_valid r"
  by (auto simp: er_from_dict_def rbind_Inr_iff dest: er_from_json_valid)

end
