(* ===== verification/Demo_Facts.thy ===== *)
theory Demo_Facts
  imports Demo_Runs Delegation Evidence
begin

text \<open>The invariants on the concrete database, two calls in a row, and a reachable database with an envelope.\<close>

lemma demo_ledger: "ledger_ok demo_db"
  by (simp add: ledger_ok_def assert_local_conservation_def eval_simps tkeys_def total_def)

lemma demo_wf: "wf_struct demo_db"
  using ledger_ok_books [OF demo_ledger] by simp

lemma demo_nested: "nested demo_db"
  by (simp add: nested_def tkeys_def demo_db_def demo_lease_def)

lemma demo_inbound: "inbound_ok demo_db"
  by (simp add: inbound_ok_def acknowledged_def compacted_ok_def tkeys_def tfind_def demo_db_def)

lemma demo_outbound: "outbound_ok demo_db"
  by (simp add: outbound_ok_def tkeys_def demo_db_def)

lemma demo_fresh: "fresh_request demo_db rid"
  by (simp add: fresh_request_def tfind_def demo_db_def)

lemma demo_warden_ok: "warden_ok demo_sha demo_db"
  using demo_ledger demo_nested by (simp add: warden_ok_def audit_ok_def receipts_ok_def demo_db_def)

lemma demo_found: "tfind l_lease_id ''L'' (db_leases demo_db) = Some demo_lease"
  by (simp add: tfind_def demo_db_def demo_lease_def)

section \<open>Two calls in a row\<close>

lemma demo_accept_twice: "ok (rbind (accept_transfer demo_sv demo_id demo_voucher demo_db)
    (\<lambda>(db, _). accept_transfer demo_sv demo_id demo_voucher db))"
  by (simp add: eval_simps cong: rbind_weak_cong)

lemma demo_authorize_fresh: "\<exists>db' r. authorize demo_sv ''r1'' demo_id ''L'' ''go'' ''aud'' ''0123456789abcdef'' None None None demo_db = Inr (db', r)
    \<and> fresh_request db' ''r2''"
  by (simp add: eval_simps fresh_request_def cong: rbind_weak_cong)

lemma demo_revoke_fresh: "\<exists>db' v. revoke_branch demo_sv ''r1'' demo_id ''L'' ''why'' None demo_db = Inr (db', v)
    \<and> fresh_request db' ''r2''"
  by (simp add: eval_simps fresh_request_def cong: rbind_weak_cong)

section \<open>A reachable database\<close>

definition demo_created :: db where
  "demo_created = perform demo_sv (CreateEnvelope demo_id demo_config) (empty_db ''w1'' ''k1'' (demo_sha []))"

lemma demo_reachable: "reachable demo_sha demo_created"
  unfolding demo_created_def by (rule reachable.call [OF reachable.migrated]) (simp add: demo_sv_def)

lemma demo_created_ok: "ledger_ok demo_created"
proof -
  let ?db = "empty_db ''w1'' ''k1'' (demo_sha [])"
  obtain db' x where c: "create_envelope demo_sv demo_id demo_config ?db = Inr (db', x)"
    using demo_create by (auto simp: ok_iff)
  then have l: "ledger_ok db'" by (rule create_envelope_ok) (simp_all add: empty_db_def)
  have "nested db'"
    using c by (cases rule: create_envelope_cases) (auto simp: nested_def tkeys_def empty_db_def dest!: clock_leases audit_leases)
  then have "perform demo_sv (CreateEnvelope demo_id demo_config) ?db = db'"
    using c l ledger_ok_nested_commit by (simp add: perform_def write_tx_def db_of_def)
  then show ?thesis using l by (simp add: demo_created_def)
qed


section \<open>An evidence rule\<close>

definition demo_rule :: wire_dict where
  "demo_rule = [(''op'', JStr ''exists''), (''path'', JStr ''a'')]"

lemma demo_rule_parses: "er_from_dict demo_rule = Inr (EvidenceRule ''exists'' (JStr ''a'') None [] [] None JNull JNull)"
proof -
  have "shape_loop 0 [(EvidenceRule ''exists'' (JStr ''a'') None [] [] None JNull JNull, Suc 0)] = Inr ()"
    by (simp add: shape_loop_iff MAX_EVIDENCE_DEPTH_def MAX_EVIDENCE_NODES_def)
  then show ?thesis
    by (simp add: demo_rule_def er_from_dict_def er_fields_def er_post_init_def er_op_checks_def MAX_EVIDENCE_DEPTH_def
        MAX_EVIDENCE_NODES_def MAX_EVIDENCE_VALUES_def BOOLEAN_OPS_def PATH_OPS_def COMPARISON_OPS_def EVIDENCE_FIELDS_def
        validate_path_def require_identifier_max_def py_strip_def is_space_def reject_extras_def present_fields_def
        validate_shape_def jlookup_def jget_null_def numeral_eq_Suc)
qed

lemma demo_rule_grants: "evaluate_evidence (JObj demo_rule) (Some [(''a'', JInt 1)]) 0 ''s'' ''x'' = Inr True"
  by (simp add: evaluate_evidence_def demo_rule_parses leaf_result_def resolve_path_def canonical_json_eval BOOLEAN_OPS_def
      RESERVED_ROOTS_def jlookup_def)

end
