(* ===== verification/Crypto.thy ===== *)
theory Crypto
  imports Models "HOL-Library.Product_Lexorder" "HOL-Library.AList"
begin

text \<open>
  src/src/lets/crypto.py: the trust map of warden keys.  PyNaCl's Ed25519
  check is the parameter \<open>ed25519\<close> (public key, payload, signature);
  the two dictionaries of \<open>PublicKeyRegistry\<close> are a table of keys and
  the association of key material with the identity it was first bound to.
  The clock reading of a call is the pair \<open>now_ns\<close>, \<open>uncertainty_ns\<close>.
\<close>

section \<open>The registry\<close>

record trusted_key =
  tk_warden_id :: string
  tk_key_id :: string
  tk_public_key :: "byte list"
  tk_not_before_ns :: "int option"
  tk_not_after_ns :: "int option"

record PublicKeyRegistry =
  pk_keys :: "trusted_key list"
  pk_identity_by_material :: "(byte list \<times> (string \<times> string)) list"

definition key_identity :: "trusted_key \<Rightarrow> string \<times> string" where
  "key_identity k = (tk_warden_id k, tk_key_id k)"

definition registry_empty :: PublicKeyRegistry where
  "registry_empty = \<lparr>pk_keys = [], pk_identity_by_material = []\<rparr>"

definition validity_bound_ok :: "int option \<Rightarrow> bool" where
  "validity_bound_ok b = (case b of None \<Rightarrow> True | Some v \<Rightarrow> 0 \<le> v \<and> v \<le> MAX_RESOURCE)"

definition register :: "trusted_key \<Rightarrow> PublicKeyRegistry \<Rightarrow> PublicKeyRegistry res" where
  "register k reg =
    rbind (require_warden_id (tk_warden_id k)) (\<lambda>_.
    rbind (require_key_id (tk_key_id k)) (\<lambda>_.
    if length (tk_public_key k) \<noteq> 32 then Inl ValidationError
    else if \<not> validity_bound_ok (tk_not_before_ns k) then Inl ValidationError
    else if \<not> validity_bound_ok (tk_not_after_ns k) then Inl ValidationError
    else if (case (tk_not_before_ns k, tk_not_after_ns k) of (Some b, Some a) \<Rightarrow> a \<le> b | _ \<Rightarrow> False)
    then Inl ValidationError
    else if (case map_of (pk_identity_by_material reg) (tk_public_key k) of
               None \<Rightarrow> False | Some i \<Rightarrow> i \<noteq> key_identity k) then Inl ConflictError
    else (case tfind key_identity (key_identity k) (pk_keys reg) of
      Some existing \<Rightarrow>
        if tk_public_key existing \<noteq> tk_public_key k
           \<or> (tk_not_before_ns existing, tk_not_after_ns existing) \<noteq> (tk_not_before_ns k, tk_not_after_ns k)
        then Inl ConflictError else Inr reg
    | None \<Rightarrow> Inr (reg\<lparr>pk_keys := pk_keys reg @ [k],
        pk_identity_by_material := AList.update (tk_public_key k) (key_identity k) (pk_identity_by_material reg)\<rparr>))))"

definition entry_is_current :: "int \<Rightarrow> int \<Rightarrow> trusted_key \<Rightarrow> bool" where
  "entry_is_current now_ns uncertainty_ns k =
    (if now_ns < 0 \<or> now_ns > MAX_RESOURCE \<or> uncertainty_ns < 0 \<or> uncertainty_ns > MAX_RESOURCE
        \<or> now_ns > MAX_RESOURCE - uncertainty_ns then False
     else if (case tk_not_before_ns k of None \<Rightarrow> False | Some b \<Rightarrow> now_ns - uncertainty_ns < b) then False
     else \<not> (case tk_not_after_ns k of None \<Rightarrow> False | Some a \<Rightarrow> now_ns + uncertainty_ns \<ge> a))"

definition registry_verify :: "(byte list \<Rightarrow> byte list \<Rightarrow> byte list \<Rightarrow> bool) \<Rightarrow> int \<Rightarrow> int \<Rightarrow> PublicKeyRegistry
    \<Rightarrow> string \<Rightarrow> string \<Rightarrow> byte list \<Rightarrow> byte list \<Rightarrow> bool" where
  "registry_verify ed25519 now_ns uncertainty_ns reg warden_id key_id payload signature =
    (case tfind key_identity (warden_id, key_id) (pk_keys reg) of
       None \<Rightarrow> False
     | Some k \<Rightarrow> entry_is_current now_ns uncertainty_ns k \<and> ed25519 (tk_public_key k) payload signature)"

definition key_validity :: "PublicKeyRegistry \<Rightarrow> string \<Rightarrow> string \<Rightarrow> (int option \<times> int option) res" where
  "key_validity reg warden_id key_id =
    rbind (of_option SignatureError (tfind key_identity (warden_id, key_id) (pk_keys reg))) (\<lambda>k.
    Inr (tk_not_before_ns k, tk_not_after_ns k))"

definition require_current :: "int \<Rightarrow> int \<Rightarrow> PublicKeyRegistry \<Rightarrow> string \<Rightarrow> string \<Rightarrow> unit res" where
  "require_current now_ns uncertainty_ns reg warden_id key_id =
    rbind (of_option SignatureError (tfind key_identity (warden_id, key_id) (pk_keys reg))) (\<lambda>k.
    if \<not> entry_is_current now_ns uncertainty_ns k then Inl SignatureError else Inr ())"

definition require_current_warden :: "int \<Rightarrow> int \<Rightarrow> PublicKeyRegistry \<Rightarrow> string \<Rightarrow> unit res" where
  "require_current_warden now_ns uncertainty_ns reg warden_id =
    rbind (require_warden_id warden_id) (\<lambda>checked.
    if \<not> list_ex (\<lambda>k. tk_warden_id k = checked \<and> entry_is_current now_ns uncertainty_ns k) (pk_keys reg)
    then Inl SignatureError else Inr ())"

definition registry_public_key :: "PublicKeyRegistry \<Rightarrow> string \<Rightarrow> string \<Rightarrow> byte list res" where
  "registry_public_key reg warden_id key_id =
    rbind (of_option SignatureError (tfind key_identity (warden_id, key_id) (pk_keys reg))) (\<lambda>k. Inr (tk_public_key k))"

definition trust_digest :: "(byte list \<Rightarrow> byte list) \<Rightarrow> PublicKeyRegistry \<Rightarrow> byte list res" where
  "trust_digest sha256 reg =
    rbind (canonical_json (JObj [(''type'', JStr ''lets.executor-trust-registry/v1''),
      (''keys'', JArr (map (\<lambda>k. JObj [(''warden_id'', JStr (tk_warden_id k)), (''key_id'', JStr (tk_key_id k)),
         (''public_key'', JStr (b64url_encode (tk_public_key k))),
         (''not_before_ns'', jopt_int (tk_not_before_ns k)), (''not_after_ns'', jopt_int (tk_not_after_ns k))])
        (sort_key key_identity (pk_keys reg))))])) (\<lambda>bs. Inr (sha256 bs))"

definition trusted_registry :: "(string \<times> string \<times> byte list) list \<Rightarrow> PublicKeyRegistry res" where
  "trusted_registry signers = foldM (\<lambda>reg (warden_id, key_id, public_key).
     register \<lparr>tk_warden_id = warden_id, tk_key_id = key_id, tk_public_key = public_key,
       tk_not_before_ns = None, tk_not_after_ns = None\<rparr> reg) registry_empty signers"

section \<open>One key per identity, one identity per key\<close>

text \<open>
  The two dictionaries agree: no identity has two entries, no key material is
  bound to two identities, and every entry passed the checks of \<open>register\<close>.
\<close>

definition registry_ok :: "PublicKeyRegistry \<Rightarrow> bool" where
  "registry_ok reg \<longleftrightarrow> tkeys key_identity (pk_keys reg)
     \<and> distinct (map tk_public_key (pk_keys reg))
     \<and> (\<forall>k\<in>set (pk_keys reg). length (tk_public_key k) = 32
          \<and> map_of (pk_identity_by_material reg) (tk_public_key k) = Some (key_identity k))"

lemma registry_ok_empty: "registry_ok registry_empty"
  by (simp add: registry_ok_def registry_empty_def tkeys_def)

lemma register_cases:
  assumes "register k reg = Inr reg'"
  shows "length (tk_public_key k) = 32"
    "map_of (pk_identity_by_material reg) (tk_public_key k) \<in> {None, Some (key_identity k)}"
    "(reg' = reg \<and> k \<in> set (pk_keys reg)) \<or> (tfind key_identity (key_identity k) (pk_keys reg) = None
       \<and> reg' = reg\<lparr>pk_keys := pk_keys reg @ [k],
        pk_identity_by_material := AList.update (tk_public_key k) (key_identity k) (pk_identity_by_material reg)\<rparr>)"
proof -
  show "length (tk_public_key k) = 32"
    "map_of (pk_identity_by_material reg) (tk_public_key k) \<in> {None, Some (key_identity k)}"
    using assms by (auto simp: register_def res_simps split: option.splits if_splits)
  have same: "e = k" if "tfind key_identity (key_identity k) (pk_keys reg) = Some e"
    "tk_public_key e = tk_public_key k" "tk_not_before_ns e = tk_not_before_ns k" "tk_not_after_ns e = tk_not_after_ns k" for e
    using that tfind_Some_iff [OF that(1)] by (cases e, cases k) (auto simp: key_identity_def)
  show "(reg' = reg \<and> k \<in> set (pk_keys reg)) \<or> (tfind key_identity (key_identity k) (pk_keys reg) = None
       \<and> reg' = reg\<lparr>pk_keys := pk_keys reg @ [k],
        pk_identity_by_material := AList.update (tk_public_key k) (key_identity k) (pk_identity_by_material reg)\<rparr>)"
  proof (cases "tfind key_identity (key_identity k) (pk_keys reg)")
    case None
    then show ?thesis using assms by (auto simp: register_def res_simps split: if_splits)
  next
    case (Some e)
    then have "reg' = reg" "e = k"
      using assms same by (auto simp: register_def res_simps split: if_splits)
    with tfind_Some_iff [OF Some] show ?thesis by simp
  qed
qed

lemma registry_ok_register:
  assumes "registry_ok reg" "register k reg = Inr reg'"
  shows "registry_ok reg'"
proof -
  note c = register_cases [OF assms(2)]
  show ?thesis
  proof (cases "reg' = reg")
    case False
    with c(3) have none: "tfind key_identity (key_identity k) (pk_keys reg) = None"
      and reg': "reg' = reg\<lparr>pk_keys := pk_keys reg @ [k],
        pk_identity_by_material := AList.update (tk_public_key k) (key_identity k) (pk_identity_by_material reg)\<rparr>"
      by auto
    have "tk_public_key x \<noteq> tk_public_key k" if "x \<in> set (pk_keys reg)" for x
    proof
      assume eq: "tk_public_key x = tk_public_key k"
      with assms(1) that have "map_of (pk_identity_by_material reg) (tk_public_key k) = Some (key_identity x)"
        by (auto simp: registry_ok_def)
      with c(2) have "key_identity x = key_identity k" by auto
      with that none show False by (metis tfind_None_iff image_eqI)
    qed
    then show ?thesis
      using assms(1) c(1) none
      by (auto simp: registry_ok_def reg' tkeys_def tfind_None_iff update_conv' image_iff) blast
  qed (use assms in simp)
qed

lemma registry_ok_registered: "foldM (\<lambda>reg k. register k reg) registry_empty ks = Inr reg \<Longrightarrow> registry_ok reg"
  by (erule foldM_invariant) (auto simp: registry_ok_empty intro: registry_ok_register)

lemma registered_keys:
  assumes "foldM (\<lambda>reg k. register k reg) registry_empty ks = Inr reg"
  shows "set (pk_keys reg) = set ks"
proof -
  have "set (pk_keys reg) = set (pk_keys r0) \<union> set ks" if "foldM (\<lambda>reg k. register k reg) r0 ks = Inr reg" for r0
    using that
  proof (induction ks arbitrary: r0)
    case (Cons k ks)
    then obtain r1 where "register k r0 = Inr r1" "foldM (\<lambda>reg k. register k reg) r1 ks = Inr reg"
      by (auto simp: res_simps)
    with Cons.IH register_cases(3) [of k r0 r1] show ?case by fastforce
  qed simp
  from this [OF assms] show ?thesis by (simp add: registry_empty_def)
qed

lemma registry_ok_trusted: "trusted_registry signers = Inr reg \<Longrightarrow> registry_ok reg"
  unfolding trusted_registry_def
  by (erule foldM_invariant) (auto simp: registry_ok_empty intro: registry_ok_register)

lemma registry_verify_iff:
  assumes "registry_ok reg"
  shows "registry_verify ed now unc reg w i payload sig \<longleftrightarrow>
    (\<exists>k\<in>set (pk_keys reg). key_identity k = (w, i) \<and> entry_is_current now unc k \<and> ed (tk_public_key k) payload sig)"
proof
  assume "registry_verify ed now unc reg w i payload sig"
  then show "\<exists>k\<in>set (pk_keys reg). key_identity k = (w, i) \<and> entry_is_current now unc k \<and> ed (tk_public_key k) payload sig"
    by (auto simp: registry_verify_def dest: tfind_Some_iff split: option.splits)
next
  assume "\<exists>k\<in>set (pk_keys reg). key_identity k = (w, i) \<and> entry_is_current now unc k \<and> ed (tk_public_key k) payload sig"
  then obtain k where k: "k \<in> set (pk_keys reg)" "key_identity k = (w, i)" "entry_is_current now unc k"
    "ed (tk_public_key k) payload sig" by auto
  with assms tfind_unique [of key_identity "pk_keys reg" k] show "registry_verify ed now unc reg w i payload sig"
    by (simp add: registry_verify_def registry_ok_def)
qed

text \<open>A key counts as current only when the whole clock interval lies inside its validity.\<close>

lemma entry_is_current_iff:
  "entry_is_current now unc k \<longleftrightarrow> 0 \<le> now \<and> 0 \<le> unc \<and> now + unc \<le> MAX_RESOURCE \<and>
    (\<forall>t. now - unc \<le> t \<and> t \<le> now + unc \<longrightarrow>
      (\<forall>b. tk_not_before_ns k = Some b \<longrightarrow> b \<le> t) \<and> (\<forall>a. tk_not_after_ns k = Some a \<longrightarrow> t < a))"
  by (auto simp: entry_is_current_def MAX_RESOURCE_def not_less split: option.splits dest: spec [of _ "now + unc"])

end
