(* ===== verification/Executor_Authority.thy ===== *)
theory Executor_Authority
  imports Crypto Store
begin

text \<open>
  src/src/lets/executor_authority.py, with the helper process of
  authority_helper.py and the request channel of authority.py: the monotonic
  anchor that remembers, outside the replay database, the claim-chain head an
  executor last published.

  The anchor file is the JSON value it holds (None: no file).  What the
  operating system does to a call is an input: \<open>file_io\<close> for the
  in-process anchor, one \<open>delivery\<close> per helper request for the
  process anchor; the deadline is the end of the list of deliveries.
\<close>

section \<open>Identity and checkpoint\<close>

definition EXECUTOR_ANCHOR_FORMAT :: string where
  "EXECUTOR_ANCHOR_FORMAT = ''LETS-EXECUTOR-AUTHORITY-ANCHOR/1''"

definition anchor_integer :: "int \<Rightarrow> json \<Rightarrow> int res" where
  "anchor_integer minimum value =
    (case value of JInt n \<Rightarrow> if n < minimum \<or> n > MAX_RESOURCE then Inl ValidationError else Inr n
     | _ \<Rightarrow> Inl ValidationError)"

definition anchor_digest :: "json \<Rightarrow> byte list res" where
  "anchor_digest value =
    (case value of JStr s \<Rightarrow>
       rbind (map_err (\<lambda>_. ValidationError) (b64url_decode s)) (\<lambda>decoded.
       if length decoded \<noteq> 32 then Inl ValidationError else Inr decoded)
     | _ \<Rightarrow> Inl ValidationError)"

record ExecutorReplayIdentity =
  xi_audience :: string
  xi_tenant_id :: string
  xi_envelope_id :: string
  xi_config_epoch :: int
  xi_executor_policy_sha256 :: "byte list"
  xi_trust_registry_sha256 :: "byte list"

definition ExecutorReplayIdentity_post_init :: "ExecutorReplayIdentity \<Rightarrow> ExecutorReplayIdentity res" where
  "ExecutorReplayIdentity_post_init i =
    rbind (require_identifier (xi_audience i)) (\<lambda>_.
    rbind (require_identifier (xi_tenant_id i)) (\<lambda>_.
    rbind (require_identifier (xi_envelope_id i)) (\<lambda>_.
    rbind (anchor_integer 1 (JInt (xi_config_epoch i))) (\<lambda>_.
    if length (xi_executor_policy_sha256 i) \<noteq> 32 then Inl ValidationError
    else if length (xi_trust_registry_sha256 i) \<noteq> 32 then Inl ValidationError
    else Inr i))))"

record ExecutorAuthorityCheckpoint =
  xc_identity :: ExecutorReplayIdentity
  xc_schema_version :: int
  xc_database_instance_id :: "byte list"
  xc_claim_sequence :: int
  xc_claim_digest :: "byte list"
  xc_clock_floor_ns :: "int option"

definition Checkpoint_post_init :: "ExecutorAuthorityCheckpoint \<Rightarrow> ExecutorAuthorityCheckpoint res" where
  "Checkpoint_post_init c =
    rbind (anchor_integer 1 (JInt (xc_schema_version c))) (\<lambda>_.
    rbind (anchor_integer 0 (JInt (xc_claim_sequence c))) (\<lambda>_.
    rbind (case xc_clock_floor_ns c of None \<Rightarrow> Inr 0 | Some n \<Rightarrow> anchor_integer 0 (JInt n)) (\<lambda>_.
    if length (xc_database_instance_id c) \<noteq> 32 then Inl ValidationError
    else if length (xc_claim_digest c) \<noteq> 32 then Inl ValidationError
    else if xc_claim_sequence c = 0 \<and> xc_claim_digest c \<noteq> zero_hash then Inl ValidationError
    else Inr c)))"

definition stable_identity :: "ExecutorAuthorityCheckpoint \<Rightarrow> ExecutorReplayIdentity \<times> int \<times> byte list" where
  "stable_identity c = (xc_identity c, xc_schema_version c, xc_database_instance_id c)"

definition Checkpoint_to_dict :: "ExecutorAuthorityCheckpoint \<Rightarrow> wire_dict" where
  "Checkpoint_to_dict c =
   [(''format'', JStr EXECUTOR_ANCHOR_FORMAT),
    (''audience'', JStr (xi_audience (xc_identity c))),
    (''tenant_id'', JStr (xi_tenant_id (xc_identity c))),
    (''envelope_id'', JStr (xi_envelope_id (xc_identity c))),
    (''config_epoch'', JInt (xi_config_epoch (xc_identity c))),
    (''executor_policy_sha256'', JStr (b64url_encode (xi_executor_policy_sha256 (xc_identity c)))),
    (''trust_registry_sha256'', JStr (b64url_encode (xi_trust_registry_sha256 (xc_identity c)))),
    (''schema_version'', JInt (xc_schema_version c)),
    (''database_instance_id'', JStr (b64url_encode (xc_database_instance_id c))),
    (''claim_sequence'', JInt (xc_claim_sequence c)),
    (''claim_digest'', JStr (b64url_encode (xc_claim_digest c))),
    (''clock_floor_ns'', jopt_int (xc_clock_floor_ns c))]"

definition ANCHOR_FIELDS :: "string list" where
  "ANCHOR_FIELDS =
   [''format'', ''audience'', ''tenant_id'', ''envelope_id'', ''config_epoch'', ''executor_policy_sha256'',
    ''trust_registry_sha256'', ''schema_version'', ''database_instance_id'', ''claim_sequence'',
    ''claim_digest'', ''clock_floor_ns'']"

text \<open>The checks run in the order the constructor's arguments are evaluated: identity first.\<close>

definition Checkpoint_from_dict :: "wire_dict \<Rightarrow> ExecutorAuthorityCheckpoint res" where
  "Checkpoint_from_dict value =
    rbind (strict_fields value ANCHOR_FIELDS ANCHOR_FIELDS) (\<lambda>_.
    if jget_null ''format'' value \<noteq> JStr EXECUTOR_ANCHOR_FORMAT then Inl ValidationError
    else rbind (as_str (jget_null ''audience'' value)) (\<lambda>audience.
    rbind (as_str (jget_null ''tenant_id'' value)) (\<lambda>tenant_id.
    rbind (as_str (jget_null ''envelope_id'' value)) (\<lambda>envelope_id.
    rbind (anchor_integer 1 (jget_null ''config_epoch'' value)) (\<lambda>config_epoch.
    rbind (anchor_digest (jget_null ''executor_policy_sha256'' value)) (\<lambda>policy.
    rbind (anchor_digest (jget_null ''trust_registry_sha256'' value)) (\<lambda>trust.
    rbind (ExecutorReplayIdentity_post_init \<lparr>xi_audience = audience, xi_tenant_id = tenant_id,
        xi_envelope_id = envelope_id, xi_config_epoch = config_epoch,
        xi_executor_policy_sha256 = policy, xi_trust_registry_sha256 = trust\<rparr>) (\<lambda>identity.
    rbind (anchor_integer 1 (jget_null ''schema_version'' value)) (\<lambda>schema_version.
    rbind (anchor_digest (jget_null ''database_instance_id'' value)) (\<lambda>instance_id.
    rbind (anchor_integer 0 (jget_null ''claim_sequence'' value)) (\<lambda>claim_sequence.
    rbind (anchor_digest (jget_null ''claim_digest'' value)) (\<lambda>claim_digest.
    rbind (case jget_null ''clock_floor_ns'' value of JNull \<Rightarrow> Inr None
           | v \<Rightarrow> rbind (anchor_integer 0 v) (\<lambda>n. Inr (Some n))) (\<lambda>clock_floor_ns.
    Checkpoint_post_init \<lparr>xc_identity = identity, xc_schema_version = schema_version,
      xc_database_instance_id = instance_id, xc_claim_sequence = claim_sequence,
      xc_claim_digest = claim_digest, xc_clock_floor_ns = clock_floor_ns\<rparr>)))))))))))))"

section \<open>May the anchor advance?\<close>

definition floor_behind :: "int option \<Rightarrow> int option \<Rightarrow> bool" where
  "floor_behind anchored current =
    (case anchored of None \<Rightarrow> False | Some a \<Rightarrow> (case current of None \<Rightarrow> True | Some c \<Rightarrow> c < a))"

definition requires_advance :: "ExecutorAuthorityCheckpoint \<Rightarrow> ExecutorAuthorityCheckpoint
    \<Rightarrow> (int \<Rightarrow> byte list option res) \<Rightarrow> bool res" where
  "requires_advance anchored current claim_digest_at =
    (if stable_identity anchored \<noteq> stable_identity current then Inl StorageError
     else if xc_claim_sequence current < xc_claim_sequence anchored then Inl StorageError
     else if xc_claim_sequence current = xc_claim_sequence anchored then
       (if xc_claim_digest current \<noteq> xc_claim_digest anchored then Inl StorageError
        else if floor_behind (xc_clock_floor_ns anchored) (xc_clock_floor_ns current) then Inl StorageError
        else Inr (xc_clock_floor_ns current \<noteq> xc_clock_floor_ns anchored))
     else rbind (if xc_claim_sequence anchored = 0 then Inr (Some zero_hash)
                 else claim_digest_at (xc_claim_sequence anchored)) (\<lambda>historical.
       if historical \<noteq> Some (xc_claim_digest anchored) then Inl StorageError
       else if floor_behind (xc_clock_floor_ns anchored) (xc_clock_floor_ns current) then Inl StorageError
       else Inr True))"

section \<open>Transport errors\<close>

record transport_error =
  te_reason :: string
  te_operation :: string
  te_request_flushed :: bool
  te_mutation_uncertain :: bool

definition TRANSPORT_REASONS :: "string list" where
  "TRANSPORT_REASONS = [''deadline'', ''helper_eof'', ''helper_pipe'', ''helper_start'',
    ''helper_start_deadline'', ''helper_start_in_progress'', ''process_lock_deadline'']"

definition TRANSPORT_OPERATIONS :: "string list" where
  "TRANSPORT_OPERATIONS = [''compare-and-set'', ''confirm'', ''initialize'', ''read'']"

definition valid_metadata_values :: "transport_error \<Rightarrow> bool" where
  "valid_metadata_values e =
    (\<not> (\<not> List.member TRANSPORT_REASONS (te_reason e) \<or> \<not> List.member TRANSPORT_OPERATIONS (te_operation e)
        \<or> (te_operation e = ''read'' \<and> te_mutation_uncertain e)
        \<or> (List.member [''helper_start'', ''helper_start_deadline'', ''helper_start_in_progress''] (te_reason e)
            \<and> (te_request_flushed e \<or> te_mutation_uncertain e))))"

datatype anchor_exn = Transport transport_error | Raised lets_error

type_synonym 'a ares = "anchor_exn + 'a"

definition raised :: "'a res \<Rightarrow> 'a ares" where
  "raised m = map_err Raised m"

text \<open>The constructor of AuthorityAnchorTransportError refuses inconsistent metadata.\<close>

definition transport_failure :: "transport_error \<Rightarrow> 'a ares" where
  "transport_failure e = (if \<not> valid_metadata_values e then Inl (Raised ValidationError) else Inl (Transport e))"

section \<open>The file anchor\<close>

definition read_executor :: "json \<Rightarrow> ExecutorAuthorityCheckpoint res" where
  "read_executor content =
    (case content of JObj d \<Rightarrow> map_err (\<lambda>e. if e = ValidationError then StorageError else e) (Checkpoint_from_dict d)
     | _ \<Rightarrow> Inl StorageError)"

definition write_executor :: "ExecutorAuthorityCheckpoint \<Rightarrow> json" where
  "write_executor c = JObj (Checkpoint_to_dict c)"

text \<open>
  \<open>FileFailed\<close> is a lock, read or write that ended in StorageError,
  \<open>FileCrashed\<close> any other exception; the flag says whether the file had
  been replaced by then.
\<close>

datatype file_io = FileOk | FileFailed bool | FileCrashed bool

type_synonym anchor_file = "json option"

definition file_reconcile_steps :: "ExecutorAuthorityCheckpoint \<Rightarrow> (int \<Rightarrow> byte list option res) \<Rightarrow> bool
    \<Rightarrow> anchor_file \<Rightarrow> anchor_file res" where
  "file_reconcile_steps checkpoint claim_digest_at initialize file =
    (case file of
       None \<Rightarrow> if \<not> initialize then Inl StorageError else Inr (Some (write_executor checkpoint))
     | Some content \<Rightarrow>
         rbind (read_executor content) (\<lambda>anchored.
         rbind (requires_advance anchored checkpoint claim_digest_at) (\<lambda>advance.
         Inr (if advance then Some (write_executor checkpoint) else file))))"

definition file_reconcile :: "file_io \<Rightarrow> ExecutorAuthorityCheckpoint \<Rightarrow> (int \<Rightarrow> byte list option res) \<Rightarrow> bool
    \<Rightarrow> anchor_file \<Rightarrow> unit ares \<times> anchor_file" where
  "file_reconcile io checkpoint claim_digest_at initialize file =
    (case file_reconcile_steps checkpoint claim_digest_at initialize file of
       Inl e \<Rightarrow> (Inl (Raised e), file)
     | Inr file' \<Rightarrow>
         (case io of FileOk \<Rightarrow> (Inr (), file')
          | FileFailed written \<Rightarrow> (Inl (Raised StorageError), if written then file' else file)
          | FileCrashed written \<Rightarrow> (Inl (Raised RuntimeErr), if written then file' else file)))"

section \<open>The helper process\<close>

datatype anchor_request = Read | Initialize wire_dict | CompareAndSet wire_dict wire_dict | Confirm wire_dict

datatype anchor_response = RMissing | ROk "wire_dict option" | RConflict

fun request_operation :: "anchor_request \<Rightarrow> string" where
  "request_operation Read = ''read''"
| "request_operation (Initialize c) = ''initialize''"
| "request_operation (CompareAndSet x c) = ''compare-and-set''"
| "request_operation (Confirm c) = ''confirm''"

fun mutating :: "anchor_request \<Rightarrow> bool" where
  "mutating Read = False"
| "mutating _ = True"

text \<open>\<open>_operate_executor\<close>: one request on the anchor file.\<close>

fun operate_executor :: "anchor_request \<Rightarrow> anchor_file \<Rightarrow> (anchor_response \<times> anchor_file) res" where
  "operate_executor Read file =
    (case file of None \<Rightarrow> Inr (RMissing, file)
     | Some content \<Rightarrow> rbind (read_executor content) (\<lambda>c. Inr (ROk (Some (Checkpoint_to_dict c)), file)))"
| "operate_executor (Initialize value) file =
    (case file of Some content \<Rightarrow> Inr (RConflict, file)
     | None \<Rightarrow> rbind (Checkpoint_from_dict value) (\<lambda>checkpoint. Inr (ROk None, Some (write_executor checkpoint))))"
| "operate_executor (CompareAndSet expected value) file =
    (case file of None \<Rightarrow> Inr (RConflict, file)
     | Some content \<Rightarrow>
         rbind (Checkpoint_from_dict expected) (\<lambda>wanted.
         rbind (Checkpoint_from_dict value) (\<lambda>checkpoint.
         rbind (read_executor content) (\<lambda>current.
         if current \<noteq> wanted then Inr (RConflict, file) else Inr (ROk None, Some (write_executor checkpoint))))))"
| "operate_executor (Confirm value) file =
    (case file of None \<Rightarrow> Inr (RConflict, file)
     | Some content \<Rightarrow>
         rbind (Checkpoint_from_dict value) (\<lambda>checkpoint.
         rbind (read_executor content) (\<lambda>current.
         if current \<noteq> checkpoint then Inr (RConflict, file) else Inr (ROk None, Some (write_executor checkpoint)))))"

text \<open>
  One request through the pipe.  \<open>Lost\<close> carries the reason, whether the
  request was written and flushed, and whether the helper acted on it;
  \<open>Garbled\<close> is a response the parent refuses; an error answer of the
  helper is StorageError.  \<open>invoke\<close> also stands for the deadline check
  that follows the request.
\<close>

datatype delivery = Served | Lost string bool bool bool | Garbled bool

definition invoke :: "delivery \<Rightarrow> anchor_request \<Rightarrow> anchor_file \<Rightarrow> anchor_response ares \<times> anchor_file" where
  "invoke d request file =
    (let answer = operate_executor request file;
         acted = (case answer of Inl e \<Rightarrow> file | Inr (r, file') \<Rightarrow> file') in
     case d of
       Served \<Rightarrow> (case answer of Inl e \<Rightarrow> (Inl (Raised StorageError), file) | Inr (r, file') \<Rightarrow> (Inr r, file'))
     | Lost reason started flushed done \<Rightarrow>
         (transport_failure \<lparr>te_reason = reason, te_operation = request_operation request,
            te_request_flushed = flushed,
            te_mutation_uncertain = mutating request \<and> (if reason = ''helper_pipe'' then started else flushed)\<rparr>,
          if done then acted else file)
     | Garbled done \<Rightarrow> (Inl (Raised StorageError), if done then acted else file))"

definition past_deadline :: "anchor_request \<Rightarrow> 'a ares" where
  "past_deadline request =
    transport_failure \<lparr>te_reason = ''deadline'', te_operation = request_operation request,
      te_request_flushed = False, te_mutation_uncertain = False\<rparr>"

fun response_checkpoint :: "wire_dict option \<Rightarrow> ExecutorAuthorityCheckpoint res" where
  "response_checkpoint None = Inl StorageError"
| "response_checkpoint (Some d) = map_err (\<lambda>e. if e = ValidationError then StorageError else e) (Checkpoint_from_dict d)"

text \<open>
  \<open>_reconcile_before_deadline\<close>: read, decide, initialise or
  compare-and-set, and start over on a conflict.  The result carries the
  deliveries that are left for the confirmation.
\<close>

fun reconcile_before_deadline :: "delivery list \<Rightarrow> ExecutorAuthorityCheckpoint \<Rightarrow> (int \<Rightarrow> byte list option res) \<Rightarrow> bool
    \<Rightarrow> anchor_file \<Rightarrow> delivery list ares \<times> anchor_file" where
  "reconcile_before_deadline [] checkpoint claim_digest_at initialize file = (past_deadline Read, file)"
| "reconcile_before_deadline (d # ds) checkpoint claim_digest_at initialize file =
    (case invoke d Read file of
       (Inl e, file1) \<Rightarrow> (Inl e, file1)
     | (Inr RMissing, file1) \<Rightarrow>
         if \<not> initialize then (Inl (Raised StorageError), file1)
         else (case ds of [] \<Rightarrow> (past_deadline (Initialize (Checkpoint_to_dict checkpoint)), file1)
           | d2 # ds2 \<Rightarrow> (case invoke d2 (Initialize (Checkpoint_to_dict checkpoint)) file1 of
               (Inl e, file2) \<Rightarrow> (Inl e, file2)
             | (Inr (ROk v), file2) \<Rightarrow> (Inr ds2, file2)
             | (Inr RConflict, file2) \<Rightarrow> reconcile_before_deadline ds2 checkpoint claim_digest_at initialize file2
             | (Inr RMissing, file2) \<Rightarrow> (Inl (Raised StorageError), file2)))
     | (Inr RConflict, file1) \<Rightarrow> (Inl (Raised StorageError), file1)
     | (Inr (ROk v), file1) \<Rightarrow>
         (case response_checkpoint v of
            Inl e \<Rightarrow> (Inl (Raised e), file1)
          | Inr anchored \<Rightarrow>
             (case requires_advance anchored checkpoint claim_digest_at of
                Inl e \<Rightarrow> (Inl (Raised e), file1)
              | Inr adv \<Rightarrow>
                  if \<not> adv then (Inr ds, file1)
                  else (case ds of [] \<Rightarrow> (past_deadline (CompareAndSet (Checkpoint_to_dict anchored) (Checkpoint_to_dict checkpoint)), file1)
                    | d2 # ds2 \<Rightarrow>
                        (case invoke d2 (CompareAndSet (Checkpoint_to_dict anchored) (Checkpoint_to_dict checkpoint)) file1 of
                           (Inl e, file2) \<Rightarrow> (Inl e, file2)
                         | (Inr (ROk v), file2) \<Rightarrow> (Inr ds2, file2)
                         | (Inr RConflict, file2) \<Rightarrow> reconcile_before_deadline ds2 checkpoint claim_digest_at initialize file2
                         | (Inr RMissing, file2) \<Rightarrow> (Inl (Raised StorageError), file2))))))"

fun confirm_before_deadline :: "delivery list \<Rightarrow> ExecutorAuthorityCheckpoint \<Rightarrow> anchor_file \<Rightarrow> unit ares \<times> anchor_file" where
  "confirm_before_deadline [] checkpoint file = (past_deadline (Confirm (Checkpoint_to_dict checkpoint)), file)"
| "confirm_before_deadline (d # ds) checkpoint file =
    (case invoke d (Confirm (Checkpoint_to_dict checkpoint)) file of
       (Inl e, file1) \<Rightarrow> (Inl e, file1)
     | (Inr (ROk v), file1) \<Rightarrow> (Inr (), file1)
     | (Inr r, file1) \<Rightarrow> (Inl (Raised StorageError), file1))"

definition process_reconcile :: "delivery list \<Rightarrow> ExecutorAuthorityCheckpoint \<Rightarrow> (int \<Rightarrow> byte list option res) \<Rightarrow> bool
    \<Rightarrow> anchor_file \<Rightarrow> unit ares \<times> anchor_file" where
  "process_reconcile ds checkpoint claim_digest_at initialize file =
    (case reconcile_before_deadline ds checkpoint claim_digest_at initialize file of
       (Inl e, file1) \<Rightarrow> (Inl e, file1) | (Inr rest, file1) \<Rightarrow> (Inr (), file1))"

definition reconcile_and_confirm :: "delivery list \<Rightarrow> ExecutorAuthorityCheckpoint \<Rightarrow> (int \<Rightarrow> byte list option res) \<Rightarrow> bool
    \<Rightarrow> anchor_file \<Rightarrow> unit ares \<times> anchor_file" where
  "reconcile_and_confirm ds checkpoint claim_digest_at initialize file =
    (case reconcile_before_deadline ds checkpoint claim_digest_at initialize file of
       (Inl e, file1) \<Rightarrow> (Inl e, file1)
     | (Inr rest, file1) \<Rightarrow> confirm_before_deadline rest checkpoint file1)"

definition executor_identity_digest :: "(byte list \<Rightarrow> byte list) \<Rightarrow> ExecutorReplayIdentity \<Rightarrow> byte list" where
  "executor_identity_digest sha256 i =
    sha256 (utf8 (intercalate [CHR 0x00] [xi_audience i, xi_tenant_id i, xi_envelope_id i, show_int (xi_config_epoch i),
      hexdigest (xi_executor_policy_sha256 i), hexdigest (xi_trust_registry_sha256 i)]))"

section \<open>The stored checkpoint is the published one\<close>

definition checkpoint_ok :: "ExecutorAuthorityCheckpoint \<Rightarrow> bool" where
  "checkpoint_ok c \<longleftrightarrow> ok (ExecutorReplayIdentity_post_init (xc_identity c)) \<and> ok (Checkpoint_post_init c)"

lemma returns_itself: "(\<And>y. m = Inr y \<Longrightarrow> y = x) \<Longrightarrow> m = Inr y \<longleftrightarrow> y = x \<and> ok m"
  by (cases m) auto

lemma identity_post_init_Inr [res_simps]:
  "ExecutorReplayIdentity_post_init i = Inr j \<longleftrightarrow> j = i \<and> ok (ExecutorReplayIdentity_post_init i)"
  by (rule returns_itself) (auto simp: ExecutorReplayIdentity_post_init_def res_simps)

lemma checkpoint_post_init_Inr [res_simps]:
  "Checkpoint_post_init c = Inr d \<longleftrightarrow> d = c \<and> ok (Checkpoint_post_init c)"
  by (rule returns_itself) (auto simp: Checkpoint_post_init_def res_simps)

lemma anchor_integer_Inr: "anchor_integer m (JInt n) = Inr k \<longleftrightarrow> k = n \<and> m \<le> n \<and> n \<le> MAX_RESOURCE"
  by (auto simp: anchor_integer_def)

lemma anchor_digest_encode [simp]: "length bs = 32 \<Longrightarrow> anchor_digest (JStr (b64url_encode bs)) = Inr bs"
  by (simp add: anchor_digest_def b64url_decode_encode)

lemma checkpoint_okD:
  assumes "checkpoint_ok c"
  shows "length (xi_executor_policy_sha256 (xc_identity c)) = 32" "length (xi_trust_registry_sha256 (xc_identity c)) = 32"
    "length (xc_database_instance_id c) = 32" "length (xc_claim_digest c) = 32"
    "anchor_integer 1 (JInt (xi_config_epoch (xc_identity c))) = Inr (xi_config_epoch (xc_identity c))"
    "anchor_integer 1 (JInt (xc_schema_version c)) = Inr (xc_schema_version c)"
    "anchor_integer 0 (JInt (xc_claim_sequence c)) = Inr (xc_claim_sequence c)"
    "xc_clock_floor_ns c = Some n \<Longrightarrow> anchor_integer 0 (JInt n) = Inr n"
    "xc_claim_sequence c = 0 \<Longrightarrow> xc_claim_digest c = zero_hash"
    "0 \<le> xc_claim_sequence c" "xc_claim_sequence c \<le> MAX_RESOURCE"
proof -
  have i: "ExecutorReplayIdentity_post_init (xc_identity c) = Inr (xc_identity c)"
    and p: "Checkpoint_post_init c = Inr c"
    using assms by (auto simp: checkpoint_ok_def res_simps)
  from i show "length (xi_executor_policy_sha256 (xc_identity c)) = 32"
    "length (xi_trust_registry_sha256 (xc_identity c)) = 32"
    "anchor_integer 1 (JInt (xi_config_epoch (xc_identity c))) = Inr (xi_config_epoch (xc_identity c))"
    unfolding ExecutorReplayIdentity_post_init_def by (auto simp: rbind_Inr_iff guard_Inr_iff anchor_integer_Inr)
  from p show "length (xc_database_instance_id c) = 32" "length (xc_claim_digest c) = 32"
    "anchor_integer 1 (JInt (xc_schema_version c)) = Inr (xc_schema_version c)"
    "anchor_integer 0 (JInt (xc_claim_sequence c)) = Inr (xc_claim_sequence c)"
    "xc_claim_sequence c = 0 \<Longrightarrow> xc_claim_digest c = zero_hash"
    "0 \<le> xc_claim_sequence c" "xc_claim_sequence c \<le> MAX_RESOURCE"
    "xc_clock_floor_ns c = Some n \<Longrightarrow> anchor_integer 0 (JInt n) = Inr n"
    unfolding Checkpoint_post_init_def by (auto simp: rbind_Inr_iff guard_Inr_iff anchor_integer_Inr)
qed

lemma checkpoint_round_trip:
  assumes "checkpoint_ok c"
  shows "Checkpoint_from_dict (Checkpoint_to_dict c) = Inr c"
proof -
  note d = checkpoint_okD [OF assms]
  have i: "ExecutorReplayIdentity_post_init (xc_identity c) = Inr (xc_identity c)"
    and p: "Checkpoint_post_init c = Inr c"
    using assms by (auto simp: checkpoint_ok_def res_simps)
  have f: "(case jopt_int (xc_clock_floor_ns c) of JNull \<Rightarrow> Inr None
           | v \<Rightarrow> rbind (anchor_integer 0 v) (\<lambda>n. Inr (Some n))) = Inr (xc_clock_floor_ns c)"
    using d(8) by (auto simp: jopt_int_def split: option.splits)
  have s: "strict_fields (Checkpoint_to_dict c) ANCHOR_FIELDS ANCHOR_FIELDS = Inr ()"
    by (simp add: strict_fields_def ANCHOR_FIELDS_def Checkpoint_to_dict_def)
  have eta: "\<lparr>xi_audience = xi_audience i, xi_tenant_id = xi_tenant_id i, xi_envelope_id = xi_envelope_id i,
      xi_config_epoch = xi_config_epoch i, xi_executor_policy_sha256 = xi_executor_policy_sha256 i,
      xi_trust_registry_sha256 = xi_trust_registry_sha256 i\<rparr> = i"
    "\<lparr>xc_identity = xc_identity c, xc_schema_version = xc_schema_version c,
      xc_database_instance_id = xc_database_instance_id c, xc_claim_sequence = xc_claim_sequence c,
      xc_claim_digest = xc_claim_digest c, xc_clock_floor_ns = xc_clock_floor_ns c\<rparr> = c" for i
    by simp_all
  show ?thesis
    unfolding Checkpoint_from_dict_def s
    by (simp add: Checkpoint_to_dict_def jget_null_def jlookup_def d(1-7) f) (simp add: eta i p)
qed

lemma from_dict_ok: "Checkpoint_from_dict d = Inr c \<Longrightarrow> checkpoint_ok c"
  by (auto simp: Checkpoint_from_dict_def res_simps checkpoint_ok_def)

lemma read_write_executor: "checkpoint_ok c \<Longrightarrow> read_executor (write_executor c) = Inr c"
  by (simp add: read_executor_def write_executor_def checkpoint_round_trip)

lemma read_executor_ok: "read_executor j = Inr c \<Longrightarrow> checkpoint_ok c"
  by (auto simp: read_executor_def res_simps dest: from_dict_ok split: json.splits)

lemma response_round_trip: "checkpoint_ok c \<Longrightarrow> response_checkpoint (Some (Checkpoint_to_dict c)) = Inr c"
  by (simp add: checkpoint_round_trip)

section \<open>The contract of an anchor\<close>

text \<open>
  A checkpoint is admitted by the anchor file when it may be published over it:
  the first checkpoint of a file that does not exist yet, or one that extends
  the anchored claim history.
\<close>

definition admitted :: "bool \<Rightarrow> anchor_file \<Rightarrow> ExecutorAuthorityCheckpoint \<Rightarrow> (int \<Rightarrow> byte list option res) \<Rightarrow> bool" where
  "admitted initialize file c digest_at =
    (case file of None \<Rightarrow> initialize
     | Some j \<Rightarrow> (case read_executor j of Inl e \<Rightarrow> False | Inr a \<Rightarrow> ok (requires_advance a c digest_at)))"

definition anchor_holds :: "anchor_file \<Rightarrow> ExecutorAuthorityCheckpoint \<Rightarrow> bool" where
  "anchor_holds file c = (case file of None \<Rightarrow> False | Some j \<Rightarrow> read_executor j = Inr c)"

lemma requires_advance_facts:
  assumes "requires_advance a c digest_at = Inr b"
  shows "stable_identity a = stable_identity c" "xc_claim_sequence a \<le> xc_claim_sequence c"
    "\<not> floor_behind (xc_clock_floor_ns a) (xc_clock_floor_ns c)"
    "xc_claim_sequence a = xc_claim_sequence c \<Longrightarrow> xc_claim_digest a = xc_claim_digest c"
    "xc_claim_sequence a \<noteq> xc_claim_sequence c \<Longrightarrow> xc_claim_sequence a \<noteq> 0 \<Longrightarrow>
       digest_at (xc_claim_sequence a) = Inr (Some (xc_claim_digest a))"
    "\<not> b \<Longrightarrow> a = c"
  using assms
  by (auto simp: requires_advance_def res_simps stable_identity_def split: if_splits)

locale executor_anchor =
  fixes reconcile :: "'io \<Rightarrow> ExecutorAuthorityCheckpoint \<Rightarrow> (int \<Rightarrow> byte list option res) \<Rightarrow> bool
    \<Rightarrow> anchor_file \<Rightarrow> unit ares \<times> anchor_file"
  assumes keeps_or_publishes: "checkpoint_ok c \<Longrightarrow> reconcile io c digest_at initialize file = (r, file') \<Longrightarrow>
      file' = file \<or> (admitted initialize file c digest_at \<and> anchor_holds file' c)"
    and success: "checkpoint_ok c \<Longrightarrow> reconcile io c digest_at initialize file = (Inr u, file') \<Longrightarrow>
      admitted initialize file c digest_at \<and> anchor_holds file' c"
begin

text \<open>The anchored claim sequence and clock floor never move back.\<close>

lemma monotone:
  assumes "checkpoint_ok c" "reconcile io c digest_at initialize file = (r, file')" "anchor_holds file a"
  shows "\<exists>a'. anchor_holds file' a' \<and> stable_identity a' = stable_identity a \<and> xc_claim_sequence a \<le> xc_claim_sequence a'
    \<and> \<not> floor_behind (xc_clock_floor_ns a) (xc_clock_floor_ns a')"
proof (cases "file' = file")
  case True
  then show ?thesis using assms(3) by (auto simp: floor_behind_def split: option.splits)
next
  case False
  with keeps_or_publishes [OF assms(1,2)] assms(3) obtain b where
    "anchor_holds file' c" "requires_advance a c digest_at = Inr b"
    by (auto simp: admitted_def anchor_holds_def ok_iff split: option.splits sum.splits)
  then show ?thesis using requires_advance_facts by metis
qed

text \<open>A checkpoint behind the anchor is refused and leaves it as it was.\<close>

lemma stale_refused:
  assumes "checkpoint_ok c" "anchor_holds file a" "xc_claim_sequence c < xc_claim_sequence a"
    "reconcile io c digest_at initialize file = (r, file')"
  shows "(\<exists>e. r = Inl e) \<and> file' = file"
proof -
  have "\<not> admitted initialize file c digest_at"
    using assms(2,3) by (auto simp: admitted_def anchor_holds_def requires_advance_def split: option.splits sum.splits)
  with keeps_or_publishes [OF assms(1,4)] success [OF assms(1)] assms(4) show ?thesis
    by (cases r) auto
qed

end

section \<open>Both anchors keep it\<close>

lemma anchor_holds_write: "checkpoint_ok c \<Longrightarrow> anchor_holds (Some (write_executor c)) c"
  by (simp add: anchor_holds_def read_write_executor)

lemma transport_failure_Inl [simp]: "transport_failure e \<noteq> Inr x" "past_deadline q \<noteq> Inr x"
  by (auto simp: transport_failure_def past_deadline_def)

lemma invoke_read:
  assumes "invoke d Read file = (r, file')"
  shows "file' = file"
    "r = Inr x \<Longrightarrow> (file = None \<and> x = RMissing) \<or>
      (\<exists>j a. file = Some j \<and> read_executor j = Inr a \<and> x = ROk (Some (Checkpoint_to_dict a)))"
  using assms by (auto simp: invoke_def Let_def res_simps split: delivery.splits sum.splits option.splits if_splits)

lemma invoke_publish:
  assumes "invoke d q file = (r, file')" "operate_executor q file = Inr (ROk None, Some (write_executor c))"
  shows "file' = file \<or> file' = Some (write_executor c)" "r = Inr x \<Longrightarrow> file' = Some (write_executor c) \<and> x = ROk None"
  using assms by (auto simp: invoke_def Let_def split: delivery.splits if_splits)

lemma operate_publishes:
  assumes "checkpoint_ok c"
  shows "operate_executor (Initialize (Checkpoint_to_dict c)) None = Inr (ROk None, Some (write_executor c))"
    "read_executor j = Inr a \<Longrightarrow>
      operate_executor (CompareAndSet (Checkpoint_to_dict a) (Checkpoint_to_dict c)) (Some j) = Inr (ROk None, Some (write_executor c))"
    "read_executor j = Inr c \<Longrightarrow>
      operate_executor (Confirm (Checkpoint_to_dict c)) (Some j) = Inr (ROk None, Some (write_executor c))"
  using assms read_executor_ok [of j a] by (auto simp: checkpoint_round_trip)

text \<open>One pass of the loop suffices: under the writer lock no conflict occurs.\<close>

definition reconciled :: "bool \<Rightarrow> anchor_file \<Rightarrow> ExecutorAuthorityCheckpoint \<Rightarrow> (int \<Rightarrow> byte list option res)
    \<Rightarrow> 'a ares \<times> anchor_file \<Rightarrow> bool" where
  "reconciled initialize f c digest_at out \<longleftrightarrow>
    (snd out = f \<or> (admitted initialize f c digest_at \<and> anchor_holds (snd out) c)) \<and>
    ((\<exists>u. fst out = Inr u) \<longrightarrow> admitted initialize f c digest_at \<and> anchor_holds (snd out) c)"

lemma reconcile_missing:
  assumes c: "checkpoint_ok c" and i1: "invoke d Read None = (Inr RMissing, None)"
  shows "reconciled initialize None c digest_at (reconcile_before_deadline (d # ds) c digest_at initialize None)"
proof (cases ds)
  case (Cons d2 ds2)
  obtain r2 file2 where i2: "invoke d2 (Initialize (Checkpoint_to_dict c)) None = (r2, file2)" by fastforce
  show ?thesis
    using i1 Cons i2 invoke_publish [OF i2 operate_publishes(1) [OF c]] anchor_holds_write [OF c]
    by (cases r2) (auto simp: admitted_def reconciled_def)
qed (use i1 in \<open>auto simp: reconciled_def\<close>)

lemma reconcile_present:
  assumes c: "checkpoint_ok c" and j: "read_executor j = Inr a"
    and i1: "invoke d Read (Some j) = (Inr (ROk (Some (Checkpoint_to_dict a))), Some j)"
  shows "reconciled initialize (Some j) c digest_at (reconcile_before_deadline (d # ds) c digest_at initialize (Some j))"
proof -
  have a: "response_checkpoint (Some (Checkpoint_to_dict a)) = Inr a"
    using response_round_trip read_executor_ok j by blast
  show ?thesis
  proof (cases "requires_advance a c digest_at")
    case (Inl e)
    then show ?thesis using i1 a by (auto simp: reconciled_def)
  next
    case (Inr adv)
    then have ad: "admitted initialize (Some j) c digest_at" using j by (simp add: admitted_def)
    consider "\<not> adv" "a = c" | "adv" "ds = []" | d2 ds2 where "adv" "ds = d2 # ds2"
      using requires_advance_facts(6) [OF Inr] by (cases ds) auto
    then show ?thesis
    proof cases
      case 3
      obtain r2 file2 where i2: "invoke d2 (CompareAndSet (Checkpoint_to_dict a) (Checkpoint_to_dict c)) (Some j) = (r2, file2)"
        by fastforce
      show ?thesis
        using i1 a 3 Inr ad i2 anchor_holds_write [OF c] invoke_publish [OF i2 operate_publishes(2) [OF c j]]
        by (cases r2) (auto simp: reconciled_def)
    qed (use i1 j a Inr ad in \<open>auto simp: reconciled_def anchor_holds_def\<close>)
  qed
qed

lemma reconcile_before_deadline_reconciled:
  assumes "checkpoint_ok c"
  shows "reconciled initialize f c digest_at (reconcile_before_deadline ds c digest_at initialize f)"
proof (cases ds)
  case (Cons d ds1)
  obtain r1 f1 where i1: "invoke d Read f = (r1, f1)" by fastforce
  note read = invoke_read [OF i1]
  show ?thesis
  proof (cases r1)
    case (Inr x)
    then consider "f = None" "x = RMissing"
      | j a where "f = Some j" "read_executor j = Inr a" "x = ROk (Some (Checkpoint_to_dict a))"
      using read by blast
    then show ?thesis
      using i1 read(1) Inr Cons reconcile_missing [OF assms] reconcile_present [OF assms] by cases auto
  qed (use i1 read Cons in \<open>auto simp: reconciled_def\<close>)
qed (auto simp: reconciled_def)

lemma confirm_before_deadline_keeps:
  assumes "checkpoint_ok c" "anchor_holds f c"
  shows "anchor_holds (snd (confirm_before_deadline ds c f)) c"
proof (cases ds)
  case (Cons d ds1)
  obtain j where j: "f = Some j" "read_executor j = Inr c" using assms(2) by (auto simp: anchor_holds_def split: option.splits)
  obtain r1 f1 where i1: "invoke d (Confirm (Checkpoint_to_dict c)) f = (r1, f1)" by fastforce
  show ?thesis
    using i1 Cons assms j invoke_publish [OF i1 [unfolded j(1)] operate_publishes(3) [OF assms(1) j(2)]] anchor_holds_write [OF assms(1)]
    by (cases r1) auto
qed (use assms in simp)

lemma process_reconcile_reconciled:
  "checkpoint_ok c \<Longrightarrow> reconciled initialize f c digest_at (process_reconcile ds c digest_at initialize f)"
  using reconcile_before_deadline_reconciled [of c initialize f digest_at ds]
  by (auto simp: process_reconcile_def reconciled_def split: prod.splits sum.splits)

lemma reconcile_and_confirm_reconciled:
  assumes "checkpoint_ok c"
  shows "reconciled initialize f c digest_at (reconcile_and_confirm ds c digest_at initialize f)"
proof -
  obtain r1 f1 where r: "reconcile_before_deadline ds c digest_at initialize f = (r1, f1)" by fastforce
  show ?thesis
    using reconcile_before_deadline_reconciled [OF assms, of initialize f digest_at ds] r
      confirm_before_deadline_keeps [OF assms, of f1]
    by (auto simp: reconcile_and_confirm_def reconciled_def split: sum.splits)
qed

lemma reconciledD:
  "reconciled initialize f c digest_at (r, f') \<Longrightarrow> f' = f \<or> (admitted initialize f c digest_at \<and> anchor_holds f' c)"
  "reconciled initialize f c digest_at (Inr u, f') \<Longrightarrow> admitted initialize f c digest_at \<and> anchor_holds f' c"
  by (auto simp: reconciled_def)

lemma file_reconcile_reconciled:
  assumes "checkpoint_ok c"
  shows "reconciled initialize f c digest_at (file_reconcile io c digest_at initialize f)"
proof -
  have "admitted initialize f c digest_at \<and> anchor_holds f' c"
    if "file_reconcile_steps c digest_at initialize f = Inr f'" for f'
    using that anchor_holds_write [OF assms] requires_advance_facts(6) [of _ c digest_at False]
    by (auto simp: file_reconcile_steps_def admitted_def ok_iff res_simps anchor_holds_def split: option.splits if_splits)
  then show ?thesis
    by (auto simp: file_reconcile_def reconciled_def split: sum.splits file_io.splits)
qed

interpretation file_anchor: executor_anchor file_reconcile
  by unfold_locales (metis reconciledD file_reconcile_reconciled)+

interpretation process_anchor: executor_anchor process_reconcile
  by unfold_locales (metis reconciledD process_reconcile_reconciled)+

interpretation confirmed_anchor: executor_anchor reconcile_and_confirm
  by unfold_locales (metis reconciledD reconcile_and_confirm_reconciled)+

text \<open>With a helper that answers, two requests publish an admitted checkpoint.\<close>

lemma invoke_served: "operate_executor q f = Inr (x, f') \<Longrightarrow> invoke Served q f = (Inr x, f')"
  by (simp add: invoke_def)

lemma process_reconcile_returns:
  assumes "checkpoint_ok c" "admitted initialize f c digest_at"
  shows "fst (process_reconcile (Served # Served # ds) c digest_at initialize f) = Inr ()"
proof (cases f)
  case None
  then show ?thesis
    using assms invoke_served [OF operate_publishes(1) [OF assms(1)]] invoke_served [of Read None RMissing None]
    by (simp add: process_reconcile_def admitted_def)
next
  case (Some j)
  with assms(2) obtain a b where j: "read_executor j = Inr a" and b: "requires_advance a c digest_at = Inr b"
    by (auto simp: admitted_def ok_iff split: sum.splits)
  have "invoke Served Read (Some j) = (Inr (ROk (Some (Checkpoint_to_dict a))), Some j)"
    using j by (intro invoke_served) simp
  then show ?thesis
    using Some j b response_round_trip [OF read_executor_ok [OF j]] invoke_served [OF operate_publishes(2) [OF assms(1) j]]
    by (simp add: process_reconcile_def)
qed

end
