(* ===== verification/Executor.thy ===== *)
theory Executor
  imports Executor_Authority
begin

text \<open>
  src/src/lets/executor.py: the protected executor.  A receipt is verified
  against the executor's policy, its clock and its trust registry and then
  claimed in a replay database, whose claim chain is published to the
  authority anchor before and after every transaction.

  A transaction is a function on the database value; its COMMIT replaces the
  stored value.  The fault state machine of the store object is the record
  \<open>authority_health\<close>.  Clock readings, the instance id drawn at
  creation and the outcome of every operating-system call are inputs.
\<close>

section \<open>Policy\<close>

record ExecutorPolicy =
  xp_audience :: string
  xp_tenant_id :: "string option"
  xp_envelope_id :: "string option"
  xp_config_epoch :: "int option"
  xp_allowed_policy_digests :: "string list"
  xp_allowed_machine_digests :: "string list"
  xp_trusted_wardens :: "string list"
  xp_max_clock_uncertainty_ns :: int

definition ExecutorPolicy_post_init :: "ExecutorPolicy \<Rightarrow> ExecutorPolicy res" where
  "ExecutorPolicy_post_init p =
    (if xp_audience p = [] then Inl ValueErr
     else if (case xp_config_epoch p of None \<Rightarrow> False | Some e \<Rightarrow> e \<le> 0 \<or> e > MAX_RESOURCE) then Inl ValidationError
     else if xp_max_clock_uncertainty_ns p < 0 \<or> xp_max_clock_uncertainty_ns p > MAX_RESOURCE then Inl ValidationError
     else Inr p)"

definition executor_policy_digest :: "(byte list \<Rightarrow> byte list) \<Rightarrow> ExecutorPolicy \<Rightarrow> byte list res" where
  "executor_policy_digest sha256 p =
    rbind (canonical_json (JObj
      [(''type'', JStr ''lets.executor-policy/v1''), (''audience'', JStr (xp_audience p)),
       (''tenant_id'', jopt (xp_tenant_id p)), (''envelope_id'', jopt (xp_envelope_id p)),
       (''config_epoch'', jopt_int (xp_config_epoch p)),
       (''allowed_policy_digests'', jstrs (frozenset (xp_allowed_policy_digests p))),
       (''allowed_machine_digests'', jstrs (frozenset (xp_allowed_machine_digests p))),
       (''trusted_wardens'', jstrs (frozenset (xp_trusted_wardens p))),
       (''max_clock_uncertainty_ns'', JInt (xp_max_clock_uncertainty_ns p))])) (\<lambda>bs. Inr (sha256 bs))"

definition executor_replay_identity :: "(byte list \<Rightarrow> byte list) \<Rightarrow> ExecutorPolicy \<Rightarrow> PublicKeyRegistry
    \<Rightarrow> ExecutorReplayIdentity res" where
  "executor_replay_identity sha256 p reg =
    (case (xp_tenant_id p, xp_envelope_id p, xp_config_epoch p) of
       (Some tenant_id, Some envelope_id, Some config_epoch) \<Rightarrow>
         rbind (executor_policy_digest sha256 p) (\<lambda>policy.
         rbind (trust_digest sha256 reg) (\<lambda>trust.
         ExecutorReplayIdentity_post_init \<lparr>xi_audience = xp_audience p, xi_tenant_id = tenant_id,
           xi_envelope_id = envelope_id, xi_config_epoch = config_epoch,
           xi_executor_policy_sha256 = policy, xi_trust_registry_sha256 = trust\<rparr>))
     | _ \<Rightarrow> Inl ValidationError)"

section \<open>The replay database\<close>

text \<open>
  The metadata row exists from creation on: a trigger forbids its deletion.
  \<open>m_anchored\<close> is authority_mode; the six identity columns are all
  set or all NULL by the table's CHECK.
\<close>

record replay_metadata =
  m_schema_version :: int
  m_anchored :: bool
  m_identity :: "ExecutorReplayIdentity option"
  m_database_instance_id :: "byte list"
  m_claim_sequence :: int
  m_claim_digest :: "byte list"
  m_clock_floor_ns :: "int option"

record claim_row =
  cl_receipt_id :: string
  cl_tenant_id :: string
  cl_envelope_id :: string
  cl_warden_id :: string
  cl_lease_id :: string
  cl_audience :: string
  cl_resulting_sequence :: int
  cl_nonce :: string
  cl_claimed_at_ns :: int
  cl_expires_at_ns :: int

record watermark_row =
  wm_warden_id :: string
  wm_lease_id :: string
  wm_audience :: string
  wm_last_sequence :: int
  wm_updated_at_ns :: int
  wm_expires_at_ns :: int

record history_row =
  h_sequence :: int
  h_previous_digest :: "byte list"
  h_claim_digest :: "byte list"
  h_receipt_digest :: "byte list"
  h_receipt_id :: string
  h_claimed_at_ns :: int
  h_clock_floor_ns :: int

record replay_db =
  rd_metadata :: replay_metadata
  rd_claims :: "claim_row list"
  rd_watermarks :: "watermark_row list"
  rd_history :: "history_row list"

definition SCHEMA_VERSION :: int where "SCHEMA_VERSION = 5"
definition REPLAY_GC_BATCH :: nat where "REPLAY_GC_BATCH = 128"

definition claim_nonce_key :: "claim_row \<Rightarrow> string \<times> string \<times> string \<times> string" where
  "claim_nonce_key c = (cl_tenant_id c, cl_envelope_id c, cl_audience c, cl_nonce c)"

definition watermark_key :: "watermark_row \<Rightarrow> string \<times> string \<times> string" where
  "watermark_key w = (wm_warden_id w, wm_lease_id w, wm_audience w)"

definition insert_claim :: "claim_row \<Rightarrow> claim_row list \<Rightarrow> claim_row list res" where
  "insert_claim c rows =
    (if \<not> (cl_resulting_sequence c > 0 \<and> cl_claimed_at_ns c \<ge> 0 \<and> cl_expires_at_ns c > cl_claimed_at_ns c)
     then Inl IntegrityError
     else if tfind claim_nonce_key (claim_nonce_key c) rows \<noteq> None then Inl IntegrityError
     else tinsert cl_receipt_id c rows)"

definition watermark_checks :: "watermark_row \<Rightarrow> bool" where
  "watermark_checks w \<longleftrightarrow> wm_last_sequence w > 0 \<and> wm_updated_at_ns w \<ge> 0 \<and> wm_expires_at_ns w \<ge> wm_updated_at_ns w"

definition upsert_watermark :: "watermark_row \<Rightarrow> watermark_row list \<Rightarrow> watermark_row list res" where
  "upsert_watermark w rows =
    (if \<not> watermark_checks w then Inl IntegrityError
     else case tfind watermark_key (watermark_key w) rows of
       None \<Rightarrow> tinsert watermark_key w rows
     | Some old \<Rightarrow>
         Inr (tupdate watermark_key (watermark_key w)
           (\<lambda>x. x\<lparr>wm_last_sequence := wm_last_sequence w, wm_updated_at_ns := wm_updated_at_ns w,
                  wm_expires_at_ns := max (wm_expires_at_ns x) (wm_expires_at_ns w)\<rparr>) rows))"

text \<open>The trigger claim_history_chain_insert and the constraints of the table.\<close>

definition insert_history :: "replay_metadata \<Rightarrow> history_row \<Rightarrow> history_row list \<Rightarrow> history_row list res" where
  "insert_history m h rows =
    (if h_sequence h \<noteq> m_claim_sequence m + 1 then Inl IntegrityError
     else if h_previous_digest h \<noteq> m_claim_digest m then Inl IntegrityError
     else if \<not> (h_sequence h > 0 \<and> length (h_previous_digest h) = 32 \<and> length (h_claim_digest h) = 32
               \<and> length (h_receipt_digest h) = 32 \<and> h_claimed_at_ns h \<ge> 0 \<and> h_clock_floor_ns h \<ge> 0)
     then Inl IntegrityError
     else if tfind h_claim_digest (h_claim_digest h) rows \<noteq> None then Inl IntegrityError
     else tinsert h_sequence h rows)"

text \<open>The trigger metadata_authority_update and the constraints of the table.\<close>

definition update_head :: "history_row list \<Rightarrow> int \<Rightarrow> int \<Rightarrow> byte list \<Rightarrow> replay_metadata \<Rightarrow> replay_metadata res" where
  "update_head history clock_floor sequence digest m =
    (if (case m_clock_floor_ns m of None \<Rightarrow> False | Some old \<Rightarrow> clock_floor < old) then Inl IntegrityError
     else if \<not> ((sequence = m_claim_sequence m \<and> digest = m_claim_digest m)
        \<or> (sequence = m_claim_sequence m + 1 \<and> list_ex (\<lambda>h. h_sequence h = sequence
              \<and> h_previous_digest h = m_claim_digest m \<and> h_claim_digest h = digest) history))
     then Inl IntegrityError
     else if \<not> (sequence \<ge> 0 \<and> length digest = 32 \<and> clock_floor \<ge> 0) then Inl IntegrityError
     else Inr (m\<lparr>m_clock_floor_ns := Some clock_floor, m_claim_sequence := sequence, m_claim_digest := digest\<rparr>))"

definition gc_claims :: "int \<Rightarrow> claim_row list \<Rightarrow> claim_row list" where
  "gc_claims now rows =
    (let victims = map cl_receipt_id (take REPLAY_GC_BATCH (sort_key (\<lambda>c. (cl_expires_at_ns c, cl_receipt_id c))
           (filter (\<lambda>c. cl_expires_at_ns c \<le> now) rows))) in
     filter (\<lambda>c. \<not> List.member victims (cl_receipt_id c)) rows)"

definition gc_watermarks :: "int \<Rightarrow> watermark_row list \<Rightarrow> watermark_row list" where
  "gc_watermarks now rows =
    (let victims = map watermark_key (take REPLAY_GC_BATCH (sort_key (\<lambda>w. (wm_expires_at_ns w, watermark_key w))
           (filter (\<lambda>w. wm_expires_at_ns w \<le> now) rows))) in
     filter (\<lambda>w. \<not> List.member victims (watermark_key w)) rows)"

section \<open>The claim transaction\<close>

definition claim_of :: "Receipt \<Rightarrow> int \<Rightarrow> claim_row" where
  "claim_of r claimed_at_ns =
    \<lparr>cl_receipt_id = r_receipt_id r, cl_tenant_id = r_tenant_id r, cl_envelope_id = r_envelope_id r,
     cl_warden_id = r_warden_id r, cl_lease_id = r_lease_id r, cl_audience = r_executor_audience r,
     cl_resulting_sequence = r_resulting_sequence r, cl_nonce = r_nonce r,
     cl_claimed_at_ns = claimed_at_ns, cl_expires_at_ns = r_expires_at_ns r\<rparr>"

definition watermark_of :: "Receipt \<Rightarrow> int \<Rightarrow> watermark_row" where
  "watermark_of r claimed_at_ns =
    \<lparr>wm_warden_id = r_warden_id r, wm_lease_id = r_lease_id r, wm_audience = r_executor_audience r,
     wm_last_sequence = r_resulting_sequence r, wm_updated_at_ns = claimed_at_ns,
     wm_expires_at_ns = r_expires_at_ns r\<rparr>"

definition claim_event :: "byte list \<Rightarrow> int \<Rightarrow> byte list \<Rightarrow> byte list \<Rightarrow> Receipt \<Rightarrow> int \<Rightarrow> int \<Rightarrow> int \<Rightarrow> wire_dict" where
  "claim_event instance_id sequence prior_digest receipt_digest r claimed_at_ns clock_uncertainty_ns next_floor =
   [(''type'', JStr ''lets.executor-claim/v1''),
    (''database_instance_id'', JStr (b64url_encode instance_id)),
    (''sequence'', JInt sequence),
    (''previous_digest'', JStr (b64url_encode prior_digest)),
    (''receipt_digest'', JStr (b64url_encode receipt_digest)),
    (''receipt_id'', JStr (r_receipt_id r)),
    (''tenant_id'', JStr (r_tenant_id r)),
    (''envelope_id'', JStr (r_envelope_id r)),
    (''warden_id'', JStr (r_warden_id r)),
    (''lease_id'', JStr (r_lease_id r)),
    (''audience'', JStr (r_executor_audience r)),
    (''resulting_sequence'', JInt (r_resulting_sequence r)),
    (''nonce'', JStr (r_nonce r)),
    (''claimed_at_ns'', JInt claimed_at_ns),
    (''clock_uncertainty_ns'', JInt clock_uncertainty_ns),
    (''clock_floor_ns'', JInt next_floor),
    (''expires_at_ns'', JInt (r_expires_at_ns r))]"

definition receipt_digest_of :: "(byte list \<Rightarrow> byte list) \<Rightarrow> Receipt \<Rightarrow> byte list res" where
  "receipt_digest_of sha256 r = rbind (canonical_json (JObj (Receipt_to_dict r))) (\<lambda>bs. Inr (sha256 bs))"

definition floor_after :: "int \<Rightarrow> int option \<Rightarrow> int" where
  "floor_after claimed_at_ns prior = (case prior of None \<Rightarrow> claimed_at_ns | Some f \<Rightarrow> max claimed_at_ns f)"

definition claim_tx :: "(byte list \<Rightarrow> byte list) \<Rightarrow> Receipt \<Rightarrow> int \<Rightarrow> int \<Rightarrow> replay_db \<Rightarrow> replay_db res" where
  "claim_tx sha256 r claimed_at_ns clock_uncertainty_ns db =
    (let m = rd_metadata db;
         next_floor = floor_after claimed_at_ns (m_clock_floor_ns m);
         claims1 = gc_claims claimed_at_ns (rd_claims db);
         watermarks1 = gc_watermarks claimed_at_ns (rd_watermarks db) in
     if (case m_clock_floor_ns m of None \<Rightarrow> False | Some f \<Rightarrow> claimed_at_ns + clock_uncertainty_ns < f)
     then Inl ClockUncertainError
     else if (case tfind watermark_key (r_warden_id r, r_lease_id r, r_executor_audience r) watermarks1 of
                None \<Rightarrow> False | Some w \<Rightarrow> r_resulting_sequence r \<le> wm_last_sequence w)
     then Inl ReplayError
     else rbind (insert_claim (claim_of r claimed_at_ns) claims1) (\<lambda>claims2.
     rbind (upsert_watermark (watermark_of r claimed_at_ns) watermarks1) (\<lambda>watermarks2.
     if m_claim_sequence m \<ge> MAX_RESOURCE then Inl StorageError
     else if length (m_claim_digest m) \<noteq> 32 then Inl StorageError
     else if length (m_database_instance_id m) \<noteq> 32 then Inl StorageError
     else let next_sequence = m_claim_sequence m + 1 in
     rbind (receipt_digest_of sha256 r) (\<lambda>receipt_digest.
     rbind (canonical_json (JObj (claim_event (m_database_instance_id m) next_sequence (m_claim_digest m) receipt_digest r
        claimed_at_ns clock_uncertainty_ns next_floor))) (\<lambda>event.
     let claim_digest = sha256 (m_claim_digest m @ event) in
     rbind (insert_history m \<lparr>h_sequence = next_sequence, h_previous_digest = m_claim_digest m,
        h_claim_digest = claim_digest, h_receipt_digest = receipt_digest, h_receipt_id = r_receipt_id r,
        h_claimed_at_ns = claimed_at_ns, h_clock_floor_ns = next_floor\<rparr> (rd_history db)) (\<lambda>history1.
     rbind (update_head history1 next_floor next_sequence claim_digest m) (\<lambda>m1.
     Inr \<lparr>rd_metadata = m1, rd_claims = claims2, rd_watermarks = watermarks2, rd_history = history1\<rparr>)))))))"

section \<open>The fault state machine of the anchor\<close>

datatype authority_state = AuthDisabled | AuthHealthy | AuthRecoverable | AuthPermanent

record authority_health =
  ah_state :: authority_state
  ah_transport_faults :: int
  ah_transport_fault_episodes :: int
  ah_transport_recovery_attempts :: int
  ah_transport_recoveries :: int
  ah_permanent_faults :: int
  ah_fault_stage :: "string option"
  ah_fault_reason :: "string option"
  ah_retry_not_before :: "int option"
  ah_first_fault :: "(transport_error \<times> string) option"
  ah_mutation_uncertain :: bool
  ah_backoff_index :: nat
  ah_startup_confirm_pending :: bool

datatype anchor_kind = FileAnchor | ProcessAnchor

definition health_init :: "anchor_kind option \<Rightarrow> authority_health" where
  "health_init kind =
    \<lparr>ah_state = (if kind \<noteq> None then AuthHealthy else AuthDisabled), ah_transport_faults = 0,
     ah_transport_fault_episodes = 0, ah_transport_recovery_attempts = 0, ah_transport_recoveries = 0,
     ah_permanent_faults = 0, ah_fault_stage = None, ah_fault_reason = None, ah_retry_not_before = None,
     ah_first_fault = None, ah_mutation_uncertain = False, ah_backoff_index = 0,
     ah_startup_confirm_pending = (kind = Some ProcessAnchor)\<rparr>"

definition AUTHORITY_RECOVERY_DELAYS_NS :: "int list" where
  "AUTHORITY_RECOVERY_DELAYS_NS = [250000000, 500000000, 1000000000, 2000000000, 5000000000]"

definition saturating_increment :: "int \<Rightarrow> int" where
  "saturating_increment value = min MAX_RESOURCE (value + 1)"

definition arm_authority_transport_fault :: "transport_error \<Rightarrow> string \<Rightarrow> bool \<Rightarrow> int \<Rightarrow> authority_health \<Rightarrow> authority_health" where
  "arm_authority_transport_fault e stage new_episode monotonic_ns h =
    (let backoff = (if new_episode then 0
           else min (length AUTHORITY_RECOVERY_DELAYS_NS - 1) (ah_backoff_index h + 1)) in
     h\<lparr>ah_transport_faults := saturating_increment (ah_transport_faults h),
       ah_transport_fault_episodes := (if new_episode then saturating_increment (ah_transport_fault_episodes h)
          else ah_transport_fault_episodes h),
       ah_backoff_index := backoff,
       ah_state := AuthRecoverable,
       ah_fault_stage := Some stage,
       ah_fault_reason := Some (te_reason e),
       ah_mutation_uncertain := ah_mutation_uncertain h \<or> te_mutation_uncertain e,
       ah_retry_not_before := Some (min MAX_RESOURCE (monotonic_ns + AUTHORITY_RECOVERY_DELAYS_NS ! backoff)),
       ah_first_fault := (case ah_first_fault h of None \<Rightarrow> Some (e, stage) | Some x \<Rightarrow> Some x)\<rparr>)"

definition promote_authority_permanent_fault :: "string \<Rightarrow> string \<Rightarrow> authority_health \<Rightarrow> authority_health" where
  "promote_authority_permanent_fault stage reason h =
    h\<lparr>ah_permanent_faults := (if ah_state h \<noteq> AuthPermanent then saturating_increment (ah_permanent_faults h)
         else ah_permanent_faults h),
      ah_state := AuthPermanent, ah_fault_stage := Some stage, ah_fault_reason := Some reason,
      ah_retry_not_before := None\<rparr>"

section \<open>Reconciliation with the anchor\<close>

text \<open>
  \<open>io_now\<close> is the monotonic clock at the cooldown check,
  \<open>io_fault_at\<close> when a fault is armed.
\<close>

record anchor_io =
  io_file :: file_io
  io_calls :: "delivery list"
  io_now :: int
  io_fault_at :: int

definition invoke_authority_reconcile :: "anchor_kind \<Rightarrow> anchor_io \<Rightarrow> ExecutorAuthorityCheckpoint
    \<Rightarrow> (int \<Rightarrow> byte list option res) \<Rightarrow> bool \<Rightarrow> bool \<Rightarrow> anchor_file \<Rightarrow> unit ares \<times> anchor_file" where
  "invoke_authority_reconcile kind io checkpoint claim_digest_at initialize durable_confirm f =
    (case kind of
       ProcessAnchor \<Rightarrow>
         if durable_confirm then reconcile_and_confirm (io_calls io) checkpoint claim_digest_at initialize f
         else process_reconcile (io_calls io) checkpoint claim_digest_at initialize f
     | FileAnchor \<Rightarrow>
         (case file_reconcile (io_file io) checkpoint claim_digest_at initialize f of
            (Inl e, f1) \<Rightarrow> (Inl e, f1)
          | (Inr u, f1) \<Rightarrow> if durable_confirm then (Inl (Raised StorageError), f1) else (Inr u, f1)))"

definition authority_checkpoint :: "ExecutorReplayIdentity option \<Rightarrow> replay_metadata \<Rightarrow> ExecutorAuthorityCheckpoint res" where
  "authority_checkpoint identity m =
    (case identity of None \<Rightarrow> Inl StorageError
     | Some admitted_identity \<Rightarrow>
    (case m_identity m of None \<Rightarrow> Inl StorageError
     | Some stored \<Rightarrow>
         if length (xi_executor_policy_sha256 stored) \<noteq> 32 \<or> length (xi_trust_registry_sha256 stored) \<noteq> 32 then Inl StorageError
         else if length (m_database_instance_id m) \<noteq> 32 then Inl StorageError
         else if length (m_claim_digest m) \<noteq> 32 then Inl StorageError
         else rbind (ExecutorReplayIdentity_post_init stored) (\<lambda>stored_identity.
         if stored_identity \<noteq> admitted_identity then Inl StorageError
         else Checkpoint_post_init \<lparr>xc_identity = stored_identity, xc_schema_version = m_schema_version m,
           xc_database_instance_id = m_database_instance_id m, xc_claim_sequence = m_claim_sequence m,
           xc_claim_digest = m_claim_digest m, xc_clock_floor_ns = m_clock_floor_ns m\<rparr>)))"

definition claim_digest_at :: "history_row list \<Rightarrow> int \<Rightarrow> byte list option res" where
  "claim_digest_at history sequence =
    (case tfind h_sequence sequence history of None \<Rightarrow> Inr None
     | Some h \<Rightarrow> if length (h_claim_digest h) \<noteq> 32 then Inl StorageError else Inr (Some (h_claim_digest h)))"

definition anchor_attempt :: "anchor_kind \<Rightarrow> anchor_io \<Rightarrow> ExecutorReplayIdentity option \<Rightarrow> replay_db \<Rightarrow> bool \<Rightarrow> bool
    \<Rightarrow> anchor_file \<Rightarrow> unit ares \<times> anchor_file" where
  "anchor_attempt kind io identity db initialize durable_confirm f =
    (case authority_checkpoint identity (rd_metadata db) of
       Inl e \<Rightarrow> (Inl (Raised e), f)
     | Inr checkpoint \<Rightarrow>
         invoke_authority_reconcile kind io checkpoint (claim_digest_at (rd_history db)) initialize durable_confirm f)"

text \<open>The two except-clauses of \<open>_reconcile_authority_anchor\<close>, which differ in the reasons they record.\<close>

definition anchor_failed :: "anchor_exn \<Rightarrow> string \<Rightarrow> bool \<Rightarrow> string \<Rightarrow> string \<Rightarrow> int \<Rightarrow> authority_health
    \<Rightarrow> lets_error \<times> authority_health" where
  "anchor_failed exn stage new_episode storage_reason provider_reason fault_at h =
    (case exn of
       Transport e \<Rightarrow>
         if \<not> valid_metadata_values e
         then (StorageError, promote_authority_permanent_fault stage ''malformed_transport_error'' h)
         else (StorageError, arm_authority_transport_fault e stage new_episode fault_at h)
     | Raised e \<Rightarrow>
         if is_subclass e StorageError then (e, promote_authority_permanent_fault stage storage_reason h)
         else (StorageError, promote_authority_permanent_fault stage provider_reason h))"

definition reconcile_authority_anchor :: "anchor_kind option \<Rightarrow> string \<Rightarrow> bool \<Rightarrow> anchor_io \<Rightarrow> ExecutorReplayIdentity option
    \<Rightarrow> replay_db \<Rightarrow> authority_health \<Rightarrow> anchor_file \<Rightarrow> unit res \<times> authority_health \<times> anchor_file" where
  "reconcile_authority_anchor anchor stage initialize io identity db h f =
    (case anchor of None \<Rightarrow> (Inr (), h, f)
     | Some kind \<Rightarrow>
     if ah_state h = AuthPermanent then (Inl StorageError, h, f)
     else if ah_state h = AuthRecoverable then
       (if (case ah_retry_not_before h of None \<Rightarrow> True | Some t \<Rightarrow> io_now io < t) then (Inl StorageError, h, f)
        else let h1 = h\<lparr>ah_transport_recovery_attempts := saturating_increment (ah_transport_recovery_attempts h)\<rparr> in
        case anchor_attempt kind io identity db initialize (ah_mutation_uncertain h1 \<or> ah_startup_confirm_pending h1) f of
          (Inl exn, f1) \<Rightarrow>
            (case anchor_failed exn stage False ''non_transport_recovery_failure'' ''provider_recovery_failure'' (io_fault_at io) h1 of
               (e, h2) \<Rightarrow> (Inl e, h2, f1))
        | (Inr u, f1) \<Rightarrow>
            (Inr (), h1\<lparr>ah_state := AuthHealthy, ah_transport_recoveries := saturating_increment (ah_transport_recoveries h1),
               ah_fault_stage := None, ah_fault_reason := None, ah_retry_not_before := None,
               ah_mutation_uncertain := False, ah_backoff_index := 0, ah_startup_confirm_pending := False\<rparr>, f1))
     else
       (case anchor_attempt kind io identity db initialize (ah_startup_confirm_pending h) f of
          (Inl exn, f1) \<Rightarrow>
            (case anchor_failed exn stage True ''non_transport_anchor_failure'' ''provider_anchor_failure'' (io_fault_at io) h of
               (e, h2) \<Rightarrow> (Inl e, h2, f1))
        | (Inr u, f1) \<Rightarrow> (Inr (), h\<lparr>ah_startup_confirm_pending := False\<rparr>, f1)))"

section \<open>The store\<close>

record replay_store =
  st_anchor :: "anchor_kind option"
  st_identity :: "ExecutorReplayIdentity option"
  st_health :: authority_health
  st_db :: replay_db
  st_anchor_file :: anchor_file

definition reconcile_existing :: "bool \<Rightarrow> anchor_io \<Rightarrow> replay_store \<Rightarrow> unit res \<times> replay_store" where
  "reconcile_existing initialize io st =
    (case reconcile_authority_anchor (st_anchor st) (if initialize then ''post_commit'' else ''pre_begin'') initialize io
            (st_identity st) (st_db st) (st_health st) (st_anchor_file st) of
       (r, h, f) \<Rightarrow> (r, st\<lparr>st_health := h, st_anchor_file := f\<rparr>))"

text \<open>
  The context manager \<open>_write\<close> around a transaction body: reconcile,
  run and commit, publish.  \<open>ci_begin_ok\<close>, \<open>ci_disk_ok\<close> and
  \<open>ci_rebegin_ok\<close> say whether SQLite could take the writer lock, write
  and commit, and take the lock again.
\<close>

record claim_io =
  ci_begin_ok :: bool
  ci_pre :: anchor_io
  ci_disk_ok :: bool
  ci_rebegin_ok :: bool
  ci_post :: anchor_io

definition store_write :: "claim_io \<Rightarrow> (replay_db \<Rightarrow> replay_db res) \<Rightarrow> replay_store \<Rightarrow> unit res \<times> replay_store" where
  "store_write io body st =
    (if \<not> ci_begin_ok io then (Inl StorageError, st)
     else case reconcile_authority_anchor (st_anchor st) ''pre_begin'' False (ci_pre io) (st_identity st) (st_db st)
                 (st_health st) (st_anchor_file st) of
       (Inl e, h1, f1) \<Rightarrow> (Inl e, st\<lparr>st_health := h1, st_anchor_file := f1\<rparr>)
     | (Inr u, h1, f1) \<Rightarrow>
         (case body (st_db st) of
            Inl e \<Rightarrow> (Inl (if e = IntegrityError then ReplayError else e), st\<lparr>st_health := h1, st_anchor_file := f1\<rparr>)
          | Inr db1 \<Rightarrow>
              if \<not> ci_disk_ok io then (Inl StorageError, st\<lparr>st_health := h1, st_anchor_file := f1\<rparr>)
              else if st_anchor st = None then (Inr (), st\<lparr>st_health := h1, st_db := db1, st_anchor_file := f1\<rparr>)
              else if \<not> ci_rebegin_ok io then (Inl StorageError, st\<lparr>st_health := h1, st_db := db1, st_anchor_file := f1\<rparr>)
              else (case reconcile_authority_anchor (st_anchor st) ''post_commit'' False (ci_post io) (st_identity st) db1 h1 f1 of
                      (r, h2, f2) \<Rightarrow> (r, st\<lparr>st_health := h2, st_db := db1, st_anchor_file := f2\<rparr>))))"

definition claim :: "(byte list \<Rightarrow> byte list) \<Rightarrow> claim_io \<Rightarrow> Receipt \<Rightarrow> int \<Rightarrow> int \<Rightarrow> replay_store \<Rightarrow> unit res \<times> replay_store" where
  "claim sha256 io r claimed_at_ns clock_uncertainty_ns st =
    (if claimed_at_ns < 0 \<or> claimed_at_ns > MAX_RESOURCE then (Inl ClockUncertainError, st)
     else if clock_uncertainty_ns < 0 \<or> clock_uncertainty_ns > MAX_RESOURCE then (Inl ClockUncertainError, st)
     else if claimed_at_ns > MAX_RESOURCE - clock_uncertainty_ns then (Inl ClockUncertainError, st)
     else if (case st_identity st of None \<Rightarrow> False | Some i \<Rightarrow>
         r_executor_audience r \<noteq> xi_audience i \<or> r_tenant_id r \<noteq> xi_tenant_id i
         \<or> r_envelope_id r \<noteq> xi_envelope_id i \<or> r_config_epoch r \<noteq> xi_config_epoch i)
     then (Inl PolicyError, st)
     else store_write io (claim_tx sha256 r claimed_at_ns clock_uncertainty_ns) st)"

section \<open>Creating and opening a store\<close>

fun chain_loop :: "int \<Rightarrow> byte list \<Rightarrow> history_row list \<Rightarrow> (int \<times> byte list) res" where
  "chain_loop sequence previous [] = Inr (sequence, previous)"
| "chain_loop sequence previous (h # hs) =
    (if h_sequence h \<noteq> sequence + 1 \<or> h_previous_digest h \<noteq> previous \<or> length (h_claim_digest h) \<noteq> 32
     then Inl StorageError else chain_loop (sequence + 1) (h_claim_digest h) hs)"

definition verify_claim_chain :: "history_row list \<Rightarrow> int \<Rightarrow> byte list \<Rightarrow> unit res" where
  "verify_claim_chain history expected_sequence expected_digest =
    (if length expected_digest \<noteq> 32 then Inl StorageError
     else rbind (chain_loop 0 zero_hash (sort_key h_sequence history)) (\<lambda>(sequence, previous).
     if sequence \<noteq> expected_sequence \<or> previous \<noteq> expected_digest then Inl StorageError else Inr ()))"

definition constructor_checks :: "anchor_kind option \<Rightarrow> bool \<Rightarrow> ExecutorReplayIdentity option \<Rightarrow> bool \<Rightarrow> unit res" where
  "constructor_checks anchor allow_unanchored identity creating =
    (if anchor = None \<and> \<not> allow_unanchored then Inl ValidationError
     else if anchor \<noteq> None \<and> allow_unanchored then Inl ValidationError
     else if creating \<and> anchor \<noteq> None \<and> identity = None then Inl ValidationError
     else if \<not> creating \<and> identity \<noteq> None then Inl ValidationError
     else Inr ())"

definition empty_replay_db :: "anchor_kind option \<Rightarrow> ExecutorReplayIdentity option \<Rightarrow> byte list \<Rightarrow> replay_db" where
  "empty_replay_db anchor identity instance_id =
    \<lparr>rd_metadata = \<lparr>m_schema_version = SCHEMA_VERSION, m_anchored = (anchor \<noteq> None), m_identity = identity,
       m_database_instance_id = instance_id, m_claim_sequence = 0, m_claim_digest = zero_hash, m_clock_floor_ns = None\<rparr>,
     rd_claims = [], rd_watermarks = [], rd_history = []\<rparr>"

text \<open>\<open>initialize\<close>: the constructor with \<open>_create=True\<close>, on a path where no database exists.\<close>

definition initialize_store :: "anchor_kind option \<Rightarrow> bool \<Rightarrow> ExecutorReplayIdentity option \<Rightarrow> byte list \<Rightarrow> anchor_io
    \<Rightarrow> anchor_file \<Rightarrow> replay_store res" where
  "initialize_store anchor allow_unanchored identity instance_id io f =
    rbind (constructor_checks anchor allow_unanchored identity True) (\<lambda>_.
    let st = \<lparr>st_anchor = anchor, st_identity = identity, st_health = health_init anchor,
          st_db = empty_replay_db anchor identity instance_id, st_anchor_file = f\<rparr> in
    if anchor = None then Inr st
    else (case reconcile_existing True io st of (Inl e, st1) \<Rightarrow> Inl e | (Inr u, st1) \<Rightarrow> Inr st1))"

text \<open>
  \<open>_verify_existing\<close> on a database whose tables, columns, indexes and
  triggers are those of \<open>_initialize\<close>; what it inspects of SQLite's
  own catalogue has no counterpart here.
\<close>

definition verify_existing :: "anchor_kind option \<Rightarrow> replay_db \<Rightarrow> ExecutorReplayIdentity option res" where
  "verify_existing anchor db =
    (let m = rd_metadata db in
     if m_schema_version m \<noteq> SCHEMA_VERSION then Inl StorageError
     else if (case m_identity m of None \<Rightarrow> False
              | Some i \<Rightarrow> length (xi_executor_policy_sha256 i) \<noteq> 32 \<or> length (xi_trust_registry_sha256 i) \<noteq> 32)
     then Inl StorageError
     else rbind
       (if m_anchored m then
          (if anchor = None then Inl StorageError
           else case m_identity m of None \<Rightarrow> Inl StorageError
             | Some i \<Rightarrow> rbind (ExecutorReplayIdentity_post_init i) (\<lambda>i. Inr (Some i)))
        else
          (if anchor \<noteq> None then Inl StorageError
           else case m_identity m of None \<Rightarrow> Inr None
             | Some i \<Rightarrow> rbind (ExecutorReplayIdentity_post_init i) (\<lambda>i. Inr (Some i)))) (\<lambda>identity.
     if length (m_database_instance_id m) \<noteq> 32 then Inl StorageError
     else if m_claim_sequence m < 0 \<or> length (m_claim_digest m) \<noteq> 32 then Inl StorageError
     else rbind (verify_claim_chain (rd_history db) (m_claim_sequence m) (m_claim_digest m)) (\<lambda>_. Inr identity)))"

definition open_store :: "anchor_kind option \<Rightarrow> bool \<Rightarrow> bool \<Rightarrow> anchor_io \<Rightarrow> replay_db \<Rightarrow> anchor_file
    \<Rightarrow> replay_store res \<times> anchor_file" where
  "open_store anchor allow_unanchored integrity_ok io db f =
    (case rbind (constructor_checks anchor allow_unanchored None False) (\<lambda>_. verify_existing anchor db) of
       Inl e \<Rightarrow> (Inl e, f)
     | Inr identity \<Rightarrow>
         if \<not> integrity_ok then (Inl StorageError, f)
         else let st = \<lparr>st_anchor = anchor, st_identity = identity, st_health = health_init anchor,
                st_db = db, st_anchor_file = f\<rparr> in
         if anchor = None then (Inr st, f)
         else (case reconcile_existing False io st of
                 (Inl e, st1) \<Rightarrow> (Inl e, st_anchor_file st1)
               | (Inr u, st1) \<Rightarrow> (Inr st1, st_anchor_file st1)))"

section \<open>The verifier\<close>

record executor =
  ex_sha256 :: "byte list \<Rightarrow> byte list"
  ex_ed25519 :: "byte list \<Rightarrow> byte list \<Rightarrow> byte list \<Rightarrow> bool"
  ex_registry :: PublicKeyRegistry
  ex_policy :: ExecutorPolicy

text \<open>The verifier's clock and the registry's are read separately.\<close>

record clock_readings =
  cr_now_ns :: int
  cr_uncertainty_ns :: int
  cr_registry_now_ns :: int
  cr_registry_uncertainty_ns :: int

definition verifier_init :: "executor \<Rightarrow> replay_store \<Rightarrow> unit res" where
  "verifier_init ex st =
    (case st_identity st of None \<Rightarrow> Inr ()
     | Some identity \<Rightarrow>
         rbind (executor_replay_identity (ex_sha256 ex) (ex_policy ex) (ex_registry ex)) (\<lambda>expected.
         if expected \<noteq> identity then Inl ValidationError else Inr ()))"

definition clock_interval :: "ExecutorPolicy \<Rightarrow> clock_readings \<Rightarrow> (int \<times> int) res" where
  "clock_interval p c =
    (if cr_uncertainty_ns c < 0 \<or> cr_uncertainty_ns c > xp_max_clock_uncertainty_ns p then Inl ClockUncertainError
     else if cr_now_ns c < 0 \<or> cr_now_ns c > MAX_RESOURCE - cr_uncertainty_ns c then Inl ClockUncertainError
     else Inr (cr_now_ns c, cr_uncertainty_ns c))"

definition verify_at :: "executor \<Rightarrow> clock_readings \<Rightarrow> Receipt \<Rightarrow> int \<Rightarrow> int \<Rightarrow> unit res" where
  "verify_at ex c r now_ns uncertainty =
    (let p = ex_policy ex in
     if r_executor_audience r \<noteq> xp_audience p then Inl PolicyError
     else if (case xp_tenant_id p of None \<Rightarrow> False | Some t \<Rightarrow> r_tenant_id r \<noteq> t) then Inl PolicyError
     else if (case xp_envelope_id p of None \<Rightarrow> False | Some e \<Rightarrow> r_envelope_id r \<noteq> e) then Inl PolicyError
     else if (case xp_config_epoch p of None \<Rightarrow> False | Some e \<Rightarrow> r_config_epoch r \<noteq> e) then Inl PolicyError
     else if xp_allowed_policy_digests p \<noteq> [] \<and> \<not> List.member (xp_allowed_policy_digests p) (r_policy_digest r) then Inl PolicyError
     else if xp_allowed_machine_digests p \<noteq> [] \<and> \<not> List.member (xp_allowed_machine_digests p) (r_machine_digest r) then Inl PolicyError
     else if xp_trusted_wardens p \<noteq> [] \<and> \<not> List.member (xp_trusted_wardens p) (r_warden_id r) then Inl PolicyError
     else if r_issued_at_ns r > now_ns + uncertainty then Inl PolicyError
     else if now_ns + uncertainty \<ge> r_expires_at_ns r then Inl PolicyError
     else rbind (map_err (\<lambda>_. SignatureError) (rbind (as_str (r_signature r)) b64url_decode)) (\<lambda>signature.
     rbind (canonical_json (JObj (Receipt_unsigned_payload r))) (\<lambda>payload.
     if \<not> registry_verify (ex_ed25519 ex) (cr_registry_now_ns c) (cr_registry_uncertainty_ns c) (ex_registry ex)
          (r_warden_id r) (r_key_id r) payload signature
     then Inl SignatureError else Inr ())))"

definition verify_receipt :: "executor \<Rightarrow> clock_readings \<Rightarrow> Receipt \<Rightarrow> unit res" where
  "verify_receipt ex c r =
    rbind (clock_interval (ex_policy ex) c) (\<lambda>(now_ns, uncertainty). verify_at ex c r now_ns uncertainty)"

definition verify_and_claim :: "executor \<Rightarrow> clock_readings \<Rightarrow> claim_io \<Rightarrow> Receipt \<Rightarrow> replay_store \<Rightarrow> unit res \<times> replay_store" where
  "verify_and_claim ex c io r st =
    (case rbind (clock_interval (ex_policy ex) c) (\<lambda>(now_ns, uncertainty).
            rbind (verify_at ex c r now_ns uncertainty) (\<lambda>_. Inr (now_ns, uncertainty))) of
       Inl e \<Rightarrow> (Inl e, st)
     | Inr (now_ns, uncertainty) \<Rightarrow> claim (ex_sha256 ex) io r now_ns uncertainty st)"

end
