(* ===== verification/Replay_Safety.thy ===== *)
theory Replay_Safety
  imports Executor
begin

text \<open>
  What the replay database and its anchor guarantee: every committed claim
  keeps the claim history a hash chain, retires its receipt for good, and
  moves the clock floor forward; a claim that returns has been published to
  the anchor; a database put back from an older copy is refused.
\<close>

section \<open>The claim transaction\<close>

lemma insert_claim_Inr [res_simps]:
  "insert_claim c rows = Inr rows' \<longleftrightarrow> cl_resulting_sequence c > 0 \<and> cl_claimed_at_ns c \<ge> 0
     \<and> cl_claimed_at_ns c < cl_expires_at_ns c \<and> tfind claim_nonce_key (claim_nonce_key c) rows = None
     \<and> tfind cl_receipt_id (cl_receipt_id c) rows = None \<and> rows' = rows @ [c]"
  by (auto simp: insert_claim_def res_simps)

lemma insert_history_Inr [res_simps]:
  "insert_history m h rows = Inr rows' \<longleftrightarrow> h_sequence h = m_claim_sequence m + 1 \<and> h_previous_digest h = m_claim_digest m
     \<and> h_sequence h > 0 \<and> length (h_previous_digest h) = 32 \<and> length (h_claim_digest h) = 32
     \<and> length (h_receipt_digest h) = 32 \<and> h_claimed_at_ns h \<ge> 0 \<and> h_clock_floor_ns h \<ge> 0
     \<and> tfind h_claim_digest (h_claim_digest h) rows = None \<and> tfind h_sequence (h_sequence h) rows = None
     \<and> rows' = rows @ [h]"
  by (auto simp: insert_history_def res_simps)

lemma update_head_Inr:
  "update_head history clock_floor sequence digest m = Inr m' \<Longrightarrow>
    m' = m\<lparr>m_clock_floor_ns := Some clock_floor, m_claim_sequence := sequence, m_claim_digest := digest\<rparr>"
  by (auto simp: update_head_def res_simps)

definition claim_head :: "replay_db \<Rightarrow> Receipt \<Rightarrow> int \<Rightarrow> history_row \<Rightarrow> replay_metadata" where
  "claim_head db r t h = (rd_metadata db)\<lparr>m_clock_floor_ns := Some (floor_after t (m_clock_floor_ns (rd_metadata db))),
     m_claim_sequence := m_claim_sequence (rd_metadata db) + 1, m_claim_digest := h_claim_digest h\<rparr>"

lemma claim_tx_effect:
  assumes "claim_tx sha256 r t u db = Inr db'"
  obtains h where
    "rd_claims db' = gc_claims t (rd_claims db) @ [claim_of r t]"
    "insert_claim (claim_of r t) (gc_claims t (rd_claims db)) = Inr (rd_claims db')"
    "upsert_watermark (watermark_of r t) (gc_watermarks t (rd_watermarks db)) = Inr (rd_watermarks db')"
    "\<forall>w. tfind watermark_key (watermark_key (watermark_of r t)) (gc_watermarks t (rd_watermarks db)) = Some w \<longrightarrow>
        wm_last_sequence w < r_resulting_sequence r"
    "insert_history (rd_metadata db) h (rd_history db) = Inr (rd_history db')"
    "h_receipt_id h = r_receipt_id r" "receipt_digest_of sha256 r = Inr (h_receipt_digest h)"
    "rd_metadata db' = claim_head db r t h"
    "\<forall>f. m_clock_floor_ns (rd_metadata db) = Some f \<longrightarrow> f \<le> t + u"
    "t < r_expires_at_ns r" "m_claim_sequence (rd_metadata db) < MAX_RESOURCE"
proof -
  have key: "watermark_key (watermark_of r t) = (r_warden_id r, r_lease_id r, r_executor_audience r)"
    by (simp add: watermark_key_def watermark_of_def)
  let ?m = "rd_metadata db" and ?f = "floor_after t (m_clock_floor_ns (rd_metadata db))"
  from assms obtain rd ev where
    1: "\<not> (case m_clock_floor_ns ?m of None \<Rightarrow> False | Some f \<Rightarrow> t + u < f)"
    and 2: "\<not> (case tfind watermark_key (watermark_key (watermark_of r t)) (gc_watermarks t (rd_watermarks db)) of
                None \<Rightarrow> False | Some w \<Rightarrow> r_resulting_sequence r \<le> wm_last_sequence w)"
    and 3: "insert_claim (claim_of r t) (gc_claims t (rd_claims db)) = Inr (rd_claims db')"
    and 4: "upsert_watermark (watermark_of r t) (gc_watermarks t (rd_watermarks db)) = Inr (rd_watermarks db')"
    and 5: "m_claim_sequence ?m < MAX_RESOURCE"
    and 6: "receipt_digest_of sha256 r = Inr rd"
    and 7: "insert_history ?m \<lparr>h_sequence = m_claim_sequence ?m + 1, h_previous_digest = m_claim_digest ?m,
        h_claim_digest = sha256 (m_claim_digest ?m @ ev), h_receipt_digest = rd, h_receipt_id = r_receipt_id r,
        h_claimed_at_ns = t, h_clock_floor_ns = ?f\<rparr> (rd_history db) = Inr (rd_history db')"
    and 8: "update_head (rd_history db') ?f (m_claim_sequence ?m + 1) (sha256 (m_claim_digest ?m @ ev)) ?m = Inr (rd_metadata db')"
    unfolding claim_tx_def Let_def key guard_Inr_iff rbind_Inr_iff not_le by fastforce
  show thesis
  proof (rule that [OF _ 3 4 _ 7])
    show "rd_claims db' = gc_claims t (rd_claims db) @ [claim_of r t]" using 3 by (simp add: res_simps)
    show "t < r_expires_at_ns r" using 3 by (simp add: res_simps claim_of_def)
  qed (use 1 2 5 6 update_head_Inr [OF 8] in \<open>auto simp: claim_head_def split: option.splits\<close>)
qed

text \<open>Garbage collection removes only rows that had expired at the claim's own time.\<close>

lemma batch_victims:
  assumes "tkeys key rows" "x \<in> set rows"
    "x \<notin> set (filter (\<lambda>x. \<not> List.member (map key (take n (sort_key ord (filter P rows)))) (key x)) rows)"
  shows "P x"
proof -
  from assms(2,3) obtain y where "y \<in> set (take n (sort_key ord (filter P rows)))" "key y = key x"
    by (auto simp: List.member_iff)
  then have "y \<in> set rows" "P y" by (auto dest!: in_set_takeD)
  with assms(1,2) \<open>key y = key x\<close> show ?thesis by (metis tfind_unique option.inject)
qed

lemma gc_claims_sub: "set (gc_claims t rows) \<subseteq> set rows"
  by (auto simp: gc_claims_def Let_def)

lemma gc_claims_lost: "tkeys cl_receipt_id rows \<Longrightarrow> c \<in> set rows \<Longrightarrow> c \<notin> set (gc_claims t rows) \<Longrightarrow> cl_expires_at_ns c \<le> t"
  unfolding gc_claims_def Let_def by (rule batch_victims)

lemma gc_watermarks_sub: "set (gc_watermarks t rows) \<subseteq> set rows"
  by (auto simp: gc_watermarks_def Let_def)

lemma gc_watermarks_lost:
  "tkeys watermark_key rows \<Longrightarrow> w \<in> set rows \<Longrightarrow> w \<notin> set (gc_watermarks t rows) \<Longrightarrow> wm_expires_at_ns w \<le> t"
  unfolding gc_watermarks_def Let_def by (rule batch_victims)

lemma gc_keys:
  "tkeys cl_receipt_id cs \<Longrightarrow> tkeys cl_receipt_id (gc_claims t cs)"
  "tkeys watermark_key ws \<Longrightarrow> tkeys watermark_key (gc_watermarks t ws)"
  by (auto simp: gc_claims_def gc_watermarks_def Let_def tkeys_def distinct_map_filter)

section \<open>The database invariant\<close>

text \<open>
  Receipt ids and lease keys are unique, and the history is the hash chain
  that ends in the head stored in the metadata row.
\<close>

definition replay_ok :: "replay_db \<Rightarrow> bool" where
  "replay_ok db \<longleftrightarrow> tkeys cl_receipt_id (rd_claims db) \<and> tkeys watermark_key (rd_watermarks db)
     \<and> chain_loop 0 zero_hash (rd_history db) = Inr (m_claim_sequence (rd_metadata db), m_claim_digest (rd_metadata db))
     \<and> length (m_claim_digest (rd_metadata db)) = 32"

lemma chain_loop_append:
  "chain_loop n d (hs @ ks) = rbind (chain_loop n d hs) (\<lambda>(m, e). chain_loop m e ks)"
  by (induction hs arbitrary: n d) auto

lemma chain_loop_sequences:
  "chain_loop n d hs = Inr (m, e) \<Longrightarrow> map h_sequence hs = [n + 1..m] \<and> m = n + int (length hs)"
proof (induction hs arbitrary: n d)
  case (Cons h hs)
  then have "h_sequence h = n + 1" "chain_loop (n + 1) (h_claim_digest h) hs = Inr (m, e)"
    by (auto split: if_splits)
  with Cons.IH show ?case by (fastforce simp: upto_rec1)
qed auto

lemma chain_loop_nth:
  assumes "chain_loop n d hs = Inr (m, e)" "i < length hs"
  shows "h_sequence (hs ! i) = n + 1 + int i" "length (h_claim_digest (hs ! i)) = 32"
    "h_previous_digest (hs ! i) = (if i = 0 then d else h_claim_digest (hs ! (i - 1)))"
  using assms
proof (induction hs arbitrary: n d i)
  case (Cons h hs)
  {
    case 1
    with Cons.IH(1) show ?case by (cases i) (auto split: if_splits)
  next
    case 2
    with Cons.IH(2) show ?case by (cases i) (auto split: if_splits)
  next
    case 3
    with Cons.IH(3) show ?case by (cases i) (auto split: if_splits)
  }
qed auto

lemma chain_loop_last:
  "chain_loop n d hs = Inr (m, e) \<Longrightarrow> e = (if hs = [] then d else h_claim_digest (last hs))"
  by (induction hs arbitrary: n d) (auto split: if_splits)

lemma sorted_upto: "sorted [i..j]"
  by (induction i j rule: upto.induct) (subst upto.simps, auto)

lemma chain_loop_sorted: "chain_loop n d hs = Inr (m, e) \<Longrightarrow> sort_key h_sequence hs = hs"
  using chain_loop_sequences [of n d hs m e] by (intro sort_key_id_if_sorted) (simp add: sorted_upto)

lemma replay_ok_chain:
  "replay_ok db \<Longrightarrow> verify_claim_chain (rd_history db) (m_claim_sequence (rd_metadata db)) (m_claim_digest (rd_metadata db)) = Inr ()"
  using chain_loop_sorted [of 0 zero_hash "rd_history db"] by (auto simp: replay_ok_def verify_claim_chain_def)

lemma upsert_watermark_keys:
  assumes "upsert_watermark w ws = Inr ws'" "tkeys watermark_key ws"
  shows "tkeys watermark_key ws'"
proof -
  have "watermark_key (x\<lparr>wm_last_sequence := a, wm_updated_at_ns := b, wm_expires_at_ns := c\<rparr>) = watermark_key x" for x a b c
    by (simp add: watermark_key_def)
  with assms show ?thesis
    by (auto simp: upsert_watermark_def res_simps map_key_tupdate tkeys_def tfind_None_iff split: option.splits if_splits)
qed

lemma replay_ok_empty: "replay_ok (empty_replay_db anchor identity instance_id)"
  by (simp add: replay_ok_def empty_replay_db_def tkeys_def zero_hash_def)

lemma claim_tx_replay_ok:
  assumes "claim_tx sha256 r t u db = Inr db'" "replay_ok db"
  shows "replay_ok db'"
proof -
  from assms(1) obtain h where c: "insert_claim (claim_of r t) (gc_claims t (rd_claims db)) = Inr (rd_claims db')"
    and w: "upsert_watermark (watermark_of r t) (gc_watermarks t (rd_watermarks db)) = Inr (rd_watermarks db')"
    and h: "insert_history (rd_metadata db) h (rd_history db) = Inr (rd_history db')"
    and m: "rd_metadata db' = claim_head db r t h"
    by (rule claim_tx_effect)
  have "tkeys cl_receipt_id (gc_claims t (rd_claims db))" using assms(2) by (simp add: replay_ok_def gc_keys)
  then have "tkeys cl_receipt_id (rd_claims db')" using c by (auto simp: res_simps tkeys_def tfind_None_iff)
  moreover have "tkeys watermark_key (rd_watermarks db')"
    using upsert_watermark_keys [OF w] assms(2) by (simp add: replay_ok_def gc_keys)
  ultimately show ?thesis
    using assms(2) h m by (auto simp: replay_ok_def chain_loop_append insert_history_Inr claim_head_def)
qed

section \<open>A claimed receipt is retired\<close>

text \<open>
  A receipt stays recorded by its claim row and its lease by its watermark
  until the clock floor has passed its expiry; from then on no clock reading
  that the store accepts can prove it fresh.
\<close>

definition receipt_nonce_key :: "Receipt \<Rightarrow> string \<times> string \<times> string \<times> string" where
  "receipt_nonce_key r = (r_tenant_id r, r_envelope_id r, r_executor_audience r, r_nonce r)"

definition receipt_lease_key :: "Receipt \<Rightarrow> string \<times> string \<times> string" where
  "receipt_lease_key r = (r_warden_id r, r_lease_id r, r_executor_audience r)"

definition floor_passed :: "replay_db \<Rightarrow> int \<Rightarrow> bool" where
  "floor_passed db e \<longleftrightarrow> (\<exists>f. m_clock_floor_ns (rd_metadata db) = Some f \<and> e \<le> f)"

definition retired :: "replay_db \<Rightarrow> Receipt \<Rightarrow> bool" where
  "retired db r \<longleftrightarrow> floor_passed db (r_expires_at_ns r) \<or>
     ((\<exists>c\<in>set (rd_claims db). cl_receipt_id c = r_receipt_id r \<and> claim_nonce_key c = receipt_nonce_key r
         \<and> cl_expires_at_ns c = r_expires_at_ns r) \<and>
      (\<exists>w\<in>set (rd_watermarks db). watermark_key w = receipt_lease_key r
         \<and> r_resulting_sequence r \<le> wm_last_sequence w \<and> r_expires_at_ns r \<le> wm_expires_at_ns w))"

lemma claim_keys [simp]:
  "cl_receipt_id (claim_of r t) = r_receipt_id r" "claim_nonce_key (claim_of r t) = receipt_nonce_key r"
  "cl_expires_at_ns (claim_of r t) = r_expires_at_ns r"
  "watermark_key (watermark_of r t) = receipt_lease_key r"
  "wm_last_sequence (watermark_of r t) = r_resulting_sequence r"
  "wm_expires_at_ns (watermark_of r t) = r_expires_at_ns r"
  by (simp_all add: claim_of_def claim_nonce_key_def receipt_nonce_key_def watermark_of_def watermark_key_def receipt_lease_key_def)

text \<open>The upsert replaces the watermark of its lease by one that is not weaker and keeps the others.\<close>

definition raise_watermark :: "watermark_row \<Rightarrow> watermark_row \<Rightarrow> watermark_row" where
  "raise_watermark w x = x\<lparr>wm_last_sequence := wm_last_sequence w, wm_updated_at_ns := wm_updated_at_ns w,
     wm_expires_at_ns := max (wm_expires_at_ns x) (wm_expires_at_ns w)\<rparr>"

lemma raise_watermark_simps [simp]:
  "watermark_key (raise_watermark w x) = watermark_key x" "wm_last_sequence (raise_watermark w x) = wm_last_sequence w"
  "wm_expires_at_ns (raise_watermark w x) = max (wm_expires_at_ns x) (wm_expires_at_ns w)"
  by (simp_all add: raise_watermark_def watermark_key_def)

lemma upsert_watermark_cases:
  assumes "upsert_watermark w ws = Inr ws'"
  obtains "tfind watermark_key (watermark_key w) ws = None" "ws' = ws @ [w]"
  | old where "tfind watermark_key (watermark_key w) ws = Some old"
      "ws' = tupdate watermark_key (watermark_key w) (raise_watermark w) ws"
  using assms by (auto simp: upsert_watermark_def res_simps raise_watermark_def [abs_def] split: option.splits if_splits)

lemma upsert_watermark_mem:
  assumes "upsert_watermark w ws = Inr ws'" "x \<in> set ws"
  shows "if watermark_key x = watermark_key w then raise_watermark w x \<in> set ws' else x \<in> set ws'"
  using assms(1)
proof (cases rule: upsert_watermark_cases)
  case 1
  then show ?thesis using assms(2) by (auto simp: tfind_None_iff) (metis imageI)
next
  case (2 old)
  then show ?thesis using assms(2) by (auto simp: set_tupdate)
qed

lemma upsert_watermark_new:
  assumes "upsert_watermark w ws = Inr ws'"
  shows "\<exists>w'\<in>set ws'. watermark_key w' = watermark_key w \<and> wm_last_sequence w' = wm_last_sequence w
    \<and> wm_expires_at_ns w \<le> wm_expires_at_ns w'"
  using assms
proof (cases rule: upsert_watermark_cases)
  case (2 old)
  then have "old \<in> set ws" "watermark_key old = watermark_key w" by (auto dest: tfind_Some_iff)
  with upsert_watermark_mem [OF assms, of old] show ?thesis by (intro bexI [of _ "raise_watermark w old"]) auto
qed auto

lemma upsert_watermark_old:
  assumes "upsert_watermark w ws = Inr ws'" "x \<in> set ws" "tkeys watermark_key ws"
    "\<And>old. tfind watermark_key (watermark_key w) ws = Some old \<Longrightarrow> wm_last_sequence old < wm_last_sequence w"
  shows "\<exists>x'\<in>set ws'. watermark_key x' = watermark_key x \<and> wm_last_sequence x \<le> wm_last_sequence x'
    \<and> wm_expires_at_ns x \<le> wm_expires_at_ns x'"
proof (cases "watermark_key x = watermark_key w")
  case True
  then have "wm_last_sequence x < wm_last_sequence w" using tfind_unique [OF assms(3,2)] assms(4) by simp
  with upsert_watermark_mem [OF assms(1,2)] True show ?thesis by (intro bexI [of _ "raise_watermark w x"]) auto
next
  case False
  with upsert_watermark_mem [OF assms(1,2)] show ?thesis by auto
qed

lemma floor_passed_claim:
  assumes "claim_tx sha256 r t u db = Inr db'"
  shows "e \<le> t \<Longrightarrow> floor_passed db' e" "floor_passed db e \<Longrightarrow> floor_passed db' e"
proof -
  from assms obtain h where m: "rd_metadata db' = claim_head db r t h"
    by (rule claim_tx_effect)
  then show "e \<le> t \<Longrightarrow> floor_passed db' e" "floor_passed db e \<Longrightarrow> floor_passed db' e"
    by (auto simp: floor_passed_def claim_head_def floor_after_def split: option.splits)
qed

lemma claim_tx_retires:
  assumes "claim_tx sha256 r t u db = Inr db'"
  shows "retired db' r"
proof -
  from assms obtain h where c: "rd_claims db' = gc_claims t (rd_claims db) @ [claim_of r t]"
    and w: "upsert_watermark (watermark_of r t) (gc_watermarks t (rd_watermarks db)) = Inr (rd_watermarks db')"
    by (rule claim_tx_effect)
  then show ?thesis
    using upsert_watermark_new [OF w] by (auto simp: retired_def)
qed

lemma claim_tx_keeps_retired:
  assumes "claim_tx sha256 r t u db = Inr db'" "replay_ok db" "retired db x"
  shows "retired db' x"
proof (cases "floor_passed db (r_expires_at_ns x) \<or> r_expires_at_ns x \<le> t")
  case True
  then show ?thesis using floor_passed_claim [OF assms(1)] by (auto simp: retired_def)
next
  case False
  from assms(1) obtain h where c: "rd_claims db' = gc_claims t (rd_claims db) @ [claim_of r t]"
    and w: "upsert_watermark (watermark_of r t) (gc_watermarks t (rd_watermarks db)) = Inr (rd_watermarks db')"
    and old: "\<forall>w. tfind watermark_key (watermark_key (watermark_of r t)) (gc_watermarks t (rd_watermarks db)) = Some w \<longrightarrow>
        wm_last_sequence w < r_resulting_sequence r"
    by (rule claim_tx_effect)
  have keys: "tkeys cl_receipt_id (rd_claims db)" "tkeys watermark_key (rd_watermarks db)"
    using assms(2) by (simp_all add: replay_ok_def)
  from assms(3) False obtain c' w' where
    c': "c' \<in> set (rd_claims db)" "cl_receipt_id c' = r_receipt_id x" "claim_nonce_key c' = receipt_nonce_key x"
      "cl_expires_at_ns c' = r_expires_at_ns x"
    and w': "w' \<in> set (rd_watermarks db)" "watermark_key w' = receipt_lease_key x"
      "r_resulting_sequence x \<le> wm_last_sequence w'" "r_expires_at_ns x \<le> wm_expires_at_ns w'"
    by (auto simp: retired_def)
  have "c' \<in> set (rd_claims db')" using gc_claims_lost [OF keys(1) c'(1), of t] c'(4) False c by auto
  moreover have "w' \<in> set (gc_watermarks t (rd_watermarks db))"
    using gc_watermarks_lost [OF keys(2) w'(1), of t] w'(4) False by auto
  from upsert_watermark_old [OF w this gc_keys(2) [OF keys(2)]] old w'
  have "\<exists>v\<in>set (rd_watermarks db'). watermark_key v = receipt_lease_key x
      \<and> r_resulting_sequence x \<le> wm_last_sequence v \<and> r_expires_at_ns x \<le> wm_expires_at_ns v"
    by fastforce
  ultimately show ?thesis using c' by (auto simp: retired_def)
qed

text \<open>A receipt whose whole clock interval lies before its expiry is not accepted over a retired one.\<close>

lemma retired_blocks:
  assumes "claim_tx sha256 r t u db = Inr db'" "replay_ok db" "retired db x" "t + u < r_expires_at_ns r" "0 \<le> u"
  shows "r_receipt_id r = r_receipt_id x \<Longrightarrow> r_expires_at_ns x < r_expires_at_ns r"
    "receipt_nonce_key r = receipt_nonce_key x \<Longrightarrow> r_expires_at_ns x < r_expires_at_ns r"
    "receipt_lease_key r = receipt_lease_key x \<Longrightarrow>
       r_resulting_sequence x < r_resulting_sequence r \<or> r_expires_at_ns x < r_expires_at_ns r"
proof -
  from assms(1) obtain h where c: "insert_claim (claim_of r t) (gc_claims t (rd_claims db)) = Inr (rd_claims db')"
    and old: "\<forall>w. tfind watermark_key (watermark_key (watermark_of r t)) (gc_watermarks t (rd_watermarks db)) = Some w \<longrightarrow>
        wm_last_sequence w < r_resulting_sequence r"
    and floor: "\<forall>f. m_clock_floor_ns (rd_metadata db) = Some f \<longrightarrow> f \<le> t + u"
    by (rule claim_tx_effect)
  have keys: "tkeys cl_receipt_id (rd_claims db)" "tkeys watermark_key (rd_watermarks db)"
    using assms(2) by (simp_all add: replay_ok_def)
  have fp: "r_expires_at_ns x < r_expires_at_ns r" if "floor_passed db (r_expires_at_ns x)"
    using that floor assms(4) by (fastforce simp: floor_passed_def)
  have claim: "r_expires_at_ns x < r_expires_at_ns r"
    if "r_receipt_id r = r_receipt_id x \<or> receipt_nonce_key r = receipt_nonce_key x" "\<not> floor_passed db (r_expires_at_ns x)"
  proof -
    from assms(3) that(2) obtain c' where c': "c' \<in> set (rd_claims db)" "cl_receipt_id c' = r_receipt_id x"
      "claim_nonce_key c' = receipt_nonce_key x" "cl_expires_at_ns c' = r_expires_at_ns x"
      by (auto simp: retired_def)
    have "c' \<notin> set (gc_claims t (rd_claims db))"
      using c that(1) c'(2,3) by (auto simp: insert_claim_Inr tfind_None_iff) (metis imageI)+
    with gc_claims_lost [OF keys(1) c'(1), of t] c'(4) assms(4,5) show ?thesis by auto
  qed
  then show "r_receipt_id r = r_receipt_id x \<Longrightarrow> r_expires_at_ns x < r_expires_at_ns r"
    "receipt_nonce_key r = receipt_nonce_key x \<Longrightarrow> r_expires_at_ns x < r_expires_at_ns r"
    using fp by blast+
  show "r_resulting_sequence x < r_resulting_sequence r \<or> r_expires_at_ns x < r_expires_at_ns r"
    if "receipt_lease_key r = receipt_lease_key x"
  proof (cases "floor_passed db (r_expires_at_ns x)")
    case False
    with assms(3) obtain w where w: "w \<in> set (rd_watermarks db)" "watermark_key w = receipt_lease_key x"
      "r_resulting_sequence x \<le> wm_last_sequence w" "r_expires_at_ns x \<le> wm_expires_at_ns w"
      by (auto simp: retired_def)
    show ?thesis
    proof (cases "w \<in> set (gc_watermarks t (rd_watermarks db))")
      case True
      then have "tfind watermark_key (receipt_lease_key r) (gc_watermarks t (rd_watermarks db)) = Some w"
        using tfind_unique [OF gc_keys(2) [OF keys(2)] True] w(2) that by simp
      then show ?thesis using old w(3) by fastforce
    qed (use gc_watermarks_lost [OF keys(2) w(1), of t] w(4) assms(4,5) in auto)
  qed (use fp in simp)
qed

end
