(* ===== verification/Executor_Runs.thy ===== *)
theory Executor_Runs
  imports Replay_Safety
begin

text \<open>
  Runs of an executor in a hostile environment: receipts presented in any
  order and any number of times, clocks that jump, anchors that fail at any
  point, restarts, and an operator who puts an earlier copy of the database
  file back.
\<close>

section \<open>What a reconciliation does to the anchor\<close>

lemma authority_checkpoint_fields:
  assumes "authority_checkpoint identity m = Inr c"
  shows "checkpoint_ok c" "xc_claim_sequence c = m_claim_sequence m" "xc_claim_digest c = m_claim_digest m"
    "xc_clock_floor_ns c = m_clock_floor_ns m"
  using assms by (auto simp: authority_checkpoint_def res_simps checkpoint_ok_def split: option.splits)

lemma invoke_authority_reconcile_reconciled:
  assumes "checkpoint_ok c"
  shows "reconciled initialize f c digest_at (invoke_authority_reconcile kind io c digest_at initialize durable f)"
proof (cases kind)
  case FileAnchor
  then show ?thesis
    using file_reconcile_reconciled [OF assms, of initialize f digest_at "io_file io"]
    by (auto simp: invoke_authority_reconcile_def reconciled_def split: prod.splits sum.splits)
next
  case ProcessAnchor
  then show ?thesis
    using process_reconcile_reconciled [OF assms] reconcile_and_confirm_reconciled [OF assms]
    by (simp add: invoke_authority_reconcile_def)
qed

interpretation store_anchor: executor_anchor
  "\<lambda>(kind, io, durable) c digest_at initialize f. invoke_authority_reconcile kind io c digest_at initialize durable f"
proof (unfold_locales, goal_cases)
  case (1 c x digest_at initialize f r f')
  then have "reconciled initialize f c digest_at (r, f')"
    using invoke_authority_reconcile_reconciled [OF 1(1), of initialize f digest_at "fst x" "fst (snd x)" "snd (snd x)"]
    by (simp add: case_prod_beta)
  then show ?case by (rule reconciledD)
next
  case (2 c x digest_at initialize f u f')
  then have "reconciled initialize f c digest_at (Inr u, f')"
    using invoke_authority_reconcile_reconciled [OF 2(1), of initialize f digest_at "fst x" "fst (snd x)" "snd (snd x)"]
    by (simp add: case_prod_beta)
  then show ?case by (rule reconciledD)
qed

text \<open>The anchor file after a reconciliation of \<open>db\<close>: as before, or the admitted head of \<open>db\<close>.\<close>

definition published :: "replay_db \<Rightarrow> anchor_file \<Rightarrow> bool" where
  "published db f \<longleftrightarrow> (\<exists>c. anchor_holds f c \<and> xc_claim_sequence c = m_claim_sequence (rd_metadata db)
     \<and> xc_claim_digest c = m_claim_digest (rd_metadata db))"

definition advances :: "bool \<Rightarrow> replay_db \<Rightarrow> anchor_file \<Rightarrow> anchor_file \<Rightarrow> bool" where
  "advances initialize db f f' \<longleftrightarrow> published db f' \<and> (\<exists>c. xc_claim_sequence c = m_claim_sequence (rd_metadata db)
     \<and> xc_claim_digest c = m_claim_digest (rd_metadata db) \<and> admitted initialize f c (claim_digest_at (rd_history db)))"

lemma anchor_attempt_spec:
  assumes "anchor_attempt kind io identity db initialize durable f = (r, f')"
  shows "f' = f \<or> advances initialize db f f'" "r = Inr u \<Longrightarrow> advances initialize db f f'"
proof -
  have "(f' = f \<or> advances initialize db f f') \<and> (r = Inr u \<longrightarrow> advances initialize db f f')"
  proof (cases "authority_checkpoint identity (rd_metadata db)")
    case (Inl e)
    then show ?thesis using assms by (auto simp: anchor_attempt_def)
  next
    case (Inr c)
    note c = authority_checkpoint_fields [OF Inr]
    have "reconciled initialize f c (claim_digest_at (rd_history db)) (r, f')"
      using invoke_authority_reconcile_reconciled [OF c(1)] assms Inr by (metis anchor_attempt_def sum.case(2))
    then show ?thesis
      using c(2,3) by (auto simp: reconciled_def advances_def published_def)
  qed
  then show "f' = f \<or> advances initialize db f f'" "r = Inr u \<Longrightarrow> advances initialize db f f'" by auto
qed

lemma reconcile_authority_anchor_spec:
  assumes "reconcile_authority_anchor anchor stage initialize io identity db h f = (r, h', f')"
  shows "f' = f \<or> advances initialize db f f'" "r = Inr u \<Longrightarrow> anchor \<noteq> None \<Longrightarrow> advances initialize db f f'"
  using assms
  by (auto simp: reconcile_authority_anchor_def Let_def anchor_attempt_spec split: option.splits if_splits prod.splits sum.splits
      dest: anchor_attempt_spec)

section \<open>The transaction around a claim\<close>

lemma store_write_static:
  "st_anchor (snd (store_write io body st)) = st_anchor st" "st_identity (snd (store_write io body st)) = st_identity st"
  by (auto simp: store_write_def split: prod.splits sum.splits)

lemma store_write_cases:
  assumes "store_write io body st = (r, st')" "st_anchor st \<noteq> None"
  obtains (refused) e where "r = Inl e" "st_db st' = st_db st"
      "st_anchor_file st' = st_anchor_file st \<or> advances False (st_db st) (st_anchor_file st) (st_anchor_file st')"
  | (committed) db1 f1 where "body (st_db st) = Inr db1" "st_db st' = db1"
      "advances False (st_db st) (st_anchor_file st) f1"
      "st_anchor_file st' = f1 \<or> advances False db1 f1 (st_anchor_file st')"
      "r = Inr () \<longrightarrow> advances False db1 f1 (st_anchor_file st')"
proof (cases "ci_begin_ok io")
  case False
  then show ?thesis using assms that(1) by (auto simp: store_write_def)
next
  case True
  obtain r1 h1 f1 where pre: "reconcile_authority_anchor (st_anchor st) ''pre_begin'' False (ci_pre io) (st_identity st)
      (st_db st) (st_health st) (st_anchor_file st) = (r1, h1, f1)" by (metis prod.exhaust)
  note pre_spec = reconcile_authority_anchor_spec [OF pre]
  show ?thesis
  proof (cases "ok r1 \<and> ok (body (st_db st)) \<and> ci_disk_ok io")
    case False
    then show ?thesis
      using assms(1) True pre pre_spec(1) that(1) by (cases r1; cases "body (st_db st)") (auto simp: store_write_def)
  next
    case ok: True
    then obtain db1 where r1: "r1 = Inr ()" and db1: "body (st_db st) = Inr db1" by (auto simp: ok_iff)
    have adv: "advances False (st_db st) (st_anchor_file st) f1" using pre_spec(2) r1 assms(2) by auto
    obtain r2 h2 f2 where post: "reconcile_authority_anchor (st_anchor st) ''post_commit'' False (ci_post io) (st_identity st)
      db1 h1 f1 = (r2, h2, f2)" by (metis prod.exhaust)
    note post_spec = reconcile_authority_anchor_spec [OF post]
    show ?thesis
      using assms True pre r1 db1 ok post post_spec adv that(2) [OF db1 _ adv]
      by (auto simp: store_write_def split: if_splits)
  qed
qed

text \<open>What a verified receipt brings to the claim: a clock interval before its expiry.\<close>

lemma verify_and_claim_cases:
  assumes "verify_and_claim ex c io r st = (res, st')"
  obtains (refused) e where "res = Inl e" "st' = st"
  | (claimed) "store_write io (claim_tx (ex_sha256 ex) r (cr_now_ns c) (cr_uncertainty_ns c)) st = (res, st')"
      "cr_now_ns c + cr_uncertainty_ns c < r_expires_at_ns r" "0 \<le> cr_uncertainty_ns c"
      "verify_receipt ex c r = Inr ()"
proof (cases "verify_receipt ex c r")
  case (Inl e)
  then have "res = Inl e" "st' = st"
    using assms by (auto simp: verify_and_claim_def verify_receipt_def rbind_Inl_iff split: sum.splits prod.splits)
  then show ?thesis using that(1) by blast
next
  case (Inr u)
  then have 1: "clock_interval (ex_policy ex) c = Inr (cr_now_ns c, cr_uncertainty_ns c)"
    and 2: "verify_at ex c r (cr_now_ns c) (cr_uncertainty_ns c) = Inr ()"
    by (auto simp: verify_receipt_def clock_interval_def res_simps split: if_splits)
  have 3: "cr_now_ns c + cr_uncertainty_ns c < r_expires_at_ns r" "0 \<le> cr_uncertainty_ns c"
    using 1 2 by (auto simp: verify_at_def clock_interval_def Let_def not_le split: if_splits)
  show ?thesis
    using assms 1 2 3 Inr that
    by (auto simp: verify_and_claim_def claim_def split: if_splits)
qed

section \<open>Runs\<close>

text \<open>
  \<open>Execute\<close> presents a receipt, \<open>Inspect\<close> reconciles without a
  transaction (verify_authority_anchor, status, checkpoint_wal),
  \<open>Reopen\<close> is a restart and \<open>Restore n\<close> puts the n-th of the
  databases that have ever been on disk back.  The world remembers these
  copies, and for every committed row of the claim history its receipt.
\<close>

datatype executor_action =
    Execute clock_readings claim_io Receipt
  | Inspect anchor_io
  | Reopen bool anchor_io
  | Restore nat

record world =
  wd_store :: replay_store
  wd_copies :: "replay_db list"
  wd_log :: "(history_row \<times> Receipt) list"

definition world_of :: "replay_store \<Rightarrow> world" where
  "world_of st = \<lparr>wd_store = st, wd_copies = [st_db st], wd_log = []\<rparr>"

definition reopen :: "bool \<Rightarrow> anchor_io \<Rightarrow> replay_store \<Rightarrow> unit res \<times> replay_store" where
  "reopen integrity_ok io st =
    (case open_store (st_anchor st) (st_anchor st = None) integrity_ok io (st_db st) (st_anchor_file st) of
       (Inl e, f) \<Rightarrow> (Inl e, st\<lparr>st_anchor_file := f\<rparr>) | (Inr st1, f) \<Rightarrow> (Inr (), st1))"

fun store_step :: "executor \<Rightarrow> executor_action \<Rightarrow> replay_db list \<Rightarrow> replay_store \<Rightarrow> unit res \<times> replay_store" where
  "store_step ex (Execute c io r) copies st = verify_and_claim ex c io r st"
| "store_step ex (Inspect io) copies st = reconcile_existing False io st"
| "store_step ex (Reopen integrity_ok io) copies st = reopen integrity_ok io st"
| "store_step ex (Restore n) copies st =
    (if n < length copies then (Inr (), st\<lparr>st_db := copies ! n\<rparr>) else (Inl NotFoundError, st))"

fun committed :: "executor_action \<Rightarrow> replay_db \<Rightarrow> replay_db \<Rightarrow> (history_row \<times> Receipt) list" where
  "committed (Execute c io r) db db' = (if rd_history db' = rd_history db then [] else [(last (rd_history db'), r)])"
| "committed _ db db' = []"

definition exec_step :: "executor \<Rightarrow> executor_action \<Rightarrow> world \<Rightarrow> unit res \<times> world" where
  "exec_step ex a w =
    (let (r, st) = store_step ex a (wd_copies w) (wd_store w) in
     (r, \<lparr>wd_store = st, wd_copies = wd_copies w @ [st_db st],
          wd_log = wd_log w @ committed a (st_db (wd_store w)) (st_db st)\<rparr>))"

fun exec_run :: "executor \<Rightarrow> executor_action list \<Rightarrow> world \<Rightarrow> world" where
  "exec_run ex [] w = w"
| "exec_run ex (a # as) w = exec_run ex as (snd (exec_step ex a w))"

text \<open>No two different claims of the run have the same claim digest.\<close>

definition collision_free :: "(history_row \<times> Receipt) list \<Rightarrow> bool" where
  "collision_free log \<longleftrightarrow> (\<forall>x\<in>set log. \<forall>y\<in>set log. h_claim_digest (fst x) = h_claim_digest (fst y) \<longrightarrow> x = y)"

section \<open>Histories that share a digest share their past\<close>

text \<open>Every copy is a chain whose rows are committed claims, each of them retired in it.\<close>

definition recorded :: "(history_row \<times> Receipt) list \<Rightarrow> replay_db \<Rightarrow> bool" where
  "recorded log db \<longleftrightarrow> replay_ok db \<and> (\<forall>h\<in>set (rd_history db). \<exists>r. (h, r) \<in> set log \<and> retired db r)"

lemma replay_ok_length: "replay_ok db \<Longrightarrow> m_claim_sequence (rd_metadata db) = int (length (rd_history db))"
  by (auto simp: replay_ok_def dest: chain_loop_sequences)

lemma replay_ok_head:
  "replay_ok db \<Longrightarrow> m_claim_digest (rd_metadata db) = (if rd_history db = [] then zero_hash else h_claim_digest (last (rd_history db)))"
  by (auto simp: replay_ok_def dest: chain_loop_last)

lemma shared_past:
  assumes "collision_free log" "recorded log d" "recorded log d'"
    "n \<le> length (rd_history d)" "n \<le> length (rd_history d')"
    "n \<noteq> 0 \<Longrightarrow> h_claim_digest (rd_history d ! (n - 1)) = h_claim_digest (rd_history d' ! (n - 1))"
  shows "take n (rd_history d) = take n (rd_history d')"
  using assms(4-6)
proof (induction n)
  case (Suc n)
  let ?x = "rd_history d ! n" and ?y = "rd_history d' ! n"
  have mem: "?x \<in> set (rd_history d)" "?y \<in> set (rd_history d')" using Suc.prems by auto
  then obtain r r' where "(?x, r) \<in> set log" "(?y, r') \<in> set log"
    using assms(2,3) by (fastforce simp: recorded_def)
  with assms(1) Suc.prems(3) have eq: "?x = ?y" by (fastforce simp: collision_free_def)
  have "h_claim_digest (rd_history d ! (n - 1)) = h_claim_digest (rd_history d' ! (n - 1))" if "n \<noteq> 0"
    using that chain_loop_nth(3) [of 0 zero_hash "rd_history d" _ _ n] chain_loop_nth(3) [of 0 zero_hash "rd_history d'" _ _ n]
      assms(2,3) Suc.prems eq by (auto simp: recorded_def replay_ok_def)
  then have "take n (rd_history d) = take n (rd_history d')" using Suc by auto
  then show ?case using eq Suc.prems by (simp add: take_Suc_conv_app_nth)
qed simp

text \<open>The database contains the anchored part of the history.\<close>

definition extends :: "replay_db \<Rightarrow> ExecutorAuthorityCheckpoint \<Rightarrow> bool" where
  "extends db a \<longleftrightarrow> 0 \<le> xc_claim_sequence a \<and> xc_claim_sequence a \<le> int (length (rd_history db)) \<and>
     (xc_claim_sequence a \<noteq> 0 \<longrightarrow> h_claim_digest (rd_history db ! (nat (xc_claim_sequence a) - 1)) = xc_claim_digest a)"

lemma admitted_extends:
  assumes "replay_ok db" "anchor_holds f a" "xc_claim_sequence c = m_claim_sequence (rd_metadata db)"
    "xc_claim_digest c = m_claim_digest (rd_metadata db)" "admitted initialize f c (claim_digest_at (rd_history db))"
  shows "extends db a"
proof -
  from assms(2,5) obtain b where b: "requires_advance a c (claim_digest_at (rd_history db)) = Inr b"
    and a: "checkpoint_ok a"
    by (auto simp: admitted_def anchor_holds_def ok_iff dest: read_executor_ok split: option.splits sum.splits)
  note adv = requires_advance_facts [OF b]
  have len: "xc_claim_sequence a \<le> int (length (rd_history db))" "0 \<le> xc_claim_sequence a"
    using adv(2) assms(3) replay_ok_length [OF assms(1)] checkpoint_okD(10) [OF a] by auto
  have "h_claim_digest (rd_history db ! (nat (xc_claim_sequence a) - 1)) = xc_claim_digest a" if nz: "xc_claim_sequence a \<noteq> 0"
  proof (cases "xc_claim_sequence a = xc_claim_sequence c")
    case True
    then show ?thesis
      using adv(4) assms(3,4) replay_ok_length [OF assms(1)] replay_ok_head [OF assms(1)] that
      by (auto simp: last_conv_nth)
  next
    case False
    then obtain h where h: "tfind h_sequence (xc_claim_sequence a) (rd_history db) = Some h"
      and d: "h_claim_digest h = xc_claim_digest a"
      using adv(5) nz by (auto simp: claim_digest_at_def split: option.splits if_splits)
    from tfind_Some_iff [OF h] obtain i where i: "i < length (rd_history db)" "rd_history db ! i = h" "h_sequence h = xc_claim_sequence a"
      by (auto simp: in_set_conv_nth)
    have "xc_claim_sequence a = 1 + int i"
      using chain_loop_nth(1) [of 0 zero_hash "rd_history db" _ _ i] assms(1) i by (auto simp: replay_ok_def)
    then have "nat (xc_claim_sequence a) - 1 = i" by simp
    then show ?thesis using i d by simp
  qed
  then show ?thesis using len by (simp add: extends_def)
qed

lemma published_extends:
  assumes "replay_ok db" "published db f"
  shows "\<exists>a. anchor_holds f a \<and> xc_claim_sequence a = int (length (rd_history db)) \<and> extends db a"
  using assms replay_ok_length [OF assms(1)] replay_ok_head [OF assms(1)]
  by (auto simp: published_def extends_def last_conv_nth)

lemma anchor_holds_unique: "anchor_holds f a \<Longrightarrow> anchor_holds f b \<Longrightarrow> a = b"
  by (auto simp: anchor_holds_def split: option.splits)

section \<open>The receipt is in every history the anchor accepts\<close>

definition guarded :: "replay_db list \<Rightarrow> (history_row \<times> Receipt) list \<Rightarrow> anchor_file \<Rightarrow> Receipt \<Rightarrow> bool" where
  "guarded copies log f r \<longleftrightarrow> (\<exists>h. (h, r) \<in> set log \<and>
     (\<forall>a. anchor_holds f a \<longrightarrow> (\<forall>d\<in>set copies. extends d a \<longrightarrow> h \<in> set (rd_history d))))"

text \<open>A database that extends a published head contains everything below it.\<close>

lemma above_published:
  assumes "collision_free log" "recorded log d" "recorded log d'" "published d f" "anchor_holds f a" "extends d' a"
  shows "set (rd_history d) \<subseteq> set (rd_history d')"
proof -
  have ok: "replay_ok d" "replay_ok d'" using assms(2,3) by (simp_all add: recorded_def)
  from published_extends [OF ok(1) assms(4)] assms(5)
  have a: "xc_claim_sequence a = int (length (rd_history d))" "extends d a" by (auto dest: anchor_holds_unique)
  let ?n = "length (rd_history d)"
  have "take ?n (rd_history d) = take ?n (rd_history d')"
    by (rule shared_past [OF assms(1-3)]) (use a assms(6) in \<open>auto simp: extends_def\<close>)
  then show ?thesis by (metis set_take_subset take_all_iff order_refl)
qed

lemma guarded_advances:
  assumes "collision_free log" "\<forall>d\<in>set copies. recorded log d" "db \<in> set copies"
    "guarded copies log f r" "f' = f \<or> advances False db f f'"
  shows "guarded copies log f' r"
proof (cases "f' = f")
  case False
  with assms(5) obtain c where c: "published db f'" "xc_claim_sequence c = m_claim_sequence (rd_metadata db)"
    "xc_claim_digest c = m_claim_digest (rd_metadata db)" "admitted False f c (claim_digest_at (rd_history db))"
    by (auto simp: advances_def)
  from c(4) obtain a where a: "anchor_holds f a" by (auto simp: admitted_def anchor_holds_def split: option.splits sum.splits)
  have "extends db a" using admitted_extends [OF _ a c(2-4)] assms(2,3) by (auto simp: recorded_def)
  with assms(3,4) a obtain h where h: "(h, r) \<in> set log" "h \<in> set (rd_history db)" by (auto simp: guarded_def)
  with above_published [OF assms(1) _ _ c(1)] assms(2,3) show ?thesis
    by (auto simp: guarded_def intro!: exI [of _ h])
qed (use assms in simp)

lemma guarded_claimed:
  assumes "collision_free log" "\<forall>d\<in>set copies. recorded log d" "db \<in> set copies" "published db f"
    "(h, r) \<in> set log" "h \<in> set (rd_history db)"
  shows "guarded copies log f r"
  using above_published [OF assms(1) _ _ assms(4)] assms(2,3,5,6) by (auto simp: guarded_def)

lemma guarded_commit:
  assumes "guarded copies log f r" "db \<in> set copies" "replay_ok db" "published db f" "rd_history db1 = rd_history db @ hs"
  shows "guarded (copies @ [db1]) (log @ l) f r"
proof -
  from published_extends [OF assms(3,4)] obtain a where
    a: "anchor_holds f a" "extends db a" by auto
  from assms(1) obtain h where h: "(h, r) \<in> set log"
    "\<forall>a. anchor_holds f a \<longrightarrow> (\<forall>d\<in>set copies. extends d a \<longrightarrow> h \<in> set (rd_history d))" by (auto simp: guarded_def)
  then have "h \<in> set (rd_history db)" using a assms(2) by blast
  then show ?thesis using h assms(5) by (auto simp: guarded_def)
qed

section \<open>Every step keeps the world in order\<close>

definition world_ok :: "world \<Rightarrow> bool" where
  "world_ok w \<longleftrightarrow> st_anchor (wd_store w) \<noteq> None \<and> st_db (wd_store w) \<in> set (wd_copies w)
     \<and> (\<forall>d\<in>set (wd_copies w). recorded (wd_log w) d)"

definition world_guards :: "world \<Rightarrow> Receipt \<Rightarrow> bool" where
  "world_guards w r \<longleftrightarrow> guarded (wd_copies w) (wd_log w) (st_anchor_file (wd_store w)) r"

lemma recorded_mono: "recorded log d \<Longrightarrow> set log \<subseteq> set log' \<Longrightarrow> recorded log' d"
  by (fastforce simp: recorded_def)

lemma guarded_mono: "guarded copies log f r \<Longrightarrow> set copies' \<subseteq> set copies \<Longrightarrow> set log \<subseteq> set log' \<Longrightarrow> guarded copies' log' f r"
  by (fastforce simp: guarded_def)

lemma collision_free_sub: "collision_free log' \<Longrightarrow> set log \<subseteq> set log' \<Longrightarrow> collision_free log"
  by (auto simp: collision_free_def)

lemma reconcile_existing_spec:
  assumes "reconcile_existing False io st = (r, st')"
  shows "st_anchor st' = st_anchor st" "st_db st' = st_db st"
    "st_anchor_file st' = st_anchor_file st \<or> advances False (st_db st) (st_anchor_file st) (st_anchor_file st')"
  using assms by (auto simp: reconcile_existing_def split: prod.splits dest: reconcile_authority_anchor_spec(1))

lemma reopen_spec:
  assumes "reopen integrity_ok io st = (r, st')"
  shows "st_anchor st' = st_anchor st" "st_db st' = st_db st"
    "st_anchor_file st' = st_anchor_file st \<or> advances False (st_db st) (st_anchor_file st) (st_anchor_file st')"
  using assms
  by (auto simp: reopen_def open_store_def Let_def split: prod.splits sum.splits if_splits dest: reconcile_existing_spec)

text \<open>The steps that commit nothing.\<close>

definition quiet :: "replay_db list \<Rightarrow> replay_store \<Rightarrow> replay_store \<Rightarrow> bool" where
  "quiet copies st st' \<longleftrightarrow> st_anchor st' = st_anchor st \<and> st_db st' \<in> insert (st_db st) (set copies)
     \<and> (st_anchor_file st' = st_anchor_file st \<or> advances False (st_db st) (st_anchor_file st) (st_anchor_file st'))"

lemma store_step_cases:
  assumes "store_step ex a copies st = (res, st')" "st_anchor st \<noteq> None"
  obtains (still) "quiet copies st st'" "\<And>c io r. a = Execute c io r \<Longrightarrow> \<not> ok res \<and> st_db st' = st_db st"
  | (committed) c io r f1 where "a = Execute c io r" "verify_receipt ex c r = Inr ()"
      "claim_tx (ex_sha256 ex) r (cr_now_ns c) (cr_uncertainty_ns c) (st_db st) = Inr (st_db st')"
      "cr_now_ns c + cr_uncertainty_ns c < r_expires_at_ns r" "0 \<le> cr_uncertainty_ns c"
      "st_anchor st' = st_anchor st" "advances False (st_db st) (st_anchor_file st) f1"
      "st_anchor_file st' = f1 \<or> advances False (st_db st') f1 (st_anchor_file st')"
      "res = Inr () \<longrightarrow> advances False (st_db st') f1 (st_anchor_file st')"
proof (cases a)
  case (Execute c io r)
  then have "verify_and_claim ex c io r st = (res, st')" using assms(1) by simp
  then show ?thesis
  proof (cases rule: verify_and_claim_cases)
    case (refused e)
    then show ?thesis using that(1) Execute by (auto simp: quiet_def)
  next
    case claimed
    have anchor: "st_anchor st' = st_anchor st" using claimed(1) store_write_static(1) by (metis snd_conv)
    from claimed(1) assms(2) show ?thesis
    proof (cases rule: store_write_cases)
      case (refused e)
      then show ?thesis using that(1) Execute anchor by (auto simp: quiet_def)
    next
      case (committed db1 f1)
      then show ?thesis using that(2) [OF Execute claimed(4) _ claimed(2,3) anchor] by auto
    qed
  qed
qed (use assms that(1) in \<open>auto simp: quiet_def dest: reconcile_existing_spec reopen_spec split: if_splits\<close>)

lemma recorded_commit:
  assumes "recorded log db" "claim_tx sha256 r t u db = Inr db1" "set log \<subseteq> set log'" "(last (rd_history db1), r) \<in> set log'"
  shows "recorded log' db1"
proof -
  have ok: "replay_ok db" using assms(1) by (simp add: recorded_def)
  from assms(2) obtain h where "insert_history (rd_metadata db) h (rd_history db) = Inr (rd_history db1)"
    by (rule claim_tx_effect)
  then have h: "rd_history db1 = rd_history db @ [h]" by (simp add: insert_history_Inr)
  have "\<exists>x. (k, x) \<in> set log' \<and> retired db1 x" if "k \<in> set (rd_history db)" for k
    using assms(1,3) that claim_tx_keeps_retired [OF assms(2) ok] by (fastforce simp: recorded_def)
  then show ?thesis
    using h assms(4) claim_tx_retires [OF assms(2)] claim_tx_replay_ok [OF assms(2) ok] by (auto simp: recorded_def)
qed

lemma claim_tx_history: "claim_tx sha256 r t u db = Inr db' \<Longrightarrow> \<exists>h. rd_history db' = rd_history db @ [h]"
  by (erule claim_tx_effect) (auto simp: insert_history_Inr)

lemma exec_step_ok:
  assumes "world_ok w" "exec_step ex a w = (res, w')" "collision_free (wd_log w')"
  shows "world_ok w'" "world_guards w x \<Longrightarrow> world_guards w' x"
    "a = Execute c io r \<Longrightarrow> res = Inr () \<Longrightarrow> world_guards w' r"
proof -
  let ?st = "wd_store w" and ?st' = "wd_store w'" and ?l = "committed a (st_db (wd_store w)) (st_db (wd_store w'))"
  have s: "store_step ex a (wd_copies w) ?st = (res, ?st')"
    and w': "wd_copies w' = wd_copies w @ [st_db ?st']" "wd_log w' = wd_log w @ ?l"
    using assms(2) by (auto simp: exec_step_def Let_def split: prod.splits)
  have anchored: "st_anchor ?st \<noteq> None" and db: "st_db ?st \<in> set (wd_copies w)"
    and rec: "\<forall>d\<in>set (wd_copies w). recorded (wd_log w) d" using assms(1) by (auto simp: world_ok_def)
  have cf: "collision_free (wd_log w)" using assms(3) w'(2) by (auto intro: collision_free_sub)
  have "world_ok w' \<and> (world_guards w x \<longrightarrow> world_guards w' x) \<and> (a = Execute c io r \<and> res = Inr () \<longrightarrow> world_guards w' r)"
    using s anchored
  proof (cases rule: store_step_cases)
    case still
    then have copies: "set (wd_copies w') = set (wd_copies w)" using w'(1) db by (auto simp: quiet_def)
    have "world_ok w'"
      using still(1) assms(1) copies w' by (auto simp: world_ok_def quiet_def intro: recorded_mono)
    moreover have "world_guards w' x" if "world_guards w x"
      using guarded_advances [OF cf rec db that [unfolded world_guards_def], of "st_anchor_file ?st'"] still(1) copies w'(2)
      by (auto simp: world_guards_def quiet_def intro: guarded_mono)
    ultimately show ?thesis using still(2) by auto
  next
    case (committed c' io' r' f1)
    obtain h where h: "rd_history (st_db ?st') = rd_history (st_db ?st) @ [h]" using claim_tx_history [OF committed(3)] by auto
    have log: "(h, r') \<in> set (wd_log w')" using committed(1) h w'(2) by simp
    have rec': "\<forall>d\<in>set (wd_copies w'). recorded (wd_log w') d"
      using rec db log h w' recorded_commit [OF _ committed(3), of "wd_log w" "wd_log w'"]
      by (auto intro: recorded_mono)
    have mem: "st_db ?st' \<in> set (wd_copies w')" by (simp add: w'(1))
    have pub: "published (st_db ?st) f1" using committed(7) by (simp add: advances_def)
    have "world_guards w' x" if "world_guards w x"
    proof -
      have "guarded (wd_copies w) (wd_log w) f1 x"
        using guarded_advances [OF cf rec db that [unfolded world_guards_def]] committed(7) by blast
      then have "guarded (wd_copies w') (wd_log w') f1 x"
        unfolding w' using rec db pub h by (auto simp: recorded_def intro: guarded_commit)
      then show ?thesis
        using guarded_advances [OF assms(3) rec' mem] committed(8) by (auto simp: world_guards_def)
    qed
    moreover have "world_guards w' r'" if "res = Inr ()"
      using guarded_claimed [OF assms(3) rec' mem _ log] h committed(9) that by (auto simp: world_guards_def advances_def)
    moreover have "world_ok w'" using rec' mem committed(6) anchored by (simp add: world_ok_def)
    ultimately show ?thesis using committed(1) by auto
  qed
  then show "world_ok w'" "world_guards w x \<Longrightarrow> world_guards w' x"
    "a = Execute c io r \<Longrightarrow> res = Inr () \<Longrightarrow> world_guards w' r" by auto
qed

section \<open>Whole runs\<close>

lemma exec_step_log: "exec_step ex a w = (res, w') \<Longrightarrow> set (wd_log w) \<subseteq> set (wd_log w')"
  by (auto simp: exec_step_def Let_def split: prod.splits)

lemma exec_run_log: "set (wd_log w) \<subseteq> set (wd_log (exec_run ex as w))"
proof (induction as arbitrary: w)
  case (Cons a as)
  then show ?case using exec_step_log [of ex a w] by (cases "exec_step ex a w") fastforce
qed simp

lemma exec_run_ok:
  assumes "world_ok w" "collision_free (wd_log (exec_run ex as w))"
  shows "world_ok (exec_run ex as w)" "world_guards w x \<Longrightarrow> world_guards (exec_run ex as w) x"
proof -
  have "world_ok (exec_run ex as w) \<and> (world_guards w x \<longrightarrow> world_guards (exec_run ex as w) x)"
    using assms
  proof (induction as arbitrary: w)
    case (Cons a as)
    obtain res w' where s: "exec_step ex a w = (res, w')" by fastforce
    then have cf: "collision_free (wd_log w')"
      using Cons.prems(2) exec_run_log [of w' ex as] by (auto intro: collision_free_sub)
    show ?case
      using Cons.IH [of w'] Cons.prems(2) exec_step_ok [OF Cons.prems(1) s cf] s by auto
  qed simp
  then show "world_ok (exec_run ex as w)" "world_guards w x \<Longrightarrow> world_guards (exec_run ex as w) x" by auto
qed

lemma guarded_retired:
  assumes "collision_free log" "\<forall>d\<in>set copies. recorded log d" "db \<in> set copies" "guarded copies log f x" "advances False db f f'"
  shows "retired db x"
proof -
  from assms(5) obtain c where c: "xc_claim_sequence c = m_claim_sequence (rd_metadata db)"
    "xc_claim_digest c = m_claim_digest (rd_metadata db)" "admitted False f c (claim_digest_at (rd_history db))"
    by (auto simp: advances_def)
  from c(3) obtain a where a: "anchor_holds f a" by (auto simp: admitted_def anchor_holds_def split: option.splits sum.splits)
  have "extends db a" using admitted_extends [OF _ a c] assms(2,3) by (auto simp: recorded_def)
  with assms(3,4) a obtain h where h: "(h, x) \<in> set log" "h \<in> set (rd_history db)" by (auto simp: guarded_def)
  then obtain y where "(h, y) \<in> set log" "retired db y" using assms(2,3) by (fastforce simp: recorded_def)
  with h(1) assms(1) show ?thesis by (fastforce simp: collision_free_def)
qed

lemma guarded_execute:
  assumes "world_ok w" "world_guards w x" "exec_step ex (Execute c io r) w = (Inr (), w')" "collision_free (wd_log w)"
  shows "r_receipt_id r = r_receipt_id x \<or> receipt_nonce_key r = receipt_nonce_key x \<Longrightarrow> r_expires_at_ns x < r_expires_at_ns r"
    "receipt_lease_key r = receipt_lease_key x \<Longrightarrow>
       r_resulting_sequence x < r_resulting_sequence r \<or> r_expires_at_ns x < r_expires_at_ns r"
proof -
  have s: "store_step ex (Execute c io r) (wd_copies w) (wd_store w) = (Inr (), wd_store w')"
    using assms(3) by (auto simp: exec_step_def Let_def split: prod.splits)
  note cf = assms(4)
  have anchored: "st_anchor (wd_store w) \<noteq> None" and db: "st_db (wd_store w) \<in> set (wd_copies w)"
    and rec: "\<forall>d\<in>set (wd_copies w). recorded (wd_log w) d" using assms(1) by (auto simp: world_ok_def)
  from s anchored have "(r_receipt_id r = r_receipt_id x \<or> receipt_nonce_key r = receipt_nonce_key x \<longrightarrow> r_expires_at_ns x < r_expires_at_ns r) \<and>
    (receipt_lease_key r = receipt_lease_key x \<longrightarrow>
       r_resulting_sequence x < r_resulting_sequence r \<or> r_expires_at_ns x < r_expires_at_ns r)"
  proof (cases rule: store_step_cases)
    case (committed c' io' r' f1)
    have "retired (st_db (wd_store w)) x"
      using guarded_retired [OF cf rec db _ committed(7)] assms(2) by (simp add: world_guards_def)
    moreover have "replay_ok (st_db (wd_store w))" using rec db by (simp add: recorded_def)
    ultimately show ?thesis using retired_blocks [OF committed(3) _ _ committed(4,5)] committed(1) by blast
  qed auto
  then show "r_receipt_id r = r_receipt_id x \<or> receipt_nonce_key r = receipt_nonce_key x \<Longrightarrow> r_expires_at_ns x < r_expires_at_ns r"
    "receipt_lease_key r = receipt_lease_key x \<Longrightarrow>
       r_resulting_sequence x < r_resulting_sequence r \<or> r_expires_at_ns x < r_expires_at_ns r" by blast+
qed

lemma initial_world_ok:
  assumes "initialize_store (Some kind) allow (Some identity) instance_id io f = Inr st"
  shows "world_ok (world_of st)"
proof -
  have "st_anchor st \<noteq> None" "st_db st = empty_replay_db (Some kind) (Some identity) instance_id"
    using assms by (auto simp: initialize_store_def Let_def res_simps reconcile_existing_def split: prod.splits sum.splits)
  then show ?thesis
    using replay_ok_empty [of "Some kind" "Some identity" instance_id]
    by (simp add: world_ok_def world_of_def recorded_def) (simp add: empty_replay_db_def)
qed

text \<open>The receipt that was executed, and what is refused from then on.\<close>

lemma executed_receipt_guarded:
  assumes "initialize_store (Some kind) allow (Some identity) instance_id io0 f0 = Inr st"
    "w1 = exec_run ex before (world_of st)" "exec_step ex (Execute c io r) w1 = (Inr (), w2)"
    "w3 = exec_run ex after w2" "collision_free (wd_log w3)"
  shows "world_ok w3" "world_guards w3 r"
proof -
  have cf2: "collision_free (wd_log w2)" using assms(4,5) exec_run_log by (metis collision_free_sub)
  have cf1: "collision_free (wd_log w1)" using collision_free_sub [OF cf2 exec_step_log [OF assms(3)]] .
  have ok1: "world_ok w1" using exec_run_ok(1) [OF initial_world_ok [OF assms(1)]] cf1 assms(2) by blast
  note s = exec_step_ok [OF ok1 assms(3) cf2]
  show "world_ok w3" "world_guards w3 r"
    using exec_run_ok [OF s(1)] s(3) assms(4,5) by blast+
qed

definition reuses :: "Receipt \<Rightarrow> Receipt \<Rightarrow> bool" where
  "reuses r' r \<longleftrightarrow> r_expires_at_ns r' \<le> r_expires_at_ns r \<and>
     (r_receipt_id r' = r_receipt_id r \<or> receipt_nonce_key r' = receipt_nonce_key r
      \<or> (receipt_lease_key r' = receipt_lease_key r \<and> r_resulting_sequence r' \<le> r_resulting_sequence r))"

lemma guarded_refuses:
  assumes "world_ok w" "world_guards w r" "collision_free (wd_log w)" "reuses r' r"
  shows "\<not> ok (fst (exec_step ex (Execute c' io' r') w))"
proof
  assume "ok (fst (exec_step ex (Execute c' io' r') w))"
  then obtain w' where "exec_step ex (Execute c' io' r') w = (Inr (), w')"
    by (cases "exec_step ex (Execute c' io' r') w") (auto simp: ok_iff)
  from guarded_execute [OF assms(1,2) this assms(3)] assms(4) show False by (auto simp: reuses_def)
qed

section \<open>Runs without a restored copy\<close>

text \<open>
  As long as nobody puts an old database back, the database alone retires the
  receipts: with or without an anchor, and whatever the hash function does.
\<close>

fun restoring :: "executor_action \<Rightarrow> bool" where
  "restoring (Restore n) = True"
| "restoring _ = False"

lemma store_write_db:
  assumes "store_write io body st = (r, st')"
  shows "st_db st' = st_db st \<or> body (st_db st) = Inr (st_db st')" "r = Inr u \<Longrightarrow> body (st_db st) = Inr (st_db st')"
  using assms by (auto simp: store_write_def split: if_splits prod.splits sum.splits)

lemma store_step_db:
  assumes "store_step ex a copies st = (res, st')" "\<forall>n. a \<noteq> Restore n"
  shows "st_db st' = st_db st \<or> (\<exists>r t u. claim_tx (ex_sha256 ex) r t u (st_db st) = Inr (st_db st'))"
proof (cases a)
  case (Execute c io r)
  then have "verify_and_claim ex c io r st = (res, st')" using assms(1) by simp
  then show ?thesis by (cases rule: verify_and_claim_cases) (auto dest: store_write_db(1))
qed (use assms in \<open>auto dest: reconcile_existing_spec(2) reopen_spec(2)\<close>)

lemma verify_and_claim_commits:
  assumes "verify_and_claim ex c io r st = (Inr u, st')"
  shows "claim_tx (ex_sha256 ex) r (cr_now_ns c) (cr_uncertainty_ns c) (st_db st) = Inr (st_db st')"
    "cr_now_ns c + cr_uncertainty_ns c < r_expires_at_ns r" "0 \<le> cr_uncertainty_ns c" "verify_receipt ex c r = Inr ()"
  using assms by (cases rule: verify_and_claim_cases; auto dest: store_write_db(2))+

lemma exec_step_unrestored:
  assumes "exec_step ex a w = (res, w')" "\<forall>n. a \<noteq> Restore n" "replay_ok (st_db (wd_store w))"
  shows "replay_ok (st_db (wd_store w'))" "retired (st_db (wd_store w)) x \<Longrightarrow> retired (st_db (wd_store w')) x"
proof -
  have "store_step ex a (wd_copies w) (wd_store w) = (res, wd_store w')"
    using assms(1) by (auto simp: exec_step_def Let_def split: prod.splits)
  from store_step_db [OF this assms(2)] assms(3)
  show "replay_ok (st_db (wd_store w'))" "retired (st_db (wd_store w)) x \<Longrightarrow> retired (st_db (wd_store w')) x"
    by (auto dest: claim_tx_replay_ok claim_tx_keeps_retired)
qed

lemma exec_run_unrestored:
  assumes "\<forall>a\<in>set as. \<forall>n. a \<noteq> Restore n" "replay_ok (st_db (wd_store w))"
  shows "replay_ok (st_db (wd_store (exec_run ex as w)))"
    "retired (st_db (wd_store w)) x \<Longrightarrow> retired (st_db (wd_store (exec_run ex as w))) x"
proof -
  have "replay_ok (st_db (wd_store (exec_run ex as w)))
      \<and> (retired (st_db (wd_store w)) x \<longrightarrow> retired (st_db (wd_store (exec_run ex as w))) x)"
    using assms
  proof (induction as arbitrary: w)
    case (Cons a as)
    obtain res w' where s: "exec_step ex a w = (res, w')" by fastforce
    show ?case using Cons.IH [of w'] Cons.prems exec_step_unrestored [OF s] s by auto
  qed simp
  then show "replay_ok (st_db (wd_store (exec_run ex as w)))"
    "retired (st_db (wd_store w)) x \<Longrightarrow> retired (st_db (wd_store (exec_run ex as w))) x" by auto
qed

lemma claimed_receipt_retired:
  assumes "initialize_store anchor allow identity instance_id io0 f0 = Inr st"
    "w1 = exec_run ex before (world_of st)" "exec_step ex (Execute c io r) w1 = (Inr (), w2)"
    "w3 = exec_run ex after w2" "\<not> list_ex restoring (before @ after)"
  shows "replay_ok (st_db (wd_store w3))" "retired (st_db (wd_store w3)) r"
proof -
  have nr: "\<forall>a\<in>set before. \<forall>n. a \<noteq> Restore n" "\<forall>a\<in>set after. \<forall>n. a \<noteq> Restore n"
    using assms(5) by (force simp: list_ex_iff)+
  have "st_db st = empty_replay_db anchor identity instance_id"
    using assms(1) by (auto simp: initialize_store_def Let_def res_simps reconcile_existing_def split: prod.splits sum.splits if_splits)
  then have "replay_ok (st_db (wd_store (world_of st)))" by (simp add: world_of_def replay_ok_empty)
  then have ok1: "replay_ok (st_db (wd_store w1))" using exec_run_unrestored(1) [OF nr(1)] assms(2) by blast
  have "verify_and_claim ex c io r (wd_store w1) = (Inr (), wd_store w2)"
    using assms(3) by (auto simp: exec_step_def Let_def split: prod.splits)
  note tx = verify_and_claim_commits(1) [OF this]
  show "replay_ok (st_db (wd_store w3))" "retired (st_db (wd_store w3)) r"
    using exec_run_unrestored [OF nr(2) claim_tx_replay_ok [OF tx ok1]] claim_tx_retires [OF tx] assms(4) by blast+
qed

lemma retired_refuses:
  assumes "replay_ok (st_db (wd_store w))" "retired (st_db (wd_store w)) r" "reuses r' r"
  shows "\<not> ok (fst (exec_step ex (Execute c' io' r') w))"
proof
  assume "ok (fst (exec_step ex (Execute c' io' r') w))"
  then obtain st' where "verify_and_claim ex c' io' r' (wd_store w) = (Inr (), st')"
    by (cases "verify_and_claim ex c' io' r' (wd_store w)") (auto simp: exec_step_def ok_iff)
  note tx = verify_and_claim_commits [OF this]
  from retired_blocks [OF tx(1) assms(1,2) tx(2,3)] assms(3) show False by (auto simp: reuses_def)
qed

section \<open>Restarts\<close>

lemma claim_tx_admits:
  assumes "claim_tx sha256 r t u db = Inr db'" "replay_ok db" "verify_existing anchor db = Inr identity"
  shows "verify_existing anchor db' = Inr identity"
proof -
  from assms(1) obtain h where m: "rd_metadata db' = claim_head db r t h"
    and h: "insert_history (rd_metadata db) h (rd_history db) = Inr (rd_history db')" by (rule claim_tx_effect)
  have chain: "verify_claim_chain (rd_history db') (m_claim_sequence (rd_metadata db')) (m_claim_digest (rd_metadata db')) = Inr ()"
    by (rule replay_ok_chain [OF claim_tx_replay_ok [OF assms(1,2)]])
  have "m_claim_sequence (rd_metadata db') \<ge> 0" "length (m_claim_digest (rd_metadata db')) = 32"
    using h m by (auto simp: insert_history_Inr claim_head_def)
  with chain assms(3) m show ?thesis
    by (auto simp: verify_existing_def Let_def rbind_Inr_iff claim_head_def split: if_splits)
qed

text \<open>Every database that was ever on disk is one that \<open>_verify_existing\<close> admits.\<close>

definition reopenable :: "ExecutorReplayIdentity option \<Rightarrow> world \<Rightarrow> bool" where
  "reopenable identity w \<longleftrightarrow> st_identity (wd_store w) = identity \<and> st_db (wd_store w) \<in> set (wd_copies w) \<and>
     (\<forall>d\<in>set (wd_copies w). replay_ok d \<and> verify_existing (st_anchor (wd_store w)) d = Inr identity)"

lemma reopen_static:
  assumes "reopen integrity_ok io st = (r, st')" "verify_existing (st_anchor st) (st_db st) = Inr (st_identity st)"
  shows "st_identity st' = st_identity st" "st_anchor st' = st_anchor st"
proof -
  show "st_anchor st' = st_anchor st" by (rule reopen_spec(1) [OF assms(1)])
  obtain v where v: "rbind (constructor_checks (st_anchor st) (st_anchor st = None) None False)
      (\<lambda>_. verify_existing (st_anchor st) (st_db st)) = v" "v = Inr (st_identity st) \<or> (\<exists>e. v = Inl e)"
    using assms(2) by (cases "constructor_checks (st_anchor st) (st_anchor st = None) None False") auto
  then show "st_identity st' = st_identity st"
    using assms(1)
    by (auto simp: reopen_def open_store_def v(1) Let_def reconcile_existing_def split: prod.splits sum.splits if_splits)
qed

lemma exec_step_reopenable:
  assumes "exec_step ex a w = (res, w')" "reopenable identity w"
  shows "reopenable identity w'"
proof -
  let ?st = "wd_store w" and ?st' = "wd_store w'"
  have s: "store_step ex a (wd_copies w) ?st = (res, ?st')" and c: "wd_copies w' = wd_copies w @ [st_db ?st']"
    using assms(1) by (auto simp: exec_step_def Let_def split: prod.splits)
  have static: "st_identity ?st' = st_identity ?st \<and> st_anchor ?st' = st_anchor ?st"
  proof (cases a)
    case (Execute c io r)
    then have "verify_and_claim ex c io r ?st = (res, ?st')" using s by simp
    then show ?thesis
    proof (cases rule: verify_and_claim_cases)
      case claimed
      then show ?thesis by (metis store_write_static snd_conv)
    qed simp
  next
    case (Inspect io)
    then show ?thesis using s by (auto simp: reconcile_existing_def split: prod.splits dest!: sym [of _ ?st'])
  next
    case (Reopen integrity_ok io)
    then show ?thesis using s assms(2) reopen_static [of integrity_ok io ?st res ?st'] by (auto simp: reopenable_def)
  next
    case (Restore n)
    then show ?thesis using s by (auto split: if_splits dest!: sym [of _ ?st'])
  qed
  show ?thesis
  proof (cases "\<exists>n. a = Restore n")
    case True
    then have "st_db ?st' \<in> set (wd_copies w)"
      using s assms(2) by (auto simp: reopenable_def split: if_splits dest!: sym [of _ ?st'])
    then show ?thesis using assms(2) c static by (auto simp: reopenable_def)
  next
    case False
    then show ?thesis
      using store_step_db [OF s] assms(2) c static
      by (auto simp: reopenable_def intro: claim_tx_replay_ok claim_tx_admits)
  qed
qed

lemma exec_run_reopenable: "reopenable identity w \<Longrightarrow> reopenable identity (exec_run ex as w)"
  by (induction as arbitrary: w) (auto dest: exec_step_reopenable [OF prod.collapse [symmetric]])

lemma initial_reopenable:
  assumes "initialize_store anchor allow identity instance_id io f = Inr st" "length instance_id = 32"
    "\<forall>i. identity = Some i \<longrightarrow> ok (ExecutorReplayIdentity_post_init i)"
  shows "reopenable identity (world_of st)"
proof -
  have st: "st_anchor st = anchor" "st_identity st = identity" "st_db st = empty_replay_db anchor identity instance_id"
    and i: "anchor \<noteq> None \<Longrightarrow> identity \<noteq> None"
    using assms(1)
    by (auto simp: initialize_store_def constructor_checks_def Let_def res_simps reconcile_existing_def
        split: prod.splits sum.splits if_splits)
  have p: "ExecutorReplayIdentity_post_init x = Inr x" "length (xi_executor_policy_sha256 x) = 32"
    "length (xi_trust_registry_sha256 x) = 32" if "identity = Some x" for x
    using assms(3) that by (auto simp: identity_post_init_Inr) (auto simp: ok_iff ExecutorReplayIdentity_post_init_def rbind_Inr_iff split: if_splits)
  have "verify_claim_chain [] 0 zero_hash = Inr ()" by (simp add: verify_claim_chain_def zero_hash_def)
  then have "verify_existing anchor (empty_replay_db anchor identity instance_id) = Inr identity"
    using assms(2) i p by (cases identity; cases anchor) (auto simp: verify_existing_def empty_replay_db_def SCHEMA_VERSION_def Let_def zero_hash_def)
  then show ?thesis using st by (simp add: reopenable_def world_of_def replay_ok_empty)
qed

section \<open>When claims are refused\<close>

lemma not_extends_refused:
  assumes "verify_and_claim ex c io r st = (res, st')" "st_anchor st \<noteq> None" "replay_ok (st_db st)"
    "anchor_holds (st_anchor_file st) a" "\<not> extends (st_db st) a"
  shows "\<not> ok res" "st_db st' = st_db st" "st_anchor_file st' = st_anchor_file st"
proof -
  have no: "\<not> advances False (st_db st) (st_anchor_file st) f" for f
    using admitted_extends [OF assms(3,4)] assms(5) by (auto simp: advances_def)
  have "\<not> ok res \<and> st_db st' = st_db st \<and> st_anchor_file st' = st_anchor_file st"
    using assms(1)
  proof (cases rule: verify_and_claim_cases)
    case claimed
    from claimed(1) assms(2) show ?thesis by (cases rule: store_write_cases) (auto simp: no)
  qed simp
  then show "\<not> ok res" "st_db st' = st_db st" "st_anchor_file st' = st_anchor_file st" by auto
qed

text \<open>A store object whose anchor failed for good, or whose retry time has not come.\<close>

definition faulted :: "int \<Rightarrow> authority_health \<Rightarrow> bool" where
  "faulted now h \<longleftrightarrow> ah_state h = AuthPermanent \<or>
     (ah_state h = AuthRecoverable \<and> (\<forall>t. ah_retry_not_before h = Some t \<longrightarrow> now < t))"

lemma faulted_reconcile:
  assumes "faulted (io_now io) h" "anchor \<noteq> None"
  shows "reconcile_authority_anchor anchor stage initialize io identity db h f = (Inl StorageError, h, f)"
  using assms by (auto simp: reconcile_authority_anchor_def faulted_def split: option.splits)

lemma faulted_claim:
  assumes "verify_and_claim ex c io r st = (res, st')" "st_anchor st \<noteq> None" "faulted (io_now (ci_pre io)) (st_health st)"
  shows "\<not> ok res" "st' = st"
proof -
  have "\<not> ok res \<and> st' = st"
    using assms(1)
  proof (cases rule: verify_and_claim_cases)
    case claimed
    then show ?thesis
      using faulted_reconcile [OF assms(3,2), of "''pre_begin''" False "st_identity st" "st_db st" "st_anchor_file st"]
      by (auto simp: store_write_def split: if_splits)
  qed simp
  then show "\<not> ok res" "st' = st" by auto
qed

section \<open>When a claim returns\<close>

lemma reconcile_healthy:
  assumes "reconcile_authority_anchor anchor stage initialize io identity db h f = (Inr u, h', f')" "anchor \<noteq> None"
    "ah_state h \<noteq> AuthDisabled"
  shows "ah_state h' = AuthHealthy"
  using assms
  by (cases "ah_state h") (auto simp: reconcile_authority_anchor_def Let_def split: option.splits if_splits prod.splits sum.splits)

lemma reconcile_not_disabled:
  assumes "reconcile_authority_anchor anchor stage initialize io identity db h f = (r, h', f')" "ah_state h \<noteq> AuthDisabled"
  shows "ah_state h' \<noteq> AuthDisabled"
  using assms
  by (auto simp: reconcile_authority_anchor_def Let_def anchor_failed_def arm_authority_transport_fault_def
      promote_authority_permanent_fault_def split: option.splits if_splits prod.splits sum.splits anchor_exn.splits)

lemma claim_returns:
  assumes "verify_and_claim ex c io r st = (Inr u, st')" "st_anchor st \<noteq> None" "ah_state (st_health st) \<noteq> AuthDisabled"
  shows "published (st_db st') (st_anchor_file st')" "ah_state (st_health st') = AuthHealthy"
proof -
  have sw: "store_write io (claim_tx (ex_sha256 ex) r (cr_now_ns c) (cr_uncertainty_ns c)) st = (Inr u, st')"
    using assms(1) by (cases rule: verify_and_claim_cases) auto
  then show "published (st_db st') (st_anchor_file st')"
    using assms(2) by (cases rule: store_write_cases) (auto simp: advances_def)
  show "ah_state (st_health st') = AuthHealthy"
    using sw assms(2,3)
    by (auto simp: store_write_def split: if_splits prod.splits sum.splits dest: reconcile_healthy reconcile_not_disabled)
qed

end
