(* ===== verification/Executor_Demo.thy ===== *)
theory Executor_Demo
  imports Executor_Runs Demo
begin

text \<open>
  A concrete executor for the receipts of the concrete warden: its store has
  just been created with a file anchor, it accepts one receipt, and then the
  operator puts the empty database back.
\<close>

definition demo_receipt :: Receipt where
  "demo_receipt = \<lparr>r_tenant_id = ''t'', r_envelope_id = ''e'', r_config_epoch = 1, r_receipt_id = ''R'', r_request_id = ''r1'',
     r_warden_id = ''w1'', r_key_id = ''k1'', r_policy_id = ''p'', r_policy_version = ''v'', r_policy_digest = demo_digest,
     r_machine_digest = demo_digest, r_lease_id = ''L'', r_lineage_id = ''N'', r_subject_id = ''adm'',
     r_executor_audience = ''aud'', r_transition = ''go'', r_source_state = ''s0'', r_target_state = ''s1'', r_cost = [3],
     r_resulting_sequence = 1, r_evidence_digest = None, r_nonce = ''0123456789abcdef'', r_issued_at_ns = 100,
     r_expires_at_ns = 150, r_signature = JStr ''AQ''\<rparr>"

definition demo_key :: trusted_key where
  "demo_key = \<lparr>tk_warden_id = ''w1'', tk_key_id = ''k1'', tk_public_key = replicate 32 0, tk_not_before_ns = None,
     tk_not_after_ns = Some 1000\<rparr>"

definition demo_executor :: executor where
  "demo_executor = \<lparr>ex_sha256 = demo_sha, ex_ed25519 = (\<lambda>_ _ s. s = [1]),
     ex_registry = \<lparr>pk_keys = [demo_key], pk_identity_by_material = [(replicate 32 0, (''w1'', ''k1''))]\<rparr>,
     ex_policy = \<lparr>xp_audience = ''aud'', xp_tenant_id = Some ''t'', xp_envelope_id = Some ''e'', xp_config_epoch = Some 1,
       xp_allowed_policy_digests = [], xp_allowed_machine_digests = [], xp_trusted_wardens = [''w1''],
       xp_max_clock_uncertainty_ns = 5\<rparr>\<rparr>"

definition demo_identity :: ExecutorReplayIdentity where
  "demo_identity = \<lparr>xi_audience = ''aud'', xi_tenant_id = ''t'', xi_envelope_id = ''e'', xi_config_epoch = 1,
     xi_executor_policy_sha256 = demo_sha [], xi_trust_registry_sha256 = demo_sha []\<rparr>"

definition demo_anchor_io :: anchor_io where
  "demo_anchor_io = \<lparr>io_file = FileOk, io_calls = [], io_now = 0, io_fault_at = 0\<rparr>"

definition demo_claim_io :: claim_io where
  "demo_claim_io = \<lparr>ci_begin_ok = True, ci_pre = demo_anchor_io, ci_disk_ok = True, ci_rebegin_ok = True, ci_post = demo_anchor_io\<rparr>"

definition demo_clock :: clock_readings where
  "demo_clock = \<lparr>cr_now_ns = 120, cr_uncertainty_ns = 5, cr_registry_now_ns = 120, cr_registry_uncertainty_ns = 5\<rparr>"

definition demo_head :: "int \<Rightarrow> int option \<Rightarrow> ExecutorAuthorityCheckpoint" where
  "demo_head n floor = \<lparr>xc_identity = demo_identity, xc_schema_version = 5, xc_database_instance_id = demo_sha [],
     xc_claim_sequence = n, xc_claim_digest = demo_sha [], xc_clock_floor_ns = floor\<rparr>"

definition demo_metadata :: "int \<Rightarrow> int option \<Rightarrow> replay_metadata" where
  "demo_metadata n floor = \<lparr>m_schema_version = 5, m_anchored = True, m_identity = Some demo_identity,
     m_database_instance_id = demo_sha [], m_claim_sequence = n, m_claim_digest = demo_sha [], m_clock_floor_ns = floor\<rparr>"

definition demo_row :: history_row where
  "demo_row = \<lparr>h_sequence = 1, h_previous_digest = demo_sha [], h_claim_digest = demo_sha [], h_receipt_digest = demo_sha [],
     h_receipt_id = ''R'', h_claimed_at_ns = 120, h_clock_floor_ns = 120\<rparr>"

definition demo_claimed_db :: replay_db where
  "demo_claimed_db = \<lparr>rd_metadata = demo_metadata 1 (Some 120), rd_claims = [claim_of demo_receipt 120],
     rd_watermarks = [watermark_of demo_receipt 120], rd_history = [demo_row]\<rparr>"

definition demo_store :: replay_store where
  "demo_store = \<lparr>st_anchor = Some FileAnchor, st_identity = Some demo_identity, st_health = health_init (Some FileAnchor),
     st_db = empty_replay_db (Some FileAnchor) (Some demo_identity) (demo_sha []),
     st_anchor_file = Some (write_executor (demo_head 0 None))\<rparr>"

definition demo_claimed :: replay_store where
  "demo_claimed = demo_store\<lparr>st_db := demo_claimed_db, st_anchor_file := Some (write_executor (demo_head 1 (Some 120)))\<rparr>"

lemma demo_sha_zero: "demo_sha x = zero_hash" "length zero_hash = 32"
  by (simp_all add: demo_sha_def zero_hash_def)

lemma demo_identity_ok: "ExecutorReplayIdentity_post_init demo_identity = Inr demo_identity"
  by (simp add: ExecutorReplayIdentity_post_init_def demo_identity_def demo_sha_zero anchor_integer_def MAX_RESOURCE_def
      require_identifier_def require_identifier_max_def py_strip_def is_space_def)

lemma demo_head_ok: "checkpoint_ok (demo_head 0 None)" "checkpoint_ok (demo_head 1 (Some 120))"
  by (simp_all add: checkpoint_ok_def demo_identity_ok demo_head_def Checkpoint_post_init_def anchor_integer_def
      MAX_RESOURCE_def demo_sha_zero)

lemma demo_checkpoints:
  "authority_checkpoint (Some demo_identity) (rd_metadata (empty_replay_db (Some FileAnchor) (Some demo_identity) (demo_sha []))) = Inr (demo_head 0 None)"
  "authority_checkpoint (Some demo_identity) (demo_metadata 1 (Some 120)) = Inr (demo_head 1 (Some 120))"
  using demo_head_ok demo_identity_ok
  by (simp_all add: authority_checkpoint_def empty_replay_db_def demo_metadata_def demo_identity_def [symmetric] demo_sha_zero SCHEMA_VERSION_def
      checkpoint_ok_def checkpoint_post_init_Inr demo_head_def) (simp_all add: demo_identity_def demo_sha_zero)

lemma demo_initialized:
  "initialize_store (Some FileAnchor) False (Some demo_identity) (demo_sha []) demo_anchor_io None = Inr demo_store"
  by (simp add: initialize_store_def constructor_checks_def reconcile_existing_def reconcile_authority_anchor_def health_init_def
      anchor_attempt_def demo_checkpoints invoke_authority_reconcile_def file_reconcile_def file_reconcile_steps_def
      demo_anchor_io_def demo_store_def)

lemma demo_claim_tx:
  "claim_tx demo_sha demo_receipt 120 5 (empty_replay_db (Some FileAnchor) (Some demo_identity) (demo_sha [])) = Inr demo_claimed_db"
  by (simp add: claim_tx_def empty_replay_db_def gc_claims_def gc_watermarks_def insert_claim_def upsert_watermark_def
      watermark_checks_def insert_history_def update_head_def receipt_digest_of_def canonical_json_eval tinsert_def tfind_def
      demo_receipt_def claim_of_def watermark_of_def demo_claimed_db_def demo_metadata_def demo_row_def floor_after_def
      demo_sha_zero MAX_RESOURCE_def SCHEMA_VERSION_def Receipt_to_dict_def Receipt_unsigned_payload_def claim_event_def jvec_def
      jopt_def Let_def)

lemma demo_verifies: "verify_receipt demo_executor demo_clock demo_receipt = Inr ()"
  by (simp add: verify_receipt_def clock_interval_def verify_at_def demo_executor_def demo_clock_def demo_receipt_def
      canonical_json_eval Receipt_unsigned_payload_def jvec_def jopt_def registry_verify_def tfind_def demo_key_def key_identity_def
      entry_is_current_def demo_facts MAX_RESOURCE_def)

lemma demo_reconciled:
  "file_reconcile FileOk (demo_head 0 None) g False (Some (write_executor (demo_head 0 None))) = (Inr (), Some (write_executor (demo_head 0 None)))"
  "file_reconcile FileOk (demo_head 1 (Some 120)) g False (Some (write_executor (demo_head 0 None))) =
     (Inr (), Some (write_executor (demo_head 1 (Some 120))))"
  by (simp_all add: file_reconcile_def file_reconcile_steps_def read_write_executor demo_head_ok requires_advance_def
      stable_identity_def floor_behind_def) (simp_all add: demo_head_def demo_sha_zero)

lemma demo_anchored:
  "reconcile_authority_anchor (Some FileAnchor) stage False demo_anchor_io (Some demo_identity)
     (empty_replay_db (Some FileAnchor) (Some demo_identity) (demo_sha [])) (health_init (Some FileAnchor))
     (Some (write_executor (demo_head 0 None)))
   = (Inr (), health_init (Some FileAnchor), Some (write_executor (demo_head 0 None)))"
  "reconcile_authority_anchor (Some FileAnchor) stage False demo_anchor_io (Some demo_identity)
     demo_claimed_db (health_init (Some FileAnchor)) (Some (write_executor (demo_head 0 None)))
   = (Inr (), health_init (Some FileAnchor), Some (write_executor (demo_head 1 (Some 120))))"
proof -
  have "rd_metadata demo_claimed_db = demo_metadata 1 (Some 120)" by (simp add: demo_claimed_db_def)
  then show "reconcile_authority_anchor (Some FileAnchor) stage False demo_anchor_io (Some demo_identity)
     demo_claimed_db (health_init (Some FileAnchor)) (Some (write_executor (demo_head 0 None)))
   = (Inr (), health_init (Some FileAnchor), Some (write_executor (demo_head 1 (Some 120))))"
    by (simp add: reconcile_authority_anchor_def anchor_attempt_def demo_checkpoints invoke_authority_reconcile_def
        demo_anchor_io_def demo_reconciled health_init_def)
qed (simp add: reconcile_authority_anchor_def anchor_attempt_def demo_checkpoints invoke_authority_reconcile_def
    demo_anchor_io_def demo_reconciled health_init_def)

lemma demo_executes:
  "verify_and_claim demo_executor demo_clock demo_claim_io demo_receipt demo_store = (Inr (), demo_claimed)"
proof -
  have c: "clock_interval (ex_policy demo_executor) demo_clock = Inr (120, 5)"
    by (simp add: clock_interval_def demo_executor_def demo_clock_def MAX_RESOURCE_def)
  have v: "verify_at demo_executor demo_clock demo_receipt 120 5 = Inr ()"
    using demo_verifies by (simp add: verify_receipt_def c)
  have "store_write demo_claim_io (claim_tx demo_sha demo_receipt 120 5) demo_store = (Inr (), demo_claimed)"
    by (simp add: store_write_def demo_claim_io_def demo_store_def demo_anchored demo_claim_tx demo_claimed_def)
  then show ?thesis
    by (simp add: verify_and_claim_def c v claim_def MAX_RESOURCE_def)
      (simp add: demo_store_def demo_identity_def demo_receipt_def demo_executor_def)
qed

text \<open>The world after the claim, and after the empty database was put back.\<close>

definition demo_world :: world where
  "demo_world = \<lparr>wd_store = demo_claimed, wd_copies = [st_db demo_store, demo_claimed_db], wd_log = [(demo_row, demo_receipt)]\<rparr>"

lemma demo_step:
  "exec_step demo_executor (Execute demo_clock demo_claim_io demo_receipt) (world_of demo_store) = (Inr (), demo_world)"
  by (simp add: exec_step_def world_of_def demo_executes demo_world_def)
    (simp add: demo_claimed_def demo_claimed_db_def demo_store_def empty_replay_db_def)

lemma demo_restored:
  "exec_run demo_executor [Restore 0] demo_world = \<lparr>wd_store = demo_claimed\<lparr>st_db := st_db demo_store\<rparr>,
     wd_copies = [st_db demo_store, demo_claimed_db, st_db demo_store], wd_log = [(demo_row, demo_receipt)]\<rparr>"
  by (simp add: exec_step_def demo_world_def)

end
