(* ===== verification/Spec2Isabelle.thy ===== *)
theory Spec2Isabelle
  imports Demo_Facts Executor_Demo
begin

text \<open>
  A verification development for LETS (Lineage Escrow Transition Systems).
\<close>

section \<open>The ledger\<close>





text \<open>
  C3: the equation that _assert_local_conservation checks, with the scan of all
  leases, holds exactly when the database refines a ledger in which every right
  is on one account and the inflow fits in 63 bits.
\<close>

theorem conservation_check_iff_ledger: "ledger_ok db \<longleftrightarrow> balanced db"
  by (rule ledger_ok_iff)

text \<open>
  C4: issue_root refines a ledger in which the allocation of the new lease moves
  from the free pool to the lease; the repeated request moves nothing.
\<close>

theorem issue_root_refines_move:
  assumes "wf_struct db" "issue_root sv rid ident t e subj alloc caps pd ttl lin db = Inr (db', g)"
  shows "wf_struct db' \<and> books db' = (if fresh_request db rid
    then post (Move Pool (Lease (g_lease_id g)) (g_allocation g)) (books db) else books db)"
  using issue_root_tx.run_posts [OF assms] by (simp add: posts_def issue_root_entries_def)

theorem issue_root_refines_move_witness:
  "\<exists>db' g. issue_root demo_sv ''r1'' demo_id ''t'' ''e'' ''adm'' [5] [''c''] demo_digest 20 None demo_db = Inr (db', g)
    \<and> books db' = post (Move Pool (Lease (g_lease_id g)) (g_allocation g)) (books demo_db)"
proof -
  obtain db' g where r: "issue_root demo_sv ''r1'' demo_id ''t'' ''e'' ''adm'' [5] [''c''] demo_digest 20 None demo_db = Inr (db', g)"
    using demo_issue_root by (auto simp: ok_iff)
  then show ?thesis using issue_root_refines_move [OF demo_wf r] demo_fresh by auto
qed

text \<open>C5: spawn refines a move of the child's allocation from the parent lease to the child lease.\<close>

theorem spawn_refines_move:
  assumes "wf_struct db" "spawn sv rid ident pid subj alloc caps ttl pd es db = Inr (db', g)"
  shows "wf_struct db' \<and> books db' = (if fresh_request db rid
    then post (Move (Lease pid) (Lease (g_lease_id g)) (g_allocation g)) (books db) else books db)"
  using spawn_tx.run_posts [OF assms] by (simp add: posts_def spawn_entries_def)

theorem spawn_refines_move_witness:
  "\<exists>db' g. spawn demo_sv ''r1'' demo_id ''L'' ''sub'' [2] [''c''] 20 None None demo_db = Inr (db', g)
    \<and> books db' = post (Move (Lease ''L'') (Lease (g_lease_id g)) (g_allocation g)) (books demo_db)"
proof -
  obtain db' g where r: "spawn demo_sv ''r1'' demo_id ''L'' ''sub'' [2] [''c''] 20 None None demo_db = Inr (db', g)"
    using demo_spawn by (auto simp: ok_iff)
  then show ?thesis using spawn_refines_move [OF demo_wf r] demo_fresh by auto
qed

text \<open>C6: authorize refines a move of the transition's cost from the lease to what is consumed.\<close>

theorem authorize_refines_move:
  assumes "wf_struct db" "authorize sv rid ident lid tr aud nonce ev est esq db = Inr (db', r)"
  shows "wf_struct db' \<and> books db' = (if fresh_request db rid
    then post (Move (Lease lid) Consumed (r_cost r)) (books db) else books db)"
  using authorize_tx.run_posts [OF assms] by (simp add: posts_def authorize_entries_def)

theorem authorize_refines_move_witness:
  "\<exists>db' r. authorize demo_sv ''r1'' demo_id ''L'' ''go'' ''aud'' ''0123456789abcdef'' None None None demo_db = Inr (db', r)
    \<and> books db' = post (Move (Lease ''L'') Consumed (r_cost r)) (books demo_db)"
proof -
  obtain db' r where r: "authorize demo_sv ''r1'' demo_id ''L'' ''go'' ''aud'' ''0123456789abcdef'' None None None demo_db = Inr (db', r)"
    using demo_authorize by (auto simp: ok_iff)
  then show ?thesis using authorize_refines_move [OF demo_wf r] demo_fresh by auto
qed


text \<open>
  C7: quiesce and resume move nothing; close moves the whole residual of a lease
  that is not finished back to the free pool, once.
\<close>

theorem lifecycle_refines_move:
  assumes "wf_struct db" "lifecycle op sv rid ident lid es db = Inr (db', x)" "tfind l_lease_id lid (db_leases db) = Some l"
  shows "wf_struct db' \<and> books db' = (if fresh_request db rid \<and> op = Close \<and> l_status l \<noteq> CLOSED \<and> l_status l \<noteq> EXPIRED
    then post (Move (Lease lid) Pool (l_residual l)) (books db) else books db)"
  using lifecycle_tx.run_posts [OF assms(1,2)] assms(3) by (auto simp: posts_def lifecycle_entries_def)

theorem lifecycle_refines_move_witness:
  "\<exists>db' x. lifecycle Close demo_sv ''r1'' demo_id ''L'' None demo_db = Inr (db', x)
    \<and> books db' = post (Move (Lease ''L'') Pool (l_residual demo_lease)) (books demo_db)"
proof -
  obtain db' x where r: "lifecycle Close demo_sv ''r1'' demo_id ''L'' None demo_db = Inr (db', x)"
    using demo_close by (auto simp: ok_iff)
  then show ?thesis using lifecycle_refines_move [OF demo_wf r demo_found] demo_fresh by (auto simp: demo_lease_def)
qed

text \<open>
  C8: reclaim_expired moves the residual of every candidate of its batch, the
  expired leases the code selects, to the free pool and touches no other account.
\<close>

theorem reclaim_refines_moves:
  assumes "wf_struct db" "reclaim_expired sv ident t eid db = Inr (db', v)" "db_envelope db = Some e"
  shows "wf_struct db' \<and> books db' = fold post (map (\<lambda>l. Move (Lease (l_lease_id l)) Pool (l_residual l))
    (reclaim_candidates sv e (sv_uncertainty_ns sv) db)) (books db)"
  using reclaim_tx.run_posts [OF assms(1,2)] assms(3) by (simp add: posts_def reclaim_entries_def returns_def)

theorem reclaim_refines_moves_witness:
  "\<exists>db' v e. reclaim_expired demo_late demo_id None None demo_db = Inr (db', v) \<and> db_envelope demo_db = Some e
    \<and> reclaim_candidates demo_late e (sv_uncertainty_ns demo_late) demo_db = [demo_lease]
    \<and> books db' = post (Move (Lease ''L'') Pool (l_residual demo_lease)) (books demo_db)"
proof -
  obtain db' v where r: "reclaim_expired demo_late demo_id None None demo_db = Inr (db', v)"
    using demo_reclaim by (auto simp: ok_iff)
  obtain e where e: "db_envelope demo_db = Some e" by (simp add: demo_db_def)
  have "reclaim_candidates demo_late e (sv_uncertainty_ns demo_late) demo_db = [demo_lease]"
    using e by (auto simp: eval_simps)
  then show ?thesis using reclaim_refines_moves [OF demo_wf r e] r e by (simp add: demo_lease_def)
qed

text \<open>C9: prepare_transfer refines a move of the voucher's amount from the free pool to what is transferred out.\<close>

theorem prepare_transfer_refines_move:
  assumes "wf_struct db" "prepare_transfer sv rid ident t eid tw am pd db = Inr (db', v)"
  shows "wf_struct db' \<and> books db' = (if fresh_request db rid then post (Move Pool Out (v_amount v)) (books db) else books db)"
  using prepare_tx.run_posts [OF assms] by (simp add: posts_def prepare_entries_def)

theorem prepare_transfer_refines_move_witness:
  "\<exists>db' v. prepare_transfer demo_sv ''r1'' demo_id ''t'' ''e'' ''w2'' [2] None demo_db = Inr (db', v)
    \<and> books db' = post (Move Pool Out (v_amount v)) (books demo_db)"
proof -
  obtain db' v where r: "prepare_transfer demo_sv ''r1'' demo_id ''t'' ''e'' ''w2'' [2] None demo_db = Inr (db', v)"
    using demo_prepare by (auto simp: ok_iff)
  then show ?thesis using prepare_transfer_refines_move [OF demo_wf r] demo_fresh by auto
qed

text \<open>C10: spawn_remote refines a move of the child's allocation from the parent lease to what is transferred out.\<close>

theorem spawn_remote_refines_move:
  assumes "wf_struct db" "spawn_remote sv rid ident pid tw subj alloc caps ttl es db = Inr (db', v)"
  shows "wf_struct db' \<and> books db' = (if fresh_request db rid then post (Move (Lease pid) Out (v_amount v)) (books db) else books db)"
  using spawn_remote_tx.run_posts [OF assms] by (simp add: posts_def spawn_remote_entries_def)

theorem spawn_remote_refines_move_witness:
  "\<exists>db' v. spawn_remote demo_peer ''r1'' demo_id ''L'' ''w2'' ''sub'' [2] [''c''] 50 None demo_db = Inr (db', v)
    \<and> books db' = post (Move (Lease ''L'') Out (v_amount v)) (books demo_db)"
proof -
  obtain db' v where r: "spawn_remote demo_peer ''r1'' demo_id ''L'' ''w2'' ''sub'' [2] [''c''] 50 None demo_db = Inr (db', v)"
    using demo_spawn_remote by (auto simp: ok_iff)
  then show ?thesis using spawn_remote_refines_move [OF demo_wf r] demo_fresh by auto
qed

section \<open>Transfer streams\<close>

text \<open>
  C11: accept_transfer credits a voucher exactly when its number has not been
  accepted from that source before, to the pool or to the lease it issues, and
  afterwards just this number is accepted in addition.
\<close>

theorem accept_credits_once:
  assumes "accept_transfer sv ident v db = Inr (db', a)" "inbound_ok db" "wf_struct db"
  shows "books db' = (if accepted db (v_source_warden v) (v_sequence v) then books db
      else post (Credit (credited_account a) (v_amount v)) (books db))
    \<and> (\<forall>s n. accepted db' s n \<longleftrightarrow> accepted db s n \<or> s = v_source_warden v \<and> n = v_sequence v)"
  using accept_effect [OF assms] by blast

theorem accept_credits_once_witness:
  "\<exists>db' a. accept_transfer demo_sv demo_id demo_voucher demo_db = Inr (db', a)
    \<and> books db' = post (Credit (credited_account a) [2]) (books demo_db) \<and> accepted db' ''w2'' 1"
proof -
  obtain db' a where r: "accept_transfer demo_sv demo_id demo_voucher demo_db = Inr (db', a)"
    using demo_accept by (auto simp: ok_iff)
  have "\<not> accepted demo_db ''w2'' 1" by (simp add: accepted_def contiguous_def tfind_def demo_db_def)
  then show ?thesis using accept_credits_once [OF r demo_inbound demo_wf] r by (auto simp: demo_voucher_def)
qed

text \<open>
  C12: once a voucher was accepted, any later call of accept_transfer with its
  source and number credits nothing, whatever calls happened in between,
  checkpoints and pruned acknowledgements included.
\<close>

theorem accepted_voucher_never_credited_again:
  assumes "accept_transfer sv ident v db = Inr (db1, a)" "inbound_ok db" "wf_struct db" "later db1 db2" "wf_struct db2"
    "accept_transfer sv' ident' v' db2 = Inr (db3, a')" "v_source_warden v' = v_source_warden v" "v_sequence v' = v_sequence v"
  shows "books db3 = books db2"
  using assms by (rule accept_replay)

theorem accepted_voucher_never_credited_again_witness:
  "\<exists>db1 a db3 a'. accept_transfer demo_sv demo_id demo_voucher demo_db = Inr (db1, a)
    \<and> accept_transfer demo_sv demo_id demo_voucher db1 = Inr (db3, a') \<and> books db3 = books db1"
proof -
  obtain db1 a db3 a' where r: "accept_transfer demo_sv demo_id demo_voucher demo_db = Inr (db1, a)"
    "accept_transfer demo_sv demo_id demo_voucher db1 = Inr (db3, a')"
    using demo_accept_twice by (auto simp: ok_iff rbind_Inr_iff)
  have "wf_struct db1" using accept_tx.run_posts [OF demo_wf r(1)] by (simp add: posts_def)
  then show ?thesis
    using accepted_voucher_never_credited_again [OF r(1) demo_inbound demo_wf _ _ r(2)] r by (auto simp: later_def)
qed




text \<open>
  C14: a new prepare_transfer takes the next number of its stream, advances that
  stream by one and no other, and stores the voucher as prepared; so numbers
  are given out without gaps and never twice.
\<close>

theorem prepare_transfer_takes_next_number:
  assumes "prepare_transfer sv rid ident t eid tw am pd db = Inr (db', v)" "outbound_ok db" "fresh_request db rid"
  shows "v_sequence v = next_seq db (v_target_warden v) \<and> next_seq db' = (next_seq db)(v_target_warden v := v_sequence v + 1)
    \<and> (\<exists>r. ot_voucher r = v \<and> ot_status r = TS_PREPARED \<and> db_out_transfers db' = db_out_transfers db @ [r])"
  using prepare_sends [OF assms(1,2)] assms(3) by (simp add: sends_if_def sends_def)

theorem prepare_transfer_takes_next_number_witness:
  "\<exists>db' v. prepare_transfer demo_sv ''r1'' demo_id ''t'' ''e'' ''w2'' [2] None demo_db = Inr (db', v)
    \<and> v_sequence v = next_seq demo_db (v_target_warden v) \<and> next_seq db' (v_target_warden v) = v_sequence v + 1"
proof -
  obtain db' v where r: "prepare_transfer demo_sv ''r1'' demo_id ''t'' ''e'' ''w2'' [2] None demo_db = Inr (db', v)"
    using demo_prepare by (auto simp: ok_iff)
  then show ?thesis using prepare_transfer_takes_next_number [OF r demo_outbound demo_fresh] by auto
qed

text \<open>
  C15: no call makes the next number of an outgoing stream smaller, and a voucher
  without acknowledgement stays in the database for another delivery.
\<close>

theorem unacknowledged_vouchers_kept:
  assumes "outbound_ok db"
  shows "next_seq db t \<le> next_seq (perform sv op db) t \<and>
    (\<forall>r\<in>set (db_out_transfers db). \<not> finalized_status (ot_status r) \<longrightarrow>
      (\<exists>r'\<in>set (db_out_transfers (perform sv op db)). ot_voucher r' = ot_voucher r))"
  using perform_outbound [OF assms, of sv op] by (auto simp: outbound_kept_def)

theorem unacknowledged_vouchers_kept_witness:
  "\<exists>db' v. prepare_transfer demo_sv ''r1'' demo_id ''t'' ''e'' ''w2'' [2] None demo_db = Inr (db', v)
    \<and> (\<forall>op. \<exists>r'\<in>set (db_out_transfers (perform demo_sv op db')). ot_voucher r' = v)"
proof -
  obtain db' v where r: "prepare_transfer demo_sv ''r1'' demo_id ''t'' ''e'' ''w2'' [2] None demo_db = Inr (db', v)"
    using demo_prepare by (auto simp: ok_iff)
  have s: "sends_if True v demo_db db'" using prepare_sends [OF r demo_outbound] demo_fresh by simp
  then obtain x where "ot_voucher x = v" "ot_status x = TS_PREPARED" "db_out_transfers db' = db_out_transfers demo_db @ [x]"
    by (auto simp: sends_if_def sends_def)
  then have "x \<in> set (db_out_transfers db')" "ot_voucher x = v" "\<not> finalized_status (ot_status x)"
    by (simp_all add: finalized_status_def)
  then show ?thesis using unacknowledged_vouchers_kept [of db' _ demo_sv] s r by (fastforce simp: sends_if_def)
qed



section \<open>Invariants of the database\<close>







text \<open>C20: no call removes or changes an audit row, a recorded response or a receipt.\<close>

theorem logs_append_only:
  "(\<exists>rows. db_audit (perform sv op db) = db_audit db @ rows)
    \<and> (\<exists>rows. db_idempotency (perform sv op db) = db_idempotency db @ rows)
    \<and> (\<exists>rows. db_receipts (perform sv op db) = db_receipts db @ rows)"
  using perform_grow [of db sv op] by (simp add: audit_grows_def responses_grow_def receipts_grow_def)

text \<open>
  C21: no call removes a lease or changes its signed identity, its sequence number
  never goes back, and a change of its residual advances the sequence.
\<close>

theorem leases_never_rewritten: "leases_kept db (perform sv op db)"
  by (rule perform_leases_kept)

text \<open>C22: no call removes a branch revocation or lowers its epoch, and the clock floor never goes back.\<close>

theorem revocations_and_floor_monotone:
  "revocations_kept db (perform sv op db) \<and> clock_floor_monotonic (floor_of db) (floor_of (perform sv op db))"
  using perform_revocations_kept perform_floor by blast


section \<open>Authority\<close>

text \<open>
  C23: a new receipt is issued only for an active, unexpired, unrevoked lease of an
  active runtime, under a rule of the lease's own policy whose capability
  the lease has, whose audience and evidence allow it and whose cost the residual
  covers; the lease then is in the target state, debited by the cost, with the next
  sequence number, and no other lease changed.
\<close>

theorem authorize_sound:
  assumes "authorize sv rid ident lid tr aud nonce ev est esq db = Inr (db', r)" "fresh_request db rid"
  shows "\<exists>e lease res. db_envelope db = Some e \<and> tfind l_lease_id lid (db_leases db) = Some lease
    \<and> l_status lease = ACTIVE \<and> sv_now_ns sv + sv_uncertainty_ns sv < l_expires_at_ns lease \<and> \<not> lease_revoked db lease
    \<and> rs_mode (db_runtime db) = RM_ACTIVE
    \<and> rule_grants sv db e lease tr aud ev (r_target_state r) (r_cost r)
    \<and> less_than_or_equal (r_cost r) (l_residual lease) = Inr True \<and> subtract (l_residual lease) (r_cost r) = Inr res
    \<and> r_expires_at_ns r \<le> l_expires_at_ns lease \<and> sv_now_ns sv + sv_uncertainty_ns sv < r_expires_at_ns r
    \<and> r_resulting_sequence r = l_sequence lease + 1 \<and> r_source_state r = l_state lease
    \<and> tfind l_lease_id lid (db_leases db') = Some (authorized_lease sv r res lease)
    \<and> (\<forall>k. k \<noteq> lid \<longrightarrow> tfind l_lease_id k (db_leases db') = tfind l_lease_id k (db_leases db))"
  using assms by (rule authorize_spec) blast

theorem authorize_sound_witness:
  "\<exists>db' r res. authorize demo_sv ''r1'' demo_id ''L'' ''go'' ''aud'' ''0123456789abcdef'' None None None demo_db = Inr (db', r)
    \<and> subtract (l_residual demo_lease) (r_cost r) = Inr res
    \<and> tfind l_lease_id ''L'' (db_leases db') = Some (authorized_lease demo_sv r res demo_lease)"
proof -
  obtain db' r where r: "authorize demo_sv ''r1'' demo_id ''L'' ''go'' ''aud'' ''0123456789abcdef'' None None None demo_db = Inr (db', r)"
    using demo_authorize by (auto simp: ok_iff)
  then show ?thesis using authorize_sound [OF r demo_fresh] demo_found by auto
qed

text \<open>
  C24: a nonce is good for one receipt per executor audience: after a receipt, no
  new request with its audience and nonce is authorized, on any lease, by any
  identity and after any calls in between.
\<close>

theorem nonce_authorizes_once:
  assumes "authorize sv rid ident lid tr aud nonce ev est esq db = Inr (db1, r)" "fresh_request db rid" "later db1 db2"
    "fresh_request db2 rid'"
  shows "\<not> ok (authorize sv' rid' ident' lid' tr' aud nonce ev' est' esq' db2)"
proof -
  have "nonce_used db2 aud nonce" using authorize_nonce [OF assms(1,2)] later_nonce [OF assms(3)] by simp
  then show ?thesis by (auto simp: ok_iff dest: authorize_nonce [OF _ assms(4)])
qed

theorem nonce_authorizes_once_witness:
  "\<exists>db1 r. authorize demo_sv ''r1'' demo_id ''L'' ''go'' ''aud'' ''0123456789abcdef'' None None None demo_db = Inr (db1, r)
    \<and> \<not> ok (authorize demo_sv ''r2'' demo_id ''L'' ''go'' ''aud'' ''0123456789abcdef'' None None None db1)"
proof -
  obtain db1 r where r: "authorize demo_sv ''r1'' demo_id ''L'' ''go'' ''aud'' ''0123456789abcdef'' None None None demo_db = Inr (db1, r)"
    "fresh_request db1 ''r2''" using demo_authorize_fresh by blast
  then show ?thesis using nonce_authorizes_once [OF r(1) demo_fresh _ r(2)] by (auto simp: later_def)
qed

text \<open>
  C25: a caller that lost the answer gets it back: the same authorize request
  returns the same receipt after any calls in between, without consuming anything
  again, if the clock is safe; without write capacity it returns it in any case.
\<close>

theorem authorize_retry_returns_receipt:
  assumes "authorize sv rid ident lid tr aud nonce ev est esq db = Inr (db1, r)" "fresh_request db rid" "later db1 db2"
    "sv_sha256 sv' = sv_sha256 sv" "db_envelope db = Some e"
  shows "authorize sv' rid ident lid tr aud nonce ev est esq db2 =
    (if sv_capacity sv' then rbind (clock_is_safe sv' e True db2) (\<lambda>(db3, _). Inr (db3, r)) else Inr (db2, r))"
  using assms by (rule authorize_again)

theorem authorize_retry_returns_receipt_witness:
  "\<exists>db1 r. authorize demo_sv ''r1'' demo_id ''L'' ''go'' ''aud'' ''0123456789abcdef'' None None None demo_db = Inr (db1, r)
    \<and> authorize (demo_sv\<lparr>sv_capacity := False\<rparr>) ''r1'' demo_id ''L'' ''go'' ''aud'' ''0123456789abcdef'' None None None db1 = Inr (db1, r)"
proof -
  obtain db1 r where r: "authorize demo_sv ''r1'' demo_id ''L'' ''go'' ''aud'' ''0123456789abcdef'' None None None demo_db = Inr (db1, r)"
    using demo_authorize by (auto simp: ok_iff)
  obtain e where e: "db_envelope demo_db = Some e" by (simp add: demo_db_def)
  show ?thesis
    using authorize_retry_returns_receipt [OF r demo_fresh _ _ e, of db1 "demo_sv\<lparr>sv_capacity := False\<rparr>"] r by (auto simp: later_def)
qed

text \<open>
  C26: after revoke_branch, no lease of the branch authorizes, spawns or spawns
  remotely in a new request, after any calls in between, also where the revocation
  has not yet been written to the lease rows.
\<close>

theorem revoked_branch_stays_inert:
  assumes "revoke_branch sv rid ident b rs ep db = Inr (db1, v)" "fresh_request db rid" "later db1 db2"
    "tfind l_lease_id k (db_leases db2) = Some l" "l_lineage_id l = b_lineage_id v" "b = k \<or> b \<in> set (l_ancestor_path l)"
    "fresh_request db2 rid'"
  shows "\<not> ok (authorize sv' rid' ident' k tr aud nonce ev est esq db2)
    \<and> \<not> ok (spawn sv' rid' ident' k subj alloc caps ttl pd es db2)
    \<and> \<not> ok (spawn_remote sv' rid' ident' k tw subj alloc caps ttl es db2)"
  by (intro conjI revoked_lease_inert [OF revoked_branch_blocked [OF assms(1-6)] assms(4,7)])

theorem revoked_branch_stays_inert_witness:
  "\<exists>db1 v. revoke_branch demo_sv ''r1'' demo_id ''L'' ''why'' None demo_db = Inr (db1, v)
    \<and> \<not> ok (authorize demo_sv ''r2'' demo_id ''L'' ''go'' ''aud'' ''0123456789abcdef'' None None None db1)"
proof -
  obtain db1 v where r: "revoke_branch demo_sv ''r1'' demo_id ''L'' ''why'' None demo_db = Inr (db1, v)" "fresh_request db1 ''r2''"
    using demo_revoke_fresh by blast
  have "leases_kept demo_db db1" using revoke_branch_runs [OF r(1)] by (rule runs_leases_kept)
  then obtain l where l: "tfind l_lease_id ''L'' (db_leases db1) = Some l" "lease_step demo_lease l"
    using demo_found by (auto simp: leases_kept_def)
  have "b_lineage_id v = l_lineage_id demo_lease"
    using r(1) demo_fresh by (rule revoke_branch_epoch) (use demo_found in simp)
  then have "l_lineage_id l = b_lineage_id v" using l(2) by (simp add: lease_step_def lease_identity_def)
  then show ?thesis using revoked_branch_stays_inert [OF r(1) demo_fresh _ l(1) _ _ r(2)] r by (auto simp: later_def)
qed

text \<open>
  C27: a new revoke_branch stores a revocation of the lease's own branch and
  lineage whose epoch is one above the stored one, and that is the epoch that is
  stored afterwards.
\<close>

theorem revoke_branch_advances_epoch:
  assumes "revoke_branch sv rid ident b rs ep db = Inr (db1, v)" "fresh_request db rid"
  shows "\<exists>l. tfind l_lease_id b (db_leases db) = Some l \<and> b_branch_lease_id v = b \<and> b_lineage_id v = l_lineage_id l
    \<and> b_epoch v = (case branch_epoch_of db (l_lineage_id l) b of None \<Rightarrow> 0 | Some n \<Rightarrow> n) + 1
    \<and> branch_epoch_of db1 (l_lineage_id l) b = Some (b_epoch v)"
  using assms by (rule revoke_branch_epoch) blast

theorem revoke_branch_advances_epoch_witness:
  "\<exists>db1 v. revoke_branch demo_sv ''r1'' demo_id ''L'' ''why'' None demo_db = Inr (db1, v) \<and> b_epoch v = 1
    \<and> branch_epoch_of db1 ''N'' ''L'' = Some 1"
proof -
  obtain db1 v where r: "revoke_branch demo_sv ''r1'' demo_id ''L'' ''why'' None demo_db = Inr (db1, v)"
    using demo_revoke by (auto simp: ok_iff)
  have "branch_epoch_of demo_db ''N'' ''L'' = None" by (simp add: branch_epoch_of_def tfind_def demo_db_def)
  then show ?thesis using revoke_branch_advances_epoch [OF r demo_fresh] r demo_found by (auto simp: demo_lease_def)
qed


text \<open>C28: a draining warden gives out no rights: every new request that would create, use or send some is refused.\<close>

theorem draining_gives_out_nothing:
  assumes "rs_mode (db_runtime db) = RM_DRAINING" "fresh_request db rid"
  shows "\<not> ok (issue_root sv rid ident t e subj alloc caps pd' ttl lin db)
    \<and> \<not> ok (spawn sv rid ident lid subj alloc caps ttl pd es db)
    \<and> \<not> ok (authorize sv rid ident lid tr aud nonce ev est es db)
    \<and> \<not> ok (prepare_transfer sv rid ident t e tw alloc pd db)
    \<and> \<not> ok (spawn_remote sv rid ident lid tw subj alloc caps ttl es db)"
  using assms(1) by (intro conjI) (auto simp: ok_iff dest: issue_root_blocked [OF _ assms(2)] spawn_active [OF _ assms(2)]
      authorize_active [OF _ assms(2)] prepare_blocked [OF _ assms(2)] spawn_remote_active [OF _ assms(2)])

theorem draining_gives_out_nothing_witness:
  "\<not> ok (prepare_transfer demo_sv ''r1'' demo_id ''t'' ''e'' ''w2'' [2] None
    (demo_db\<lparr>db_runtime := (db_runtime demo_db)\<lparr>rs_mode := RM_DRAINING\<rparr>\<rparr>))"
  using draining_gives_out_nothing [of "demo_db\<lparr>db_runtime := (db_runtime demo_db)\<lparr>rs_mode := RM_DRAINING\<rparr>\<rparr>" "''r1''"]
  by (simp add: fresh_request_def tfind_def demo_db_def)

text \<open>
  C29: spawn only attenuates: the child has rights the parent holds, capabilities
  the parent has, no later expiry, the parent's lineage and policy and the parent's path
  extended by the parent, within the depth bound; the parent is active and not revoked.
\<close>

theorem spawn_attenuates:
  assumes "spawn sv rid ident lid subj alloc caps ttl pd es db = Inr (db', g)" "fresh_request db rid"
  shows "\<exists>parent. tfind l_lease_id lid (db_leases db) = Some parent \<and> l_status parent = ACTIVE \<and> \<not> lease_revoked db parent
    \<and> g_allocation g = alloc \<and> nonzero alloc \<and> less_than_or_equal (g_allocation g) (l_residual parent) = Inr True
    \<and> set (g_capabilities g) = set caps \<and> set (g_capabilities g) \<subseteq> set (l_capabilities parent)
    \<and> g_expires_at_ns g \<le> l_expires_at_ns parent \<and> sv_now_ns sv + sv_uncertainty_ns sv < g_expires_at_ns g
    \<and> g_ancestor_path g = l_ancestor_path parent @ [lid] \<and> length (g_ancestor_path g) \<le> MAX_LINEAGE_DEPTH
    \<and> g_lineage_id g = l_lineage_id parent \<and> g_parent_id g = Some lid \<and> g_policy_digest g = l_policy_digest parent"
  using assms by (rule spawn_spec) blast

theorem spawn_attenuates_witness:
  "\<exists>db' g. spawn demo_sv ''r1'' demo_id ''L'' ''sub'' [2] [''c''] 20 None None demo_db = Inr (db', g)
    \<and> g_allocation g = [2] \<and> g_ancestor_path g = [''L''] \<and> g_expires_at_ns g \<le> 500 \<and> g_parent_id g = Some ''L''"
proof -
  obtain db' g where r: "spawn demo_sv ''r1'' demo_id ''L'' ''sub'' [2] [''c''] 20 None None demo_db = Inr (db', g)"
    using demo_spawn by (auto simp: ok_iff)
  then show ?thesis using spawn_attenuates [OF r demo_fresh] demo_found by (auto simp: demo_lease_def)
qed

text \<open>
  C30: renew keeps the tree nested.  Either nothing of the leases changes, or the
  lease and the at most 64 open descendants that would outlive the new term
  get exactly that term, which is within the term of the local parent.
\<close>

theorem renew_keeps_tree_nested:
  assumes "renew sv rid ident lid ttl es cas db = Inr (db', x)" "nested db"
  shows "nested db' \<and> (db_leases db' = db_leases db \<or>
    (length (longer_descendants db lid (sv_now_ns sv + ttl)) \<le> MAX_ATOMIC_CASCADE_DESCENDANTS
     \<and> reissued (insert lid (set (longer_descendants db lid (sv_now_ns sv + ttl)))) (sv_now_ns sv + ttl) db db'))"
  using assms(1) by (cases rule: renew_cases) (use renew_nested [OF assms] in auto)

theorem renew_keeps_tree_nested_witness:
  "\<exists>db' x. renew demo_sv ''r1'' demo_id ''L'' 600 None False demo_db = Inr (db', x) \<and> nested db'"
proof -
  obtain db' x where r: "renew demo_sv ''r1'' demo_id ''L'' 600 None False demo_db = Inr (db', x)"
    using demo_renew by (auto simp: ok_iff)
  then show ?thesis using renew_keeps_tree_nested [OF r demo_nested] by auto
qed

section \<open>Clock, capacity and errors\<close>





text \<open>
  C33: set_runtime_mode answers its own exact retry with ConflictError when the
  store has lost its capacity, because it looks the recorded response up under
  another scope than the one it recorded it under.
\<close>

theorem runtime_mode_retry_conflicts:
  assumes "set_runtime_mode sv rid ident mode reason db = Inr (db', s)" "fresh_request db rid"
    "\<not> sv_capacity sv'" "\<not> sv_recovery_capacity sv'" "sv_sha256 sv' = sv_sha256 sv"
  shows "set_runtime_mode sv' rid ident mode reason db' = Inl ConflictError"
  using assms by (rule runtime_mode_conflict)

theorem runtime_mode_retry_conflicts_witness:
  "\<exists>db' s. set_runtime_mode demo_sv ''r1'' demo_id ''DRAINING'' ''why'' demo_db = Inr (db', s)
    \<and> set_runtime_mode (demo_sv\<lparr>sv_capacity := False, sv_recovery_capacity := False\<rparr>) ''r1'' demo_id ''DRAINING'' ''why'' db'
      = Inl ConflictError"
proof -
  obtain db' s where r: "set_runtime_mode demo_sv ''r1'' demo_id ''DRAINING'' ''why'' demo_db = Inr (db', s)"
    using demo_runtime_mode by (auto simp: ok_iff)
  then show ?thesis
    using runtime_mode_retry_conflicts [OF r demo_fresh, of "demo_sv\<lparr>sv_capacity := False, sv_recovery_capacity := False\<rparr>"] by auto
qed


section \<open>Vectors, records and evidence\<close>

text \<open>
  C34: the BLOB encoding of resource vectors is a bijection between the vectors
  that pack accepts and the byte strings that unpack accepts.
\<close>

theorem pack_unpack_inverse: "unpack bs None = Inr v \<longleftrightarrow> pack v = Inr bs"
  using pack_unpack unpack_pack by blast

text \<open>
  C35: the sum of resource vectors is computed exactly when no dimension of the exact
  sum leaves the signed 64-bit range, and it is the exact sum; no addition wraps.
\<close>

theorem total_exact_or_refused:
  assumes "\<forall>v\<in>set vs. wf_vec d v" "0 < d"
  shows "((\<exists>w. total vs (int d) = Inr w) \<longleftrightarrow> (\<forall>i. (\<Sum>v\<leftarrow>vs. amount v i) \<le> 2 ^ 63 - 1))
    \<and> (\<forall>w i. total vs (int d) = Inr w \<longrightarrow> amount w i = (\<Sum>v\<leftarrow>vs. amount v i))"
  using total_ok_iff [OF assms] total_amount by (auto simp: MAX_RESOURCE_def)

theorem total_exact_or_refused_witness:
  "\<exists>w. total [[1, 2], [3, 4]] (int 2) = Inr w \<and> amount w 0 = 4 \<and> amount w 1 = 6"
proof -
  have "\<forall>v\<in>set [[1, 2], [3, 4]]. wf_vec 2 v" by (simp add: wf_vec_def MAX_RESOURCE_def)
  from total_exact_or_refused [OF this] show ?thesis
    by (auto simp: total_def zero_def add_def same_dimensions_def MAX_RESOURCE_def amount_def numeral_2_eq_2)
qed

text \<open>C36: unpadded base64url is canonical: a text decodes to some bytes just when it is their encoding.\<close>

theorem b64url_canonical: "b64url_decode s = Inr bs \<longleftrightarrow> b64url_encode bs = s"
  using b64url_decode_encode b64url_encode_decode by blast

text \<open>C37: a validated transfer voucher survives its wire form unchanged, lease request included.\<close>

theorem voucher_round_trip:
  assumes "TransferVoucher_post_init v = Inr v"
  shows "TransferVoucher_from_dict (TransferVoucher_to_dict v) = Inr v"
  using assms by (rule TransferVoucher_from_to_dict)

theorem voucher_round_trip_witness: "TransferVoucher_from_dict (TransferVoucher_to_dict demo_voucher) = Inr demo_voucher"
  by (rule voucher_round_trip) (simp add: eval_simps cong: rbind_weak_cong)

text \<open>C38: a validated evidence rule, with all rules nested in it, survives its wire form unchanged.\<close>

theorem evidence_rule_round_trip:
  assumes "er_from_dict d = Inr r"
  shows "er_from_dict (er_to_dict r) = Inr r"
  using assms by (intro er_from_to_dict er_from_dict_valid)

theorem evidence_rule_round_trip_witness:
  "\<exists>r. er_from_dict demo_rule = Inr r \<and> er_from_dict (er_to_dict r) = Inr r"
  using evidence_rule_round_trip demo_rule_parses by blast

text \<open>
  C39: _validate_shape, which walks the rule with an explicit stack and stops at the
  first excess, accepts a rule exactly when it has at most 32 levels and 256 nodes.
\<close>

theorem validate_shape_bounds: "validate_shape r = Inr () \<longleftrightarrow> er_depth r \<le> 32 \<and> er_nodes r \<le> 256"
  by (simp add: validate_shape_iff MAX_EVIDENCE_DEPTH_def MAX_EVIDENCE_NODES_def)

text \<open>
  C40: evidence fails closed: a rule that is present grants only if it parses, every
  leaf of it is decided by the evidence, also below a negation, and the
  Boolean formula it spells holds of the leaves.
\<close>

theorem evidence_fails_closed:
  assumes "evaluate_evidence rule ev now subject audience = Inr True" "rule \<noteq> JNull"
  shows "\<exists>d r. rule = JObj d \<and> er_from_dict d = Inr r
    \<and> decided r (leaf_value (case ev of None \<Rightarrow> [] | Some f \<Rightarrow> f) now subject audience)
    \<and> holds r (leaf_value (case ev of None \<Rightarrow> [] | Some f \<Rightarrow> f) now subject audience)"
  using assms by (rule evaluate_evidence_grants) blast

theorem evidence_fails_closed_witness:
  "evaluate_evidence (JObj demo_rule) (Some [(''a'', JInt 1)]) 0 ''s'' ''x'' = Inr True \<and> (\<exists>r. er_from_dict demo_rule = Inr r
    \<and> decided r (leaf_value [(''a'', JInt 1)] 0 ''s'' ''x'') \<and> holds r (leaf_value [(''a'', JInt 1)] 0 ''s'' ''x''))"
  using evidence_fails_closed [OF demo_rule_grants] demo_rule_grants by auto

end
